(* ===== verification/FF_Prelude.thy ===== *)
theory FF_Prelude
  imports Main "HOL-Library.Word"
begin

text \<open>
  Shared vocabulary of the development: the machine integers of the C and C++ sources, byte
  buffers with little-endian reads and writes (the host is x86-64), the C idioms the router and
  the client library share (comparing the result of \<^verbatim>\<open>read\<close> with a \<^verbatim>\<open>sizeof\<close>, fixed-size tables
  indexed by a client-supplied handle), and the outcomes a request handler can have. Undefined
  behaviour of the source (an index outside a table, a null dereference, a write past a heap
  block, an integer division by zero) is a value of the model, never a hidden HOL default.
\<close>

named_theorems layout
named_theorems layout_defs

type_synonym u8 = "8 word"
type_synonym u16 = "16 word"
type_synonym u32 = "32 word"
type_synonym u64 = "64 word"
type_synonym bytes = "8 word list"
type_synonym mem = "nat \<Rightarrow> 8 word"

datatype ub = OobIndex | NullDeref | HeapOverflow | StackOverflow | DivByZero

section \<open>Constants shared by router and client\<close>

definition MAP_SIZE :: nat where
  "MAP_SIZE = 10240"

definition NULL :: u64 where
  "NULL = 0"

definition MAP_FAILED :: u64 where
  "MAP_FAILED = - 1"

section \<open>C integer conversions\<close>

text \<open>
  \<^verbatim>\<open>read(...) < sizeof(T)\<close>: the signed result is converted to the unsigned \<^verbatim>\<open>size_t\<close> of the right
  operand before the comparison.
\<close>

definition ssize_lt :: "int \<Rightarrow> nat \<Rightarrow> bool" where
  "ssize_lt n sz = (unat (word_of_int n :: u64) < sz)"

definition int_of_u32 :: "u32 \<Rightarrow> int" where
  "int_of_u32 x = sint x"

definition u32_of_int :: "int \<Rightarrow> u32" where
  "u32_of_int i = word_of_int i"

section \<open>Little-endian bytes\<close>

fun le_bytes :: "nat \<Rightarrow> nat \<Rightarrow> bytes" where
  "le_bytes 0 v = []"
| "le_bytes (Suc k) v = word_of_nat (v mod 256) # le_bytes k (v div 256)"

fun le_val :: "bytes \<Rightarrow> nat" where
  "le_val [] = 0"
| "le_val (b # bs) = unat b + 256 * le_val bs"

section \<open>Byte buffers\<close>

definition get_bytes :: "mem \<Rightarrow> nat \<Rightarrow> nat \<Rightarrow> bytes" where
  "get_bytes m p n = map (\<lambda>i. m (p + i)) [0..<n]"

definition put_bytes :: "mem \<Rightarrow> nat \<Rightarrow> bytes \<Rightarrow> mem" where
  "put_bytes m p bs = (\<lambda>i. if p \<le> i \<and> i < p + length bs then bs ! (i - p) else m i)"

definition get_u8 :: "mem \<Rightarrow> nat \<Rightarrow> u8" where
  "get_u8 m p = m p"

definition get_u16 :: "mem \<Rightarrow> nat \<Rightarrow> u16" where
  "get_u16 m p = word_of_nat (le_val (get_bytes m p 2))"

definition get_u32 :: "mem \<Rightarrow> nat \<Rightarrow> u32" where
  "get_u32 m p = word_of_nat (le_val (get_bytes m p 4))"

definition get_u64 :: "mem \<Rightarrow> nat \<Rightarrow> u64" where
  "get_u64 m p = word_of_nat (le_val (get_bytes m p 8))"

definition get_int :: "mem \<Rightarrow> nat \<Rightarrow> int" where
  "get_int m p = sint (get_u32 m p)"

definition put_u32 :: "mem \<Rightarrow> nat \<Rightarrow> u32 \<Rightarrow> mem" where
  "put_u32 m p v = put_bytes m p (le_bytes 4 (unat v))"

definition put_u64 :: "mem \<Rightarrow> nat \<Rightarrow> u64 \<Rightarrow> mem" where
  "put_u64 m p v = put_bytes m p (le_bytes 8 (unat v))"

definition put_u8 :: "mem \<Rightarrow> nat \<Rightarrow> u8 \<Rightarrow> mem" where
  "put_u8 m p v = put_bytes m p [v]"

definition put_u16 :: "mem \<Rightarrow> nat \<Rightarrow> u16 \<Rightarrow> mem" where
  "put_u16 m p v = put_bytes m p (le_bytes 2 (unat v))"

definition put_int :: "mem \<Rightarrow> nat \<Rightarrow> int \<Rightarrow> mem" where
  "put_int m p i = put_u32 m p (word_of_int i)"

text \<open>C strings: \<^verbatim>\<open>strcpy\<close> writes the characters and the terminating zero byte.\<close>

definition bytes_of_string :: "string \<Rightarrow> bytes" where
  "bytes_of_string s = map (\<lambda>c. word_of_nat (of_char c)) s"

definition put_cstr :: "mem \<Rightarrow> nat \<Rightarrow> string \<Rightarrow> mem" where
  "put_cstr m p s = put_bytes m p (bytes_of_string s @ [0])"

fun cstr_of_bytes :: "bytes \<Rightarrow> string" where
  "cstr_of_bytes [] = []"
| "cstr_of_bytes (b # bs) = (if b = 0 then [] else char_of (unat b) # cstr_of_bytes bs)"

definition get_cstr :: "mem \<Rightarrow> nat \<Rightarrow> nat \<Rightarrow> string" where
  "get_cstr m p n = cstr_of_bytes (get_bytes m p n)"

section \<open>Facts on bytes and buffers\<close>

lemma length_le_bytes [simp]: "length (le_bytes k v) = k"
  by (induction k arbitrary: v) auto

lemma le_val_le_bytes [simp]: "le_val (le_bytes k v) = v mod 256 ^ k"
proof (induction k arbitrary: v)
  case 0
  then show ?case by simp
next
  case (Suc k)
  have "unat (word_of_nat (v mod 256) :: u8) = v mod 256"
    by (simp add: unat_of_nat)
  then show ?case
    using Suc by (simp add: mod_mult2_eq)
qed

lemma le_val_bound: "le_val bs < 256 ^ length bs"
proof (induction bs)
  case Nil
  then show ?case by simp
next
  case (Cons b bs)
  have "unat b < 256"
    using unsigned_less[of b, where ?'a = nat] by simp
  with Cons show ?case by simp
qed

lemma length_get_bytes [simp]: "length (get_bytes m p n) = n"
  by (simp add: get_bytes_def)

lemma nth_get_bytes [simp]: "i < n \<Longrightarrow> get_bytes m p n ! i = m (p + i)"
  by (simp add: get_bytes_def)

lemma put_bytes_Nil [simp]: "put_bytes m p [] = m"
  by (rule ext) (auto simp: put_bytes_def)

lemma get_put_bytes_same [simp]: "n = length bs \<Longrightarrow> get_bytes (put_bytes m p bs) p n = bs"
  by (rule nth_equalityI) (simp_all add: put_bytes_def)

lemma get_put_bytes_apart:
  "q + n \<le> p \<or> p + length bs \<le> q \<Longrightarrow> get_bytes (put_bytes m p bs) q n = get_bytes m q n"
  by (rule nth_equalityI) (auto simp: put_bytes_def)

lemma get_put_bytes_sub:
  assumes "p \<le> q" and "q + n \<le> p + length bs"
  shows "get_bytes (put_bytes m p bs) q n = take n (drop (q - p) bs)"
  using assms by (intro nth_equalityI) (auto simp: put_bytes_def intro: arg_cong[where f = "nth bs"])

lemma take_drop_get_bytes:
  "k + n \<le> l \<Longrightarrow> take n (drop k (get_bytes m p l)) = get_bytes m (p + k) n"
  by (rule nth_equalityI) (auto simp: add.assoc)

text \<open>A buffer filled from another one reads as the other did.\<close>

lemma get_bytes_copy:
  assumes "q + n \<le> l"
  shows "get_bytes (put_bytes m 0 (get_bytes m' p l)) q n = get_bytes m' (p + q) n"
  using assms by (simp add: get_put_bytes_sub take_drop_get_bytes)

lemma get_u32_copy:
  "q + 4 \<le> l \<Longrightarrow> get_u32 (put_bytes m 0 (get_bytes m' p l)) q = get_u32 m' (p + q)"
  by (simp add: get_u32_def get_bytes_copy)

lemma get_u64_copy:
  "q + 8 \<le> l \<Longrightarrow> get_u64 (put_bytes m 0 (get_bytes m' p l)) q = get_u64 m' (p + q)"
  by (simp add: get_u64_def get_bytes_copy)

lemma get_int_copy:
  "q + 4 \<le> l \<Longrightarrow> get_int (put_bytes m 0 (get_bytes m' p l)) q = get_int m' (p + q)"
  by (simp add: get_int_def get_u32_copy)

text \<open>A read depends only on the bytes it covers.\<close>

lemma get_bytes_cong: "(\<And>b. p \<le> b \<Longrightarrow> b < p + n \<Longrightarrow> m b = m' b) \<Longrightarrow> get_bytes m p n = get_bytes m' p n"
  by (rule nth_equalityI) auto

lemma get_u32_cong: "(\<And>b. p \<le> b \<Longrightarrow> b < p + 4 \<Longrightarrow> m b = m' b) \<Longrightarrow> get_u32 m p = get_u32 m' p"
  unfolding get_u32_def by (subst get_bytes_cong[of p 4 m m']) auto

lemma get_int_cong: "(\<And>b. p \<le> b \<Longrightarrow> b < p + 4 \<Longrightarrow> m b = m' b) \<Longrightarrow> get_int m p = get_int m' p"
  unfolding get_int_def by (subst get_u32_cong[of p m m']) auto

lemma get_u64_cong: "(\<And>b. p \<le> b \<Longrightarrow> b < p + 8 \<Longrightarrow> m b = m' b) \<Longrightarrow> get_u64 m p = get_u64 m' p"
  unfolding get_u64_def by (subst get_bytes_cong[of p 8 m m']) auto

lemma put_bytes_outside: "b < p \<or> p + length bs \<le> b \<Longrightarrow> put_bytes m p bs b = m b"
  by (auto simp: put_bytes_def)

lemma put_u64_outside: "b < p \<or> p + 8 \<le> b \<Longrightarrow> put_u64 m p v b = m b"
  by (auto simp: put_u64_def put_bytes_outside)

lemma put_u32_outside: "b < p \<or> p + 4 \<le> b \<Longrightarrow> put_u32 m p v b = m b"
  by (auto simp: put_u32_def put_bytes_outside)

lemma get_put_u32 [simp]: "get_u32 (put_u32 m p v) p = v"
proof -
  have "unat v < 256 ^ 4" using unsigned_less[of v, where ?'a = nat] by simp
  then show ?thesis by (simp add: get_u32_def put_u32_def)
qed

lemma get_put_u64 [simp]: "get_u64 (put_u64 m p v) p = v"
proof -
  have "unat v < 256 ^ 8" using unsigned_less[of v, where ?'a = nat] by simp
  then show ?thesis by (simp add: get_u64_def put_u64_def)
qed

lemma get_u32_put_bytes_apart:
  "q + 4 \<le> p \<or> p + length bs \<le> q \<Longrightarrow> get_u32 (put_bytes m p bs) q = get_u32 m q"
  by (simp add: get_u32_def get_put_bytes_apart)

lemma get_u64_put_bytes_apart:
  "q + 8 \<le> p \<or> p + length bs \<le> q \<Longrightarrow> get_u64 (put_bytes m p bs) q = get_u64 m q"
  by (simp add: get_u64_def get_put_bytes_apart)

lemma get_u32_put_u32_apart [simp]:
  "q + 4 \<le> p \<or> p + 4 \<le> q \<Longrightarrow> get_u32 (put_u32 m p v) q = get_u32 m q"
  by (simp add: put_u32_def get_u32_put_bytes_apart)

lemma get_u32_put_u64_apart [simp]:
  "q + 4 \<le> p \<or> p + 8 \<le> q \<Longrightarrow> get_u32 (put_u64 m p v) q = get_u32 m q"
  by (simp add: put_u64_def get_u32_put_bytes_apart)

lemma get_u64_put_u32_apart [simp]:
  "q + 8 \<le> p \<or> p + 4 \<le> q \<Longrightarrow> get_u64 (put_u32 m p v) q = get_u64 m q"
  by (simp add: put_u32_def get_u64_put_bytes_apart)

lemma get_u64_put_u64_apart [simp]:
  "q + 8 \<le> p \<or> p + 8 \<le> q \<Longrightarrow> get_u64 (put_u64 m p v) q = get_u64 m q"
  by (simp add: put_u64_def get_u64_put_bytes_apart)

lemma le_val_replicate_0 [simp]: "le_val (replicate n 0) = 0"
  by (induction n) auto

lemma get_bytes_zero [simp]: "get_bytes (\<lambda>_. 0) p n = replicate n 0"
  by (simp add: get_bytes_def map_replicate_const)

lemma get_zero [simp]: "get_u32 (\<lambda>_. 0) p = 0" "get_u64 (\<lambda>_. 0) p = 0" "get_int (\<lambda>_. 0) p = 0"
  by (simp_all only: get_u32_def get_u64_def get_int_def get_bytes_zero le_val_replicate_0) simp_all

lemma get_put_int:
  assumes "- (2 ^ 31) \<le> i" and "i < 2 ^ 31"
  shows "get_int (put_int m p i) p = i"
  using assms by (simp add: get_int_def put_int_def signed_of_int signed_take_bit_int_eq_self)

section \<open>The comparison of a read result with a size\<close>

lemma ssize_lt_nonneg: "0 \<le> n \<Longrightarrow> n < 2 ^ 63 \<Longrightarrow> ssize_lt n sz \<longleftrightarrow> nat n < sz"
  by (simp add: ssize_lt_def unat_eq_nat_uint unsigned_of_int take_bit_int_eq_self)

text \<open>A negative result compares as a huge unsigned number, so the guard does not see it.\<close>

lemma ssize_lt_neg:
  assumes "- (2 ^ 63) \<le> n" and "n < 0" and "sz \<le> 2 ^ 63"
  shows "\<not> ssize_lt n sz"
proof -
  have "n mod 2 ^ 64 = n + 2 ^ 64"
    using assms by (intro int_mod_pos_eq[of n "2 ^ 64" "- 1" "n + 2 ^ 64"]) auto
  then have "uint (word_of_int n :: u64) = n + 2 ^ 64"
    by (simp add: unsigned_of_int take_bit_eq_mod)
  then have "int (unat (word_of_int n :: u64)) = n + 2 ^ 64" by simp
  moreover have "int (2 ^ 63) \<le> n + 2 ^ 64" using assms(1) by simp
  ultimately have "2 ^ 63 \<le> unat (word_of_int n :: u64)" by linarith
  then show ?thesis using assms(3) by (simp add: ssize_lt_def)
qed

section \<open>Signed reads beside other writes\<close>

lemma get_int_put_u32_apart [simp]:
  "q + 4 \<le> p \<or> p + 4 \<le> q \<Longrightarrow> get_int (put_u32 m p v) q = get_int m q"
  by (simp add: get_int_def)

lemma get_int_put_u64_apart [simp]:
  "q + 4 \<le> p \<or> p + 8 \<le> q \<Longrightarrow> get_int (put_u64 m p v) q = get_int m q"
  by (simp add: get_int_def)

lemma get_int_put_int_apart [simp]:
  "q + 4 \<le> p \<or> p + 4 \<le> q \<Longrightarrow> get_int (put_int m p v) q = get_int m q"
  by (simp add: put_int_def)

lemma get_u32_put_int_apart [simp]:
  "q + 4 \<le> p \<or> p + 4 \<le> q \<Longrightarrow> get_u32 (put_int m p v) q = get_u32 m q"
  by (simp add: put_int_def)

lemma get_u64_put_int_apart [simp]:
  "q + 8 \<le> p \<or> p + 4 \<le> q \<Longrightarrow> get_u64 (put_int m p v) q = get_u64 m q"
  by (simp add: put_int_def)

end
