(* ===== verification/FF_MemPool.thy ===== *)
theory FF_MemPool
  imports FF_Prelude
begin

text \<open>
  \<^verbatim>\<open>libmempool\<close>: the slot allocator \<^verbatim>\<open>MemoryPool<PlaceHolder>\<close>, which carves 32-byte slots out of blocks of
  4096000 bytes and threads freed slots into a list through their first word, and its two clients:
  \<^verbatim>\<open>MemPool\<close>, the keyed pool in which the client library keeps one record per memory-region key, and
  \<^verbatim>\<open>MemQueue\<close>, a first-in-first-out queue of slots. Addresses are natural numbers below \<open>2 ^ 64\<close>; the first
  word of every block and slot is the map \<open>slot_next\<close>. \<^verbatim>\<open>operator new\<close> is code of the C++ runtime: the
  address it returns is an argument of the operations, and \<open>fresh_block\<close> states what it promises.
  The spin locks make each operation of \<^verbatim>\<open>MemPool\<close> and \<^verbatim>\<open>MemQueue\<close> atomic, so an operation is one function.
\<close>

section \<open>MemoryPool\<close>

record MemoryPool =
  currentBlock :: nat
  currentSlot :: nat
  lastSlot :: nat
  freeSlots :: nat
  slot_next :: "nat \<Rightarrow> nat"

definition BlockSize :: nat where
  "BlockSize = 4096000"

text \<open>\<^verbatim>\<open>sizeof(PlaceHolder)\<close>, which is also the size of the union \<^verbatim>\<open>Slot_\<close>; its alignment is that of a pointer.\<close>

definition PlaceHolder :: nat where
  "PlaceHolder = 32"

definition MemoryPool_ctor :: MemoryPool where
  "MemoryPool_ctor = \<lparr>currentBlock = 0, currentSlot = 0, lastSlot = 0, freeSlots = 0, slot_next = (\<lambda>_. 0)\<rparr>"

definition padPointer :: "nat \<Rightarrow> nat \<Rightarrow> nat" where
  "padPointer p align = unat (word_of_nat align - word_of_nat p :: u64) mod align"

definition allocateBlock :: "nat \<Rightarrow> MemoryPool \<Rightarrow> MemoryPool" where
  "allocateBlock newBlock p =
     (let p = p\<lparr>slot_next := (slot_next p)(newBlock := currentBlock p)\<rparr>;
          p = p\<lparr>currentBlock := newBlock\<rparr>;
          body = newBlock + 8;
          bodyPadding = padPointer body 8;
          p = p\<lparr>currentSlot := body + bodyPadding\<rparr>
      in p\<lparr>lastSlot := newBlock + BlockSize - PlaceHolder + 1\<rparr>)"

definition allocate :: "nat \<Rightarrow> MemoryPool \<Rightarrow> nat \<times> MemoryPool" where
  "allocate newBlock p =
     (if freeSlots p \<noteq> 0 then (freeSlots p, p\<lparr>freeSlots := slot_next p (freeSlots p)\<rparr>)
      else let p = (if lastSlot p \<le> currentSlot p then allocateBlock newBlock p else p)
           in (currentSlot p, p\<lparr>currentSlot := currentSlot p + PlaceHolder\<rparr>))"

definition deallocate :: "nat \<Rightarrow> MemoryPool \<Rightarrow> MemoryPool" where
  "deallocate q p =
     (if q \<noteq> 0 then p\<lparr>slot_next := (slot_next p)(q := freeSlots p), freeSlots := q\<rparr> else p)"


text \<open>The owner of a slot may write into it: the first word then holds any value.\<close>

definition write_slot :: "nat \<Rightarrow> nat \<Rightarrow> MemoryPool \<Rightarrow> MemoryPool" where
  "write_slot q v p = p\<lparr>slot_next := (slot_next p)(q := v)\<rparr>"

section \<open>MemPool and MemQueue\<close>

record MemPool =
  m_map :: "u32 \<Rightarrow> nat option"
  m_pool :: MemoryPool

definition mempool_create :: MemPool where
  "mempool_create = \<lparr>m_map = (\<lambda>_. None), m_pool = MemoryPool_ctor\<rparr>"

text \<open>\<^verbatim>\<open>m_map[key]\<close> of \<^verbatim>\<open>std::unordered_map\<close> inserts a null pointer under an absent key.\<close>

definition map_at :: "u32 \<Rightarrow> MemPool \<Rightarrow> nat \<times> MemPool" where
  "map_at key m =
     (case m_map m key of Some r \<Rightarrow> (r, m) | None \<Rightarrow> (0, m\<lparr>m_map := (m_map m)(key \<mapsto> 0)\<rparr>))"

definition mempool_insert :: "nat \<Rightarrow> u32 \<Rightarrow> MemPool \<Rightarrow> nat \<times> MemPool" where
  "mempool_insert newBlock key m =
     (let (r, pool) = allocate newBlock (m_pool m)
      in (r, m\<lparr>m_pool := pool, m_map := (m_map m)(key \<mapsto> r)\<rparr>))"

definition mempool_get :: "u32 \<Rightarrow> MemPool \<Rightarrow> nat \<times> MemPool" where
  "mempool_get key m = map_at key m"

definition mempool_del :: "u32 \<Rightarrow> MemPool \<Rightarrow> MemPool" where
  "mempool_del key m =
     (let (r, m) = map_at key m;
          m = m\<lparr>m_pool := deallocate r (m_pool m)\<rparr>
      in m\<lparr>m_map := (m_map m)(key := None)\<rparr>)"

record MemQueue =
  m_queue :: "nat list"
  q_pool :: MemoryPool

definition memqueue_create :: MemQueue where
  "memqueue_create = \<lparr>m_queue = [], q_pool = MemoryPool_ctor\<rparr>"

text \<open>\<^verbatim>\<open>front()\<close> and \<^verbatim>\<open>pop()\<close> of an empty \<^verbatim>\<open>std::queue\<close> are undefined.\<close>

definition memqueue_get_tail :: "MemQueue \<Rightarrow> ub + nat" where
  "memqueue_get_tail q = (case m_queue q of [] \<Rightarrow> Inl OobIndex | r # _ \<Rightarrow> Inr r)"

definition memqueue_del_tail :: "MemQueue \<Rightarrow> ub + MemQueue" where
  "memqueue_del_tail q =
     (case m_queue q of [] \<Rightarrow> Inl OobIndex
      | r # rs \<Rightarrow> Inr (q\<lparr>q_pool := deallocate r (q_pool q), m_queue := rs\<rparr>))"

definition memqueue_get_new_head :: "nat \<Rightarrow> MemQueue \<Rightarrow> nat \<times> MemQueue" where
  "memqueue_get_new_head newBlock q =
     (let (r, pool) = allocate newBlock (q_pool q)
      in (r, q\<lparr>q_pool := pool, m_queue := m_queue q @ [r]\<rparr>))"

section \<open>Invariant of the slot allocator\<close>

fun chain :: "(nat \<Rightarrow> nat) \<Rightarrow> nat \<Rightarrow> nat list \<Rightarrow> bool" where
  "chain nxt p [] = (p = 0)"
| "chain nxt p (x # xs) = (p = x \<and> x \<noteq> 0 \<and> chain nxt (nxt x) xs)"

text \<open>What \<^verbatim>\<open>operator new\<close> promises: an aligned block inside the address space, apart from the blocks in use.\<close>

definition fresh_block :: "nat \<Rightarrow> nat list \<Rightarrow> bool" where
  "fresh_block b bs = (0 < b \<and> b mod 8 = 0 \<and> b + BlockSize < 2 ^ 64 \<and>
     (\<forall>c\<in>set bs. b + BlockSize \<le> c \<or> c + BlockSize \<le> b))"

fun blocks_ok :: "nat list \<Rightarrow> bool" where
  "blocks_ok [] = True"
| "blocks_ok (b # bs) = (fresh_block b bs \<and> blocks_ok bs)"

definition slot_of :: "nat \<Rightarrow> nat \<Rightarrow> bool" where
  "slot_of b s = (\<exists>k < 127999. s = b + 8 + 32 * k)"

definition cursor_ok :: "MemoryPool \<Rightarrow> nat list \<Rightarrow> nat set \<Rightarrow> bool" where
  "cursor_ok p bs S =
     (case bs of [] \<Rightarrow> lastSlot p = 0
      | b # _ \<Rightarrow> lastSlot p = b + BlockSize - PlaceHolder + 1 \<and>
          (\<exists>k \<le> 127999. currentSlot p = b + 8 + 32 * k) \<and>
          (\<forall>s\<in>S. slot_of b s \<longrightarrow> s < currentSlot p))"

text \<open>\<open>bs\<close> are the blocks of the pool, \<open>fs\<close> its free slots and \<open>L\<close> the slots in use.\<close>

definition slots_inv :: "MemoryPool \<Rightarrow> nat list \<Rightarrow> nat list \<Rightarrow> nat set \<Rightarrow> bool" where
  "slots_inv p bs fs L =
     (blocks_ok bs \<and> chain (slot_next p) (currentBlock p) bs \<and>
      chain (slot_next p) (freeSlots p) fs \<and> distinct fs \<and> set fs \<inter> L = {} \<and>
      (\<forall>s \<in> set fs \<union> L. \<exists>b\<in>set bs. slot_of b s) \<and> cursor_ok p bs (set fs \<union> L))"

definition pool_inv :: "MemoryPool \<Rightarrow> nat list \<Rightarrow> nat set \<Rightarrow> bool" where
  "pool_inv p bs L = (\<exists>fs. slots_inv p bs fs L)"

lemma chain_fun_upd:
  "x \<notin> set xs \<Longrightarrow> chain (nxt(x := v)) p xs = chain nxt p xs"
  by (induction xs arbitrary: p) auto

lemma slot_bounds:
  assumes "slot_of b s"
  shows "b + 8 \<le> s" and "s + 32 \<le> b + BlockSize" and "0 < s"
  using assms by (auto simp: slot_of_def BlockSize_def)

lemma blocks_apart:
  assumes "blocks_ok bs" "b \<in> set bs" "c \<in> set bs" "b \<noteq> c"
  shows "b + BlockSize \<le> c \<or> c + BlockSize \<le> b"
  using assms by (induction bs) (auto simp: fresh_block_def)

lemma slot_not_block:
  assumes "blocks_ok bs" "b \<in> set bs" "slot_of b s"
  shows "s \<notin> set bs"
proof
  assume "s \<in> set bs"
  with blocks_apart[OF assms(1) assms(2) this] slot_bounds[OF assms(3)]
  show False by (auto simp: BlockSize_def)
qed

lemma fresh_block_not_slot:
  assumes "fresh_block n bs" "b \<in> set bs" "slot_of b s"
  shows "s \<noteq> n" and "\<not> slot_of n s"
  using assms slot_bounds[OF assms(3)] slot_bounds[of n s]
  by (auto simp: fresh_block_def BlockSize_def)

text \<open>Two different slots of the pool do not overlap: their addresses lie on one grid per block.\<close>

lemma slots_apart:
  assumes "blocks_ok bs" "b \<in> set bs" "slot_of b s" "c \<in> set bs" "slot_of c t" "s \<noteq> t"
  shows "s + PlaceHolder \<le> t \<or> t + PlaceHolder \<le> s"
proof (cases "b = c")
  case True
  then obtain i j where "s = b + 8 + 32 * i" "t = b + 8 + 32 * j"
    using assms(3,5) by (auto simp: slot_of_def)
  moreover then have "i < j \<or> j < i" using assms(6) by auto
  ultimately show ?thesis by (auto simp: PlaceHolder_def)
next
  case False
  from blocks_apart[OF assms(1,2,4) this] slot_bounds[OF assms(3)] slot_bounds[OF assms(5)]
  show ?thesis by (auto simp: PlaceHolder_def)
qed

lemma padPointer_aligned:
  assumes "p mod 8 = 0"
  shows "padPointer p 8 = 0"
proof -
  from assms obtain q where q: "p = 8 * q" by auto
  have "word_of_nat 8 - word_of_nat p = (8 :: u64) * (1 - word_of_nat q)"
    by (simp add: q algebra_simps)
  moreover have "unat ((8 :: u64) * w) = (8 * unat w) mod 2 ^ 64" for w
    by (simp add: unat_word_ariths)
  ultimately have "unat (word_of_nat 8 - word_of_nat p :: u64) = (8 * unat (1 - word_of_nat q :: u64)) mod 2 ^ 64"
    by metis
  moreover have "(8 * x) mod (2 ^ 64 :: nat) mod 8 = 0" for x
    by (simp add: mod_mod_cancel)
  ultimately show ?thesis by (simp add: padPointer_def)
qed

lemma ctor_inv: "pool_inv MemoryPool_ctor [] {}"
  by (auto simp: pool_inv_def slots_inv_def MemoryPool_ctor_def cursor_ok_def intro!: exI[of _ "[]"])

section \<open>The operations keep the invariant\<close>

lemma allocate_free_slot:
  assumes "slots_inv p bs fs L" "freeSlots p \<noteq> 0" "allocate n p = (r, p')"
  shows "r \<notin> L \<and> r \<noteq> 0 \<and> slots_inv p' bs (tl fs) (insert r L)"
proof -
  from assms(1,2) obtain f fs' where fs: "fs = f # fs'" "f = freeSlots p" "f \<noteq> 0"
    by (cases fs) (auto simp: slots_inv_def)
  have r: "r = f" "p' = p\<lparr>freeSlots := slot_next p f\<rparr>"
    using assms(2,3) fs by (auto simp: allocate_def)
  then show ?thesis
    using assms(1) fs by (auto simp: slots_inv_def cursor_ok_def split: list.splits)
qed

lemma allocate_bump:
  assumes inv: "slots_inv p bs [] L" and "freeSlots p = 0" and lt: "currentSlot p < lastSlot p"
    and al: "allocate n p = (r, p')"
  shows "r \<notin> L \<and> r \<noteq> 0 \<and> slots_inv p' bs [] (insert r L)"
proof -
  from inv lt obtain b bs' k where bs: "bs = b # bs'" and k: "currentSlot p = b + 8 + 32 * k"
    and last: "lastSlot p = b + BlockSize - PlaceHolder + 1"
    by (cases bs) (auto simp: slots_inv_def cursor_ok_def)
  with lt have k': "k < 127999" by (simp add: BlockSize_def PlaceHolder_def)
  have r: "r = currentSlot p" "p' = p\<lparr>currentSlot := currentSlot p + 32\<rparr>"
    using al assms(2) lt by (auto simp: allocate_def PlaceHolder_def)
  have slot: "slot_of b r" using k k' r by (auto simp: slot_of_def)
  have "r \<notin> L" using inv slot r bs by (auto simp: slots_inv_def cursor_ok_def)
  moreover have "cursor_ok p' bs (insert r L)"
    using inv bs r k k' by (auto simp: slots_inv_def cursor_ok_def intro!: exI[of _ "Suc k"])
  ultimately show ?thesis
    using inv slot bs r slot_bounds[OF slot] by (auto simp: slots_inv_def)
qed

lemma allocateBlock_inv:
  assumes inv: "slots_inv p bs [] L" and fresh: "fresh_block n bs"
  shows "slots_inv (allocateBlock n p) (n # bs) [] L"
    and "currentSlot (allocateBlock n p) < lastSlot (allocateBlock n p)"
proof -
  have pad: "padPointer (n + 8) 8 = 0"
    using fresh by (intro padPointer_aligned) (auto simp: fresh_block_def)
  have notin: "n \<notin> set bs" using fresh by (auto simp: fresh_block_def BlockSize_def)
  have "cursor_ok (allocateBlock n p) (n # bs) L"
    using inv fresh_block_not_slot(2)[OF fresh] pad
    by (auto simp: cursor_ok_def allocateBlock_def Let_def slots_inv_def)
  then show "slots_inv (allocateBlock n p) (n # bs) [] L"
    using inv fresh notin
    by (auto simp: slots_inv_def allocateBlock_def Let_def chain_fun_upd fresh_block_def)
  show "currentSlot (allocateBlock n p) < lastSlot (allocateBlock n p)"
    using pad by (simp add: allocateBlock_def Let_def BlockSize_def PlaceHolder_def)
qed

lemma allocate_inv:
  assumes "pool_inv p bs L" "fresh_block n bs" "allocate n p = (r, p')"
  shows "r \<notin> L \<and> r \<noteq> 0 \<and> (pool_inv p' bs (insert r L) \<or> pool_inv p' (n # bs) (insert r L))"
proof -
  from assms(1) obtain fs where inv: "slots_inv p bs fs L" by (auto simp: pool_inv_def)
  consider (free) "freeSlots p \<noteq> 0" | (bump) "freeSlots p = 0" "currentSlot p < lastSlot p"
    | (block) "freeSlots p = 0" "lastSlot p \<le> currentSlot p" by linarith
  then show ?thesis
  proof cases
    case free
    from allocate_free_slot[OF inv free assms(3)] show ?thesis by (auto simp: pool_inv_def)
  next
    case bump
    then have "fs = []" using inv by (cases fs) (auto simp: slots_inv_def)
    with allocate_bump[OF _ bump assms(3)] inv show ?thesis by (auto simp: pool_inv_def)
  next
    case block
    then have "fs = []" using inv by (cases fs) (auto simp: slots_inv_def)
    then have inv': "slots_inv (allocateBlock n p) (n # bs) [] L"
      and lt: "currentSlot (allocateBlock n p) < lastSlot (allocateBlock n p)"
      using allocateBlock_inv[OF _ assms(2)] inv by auto
    have f: "freeSlots (allocateBlock n p) = 0"
      using block by (simp add: allocateBlock_def Let_def)
    have "allocate n (allocateBlock n p) = (r, p')"
      using assms(3) block lt f by (auto simp: allocate_def Let_def)
    from allocate_bump[OF inv' f lt this] show ?thesis unfolding pool_inv_def by blast
  qed
qed

lemma deallocate_inv:
  assumes "pool_inv p bs L" "q \<in> L"
  shows "pool_inv (deallocate q p) bs (L - {q})"
proof -
  from assms(1) obtain fs where inv: "slots_inv p bs fs L" by (auto simp: pool_inv_def)
  from inv assms(2) obtain b where b: "b \<in> set bs" "slot_of b q" by (auto simp: slots_inv_def)
  have q0: "q \<noteq> 0" and qfs: "q \<notin> set fs"
    using slot_bounds[OF b(2)] inv assms(2) by (auto simp: slots_inv_def)
  have qbs: "q \<notin> set bs" using slot_not_block[OF _ b] inv by (auto simp: slots_inv_def)
  have "slots_inv (deallocate q p) bs (q # fs) (L - {q})"
    using inv q0 qfs qbs assms(2) unfolding slots_inv_def cursor_ok_def
    by (auto simp: deallocate_def chain_fun_upd split: list.splits)
  then show ?thesis by (auto simp: pool_inv_def)
qed

lemma write_slot_inv:
  assumes "pool_inv p bs L" "q \<in> L"
  shows "pool_inv (write_slot q v p) bs L"
proof -
  from assms(1) obtain fs where inv: "slots_inv p bs fs L" by (auto simp: pool_inv_def)
  from inv assms(2) obtain b where b: "b \<in> set bs" "slot_of b q" by (auto simp: slots_inv_def)
  have qbs: "q \<notin> set bs" using slot_not_block[OF _ b] inv by (auto simp: slots_inv_def)
  moreover have "q \<notin> set fs" using inv assms(2) by (auto simp: slots_inv_def)
  ultimately have "slots_inv (write_slot q v p) bs fs L"
    using inv unfolding slots_inv_def cursor_ok_def
    by (auto simp: write_slot_def chain_fun_upd split: list.splits)
  then show ?thesis by (auto simp: pool_inv_def)
qed

lemma pool_inv_apart:
  assumes "pool_inv p bs L" "q \<in> L" "r \<in> L" "q \<noteq> r"
  shows "q + PlaceHolder \<le> r \<or> r + PlaceHolder \<le> q"
proof -
  from assms obtain b c where "blocks_ok bs" "b \<in> set bs" "slot_of b q" "c \<in> set bs" "slot_of c r"
    unfolding pool_inv_def slots_inv_def by blast
  with slots_apart assms(4) show ?thesis by blast
qed

section \<open>The allocator as an interface\<close>

text \<open>
  What the two clients rely on: an allocation returns a non-null slot that is not in use, a slot in
  use can be given back, and slots in use do not overlap. \<open>inv s bs L\<close> relates the allocator's state
  to its blocks and the slots in use.
\<close>

locale slot_allocator =
  fixes alloc :: "nat \<Rightarrow> 's \<Rightarrow> nat \<times> 's"
    and dealloc :: "nat \<Rightarrow> 's \<Rightarrow> 's"
    and fresh :: "nat \<Rightarrow> 'b list \<Rightarrow> bool"
    and blk :: "nat \<Rightarrow> 'b"
    and inv :: "'s \<Rightarrow> 'b list \<Rightarrow> nat set \<Rightarrow> bool"
    and width :: nat
  assumes alloc_new: "inv s bs L \<Longrightarrow> fresh n bs \<Longrightarrow> alloc n s = (r, s') \<Longrightarrow>
      r \<notin> L \<and> r \<noteq> 0 \<and> (inv s' bs (insert r L) \<or> inv s' (blk n # bs) (insert r L))"
    and dealloc_live: "inv s bs L \<Longrightarrow> q \<in> L \<Longrightarrow> inv (dealloc q s) bs (L - {q})"
    and dealloc_null: "dealloc 0 s = s"
    and live_apart: "inv s bs L \<Longrightarrow> q \<in> L \<Longrightarrow> r \<in> L \<Longrightarrow> q \<noteq> r \<Longrightarrow> q + width \<le> r \<or> r + width \<le> q"
begin

text \<open>A table of slots: every non-null entry is a slot in use, and no two keys share one.\<close>

definition table_inv :: "'s \<Rightarrow> 'b list \<Rightarrow> nat set \<Rightarrow> ('k \<Rightarrow> nat option) \<Rightarrow> bool" where
  "table_inv s bs L t = (inv s bs L \<and> 0 \<notin> L \<and> (\<forall>k p. t k = Some p \<longrightarrow> p = 0 \<or> p \<in> L) \<and>
     (\<forall>k l p. t k = Some p \<longrightarrow> t l = Some p \<longrightarrow> p = 0 \<or> k = l))"

lemma table_insert:
  assumes "table_inv s bs L t" "fresh n bs" "alloc n s = (r, s')"
  shows "\<exists>bs'. table_inv s' bs' (insert r L) (t(k \<mapsto> r)) \<and> r \<noteq> 0 \<and> r \<notin> L"
  using assms alloc_new[OF _ assms(2,3), of L] unfolding table_inv_def fun_upd_apply
  by (metis insert_iff option.inject)

lemma table_null:
  assumes "table_inv s bs L t" "t k = None"
  shows "table_inv s bs L (t(k \<mapsto> 0))"
  using assms by (auto simp: table_inv_def)

lemma table_delete:
  assumes "table_inv s bs L t" "t k = Some r"
  shows "table_inv (dealloc r s) bs (L - {r}) (t(k := None))"
proof (cases "r = 0")
  case True
  then show ?thesis using assms by (auto simp: table_inv_def dealloc_null)
next
  case False
  then have "r \<in> L" using assms by (auto simp: table_inv_def)
  with assms False dealloc_live show ?thesis unfolding table_inv_def fun_upd_apply
    by (metis DiffI Diff_iff option.distinct(1) singletonD)
qed

lemma table_apart:
  assumes "table_inv s bs L t" "t k = Some p" "t l = Some q" "k \<noteq> l" "p \<noteq> 0" "q \<noteq> 0"
  shows "p + width \<le> q \<or> q + width \<le> p"
proof -
  have "p \<in> L" "q \<in> L" "p \<noteq> q" "inv s bs L"
    using assms unfolding table_inv_def by blast+
  with live_apart show ?thesis by blast
qed

end

interpretation pool: slot_allocator allocate deallocate fresh_block id pool_inv PlaceHolder
proof
  show "r \<notin> L \<and> r \<noteq> 0 \<and> (pool_inv s' bs (insert r L) \<or> pool_inv s' (id n # bs) (insert r L))"
    if "pool_inv s bs L" "fresh_block n bs" "allocate n s = (r, s')" for s bs L n r s'
    using allocate_inv[OF that] by simp
  show "deallocate 0 s = s" for s by (simp add: deallocate_def)
qed (auto intro: deallocate_inv dest: pool_inv_apart)

section \<open>MemPool\<close>

definition MemPool_inv :: "MemPool \<Rightarrow> nat list \<Rightarrow> nat set \<Rightarrow> bool" where
  "MemPool_inv m bs L = pool.table_inv (m_pool m) bs L (m_map m)"

lemma mempool_create_inv: "MemPool_inv mempool_create [] {}"
  by (simp add: MemPool_inv_def pool.table_inv_def mempool_create_def ctor_inv)

lemma mempool_insert_inv:
  assumes "MemPool_inv m bs L" "fresh_block n bs" "mempool_insert n k m = (r, m')"
  shows "\<exists>bs'. MemPool_inv m' bs' (insert r L) \<and> r \<noteq> 0 \<and> r \<notin> L"
  using assms pool.table_insert[of "m_pool m" bs L "m_map m" n r "m_pool m'" k]
  by (auto simp: MemPool_inv_def mempool_insert_def Let_def split: prod.splits)

lemma mempool_get_inv:
  assumes "MemPool_inv m bs L" "mempool_get k m = (r, m')"
  shows "MemPool_inv m' bs L \<and> (r = 0 \<or> r \<in> L)"
proof (cases "m_map m k")
  case None
  with assms pool.table_null[of "m_pool m" bs L "m_map m" k] show ?thesis
    by (auto simp: MemPool_inv_def mempool_get_def map_at_def)
next
  case (Some p)
  with assms show ?thesis
    by (auto simp: MemPool_inv_def mempool_get_def map_at_def pool.table_inv_def)
qed

lemma mempool_del_inv:
  assumes "MemPool_inv m bs L"
  shows "MemPool_inv (mempool_del k m) bs (L - {fst (mempool_get k m)})"
proof (cases "m_map m k")
  case None
  with pool.table_null[of "m_pool m" bs L "m_map m" k] assms
    pool.table_delete[of "m_pool m" bs L "(m_map m)(k \<mapsto> 0)" k 0]
  show ?thesis by (simp add: MemPool_inv_def mempool_del_def mempool_get_def map_at_def Let_def)
next
  case (Some r)
  with assms pool.table_delete[of "m_pool m" bs L "m_map m" k r] show ?thesis
    by (simp add: MemPool_inv_def mempool_del_def mempool_get_def map_at_def Let_def)
qed

text \<open>Lookup after each operation: the pool behaves as a finite map from keys to slots.\<close>

lemma get_after_insert:
  "mempool_insert n k m = (r, m') \<Longrightarrow>
     fst (mempool_get l m') = (if l = k then r else fst (mempool_get l m))"
  by (auto simp: mempool_insert_def mempool_get_def map_at_def Let_def split: prod.splits option.splits)



text \<open>
  Inserting under a key that is present does not give the old slot back: it stays in use, and no key
  reaches it any more.
\<close>

lemma reinsert_leaks:
  assumes "MemPool_inv m bs L" "fresh_block n bs" "mempool_insert n k m = (r, m1)"
    and "\<And>bs'. MemPool_inv m1 bs' (insert r L) \<Longrightarrow> fresh_block n' bs'"
    and "mempool_insert n' k m1 = (r', m2)"
  shows "\<exists>bs'. MemPool_inv (mempool_del k m2) bs' (insert r L) \<and> (\<forall>l. m_map (mempool_del k m2) l \<noteq> Some r)"
proof -
  obtain b1 where b1: "MemPool_inv m1 b1 (insert r L)" "r \<noteq> 0" "r \<notin> L"
    using mempool_insert_inv[OF assms(1-3)] by blast
  obtain b2 where b2: "MemPool_inv m2 b2 (insert r' (insert r L))" "r' \<noteq> 0" "r' \<notin> insert r L"
    using mempool_insert_inv[OF b1(1) assms(4)[OF b1(1)] assms(5)] by blast
  have get: "fst (mempool_get k m2) = r'" using get_after_insert[OF assms(5)] by simp
  have "insert r' (insert r L) - {r'} = insert r L" using b2(3) by auto
  then have "MemPool_inv (mempool_del k m2) b2 (insert r L)"
    using mempool_del_inv[OF b2(1), of k] get by simp
  moreover have "m_map (mempool_del k m2) l \<noteq> Some r" for l
  proof
    assume "m_map (mempool_del k m2) l = Some r"
    then have "l \<noteq> k" "m_map m l = Some r"
      using assms(3,5)
      by (auto simp: mempool_del_def map_at_def mempool_insert_def Let_def
          split: option.splits prod.splits if_splits)
    then show False using assms(1) b1(2,3) by (auto simp: MemPool_inv_def pool.table_inv_def)
  qed
  ultimately show ?thesis by blast
qed

section \<open>Reachable pools\<close>

text \<open>
  The states the client library can bring a pool into, with any writes it makes through the pointers
  it was given. Each block \<^verbatim>\<open>operator new\<close> returns is apart from the blocks the pool has.
\<close>

inductive mp_reach :: "MemPool \<Rightarrow> bool" where
  create: "mp_reach mempool_create"
| ins: "mp_reach m \<Longrightarrow> chain (slot_next (m_pool m)) (currentBlock (m_pool m)) bs \<Longrightarrow>
     fresh_block n bs \<Longrightarrow> mp_reach (snd (mempool_insert n k m))"
| get: "mp_reach m \<Longrightarrow> mp_reach (snd (mempool_get k m))"
| del: "mp_reach m \<Longrightarrow> mp_reach (mempool_del k m)"
| wr: "mp_reach m \<Longrightarrow> m_map m k = Some p \<Longrightarrow> p \<noteq> 0 \<Longrightarrow>
     mp_reach (m\<lparr>m_pool := write_slot p v (m_pool m)\<rparr>)"

lemma chain_unique: "chain nxt p xs \<Longrightarrow> chain nxt p ys \<Longrightarrow> xs = ys"
proof (induction xs arbitrary: p ys)
  case Nil
  then show ?case by (cases ys) auto
next
  case (Cons x xs)
  then show ?case by (cases ys) auto
qed

lemma MemPool_inv_chain:
  "MemPool_inv m bs L \<Longrightarrow> chain (slot_next (m_pool m)) (currentBlock (m_pool m)) bs"
  by (auto simp: MemPool_inv_def pool.table_inv_def pool_inv_def slots_inv_def)

lemma mp_reach_inv: "mp_reach m \<Longrightarrow> \<exists>bs L. MemPool_inv m bs L"
proof (induction rule: mp_reach.induct)
  case create
  then show ?case using mempool_create_inv by blast
next
  case (ins m bs n k)
  then obtain bs' L where inv: "MemPool_inv m bs' L" by blast
  have "bs' = bs" by (rule chain_unique[OF MemPool_inv_chain[OF inv] ins.hyps(2)])
  obtain r m' where r: "mempool_insert n k m = (r, m')" by fastforce
  have "MemPool_inv m bs L" using inv \<open>bs' = bs\<close> by simp
  from mempool_insert_inv[OF this ins.hyps(3) r] have "\<exists>bs'. MemPool_inv m' bs' (insert r L)" by blast
  with r show ?case by auto
next
  case (get m k)
  then obtain bs L where inv: "MemPool_inv m bs L" by blast
  obtain r m' where r: "mempool_get k m = (r, m')" by fastforce
  have "MemPool_inv m' bs L" using mempool_get_inv[OF inv r] by simp
  with r show ?case by auto
next
  case (del m k)
  then show ?case using mempool_del_inv by blast
next
  case (wr m k p v)
  then obtain bs L where inv: "MemPool_inv m bs L" by blast
  then have "p \<in> L" "pool_inv (m_pool m) bs L"
    using wr.hyps by (auto simp: MemPool_inv_def pool.table_inv_def)
  then have "pool_inv (write_slot p v (m_pool m)) bs L" by (rule write_slot_inv[rotated])
  then have "MemPool_inv (m\<lparr>m_pool := write_slot p v (m_pool m)\<rparr>) bs L"
    using inv by (simp add: MemPool_inv_def pool.table_inv_def)
  then show ?case by blast
qed

lemma mempool_get_Some: "fst (mempool_get k m) \<noteq> 0 \<Longrightarrow> m_map m k = Some (fst (mempool_get k m))"
  by (cases "m_map m k") (auto simp: mempool_get_def map_at_def)

lemma mp_reach_apart:
  assumes "mp_reach m" "k \<noteq> l" "fst (mempool_get k m) \<noteq> 0" "fst (mempool_get l m) \<noteq> 0"
  shows "fst (mempool_get k m) + PlaceHolder \<le> fst (mempool_get l m) \<or>
    fst (mempool_get l m) + PlaceHolder \<le> fst (mempool_get k m)"
proof -
  obtain bs L where inv: "MemPool_inv m bs L" using mp_reach_inv[OF assms(1)] by blast
  note t = inv[unfolded MemPool_inv_def]
  show ?thesis
    by (rule pool.table_apart[OF t mempool_get_Some[OF assms(3)] mempool_get_Some[OF assms(4)] assms(2-4)])
qed

section \<open>Destruction\<close>




section \<open>MemQueue\<close>

definition MemQueue_inv :: "MemQueue \<Rightarrow> nat list \<Rightarrow> bool" where
  "MemQueue_inv q bs = (pool_inv (q_pool q) bs (set (m_queue q)) \<and> distinct (m_queue q) \<and> 0 \<notin> set (m_queue q))"

inductive mq_reach :: "MemQueue \<Rightarrow> bool" where
  create: "mq_reach memqueue_create"
| new_head: "mq_reach q \<Longrightarrow> chain (slot_next (q_pool q)) (currentBlock (q_pool q)) bs \<Longrightarrow>
     fresh_block n bs \<Longrightarrow> mq_reach (snd (memqueue_get_new_head n q))"
| del_tail: "mq_reach q \<Longrightarrow> memqueue_del_tail q = Inr q' \<Longrightarrow> mq_reach q'"
| wr: "mq_reach q \<Longrightarrow> p \<in> set (m_queue q) \<Longrightarrow> mq_reach (q\<lparr>q_pool := write_slot p v (q_pool q)\<rparr>)"

lemma new_head_inv:
  assumes "MemQueue_inv q bs" "fresh_block n bs"
  shows "\<exists>bs'. MemQueue_inv (snd (memqueue_get_new_head n q)) bs'"
proof -
  obtain r p' where al: "allocate n (q_pool q) = (r, p')" by fastforce
  have inv: "pool_inv (q_pool q) bs (set (m_queue q))" using assms(1) by (simp add: MemQueue_inv_def)
  obtain bs' where "pool_inv p' bs' (insert r (set (m_queue q)))" "r \<notin> set (m_queue q)" "r \<noteq> 0"
    using pool.alloc_new[OF inv assms(2) al] by auto
  then have "MemQueue_inv (snd (memqueue_get_new_head n q)) bs'"
    using assms(1) al by (simp add: MemQueue_inv_def memqueue_get_new_head_def)
  then show ?thesis by blast
qed

lemma del_tail_inv:
  assumes "MemQueue_inv q bs" "memqueue_del_tail q = Inr q'"
  shows "MemQueue_inv q' bs"
proof -
  obtain r rs where q: "m_queue q = r # rs" "q' = q\<lparr>q_pool := deallocate r (q_pool q), m_queue := rs\<rparr>"
    using assms(2) by (auto simp: memqueue_del_tail_def split: list.splits)
  have "set (m_queue q) - {r} = set rs" using assms(1) q by (auto simp: MemQueue_inv_def)
  with pool.dealloc_live[of "q_pool q" bs "set (m_queue q)" r] assms(1) q show ?thesis
    by (auto simp: MemQueue_inv_def)
qed

lemma mq_reach_inv: "mq_reach q \<Longrightarrow> \<exists>bs. MemQueue_inv q bs"
proof (induction rule: mq_reach.induct)
  case create
  then show ?case using ctor_inv by (auto simp: MemQueue_inv_def memqueue_create_def)
next
  case (new_head q bs n)
  then obtain bs' where inv: "MemQueue_inv q bs'" by blast
  then have "bs' = bs"
    using chain_unique new_head.hyps(2) by (auto simp: MemQueue_inv_def pool_inv_def slots_inv_def)
  with new_head_inv inv new_head.hyps(3) show ?case by blast
next
  case (del_tail q q')
  then show ?case using del_tail_inv by blast
next
  case (wr q p v)
  then obtain bs where inv: "MemQueue_inv q bs" by blast
  then have "pool_inv (write_slot p v (q_pool q)) bs (set (m_queue q))"
    using write_slot_inv wr.hyps(2) by (auto simp: MemQueue_inv_def)
  with inv have "MemQueue_inv (q\<lparr>q_pool := write_slot p v (q_pool q)\<rparr>) bs"
    by (simp add: MemQueue_inv_def)
  then show ?case by blast
qed

lemma mq_reach_apart:
  assumes "mq_reach q" "i < length (m_queue q)" "j < length (m_queue q)" "i \<noteq> j"
  shows "m_queue q ! i + PlaceHolder \<le> m_queue q ! j \<or> m_queue q ! j + PlaceHolder \<le> m_queue q ! i"
proof -
  obtain bs where "MemQueue_inv q bs" using mq_reach_inv[OF assms(1)] by blast
  then have "pool_inv (q_pool q) bs (set (m_queue q))" "m_queue q ! i \<noteq> m_queue q ! j"
    using assms(2-4) by (auto simp: MemQueue_inv_def nth_eq_iff_index_eq)
  with pool_inv_apart assms(2,3) show ?thesis by (meson nth_mem)
qed

section \<open>Properties\<close>

text \<open>
  C27: in every state the client library can bring its keyed pool into, whatever it writes through
  the pointers it holds, the records of two different keys never overlap.
\<close>

theorem mempool_records_apart:
  assumes "mp_reach m" "k \<noteq> l" "fst (mempool_get k m) \<noteq> 0" "fst (mempool_get l m) \<noteq> 0"
  shows "fst (mempool_get k m) + PlaceHolder \<le> fst (mempool_get l m) \<or>
    fst (mempool_get l m) + PlaceHolder \<le> fst (mempool_get k m)"
  using mp_reach_apart[OF assms] .

lemma two_records_reach:
  "mp_reach (snd (mempool_insert 8192000 2 (snd (mempool_insert 4096 1 mempool_create))))"
proof (rule mp_reach.ins[where bs = "[4096]"])
  show "mp_reach (snd (mempool_insert 4096 1 mempool_create))"
    by (rule mp_reach.ins[OF mp_reach.create, where bs = "[]"])
      (simp_all add: mempool_create_def MemoryPool_ctor_def fresh_block_def BlockSize_def)
qed (simp_all add: mempool_create_def MemoryPool_ctor_def fresh_block_def BlockSize_def
      mempool_insert_def allocate_def allocateBlock_def PlaceHolder_def padPointer_aligned)

lemma two_records_get:
  "fst (mempool_get 1 (snd (mempool_insert 8192000 2 (snd (mempool_insert 4096 1 mempool_create))))) = 4104"
  "fst (mempool_get 2 (snd (mempool_insert 8192000 2 (snd (mempool_insert 4096 1 mempool_create))))) = 4136"
  by (simp_all add: mempool_create_def MemoryPool_ctor_def mempool_get_def map_at_def BlockSize_def
      mempool_insert_def allocate_def allocateBlock_def PlaceHolder_def padPointer_aligned)

theorem mempool_records_apart_witness:
  "let m = snd (mempool_insert 8192000 2 (snd (mempool_insert 4096 1 mempool_create)))
   in fst (mempool_get 1 m) = 4104 \<and> fst (mempool_get 2 m) = 4136 \<and>
      (fst (mempool_get 1 m) + PlaceHolder \<le> fst (mempool_get 2 m) \<or>
       fst (mempool_get 2 m) + PlaceHolder \<le> fst (mempool_get 1 m))"
  using mempool_records_apart[OF two_records_reach, of 1 2] by (simp add: two_records_get)





text \<open>
  C30: in every reachable \<^verbatim>\<open>MemQueue\<close> the slots handed out as heads and not yet deleted from the tail never
  overlap, whatever their owner writes into them.
\<close>

theorem memqueue_slots_apart:
  assumes "mq_reach q" "i < length (m_queue q)" "j < length (m_queue q)" "i \<noteq> j"
  shows "m_queue q ! i + PlaceHolder \<le> m_queue q ! j \<or> m_queue q ! j + PlaceHolder \<le> m_queue q ! i"
  using mq_reach_apart[OF assms] .

lemma two_heads_reach:
  "mq_reach (snd (memqueue_get_new_head 8192000 (snd (memqueue_get_new_head 4096 memqueue_create))))"
proof (rule mq_reach.new_head[where bs = "[4096]"])
  show "mq_reach (snd (memqueue_get_new_head 4096 memqueue_create))"
    by (rule mq_reach.new_head[OF mq_reach.create, where bs = "[]"])
      (simp_all add: memqueue_create_def MemoryPool_ctor_def fresh_block_def BlockSize_def)
qed (simp_all add: memqueue_create_def MemoryPool_ctor_def fresh_block_def BlockSize_def
      memqueue_get_new_head_def allocate_def allocateBlock_def PlaceHolder_def padPointer_aligned)

lemma two_heads_queue:
  "m_queue (snd (memqueue_get_new_head 8192000 (snd (memqueue_get_new_head 4096 memqueue_create)))) = [4104, 4136]"
  by (simp add: memqueue_create_def MemoryPool_ctor_def BlockSize_def memqueue_get_new_head_def
      allocate_def allocateBlock_def PlaceHolder_def padPointer_aligned)

theorem memqueue_slots_apart_witness:
  "let q = snd (memqueue_get_new_head 8192000 (snd (memqueue_get_new_head 4096 memqueue_create)))
   in m_queue q = [4104, 4136] \<and>
      (m_queue q ! 0 + PlaceHolder \<le> m_queue q ! 1 \<or> m_queue q ! 1 + PlaceHolder \<le> m_queue q ! 0)"
  using memqueue_slots_apart[OF two_heads_reach, of 0 1] by (simp add: two_heads_queue)

end
