(* ===== verification/FF_Layout.thy ===== *)
theory FF_Layout
  imports FF_Prelude
begin

text \<open>
  C struct layout on the x86-64 System V ABI: sizes, alignments and field offsets of the types the
  router and the client library exchange. A struct is a list of named fields in source order; the
  offset of a field is the end of the one before it, rounded up to the field's alignment, and the
  size of a struct is rounded up to its own alignment. Enumerations and \<^verbatim>\<open>int\<close> take four bytes,
  pointers eight. The facts about a particular struct are evaluated and kept in the collection
  \<^verbatim>\<open>layout\<close>.
\<close>

datatype cty =
    U8 | U16 | U32 | U64 | I32 | Enum | Ptr
  | Arr cty nat
  | Struct "(string \<times> cty) list"
  | Union "(string \<times> cty) list"

definition round_up :: "nat \<Rightarrow> nat \<Rightarrow> nat" where [layout_defs]:
  "round_up n a = (n + a - 1) div a * a"

fun align_of :: "cty \<Rightarrow> nat" and align_fields :: "(string \<times> cty) list \<Rightarrow> nat" where
  "align_of U8 = 1"
| "align_of U16 = 2"
| "align_of U32 = 4"
| "align_of U64 = 8"
| "align_of I32 = 4"
| "align_of Enum = 4"
| "align_of Ptr = 8"
| "align_of (Arr t n) = align_of t"
| "align_of (Struct fs) = align_fields fs"
| "align_of (Union fs) = align_fields fs"
| "align_fields [] = 1"
| "align_fields ((f, t) # fs) = max (align_of t) (align_fields fs)"

fun size_of :: "cty \<Rightarrow> nat"
  and end_of :: "nat \<Rightarrow> (string \<times> cty) list \<Rightarrow> nat"
  and widest :: "(string \<times> cty) list \<Rightarrow> nat" where
  "size_of U8 = 1"
| "size_of U16 = 2"
| "size_of U32 = 4"
| "size_of U64 = 8"
| "size_of I32 = 4"
| "size_of Enum = 4"
| "size_of Ptr = 8"
| "size_of (Arr t n) = n * size_of t"
| "size_of (Struct fs) = round_up (end_of 0 fs) (align_fields fs)"
| "size_of (Union fs) = round_up (widest fs) (align_fields fs)"
| "end_of p [] = p"
| "end_of p ((f, t) # fs) = end_of (round_up p (align_of t) + size_of t) fs"
| "widest [] = 0"
| "widest ((f, t) # fs) = max (size_of t) (widest fs)"

text \<open>\<open>find_field p fs f\<close> is the offset and type of field \<open>f\<close> when the fields \<open>fs\<close> start at \<open>p\<close>.\<close>

fun find_field :: "nat \<Rightarrow> (string \<times> cty) list \<Rightarrow> string \<Rightarrow> (nat \<times> cty) option" where
  "find_field p [] f = None"
| "find_field p ((g, t) # fs) f =
     (let q = round_up p (align_of t)
      in if f = g then Some (q, t) else find_field (q + size_of t) fs f)"

fun member :: "cty \<Rightarrow> string \<Rightarrow> (nat \<times> cty) option" where
  "member (Struct fs) f = find_field 0 fs f"
| "member (Union fs) f = map_option (\<lambda>t. (0, t)) (map_of fs f)"
| "member t f = None"

declare Let_def [layout_defs]

lemma two_Suc [layout_defs]: "Suc (Suc 0) = 2"
  by simp

text \<open>\<open>off T [f, g]\<close> is \<^verbatim>\<open>offsetof(T, f.g)\<close>; a path that names no field has offset 0.\<close>

fun off :: "cty \<Rightarrow> string list \<Rightarrow> nat" where
  "off t [] = 0"
| "off t (f # fs) = (case member t f of None \<Rightarrow> 0 | Some (p, t') \<Rightarrow> p + off t' fs)"

lemma round_up_ge: "0 < a \<Longrightarrow> n \<le> round_up n a"
proof -
  assume a: "0 < a"
  have "n + a - 1 = (n + a - 1) div a * a + (n + a - 1) mod a"
    by simp
  moreover have "(n + a - 1) mod a < a" using a by simp
  ultimately show ?thesis unfolding round_up_def by linarith
qed

lemma round_up_dvd: "a dvd round_up n a"
  by (simp add: round_up_def)

lemma align_pos: "0 < align_of t" "0 < align_fields fs"
  by (induction t and fs rule: align_of_align_fields.induct) (auto simp: less_max_iff_disj)

lemma size_of_dvd_align: "align_of t dvd size_of t"
proof (induction t rule: cty.induct)
  case (Arr t n)
  then show ?case by (simp add: dvd_mult)
qed (simp_all add: round_up_dvd)

lemma end_of_ge: "p \<le> end_of p fs"
proof (induction fs arbitrary: p)
  case Nil
  then show ?case by simp
next
  case (Cons ft fs)
  obtain f t where ft: "ft = (f, t)" by (cases ft)
  have "p \<le> round_up p (align_of t)"
    by (rule round_up_ge) (rule align_pos)
  also have "\<dots> \<le> round_up p (align_of t) + size_of t" by simp
  also have "\<dots> \<le> end_of (round_up p (align_of t) + size_of t) fs" by (rule Cons.IH)
  finally show ?case by (simp add: ft)
qed

text \<open>A field lies inside its struct and is aligned.\<close>

lemma find_field_bounds:
  "find_field p fs f = Some (q, t) \<Longrightarrow> p \<le> q \<and> q + size_of t \<le> end_of p fs \<and> align_of t dvd q"
proof (induction fs arbitrary: p)
  case Nil
  then show ?case by simp
next
  case (Cons gt fs)
  obtain g s where gt: "gt = (g, s)" by (cases gt)
  let ?q = "round_up p (align_of s)"
  have p: "p \<le> ?q" by (rule round_up_ge) (rule align_pos)
  show ?case
  proof (cases "f = g")
    case True
    with Cons.prems have "q = ?q" "t = s" by (auto simp: gt Let_def)
    then show ?thesis using p end_of_ge[of "?q + size_of s" fs] by (simp add: gt round_up_dvd)
  next
    case False
    with Cons.prems have "find_field (?q + size_of s) fs f = Some (q, t)"
      by (simp add: gt Let_def)
    from Cons.IH[OF this] p show ?thesis by (simp add: gt)
  qed
qed

lemma struct_field_inside:
  assumes "find_field 0 fs f = Some (q, t)"
  shows "q + size_of t \<le> size_of (Struct fs)"
proof -
  have "q + size_of t \<le> end_of 0 fs" using find_field_bounds[OF assms] by simp
  also have "\<dots> \<le> round_up (end_of 0 fs) (align_fields fs)"
    by (rule round_up_ge) (rule align_pos)
  finally show ?thesis by simp
qed

end
