(* ===== verification/FF_Verbs_ABI.thy ===== *)
theory FF_Verbs_ABI
  imports FF_Layout
begin

text \<open>
  The structs of the verbs and connection-manager interfaces that cross the channel between the
  client library and the router, with the field order of the vendored headers \<^verbatim>\<open>verbs.h\<close>,
  \<^verbatim>\<open>verbs_exp.h\<close>, \<^verbatim>\<open>kern-abi.h\<close>, \<^verbatim>\<open>kern-abi_exp.h\<close>, \<^verbatim>\<open>sa.h\<close>, \<^verbatim>\<open>sa-kern-abi.h\<close> and
  \<^verbatim>\<open>rdma_cma_abi.h\<close>. The three socket address structs are those of the C library.
\<close>

definition ibv_sge :: cty where [layout_defs]:
  "ibv_sge = Struct
    [(''addr'', U64), (''length'', U32), (''lkey'', U32)]"

definition ibv_ah :: cty where [layout_defs]:
  "ibv_ah = Struct
    [(''context'', Ptr), (''pd'', Ptr), (''handle'', U32)]"

definition ibv_mw_bind_info :: cty where [layout_defs]:
  "ibv_mw_bind_info = Struct
    [(''mr'', Ptr), (''addr'', U64), (''length'', U64), (''mw_access_flags'', I32)]"

definition ibv_send_wr :: cty where [layout_defs]:
  "ibv_send_wr = Struct
    [(''wr_id'', U64), (''next'', Ptr), (''sg_list'', Ptr), (''num_sge'', I32),
     (''opcode'', Enum), (''send_flags'', I32), (''imm_data'', U32),
     (''wr'', Union [(''rdma'', Struct [(''remote_addr'', U64), (''rkey'', U32)]), (''atomic'', Struct [(''remote_addr'', U64), (''compare_add'', U64), (''swap'', U64), (''rkey'', U32)]), (''ud'', Struct [(''ah'', Ptr), (''remote_qpn'', U32), (''remote_qkey'', U32)])]),
     (''_anon0'', Union [(''qp_type'', Union [(''xrc'', Struct [(''remote_srqn'', U32)])]), (''xrc_remote_srq_num'', U32)]),
     (''bind_mw'', Struct [(''mw'', Ptr), (''rkey'', U32), (''bind_info'', ibv_mw_bind_info)])]"

definition ibv_recv_wr :: cty where [layout_defs]:
  "ibv_recv_wr = Struct
    [(''wr_id'', U64), (''next'', Ptr), (''sg_list'', Ptr), (''num_sge'', I32)]"

definition ibv_kern_send_wr :: cty where [layout_defs]:
  "ibv_kern_send_wr = Struct
    [(''wr_id'', U64), (''num_sge'', U32), (''opcode'', U32), (''send_flags'', U32),
     (''imm_data'', U32),
     (''wr'', Union [(''rdma'', Struct [(''remote_addr'', U64), (''rkey'', U32), (''reserved'', U32)]), (''atomic'', Struct [(''remote_addr'', U64), (''compare_add'', U64), (''swap'', U64), (''rkey'', U32), (''reserved'', U32)]), (''ud'', Struct [(''ah'', U32), (''remote_qpn'', U32), (''remote_qkey'', U32), (''reserved'', U32)])]),
     (''qp_type'', Union [(''xrc'', Struct [(''remote_srqn'', U32)])])]"

definition ibv_post_send :: cty where [layout_defs]:
  "ibv_post_send = Struct
    [(''command'', U32), (''in_words'', U16), (''out_words'', U16), (''response'', U64),
     (''qp_handle'', U32), (''wr_count'', U32), (''sge_count'', U32), (''wqe_size'', U32),
     (''send_wr'', Arr ibv_kern_send_wr 0)]"

definition ibv_kern_recv_wr :: cty where [layout_defs]:
  "ibv_kern_recv_wr = Struct
    [(''wr_id'', U64), (''num_sge'', U32), (''reserved'', U32)]"

definition ibv_post_recv :: cty where [layout_defs]:
  "ibv_post_recv = Struct
    [(''command'', U32), (''in_words'', U16), (''out_words'', U16), (''response'', U64),
     (''qp_handle'', U32), (''wr_count'', U32), (''sge_count'', U32), (''wqe_size'', U32),
     (''recv_wr'', Arr ibv_kern_recv_wr 0)]"

definition ibv_post_srq_recv :: cty where [layout_defs]:
  "ibv_post_srq_recv = Struct
    [(''command'', U32), (''in_words'', U16), (''out_words'', U16), (''response'', U64),
     (''srq_handle'', U32), (''wr_count'', U32), (''sge_count'', U32), (''wqe_size'', U32),
     (''recv_wr'', Arr ibv_kern_recv_wr 0)]"

definition ibv_query_qp :: cty where [layout_defs]:
  "ibv_query_qp = Struct
    [(''command'', U32), (''in_words'', U16), (''out_words'', U16), (''response'', U64),
     (''qp_handle'', U32), (''attr_mask'', U32), (''driver_data'', Arr U64 0)]"

definition ibv_wc :: cty where [layout_defs]:
  "ibv_wc = Struct
    [(''wr_id'', U64), (''status'', Enum), (''opcode'', Enum), (''vendor_err'', U32),
     (''byte_len'', U32), (''imm_data'', U32), (''qp_num'', U32), (''src_qp'', U32),
     (''wc_flags'', I32), (''pkey_index'', U16), (''slid'', U16), (''sl'', U8),
     (''dlid_path_bits'', U8)]"

definition ex_hdr :: cty where [layout_defs]:
  "ex_hdr = Struct
    [(''_anon0'', Struct [(''command'', U32), (''in_words'', U16), (''out_words'', U16)]),
     (''_anon1'', Struct [(''response'', U64)]),
     (''_anon2'', Struct [(''provider_in_words'', U16), (''provider_out_words'', U16), (''reserved'', U32)])]"

definition ibv_kern_flow_attr :: cty where [layout_defs]:
  "ibv_kern_flow_attr = Struct
    [(''type'', U32), (''size'', U16), (''priority'', U16), (''num_of_specs'', U8),
     (''reserved'', Arr U8 2), (''port'', U8), (''flags'', U32)]"

definition ibv_create_flow :: cty where [layout_defs]:
  "ibv_create_flow = Struct
    [(''hdr'', ex_hdr), (''comp_mask'', U32), (''qp_handle'', U32),
     (''flow_attr'', ibv_kern_flow_attr)]"

definition ibv_kern_ib_filter :: cty where [layout_defs]:
  "ibv_kern_ib_filter = Struct
    [(''qpn'', U32), (''dst_gid'', Arr U8 16)]"

definition ibv_kern_spec_ib :: cty where [layout_defs]:
  "ibv_kern_spec_ib = Struct
    [(''type'', U32), (''size'', U16), (''reserved'', U16), (''val'', ibv_kern_ib_filter),
     (''mask'', ibv_kern_ib_filter)]"

definition ibv_kern_eth_filter :: cty where [layout_defs]:
  "ibv_kern_eth_filter = Struct
    [(''dst_mac'', Arr U8 6), (''src_mac'', Arr U8 6), (''ether_type'', U16), (''vlan_tag'', U16)]"

definition ibv_kern_spec_eth :: cty where [layout_defs]:
  "ibv_kern_spec_eth = Struct
    [(''type'', U32), (''size'', U16), (''reserved'', U16), (''val'', ibv_kern_eth_filter),
     (''mask'', ibv_kern_eth_filter)]"

definition ibv_kern_ipv4_filter :: cty where [layout_defs]:
  "ibv_kern_ipv4_filter = Struct
    [(''src_ip'', U32), (''dst_ip'', U32)]"

definition ibv_kern_spec_ipv4 :: cty where [layout_defs]:
  "ibv_kern_spec_ipv4 = Struct
    [(''type'', U32), (''size'', U16), (''reserved'', U16), (''val'', ibv_kern_ipv4_filter),
     (''mask'', ibv_kern_ipv4_filter)]"

definition ibv_kern_tcp_udp_filter :: cty where [layout_defs]:
  "ibv_kern_tcp_udp_filter = Struct
    [(''dst_port'', U16), (''src_port'', U16)]"

definition ibv_kern_spec_tcp_udp :: cty where [layout_defs]:
  "ibv_kern_spec_tcp_udp = Struct
    [(''type'', U32), (''size'', U16), (''reserved'', U16), (''val'', ibv_kern_tcp_udp_filter),
     (''mask'', ibv_kern_tcp_udp_filter)]"

definition ibv_kern_spec :: cty where [layout_defs]:
  "ibv_kern_spec = Struct
    [
     (''_anon0'', Union [(''hdr'', Struct [(''type'', U32), (''size'', U16), (''reserved'', U16)]), (''ib'', ibv_kern_spec_ib), (''eth'', ibv_kern_spec_eth), (''ipv4'', ibv_kern_spec_ipv4), (''tcp_udp'', ibv_kern_spec_tcp_udp)])]"

definition ibv_device_attr :: cty where [layout_defs]:
  "ibv_device_attr = Struct
    [(''fw_ver'', Arr U8 64), (''node_guid'', U64), (''sys_image_guid'', U64),
     (''max_mr_size'', U64), (''page_size_cap'', U64), (''vendor_id'', U32),
     (''vendor_part_id'', U32), (''hw_ver'', U32), (''max_qp'', I32), (''max_qp_wr'', I32),
     (''device_cap_flags'', U32), (''max_sge'', I32), (''max_sge_rd'', I32), (''max_cq'', I32),
     (''max_cqe'', I32), (''max_mr'', I32), (''max_pd'', I32), (''max_qp_rd_atom'', I32),
     (''max_ee_rd_atom'', I32), (''max_res_rd_atom'', I32), (''max_qp_init_rd_atom'', I32),
     (''max_ee_init_rd_atom'', I32), (''atomic_cap'', Enum), (''max_ee'', I32),
     (''max_rdd'', I32), (''max_mw'', I32), (''max_raw_ipv6_qp'', I32),
     (''max_raw_ethy_qp'', I32), (''max_mcast_grp'', I32), (''max_mcast_qp_attach'', I32),
     (''max_total_mcast_qp_attach'', I32), (''max_ah'', I32), (''max_fmr'', I32),
     (''max_map_per_fmr'', I32), (''max_srq'', I32), (''max_srq_wr'', I32),
     (''max_srq_sge'', I32), (''max_pkeys'', U16), (''local_ca_ack_delay'', U8),
     (''phys_port_cnt'', U8)]"

definition ibv_exp_query_device :: cty where [layout_defs]:
  "ibv_exp_query_device = Struct
    [(''hdr'', ex_hdr), (''comp_mask'', U64), (''driver_data'', Arr U64 0)]"

definition ibv_exp_umr_caps_resp :: cty where [layout_defs]:
  "ibv_exp_umr_caps_resp = Struct
    [(''max_klm_list_size'', U32), (''max_send_wqe_inline_klms'', U32),
     (''max_umr_recursion_depth'', U32), (''max_umr_stride_dimension'', U32)]"

definition ibv_exp_odp_caps_resp :: cty where [layout_defs]:
  "ibv_exp_odp_caps_resp = Struct
    [(''general_odp_caps'', U64),
     (''per_transport_caps'', Struct [(''rc_odp_caps'', U32), (''uc_odp_caps'', U32), (''ud_odp_caps'', U32), (''dc_odp_caps'', U32), (''xrc_odp_caps'', U32), (''raw_eth_odp_caps'', U32)])]"

definition ibv_exp_rx_hash_caps_resp :: cty where [layout_defs]:
  "ibv_exp_rx_hash_caps_resp = Struct
    [(''max_rwq_indirection_tables'', U32), (''max_rwq_indirection_table_size'', U32),
     (''supported_packet_fields'', U64), (''supported_qps'', U32),
     (''supported_hash_functions'', U8), (''reserved'', Arr U8 3)]"

definition ibv_exp_mp_rq_caps_resp :: cty where [layout_defs]:
  "ibv_exp_mp_rq_caps_resp = Struct
    [(''supported_qps'', U32), (''allowed_shifts'', U32),
     (''min_single_wqe_log_num_of_strides'', U8), (''max_single_wqe_log_num_of_strides'', U8),
     (''min_single_stride_log_num_of_bytes'', U8), (''max_single_stride_log_num_of_bytes'', U8),
     (''reserved'', U32)]"

definition ibv_exp_ec_caps_resp :: cty where [layout_defs]:
  "ibv_exp_ec_caps_resp = Struct
    [(''max_ec_data_vector_count'', U32), (''max_ec_calc_inflight_calcs'', U32)]"

definition ibv_exp_masked_atomic_caps :: cty where [layout_defs]:
  "ibv_exp_masked_atomic_caps = Struct
    [(''max_fa_bit_boundary'', U32), (''log_max_atomic_inline'', U32),
     (''masked_log_atomic_arg_sizes'', U64),
     (''masked_log_atomic_arg_sizes_network_endianness'', U64)]"

definition ibv_exp_lso_caps_resp :: cty where [layout_defs]:
  "ibv_exp_lso_caps_resp = Struct
    [(''max_tso'', U32), (''supported_qpts'', U32)]"

definition ibv_exp_packet_pacing_caps_resp :: cty where [layout_defs]:
  "ibv_exp_packet_pacing_caps_resp = Struct
    [(''qp_rate_limit_min'', U32), (''qp_rate_limit_max'', U32), (''supported_qpts'', U32),
     (''reserved'', U32)]"

definition ibv_exp_query_device_resp :: cty where [layout_defs]:
  "ibv_exp_query_device_resp = Struct
    [(''comp_mask'', U64), (''fw_ver'', U64), (''node_guid'', U64), (''sys_image_guid'', U64),
     (''max_mr_size'', U64), (''page_size_cap'', U64), (''vendor_id'', U32),
     (''vendor_part_id'', U32), (''hw_ver'', U32), (''max_qp'', U32), (''max_qp_wr'', U32),
     (''device_cap_flags'', U32), (''max_sge'', U32), (''max_sge_rd'', U32), (''max_cq'', U32),
     (''max_cqe'', U32), (''max_mr'', U32), (''max_pd'', U32), (''max_qp_rd_atom'', U32),
     (''max_ee_rd_atom'', U32), (''max_res_rd_atom'', U32), (''max_qp_init_rd_atom'', U32),
     (''max_ee_init_rd_atom'', U32), (''exp_atomic_cap'', U32), (''max_ee'', U32),
     (''max_rdd'', U32), (''max_mw'', U32), (''max_raw_ipv6_qp'', U32),
     (''max_raw_ethy_qp'', U32), (''max_mcast_grp'', U32), (''max_mcast_qp_attach'', U32),
     (''max_total_mcast_qp_attach'', U32), (''max_ah'', U32), (''max_fmr'', U32),
     (''max_map_per_fmr'', U32), (''max_srq'', U32), (''max_srq_wr'', U32),
     (''max_srq_sge'', U32), (''max_pkeys'', U16), (''local_ca_ack_delay'', U8),
     (''phys_port_cnt'', U8), (''reserved'', Arr U8 4), (''timestamp_mask'', U64),
     (''hca_core_clock'', U64), (''device_cap_flags2'', U64), (''dc_rd_req'', U32),
     (''dc_rd_res'', U32), (''inline_recv_sz'', U32), (''max_rss_tbl_sz'', U32),
     (''log_atomic_arg_sizes'', U64), (''max_fa_bit_boundary'', U32),
     (''log_max_atomic_inline'', U32), (''umr_caps'', ibv_exp_umr_caps_resp),
     (''odp_caps'', ibv_exp_odp_caps_resp), (''max_dct'', U32), (''max_ctx_res_domain'', U32),
     (''rx_hash'', ibv_exp_rx_hash_caps_resp), (''max_wq_type_rq'', U32),
     (''max_device_ctx'', U32), (''mp_rq_caps'', ibv_exp_mp_rq_caps_resp),
     (''wq_vlan_offloads_cap'', U16), (''reserved1'', Arr U8 2), (''ec_w_mask'', U32),
     (''ec_caps'', ibv_exp_ec_caps_resp), (''masked_atomic_caps'', ibv_exp_masked_atomic_caps),
     (''rx_pad_end_addr_align'', U16), (''reserved2'', Arr U8 6),
     (''tso_caps'', ibv_exp_lso_caps_resp),
     (''packet_pacing_caps'', ibv_exp_packet_pacing_caps_resp)]"

definition ibv_port_attr :: cty where [layout_defs]:
  "ibv_port_attr = Struct
    [(''state'', Enum), (''max_mtu'', Enum), (''active_mtu'', Enum), (''gid_tbl_len'', I32),
     (''port_cap_flags'', U32), (''max_msg_sz'', U32), (''bad_pkey_cntr'', U32),
     (''qkey_viol_cntr'', U32), (''pkey_tbl_len'', U16), (''lid'', U16), (''sm_lid'', U16),
     (''lmc'', U8), (''max_vl_num'', U8), (''sm_sl'', U8), (''subnet_timeout'', U8),
     (''init_type_reply'', U8), (''active_width'', U8), (''active_speed'', U8),
     (''phys_state'', U8), (''link_layer'', U8), (''reserved'', U8)]"

definition ibv_qp_cap :: cty where [layout_defs]:
  "ibv_qp_cap = Struct
    [(''max_send_wr'', U32), (''max_recv_wr'', U32), (''max_send_sge'', U32),
     (''max_recv_sge'', U32), (''max_inline_data'', U32)]"

definition ibv_gid :: cty where [layout_defs]:
  "ibv_gid = Union
    [(''raw'', Arr U8 16), (''global'', Struct [(''subnet_prefix'', U64), (''interface_id'', U64)])]"

definition ibv_global_route :: cty where [layout_defs]:
  "ibv_global_route = Struct
    [(''dgid'', ibv_gid), (''flow_label'', U32), (''sgid_index'', U8), (''hop_limit'', U8),
     (''traffic_class'', U8)]"

definition ibv_ah_attr :: cty where [layout_defs]:
  "ibv_ah_attr = Struct
    [(''grh'', ibv_global_route), (''dlid'', U16), (''sl'', U8), (''src_path_bits'', U8),
     (''static_rate'', U8), (''is_global'', U8), (''port_num'', U8)]"

definition ibv_qp_attr :: cty where [layout_defs]:
  "ibv_qp_attr = Struct
    [(''qp_state'', Enum), (''cur_qp_state'', Enum), (''path_mtu'', Enum),
     (''path_mig_state'', Enum), (''qkey'', U32), (''rq_psn'', U32), (''sq_psn'', U32),
     (''dest_qp_num'', U32), (''qp_access_flags'', I32), (''cap'', ibv_qp_cap),
     (''ah_attr'', ibv_ah_attr), (''alt_ah_attr'', ibv_ah_attr), (''pkey_index'', U16),
     (''alt_pkey_index'', U16), (''en_sqd_async_notify'', U8), (''sq_draining'', U8),
     (''max_rd_atomic'', U8), (''max_dest_rd_atomic'', U8), (''min_rnr_timer'', U8),
     (''port_num'', U8), (''timeout'', U8), (''retry_cnt'', U8), (''rnr_retry'', U8),
     (''alt_port_num'', U8), (''alt_timeout'', U8)]"

definition ibv_qp_dest :: cty where [layout_defs]:
  "ibv_qp_dest = Struct
    [(''dgid'', Arr U8 16), (''flow_label'', U32), (''dlid'', U16), (''reserved'', U16),
     (''sgid_index'', U8), (''hop_limit'', U8), (''traffic_class'', U8), (''sl'', U8),
     (''src_path_bits'', U8), (''static_rate'', U8), (''is_global'', U8), (''port_num'', U8)]"

definition ibv_query_qp_resp :: cty where [layout_defs]:
  "ibv_query_qp_resp = Struct
    [(''dest'', ibv_qp_dest), (''alt_dest'', ibv_qp_dest), (''max_send_wr'', U32),
     (''max_recv_wr'', U32), (''max_send_sge'', U32), (''max_recv_sge'', U32),
     (''max_inline_data'', U32), (''qkey'', U32), (''rq_psn'', U32), (''sq_psn'', U32),
     (''dest_qp_num'', U32), (''qp_access_flags'', U32), (''pkey_index'', U16),
     (''alt_pkey_index'', U16), (''qp_state'', U8), (''cur_qp_state'', U8), (''path_mtu'', U8),
     (''path_mig_state'', U8), (''sq_draining'', U8), (''max_rd_atomic'', U8),
     (''max_dest_rd_atomic'', U8), (''min_rnr_timer'', U8), (''port_num'', U8),
     (''timeout'', U8), (''retry_cnt'', U8), (''rnr_retry'', U8), (''alt_port_num'', U8),
     (''alt_timeout'', U8), (''sq_sig_all'', U8), (''reserved'', Arr U8 5),
     (''driver_data'', Arr U64 0)]"

definition ibv_create_flow_resp :: cty where [layout_defs]:
  "ibv_create_flow_resp = Struct
    [(''comp_mask'', U32), (''flow_handle'', U32)]"

definition ibv_destroy_flow :: cty where [layout_defs]:
  "ibv_destroy_flow = Struct
    [(''hdr'', ex_hdr), (''comp_mask'', U32), (''flow_handle'', U32)]"

definition ibv_srq_attr :: cty where [layout_defs]:
  "ibv_srq_attr = Struct
    [(''max_wr'', U32), (''max_sge'', U32), (''srq_limit'', U32)]"

definition ibv_srq_init_attr :: cty where [layout_defs]:
  "ibv_srq_init_attr = Struct
    [(''srq_context'', Ptr), (''attr'', ibv_srq_attr)]"

definition rdma_event_channel :: cty where [layout_defs]:
  "rdma_event_channel = Struct
    [(''fd'', I32)]"

definition ucma_abi_create_id :: cty where [layout_defs]:
  "ucma_abi_create_id = Struct
    [(''cmd'', U32), (''in'', U16), (''out'', U16), (''uid'', U64), (''response'', U64),
     (''ps'', U16), (''qp_type'', U8), (''reserved'', Arr U8 5)]"

definition ucma_abi_create_id_resp :: cty where [layout_defs]:
  "ucma_abi_create_id_resp = Struct
    [(''id'', U32)]"

definition sockaddr_in6 :: cty where [layout_defs]:
  "sockaddr_in6 = Struct
    [(''sin6_family'', U16), (''sin6_port'', U16), (''sin6_flowinfo'', U32),
     (''sin6_addr'', Union [(''u8'', Arr U8 16), (''u32'', Arr U32 4)]), (''sin6_scope_id'', U32)]"

definition ucma_abi_bind_ip :: cty where [layout_defs]:
  "ucma_abi_bind_ip = Struct
    [(''cmd'', U32), (''in'', U16), (''out'', U16), (''response'', U64), (''addr'', sockaddr_in6),
     (''id'', U32)]"

definition sockaddr_storage :: cty where [layout_defs]:
  "sockaddr_storage = Struct
    [(''ss_family'', U16), (''ss_padding'', Arr U8 118), (''ss_align'', U64)]"

definition ucma_abi_bind :: cty where [layout_defs]:
  "ucma_abi_bind = Struct
    [(''cmd'', U32), (''in'', U16), (''out'', U16), (''id'', U32), (''addr_size'', U16),
     (''reserved'', U16), (''addr'', sockaddr_storage)]"

definition ucma_abi_get_event :: cty where [layout_defs]:
  "ucma_abi_get_event = Struct
    [(''cmd'', U32), (''in'', U16), (''out'', U16), (''response'', U64)]"

definition ucma_abi_conn_param :: cty where [layout_defs]:
  "ucma_abi_conn_param = Struct
    [(''qp_num'', U32), (''reserved'', U32), (''private_data'', Arr U8 256),
     (''private_data_len'', U8), (''srq'', U8), (''responder_resources'', U8),
     (''initiator_depth'', U8), (''flow_control'', U8), (''retry_count'', U8),
     (''rnr_retry_count'', U8), (''valid'', U8)]"

definition ibv_kern_global_route :: cty where [layout_defs]:
  "ibv_kern_global_route = Struct
    [(''dgid'', Arr U8 16), (''flow_label'', U32), (''sgid_index'', U8), (''hop_limit'', U8),
     (''traffic_class'', U8), (''reserved'', U8)]"

definition ibv_kern_ah_attr :: cty where [layout_defs]:
  "ibv_kern_ah_attr = Struct
    [(''grh'', ibv_kern_global_route), (''dlid'', U16), (''sl'', U8), (''src_path_bits'', U8),
     (''static_rate'', U8), (''is_global'', U8), (''port_num'', U8), (''reserved'', U8)]"

definition ucma_abi_ud_param :: cty where [layout_defs]:
  "ucma_abi_ud_param = Struct
    [(''qp_num'', U32), (''qkey'', U32), (''ah_attr'', ibv_kern_ah_attr),
     (''private_data'', Arr U8 256), (''private_data_len'', U8), (''reserved'', Arr U8 7),
     (''reserved2'', Arr U8 4)]"

definition ucma_abi_event_resp :: cty where [layout_defs]:
  "ucma_abi_event_resp = Struct
    [(''uid'', U64), (''id'', U32), (''event'', U32), (''status'', U32),
     (''param'', Union [(''conn'', ucma_abi_conn_param), (''ud'', ucma_abi_ud_param)])]"

definition ucma_abi_query :: cty where [layout_defs]:
  "ucma_abi_query = Struct
    [(''cmd'', U32), (''in'', U16), (''out'', U16), (''response'', U64), (''id'', U32),
     (''option'', U32)]"

definition ibv_kern_path_rec :: cty where [layout_defs]:
  "ibv_kern_path_rec = Struct
    [(''dgid'', Arr U8 16), (''sgid'', Arr U8 16), (''dlid'', U16), (''slid'', U16),
     (''raw_traffic'', U32), (''flow_label'', U32), (''reversible'', U32), (''mtu'', U32),
     (''pkey'', U16), (''hop_limit'', U8), (''traffic_class'', U8), (''numb_path'', U8),
     (''sl'', U8), (''mtu_selector'', U8), (''rate_selector'', U8), (''rate'', U8),
     (''packet_life_time_selector'', U8), (''packet_life_time'', U8), (''preference'', U8)]"

definition ucma_abi_query_route_resp :: cty where [layout_defs]:
  "ucma_abi_query_route_resp = Struct
    [(''node_guid'', U64), (''ib_route'', Arr ibv_kern_path_rec 2), (''src_addr'', sockaddr_in6),
     (''dst_addr'', sockaddr_in6), (''num_paths'', U32), (''port_num'', U8),
     (''reserved'', Arr U8 3)]"

definition ucma_abi_listen :: cty where [layout_defs]:
  "ucma_abi_listen = Struct
    [(''cmd'', U32), (''in'', U16), (''out'', U16), (''id'', U32), (''backlog'', U32)]"

definition ucma_abi_resolve_ip :: cty where [layout_defs]:
  "ucma_abi_resolve_ip = Struct
    [(''cmd'', U32), (''in'', U16), (''out'', U16), (''src_addr'', sockaddr_in6),
     (''dst_addr'', sockaddr_in6), (''id'', U32), (''timeout_ms'', U32)]"

definition ucma_abi_resolve_addr :: cty where [layout_defs]:
  "ucma_abi_resolve_addr = Struct
    [(''cmd'', U32), (''in'', U16), (''out'', U16), (''id'', U32), (''timeout_ms'', U32),
     (''src_size'', U16), (''dst_size'', U16), (''reserved'', U32),
     (''src_addr'', sockaddr_storage), (''dst_addr'', sockaddr_storage)]"

definition ucma_abi_query_addr_resp :: cty where [layout_defs]:
  "ucma_abi_query_addr_resp = Struct
    [(''node_guid'', U64), (''port_num'', U8), (''reserved'', U8), (''pkey'', U16),
     (''src_size'', U16), (''dst_size'', U16), (''src_addr'', sockaddr_storage),
     (''dst_addr'', sockaddr_storage)]"

definition ucma_abi_accept :: cty where [layout_defs]:
  "ucma_abi_accept = Struct
    [(''cmd'', U32), (''in'', U16), (''out'', U16), (''uid'', U64),
     (''conn_param'', ucma_abi_conn_param), (''id'', U32), (''reserved'', U32)]"

definition ucma_abi_destroy_id :: cty where [layout_defs]:
  "ucma_abi_destroy_id = Struct
    [(''cmd'', U32), (''in'', U16), (''out'', U16), (''response'', U64), (''id'', U32),
     (''reserved'', U32)]"

definition ucma_abi_destroy_id_resp :: cty where [layout_defs]:
  "ucma_abi_destroy_id_resp = Struct
    [(''events_reported'', U32)]"

definition ucma_abi_resolve_route :: cty where [layout_defs]:
  "ucma_abi_resolve_route = Struct
    [(''cmd'', U32), (''in'', U16), (''out'', U16), (''id'', U32), (''timeout_ms'', U32)]"

definition ibv_path_record :: cty where [layout_defs]:
  "ibv_path_record = Struct
    [(''service_id'', U64), (''dgid'', ibv_gid), (''sgid'', ibv_gid), (''dlid'', U16),
     (''slid'', U16), (''flowlabel_hoplimit'', U32), (''tclass'', U8),
     (''reversible_numpath'', U8), (''pkey'', U16), (''qosclass_sl'', U16), (''mtu'', U8),
     (''rate'', U8), (''packetlifetime'', U8), (''preference'', U8), (''reserved'', Arr U8 6)]"

definition ibv_path_data :: cty where [layout_defs]:
  "ibv_path_data = Struct
    [(''flags'', U32), (''reserved'', U32), (''path'', ibv_path_record)]"

definition ucma_abi_query_path_resp :: cty where [layout_defs]:
  "ucma_abi_query_path_resp = Struct
    [(''num_paths'', U32), (''reserved'', U32), (''path_data'', Arr ibv_path_data 0)]"

definition ucma_abi_init_qp_attr :: cty where [layout_defs]:
  "ucma_abi_init_qp_attr = Struct
    [(''cmd'', U32), (''in'', U16), (''out'', U16), (''response'', U64), (''id'', U32),
     (''qp_state'', U32)]"

definition ibv_kern_qp_attr :: cty where [layout_defs]:
  "ibv_kern_qp_attr = Struct
    [(''qp_attr_mask'', U32), (''qp_state'', U32), (''cur_qp_state'', U32), (''path_mtu'', U32),
     (''path_mig_state'', U32), (''qkey'', U32), (''rq_psn'', U32), (''sq_psn'', U32),
     (''dest_qp_num'', U32), (''qp_access_flags'', U32), (''ah_attr'', ibv_kern_ah_attr),
     (''alt_ah_attr'', ibv_kern_ah_attr), (''max_send_wr'', U32), (''max_recv_wr'', U32),
     (''max_send_sge'', U32), (''max_recv_sge'', U32), (''max_inline_data'', U32),
     (''pkey_index'', U16), (''alt_pkey_index'', U16), (''en_sqd_async_notify'', U8),
     (''sq_draining'', U8), (''max_rd_atomic'', U8), (''max_dest_rd_atomic'', U8),
     (''min_rnr_timer'', U8), (''port_num'', U8), (''timeout'', U8), (''retry_cnt'', U8),
     (''rnr_retry'', U8), (''alt_port_num'', U8), (''alt_timeout'', U8), (''reserved'', Arr U8 5)]"

definition ucma_abi_connect :: cty where [layout_defs]:
  "ucma_abi_connect = Struct
    [(''cmd'', U32), (''in'', U16), (''out'', U16), (''conn_param'', ucma_abi_conn_param),
     (''id'', U32), (''reserved'', U32)]"

definition ucma_abi_set_option :: cty where [layout_defs]:
  "ucma_abi_set_option = Struct
    [(''cmd'', U32), (''in'', U16), (''out'', U16), (''optval'', U64), (''id'', U32),
     (''level'', U32), (''optname'', U32), (''optlen'', U32)]"

definition ucma_abi_migrate_id :: cty where [layout_defs]:
  "ucma_abi_migrate_id = Struct
    [(''cmd'', U32), (''in'', U16), (''out'', U16), (''response'', U64), (''id'', U32),
     (''fd'', U32)]"

definition ucma_abi_migrate_resp :: cty where [layout_defs]:
  "ucma_abi_migrate_resp = Struct
    [(''events_reported'', U32)]"

definition ucma_abi_disconnect :: cty where [layout_defs]:
  "ucma_abi_disconnect = Struct
    [(''cmd'', U32), (''in'', U16), (''out'', U16), (''id'', U32)]"

definition sockaddr_in :: cty where [layout_defs]:
  "sockaddr_in = Struct
    [(''sin_family'', U16), (''sin_port'', U16), (''sin_addr'', U32), (''sin_zero'', Arr U8 8)]"

lemma ibv_sge_layout [layout]:
  "size_of ibv_sge = 16"
  "off ibv_sge [''addr''] = 0"
  "off ibv_sge [''length''] = 8"
  "off ibv_sge [''lkey''] = 12"
  by (simp_all add: layout_defs)

lemma ibv_ah_layout [layout]:
  "size_of ibv_ah = 24"
  "off ibv_ah [''context''] = 0"
  "off ibv_ah [''pd''] = 8"
  "off ibv_ah [''handle''] = 16"
  by (simp_all add: layout_defs)

lemma ibv_mw_bind_info_layout [layout]:
  "size_of ibv_mw_bind_info = 32"
  by (simp_all add: layout_defs)

lemma ibv_send_wr_layout [layout]:
  "size_of ibv_send_wr = 128"
  "off ibv_send_wr [''wr_id''] = 0"
  "off ibv_send_wr [''next''] = 8"
  "off ibv_send_wr [''sg_list''] = 16"
  "off ibv_send_wr [''num_sge''] = 24"
  "off ibv_send_wr [''opcode''] = 28"
  "off ibv_send_wr [''send_flags''] = 32"
  "off ibv_send_wr [''imm_data''] = 36"
  "off ibv_send_wr [''wr''] = 40"
  "off ibv_send_wr [''_anon0''] = 72"
  "off ibv_send_wr [''bind_mw''] = 80"
  "off ibv_send_wr [''wr'', ''rdma'', ''remote_addr''] = 40"
  "off ibv_send_wr [''wr'', ''rdma'', ''rkey''] = 48"
  "off ibv_send_wr [''wr'', ''ud'', ''ah''] = 40"
  by (simp_all add: layout_defs)

lemma ibv_recv_wr_layout [layout]:
  "size_of ibv_recv_wr = 32"
  "off ibv_recv_wr [''wr_id''] = 0"
  "off ibv_recv_wr [''next''] = 8"
  "off ibv_recv_wr [''sg_list''] = 16"
  "off ibv_recv_wr [''num_sge''] = 24"
  by (simp_all add: layout_defs)

lemma ibv_kern_send_wr_layout [layout]:
  "size_of ibv_kern_send_wr = 64"
  by (simp_all add: layout_defs)

lemma ibv_post_send_layout [layout]:
  "size_of ibv_post_send = 32"
  "off ibv_post_send [''command''] = 0"
  "off ibv_post_send [''in_words''] = 4"
  "off ibv_post_send [''out_words''] = 6"
  "off ibv_post_send [''response''] = 8"
  "off ibv_post_send [''qp_handle''] = 16"
  "off ibv_post_send [''wr_count''] = 20"
  "off ibv_post_send [''sge_count''] = 24"
  "off ibv_post_send [''wqe_size''] = 28"
  "off ibv_post_send [''send_wr''] = 32"
  by (simp_all add: layout_defs)

lemma ibv_kern_recv_wr_layout [layout]:
  "size_of ibv_kern_recv_wr = 16"
  by (simp_all add: layout_defs)

lemma ibv_post_recv_layout [layout]:
  "size_of ibv_post_recv = 32"
  "off ibv_post_recv [''command''] = 0"
  "off ibv_post_recv [''in_words''] = 4"
  "off ibv_post_recv [''out_words''] = 6"
  "off ibv_post_recv [''response''] = 8"
  "off ibv_post_recv [''qp_handle''] = 16"
  "off ibv_post_recv [''wr_count''] = 20"
  "off ibv_post_recv [''sge_count''] = 24"
  "off ibv_post_recv [''wqe_size''] = 28"
  "off ibv_post_recv [''recv_wr''] = 32"
  by (simp_all add: layout_defs)

lemma ibv_post_srq_recv_layout [layout]:
  "size_of ibv_post_srq_recv = 32"
  "off ibv_post_srq_recv [''command''] = 0"
  "off ibv_post_srq_recv [''in_words''] = 4"
  "off ibv_post_srq_recv [''out_words''] = 6"
  "off ibv_post_srq_recv [''response''] = 8"
  "off ibv_post_srq_recv [''srq_handle''] = 16"
  "off ibv_post_srq_recv [''wr_count''] = 20"
  "off ibv_post_srq_recv [''sge_count''] = 24"
  "off ibv_post_srq_recv [''wqe_size''] = 28"
  "off ibv_post_srq_recv [''recv_wr''] = 32"
  by (simp_all add: layout_defs)

lemma ibv_query_qp_layout [layout]:
  "size_of ibv_query_qp = 24"
  "off ibv_query_qp [''command''] = 0"
  "off ibv_query_qp [''in_words''] = 4"
  "off ibv_query_qp [''out_words''] = 6"
  "off ibv_query_qp [''response''] = 8"
  "off ibv_query_qp [''qp_handle''] = 16"
  "off ibv_query_qp [''attr_mask''] = 20"
  "off ibv_query_qp [''driver_data''] = 24"
  by (simp_all add: layout_defs)

lemma ibv_wc_layout [layout]:
  "size_of ibv_wc = 48"
  "off ibv_wc [''wr_id''] = 0"
  "off ibv_wc [''status''] = 8"
  "off ibv_wc [''opcode''] = 12"
  "off ibv_wc [''vendor_err''] = 16"
  "off ibv_wc [''byte_len''] = 20"
  "off ibv_wc [''imm_data''] = 24"
  "off ibv_wc [''qp_num''] = 28"
  "off ibv_wc [''src_qp''] = 32"
  "off ibv_wc [''wc_flags''] = 36"
  "off ibv_wc [''pkey_index''] = 40"
  "off ibv_wc [''slid''] = 42"
  "off ibv_wc [''sl''] = 44"
  "off ibv_wc [''dlid_path_bits''] = 45"
  by (simp_all add: layout_defs)

lemma ex_hdr_layout [layout]:
  "size_of ex_hdr = 24"
  "off ex_hdr [''_anon0'', ''command''] = 0"
  "off ex_hdr [''_anon0'', ''in_words''] = 4"
  "off ex_hdr [''_anon0'', ''out_words''] = 6"
  "off ex_hdr [''_anon1'', ''response''] = 8"
  "off ex_hdr [''_anon2'', ''provider_in_words''] = 16"
  "off ex_hdr [''_anon2'', ''provider_out_words''] = 18"
  "off ex_hdr [''_anon2'', ''reserved''] = 20"
  by (simp_all add: layout_defs)

lemma ibv_kern_flow_attr_layout [layout]:
  "size_of ibv_kern_flow_attr = 16"
  by (simp_all add: layout_defs)

lemma ibv_create_flow_layout [layout]:
  "size_of ibv_create_flow = 48"
  "off ibv_create_flow [''hdr''] = 0"
  "off ibv_create_flow [''comp_mask''] = 24"
  "off ibv_create_flow [''qp_handle''] = 28"
  "off ibv_create_flow [''flow_attr''] = 32"
  "off ibv_create_flow [''flow_attr'', ''num_of_specs''] = 40"
  by (simp_all add: layout_defs)

lemma ibv_kern_ib_filter_layout [layout]:
  "size_of ibv_kern_ib_filter = 20"
  by (simp_all add: layout_defs)

lemma ibv_kern_spec_ib_layout [layout]:
  "size_of ibv_kern_spec_ib = 48"
  by (simp_all add: layout_defs)

lemma ibv_kern_eth_filter_layout [layout]:
  "size_of ibv_kern_eth_filter = 16"
  by (simp_all add: layout_defs)

lemma ibv_kern_spec_eth_layout [layout]:
  "size_of ibv_kern_spec_eth = 40"
  by (simp_all add: layout_defs)

lemma ibv_kern_ipv4_filter_layout [layout]:
  "size_of ibv_kern_ipv4_filter = 8"
  by (simp_all add: layout_defs)

lemma ibv_kern_spec_ipv4_layout [layout]:
  "size_of ibv_kern_spec_ipv4 = 24"
  by (simp_all add: layout_defs)

lemma ibv_kern_tcp_udp_filter_layout [layout]:
  "size_of ibv_kern_tcp_udp_filter = 4"
  by (simp_all add: layout_defs)

lemma ibv_kern_spec_tcp_udp_layout [layout]:
  "size_of ibv_kern_spec_tcp_udp = 16"
  by (simp_all add: layout_defs)

lemma ibv_kern_spec_layout [layout]:
  "size_of ibv_kern_spec = 48"
  "off ibv_kern_spec [''_anon0''] = 0"
  "off ibv_kern_spec [''_anon0'', ''hdr'', ''size''] = 4"
  by (simp_all add: layout_defs)

lemma ibv_device_attr_layout [layout]:
  "size_of ibv_device_attr = 232"
  by (simp_all add: layout_defs)

lemma ibv_exp_query_device_layout [layout]:
  "size_of ibv_exp_query_device = 32"
  by (simp_all add: layout_defs)

lemma ibv_exp_umr_caps_resp_layout [layout]:
  "size_of ibv_exp_umr_caps_resp = 16"
  by (simp_all add: layout_defs)

lemma ibv_exp_odp_caps_resp_layout [layout]:
  "size_of ibv_exp_odp_caps_resp = 32"
  by (simp_all add: layout_defs)

lemma ibv_exp_rx_hash_caps_resp_layout [layout]:
  "size_of ibv_exp_rx_hash_caps_resp = 24"
  by (simp_all add: layout_defs)

lemma ibv_exp_mp_rq_caps_resp_layout [layout]:
  "size_of ibv_exp_mp_rq_caps_resp = 16"
  by (simp_all add: layout_defs)

lemma ibv_exp_ec_caps_resp_layout [layout]:
  "size_of ibv_exp_ec_caps_resp = 8"
  by (simp_all add: layout_defs)

lemma ibv_exp_masked_atomic_caps_layout [layout]:
  "size_of ibv_exp_masked_atomic_caps = 24"
  by (simp_all add: layout_defs)

lemma ibv_exp_lso_caps_resp_layout [layout]:
  "size_of ibv_exp_lso_caps_resp = 8"
  by (simp_all add: layout_defs)

lemma ibv_exp_packet_pacing_caps_resp_layout [layout]:
  "size_of ibv_exp_packet_pacing_caps_resp = 16"
  by (simp_all add: layout_defs)

lemma ibv_exp_query_device_resp_layout [layout]:
  "size_of ibv_exp_query_device_resp = 416"
  by (simp_all add: layout_defs)

lemma ibv_port_attr_layout [layout]:
  "size_of ibv_port_attr = 48"
  by (simp_all add: layout_defs)

lemma ibv_qp_cap_layout [layout]:
  "size_of ibv_qp_cap = 20"
  "off ibv_qp_cap [''max_send_wr''] = 0"
  "off ibv_qp_cap [''max_recv_wr''] = 4"
  "off ibv_qp_cap [''max_send_sge''] = 8"
  "off ibv_qp_cap [''max_recv_sge''] = 12"
  "off ibv_qp_cap [''max_inline_data''] = 16"
  by (simp_all add: layout_defs)

lemma ibv_gid_layout [layout]:
  "size_of ibv_gid = 16"
  by (simp_all add: layout_defs)

lemma ibv_global_route_layout [layout]:
  "size_of ibv_global_route = 24"
  by (simp_all add: layout_defs)

lemma ibv_ah_attr_layout [layout]:
  "size_of ibv_ah_attr = 32"
  by (simp_all add: layout_defs)

lemma ibv_qp_attr_layout [layout]:
  "size_of ibv_qp_attr = 136"
  by (simp_all add: layout_defs)

lemma ibv_qp_dest_layout [layout]:
  "size_of ibv_qp_dest = 32"
  by (simp_all add: layout_defs)

lemma ibv_query_qp_resp_layout [layout]:
  "size_of ibv_query_qp_resp = 128"
  by (simp_all add: layout_defs)

lemma ibv_create_flow_resp_layout [layout]:
  "size_of ibv_create_flow_resp = 8"
  by (simp_all add: layout_defs)

lemma ibv_destroy_flow_layout [layout]:
  "size_of ibv_destroy_flow = 32"
  by (simp_all add: layout_defs)

lemma ibv_srq_attr_layout [layout]:
  "size_of ibv_srq_attr = 12"
  by (simp_all add: layout_defs)

lemma ibv_srq_init_attr_layout [layout]:
  "size_of ibv_srq_init_attr = 24"
  by (simp_all add: layout_defs)

lemma rdma_event_channel_layout [layout]:
  "size_of rdma_event_channel = 4"
  "off rdma_event_channel [''fd''] = 0"
  by (simp_all add: layout_defs)

lemma ucma_abi_create_id_layout [layout]:
  "size_of ucma_abi_create_id = 32"
  "off ucma_abi_create_id [''cmd''] = 0"
  "off ucma_abi_create_id [''in''] = 4"
  "off ucma_abi_create_id [''out''] = 6"
  "off ucma_abi_create_id [''uid''] = 8"
  "off ucma_abi_create_id [''response''] = 16"
  "off ucma_abi_create_id [''ps''] = 24"
  "off ucma_abi_create_id [''qp_type''] = 26"
  "off ucma_abi_create_id [''reserved''] = 27"
  by (simp_all add: layout_defs)

lemma ucma_abi_create_id_resp_layout [layout]:
  "size_of ucma_abi_create_id_resp = 4"
  "off ucma_abi_create_id_resp [''id''] = 0"
  by (simp_all add: layout_defs)

lemma ucma_abi_bind_ip_layout [layout]:
  "size_of ucma_abi_bind_ip = 48"
  "off ucma_abi_bind_ip [''cmd''] = 0"
  "off ucma_abi_bind_ip [''in''] = 4"
  "off ucma_abi_bind_ip [''out''] = 6"
  "off ucma_abi_bind_ip [''response''] = 8"
  "off ucma_abi_bind_ip [''addr''] = 16"
  "off ucma_abi_bind_ip [''id''] = 44"
  by (simp_all add: layout_defs)

lemma ucma_abi_bind_layout [layout]:
  "size_of ucma_abi_bind = 144"
  "off ucma_abi_bind [''cmd''] = 0"
  "off ucma_abi_bind [''in''] = 4"
  "off ucma_abi_bind [''out''] = 6"
  "off ucma_abi_bind [''id''] = 8"
  "off ucma_abi_bind [''addr_size''] = 12"
  "off ucma_abi_bind [''reserved''] = 14"
  "off ucma_abi_bind [''addr''] = 16"
  by (simp_all add: layout_defs)

lemma ucma_abi_get_event_layout [layout]:
  "size_of ucma_abi_get_event = 16"
  "off ucma_abi_get_event [''cmd''] = 0"
  "off ucma_abi_get_event [''in''] = 4"
  "off ucma_abi_get_event [''out''] = 6"
  "off ucma_abi_get_event [''response''] = 8"
  by (simp_all add: layout_defs)

lemma ucma_abi_conn_param_layout [layout]:
  "size_of ucma_abi_conn_param = 272"
  "off ucma_abi_conn_param [''qp_num''] = 0"
  "off ucma_abi_conn_param [''reserved''] = 4"
  "off ucma_abi_conn_param [''private_data''] = 8"
  "off ucma_abi_conn_param [''private_data_len''] = 264"
  "off ucma_abi_conn_param [''srq''] = 265"
  "off ucma_abi_conn_param [''responder_resources''] = 266"
  "off ucma_abi_conn_param [''initiator_depth''] = 267"
  "off ucma_abi_conn_param [''flow_control''] = 268"
  "off ucma_abi_conn_param [''retry_count''] = 269"
  "off ucma_abi_conn_param [''rnr_retry_count''] = 270"
  "off ucma_abi_conn_param [''valid''] = 271"
  by (simp_all add: layout_defs)

lemma ibv_kern_global_route_layout [layout]:
  "size_of ibv_kern_global_route = 24"
  by (simp_all add: layout_defs)

lemma ibv_kern_ah_attr_layout [layout]:
  "size_of ibv_kern_ah_attr = 32"
  by (simp_all add: layout_defs)

lemma ucma_abi_ud_param_layout [layout]:
  "size_of ucma_abi_ud_param = 308"
  "off ucma_abi_ud_param [''qp_num''] = 0"
  "off ucma_abi_ud_param [''qkey''] = 4"
  "off ucma_abi_ud_param [''ah_attr''] = 8"
  "off ucma_abi_ud_param [''private_data''] = 40"
  "off ucma_abi_ud_param [''private_data_len''] = 296"
  "off ucma_abi_ud_param [''reserved''] = 297"
  "off ucma_abi_ud_param [''reserved2''] = 304"
  by (simp_all add: layout_defs)

lemma ucma_abi_event_resp_layout [layout]:
  "size_of ucma_abi_event_resp = 328"
  "off ucma_abi_event_resp [''uid''] = 0"
  "off ucma_abi_event_resp [''id''] = 8"
  "off ucma_abi_event_resp [''event''] = 12"
  "off ucma_abi_event_resp [''status''] = 16"
  "off ucma_abi_event_resp [''param''] = 20"
  by (simp_all add: layout_defs)

lemma ucma_abi_query_layout [layout]:
  "size_of ucma_abi_query = 24"
  "off ucma_abi_query [''cmd''] = 0"
  "off ucma_abi_query [''in''] = 4"
  "off ucma_abi_query [''out''] = 6"
  "off ucma_abi_query [''response''] = 8"
  "off ucma_abi_query [''id''] = 16"
  "off ucma_abi_query [''option''] = 20"
  by (simp_all add: layout_defs)

lemma ibv_kern_path_rec_layout [layout]:
  "size_of ibv_kern_path_rec = 64"
  by (simp_all add: layout_defs)

lemma ucma_abi_query_route_resp_layout [layout]:
  "size_of ucma_abi_query_route_resp = 200"
  "off ucma_abi_query_route_resp [''node_guid''] = 0"
  "off ucma_abi_query_route_resp [''ib_route''] = 8"
  "off ucma_abi_query_route_resp [''src_addr''] = 136"
  "off ucma_abi_query_route_resp [''dst_addr''] = 164"
  "off ucma_abi_query_route_resp [''num_paths''] = 192"
  "off ucma_abi_query_route_resp [''port_num''] = 196"
  "off ucma_abi_query_route_resp [''reserved''] = 197"
  by (simp_all add: layout_defs)

lemma ucma_abi_listen_layout [layout]:
  "size_of ucma_abi_listen = 16"
  "off ucma_abi_listen [''cmd''] = 0"
  "off ucma_abi_listen [''in''] = 4"
  "off ucma_abi_listen [''out''] = 6"
  "off ucma_abi_listen [''id''] = 8"
  "off ucma_abi_listen [''backlog''] = 12"
  by (simp_all add: layout_defs)

lemma ucma_abi_resolve_ip_layout [layout]:
  "size_of ucma_abi_resolve_ip = 72"
  "off ucma_abi_resolve_ip [''cmd''] = 0"
  "off ucma_abi_resolve_ip [''in''] = 4"
  "off ucma_abi_resolve_ip [''out''] = 6"
  "off ucma_abi_resolve_ip [''src_addr''] = 8"
  "off ucma_abi_resolve_ip [''dst_addr''] = 36"
  "off ucma_abi_resolve_ip [''id''] = 64"
  "off ucma_abi_resolve_ip [''timeout_ms''] = 68"
  by (simp_all add: layout_defs)

lemma ucma_abi_resolve_addr_layout [layout]:
  "size_of ucma_abi_resolve_addr = 280"
  "off ucma_abi_resolve_addr [''cmd''] = 0"
  "off ucma_abi_resolve_addr [''in''] = 4"
  "off ucma_abi_resolve_addr [''out''] = 6"
  "off ucma_abi_resolve_addr [''id''] = 8"
  "off ucma_abi_resolve_addr [''timeout_ms''] = 12"
  "off ucma_abi_resolve_addr [''src_size''] = 16"
  "off ucma_abi_resolve_addr [''dst_size''] = 18"
  "off ucma_abi_resolve_addr [''reserved''] = 20"
  "off ucma_abi_resolve_addr [''src_addr''] = 24"
  "off ucma_abi_resolve_addr [''dst_addr''] = 152"
  by (simp_all add: layout_defs)

lemma ucma_abi_query_addr_resp_layout [layout]:
  "size_of ucma_abi_query_addr_resp = 272"
  "off ucma_abi_query_addr_resp [''node_guid''] = 0"
  "off ucma_abi_query_addr_resp [''port_num''] = 8"
  "off ucma_abi_query_addr_resp [''reserved''] = 9"
  "off ucma_abi_query_addr_resp [''pkey''] = 10"
  "off ucma_abi_query_addr_resp [''src_size''] = 12"
  "off ucma_abi_query_addr_resp [''dst_size''] = 14"
  "off ucma_abi_query_addr_resp [''src_addr''] = 16"
  "off ucma_abi_query_addr_resp [''dst_addr''] = 144"
  by (simp_all add: layout_defs)

lemma ucma_abi_accept_layout [layout]:
  "size_of ucma_abi_accept = 296"
  "off ucma_abi_accept [''cmd''] = 0"
  "off ucma_abi_accept [''in''] = 4"
  "off ucma_abi_accept [''out''] = 6"
  "off ucma_abi_accept [''uid''] = 8"
  "off ucma_abi_accept [''conn_param''] = 16"
  "off ucma_abi_accept [''id''] = 288"
  "off ucma_abi_accept [''reserved''] = 292"
  by (simp_all add: layout_defs)

lemma ucma_abi_destroy_id_layout [layout]:
  "size_of ucma_abi_destroy_id = 24"
  "off ucma_abi_destroy_id [''cmd''] = 0"
  "off ucma_abi_destroy_id [''in''] = 4"
  "off ucma_abi_destroy_id [''out''] = 6"
  "off ucma_abi_destroy_id [''response''] = 8"
  "off ucma_abi_destroy_id [''id''] = 16"
  "off ucma_abi_destroy_id [''reserved''] = 20"
  by (simp_all add: layout_defs)

lemma ucma_abi_destroy_id_resp_layout [layout]:
  "size_of ucma_abi_destroy_id_resp = 4"
  "off ucma_abi_destroy_id_resp [''events_reported''] = 0"
  by (simp_all add: layout_defs)

lemma ucma_abi_resolve_route_layout [layout]:
  "size_of ucma_abi_resolve_route = 16"
  "off ucma_abi_resolve_route [''cmd''] = 0"
  "off ucma_abi_resolve_route [''in''] = 4"
  "off ucma_abi_resolve_route [''out''] = 6"
  "off ucma_abi_resolve_route [''id''] = 8"
  "off ucma_abi_resolve_route [''timeout_ms''] = 12"
  by (simp_all add: layout_defs)

lemma ibv_path_record_layout [layout]:
  "size_of ibv_path_record = 64"
  by (simp_all add: layout_defs)

lemma ibv_path_data_layout [layout]:
  "size_of ibv_path_data = 72"
  "off ibv_path_data [''flags''] = 0"
  "off ibv_path_data [''reserved''] = 4"
  "off ibv_path_data [''path''] = 8"
  by (simp_all add: layout_defs)

lemma ucma_abi_query_path_resp_layout [layout]:
  "size_of ucma_abi_query_path_resp = 8"
  "off ucma_abi_query_path_resp [''num_paths''] = 0"
  "off ucma_abi_query_path_resp [''reserved''] = 4"
  "off ucma_abi_query_path_resp [''path_data''] = 8"
  by (simp_all add: layout_defs)

lemma ucma_abi_init_qp_attr_layout [layout]:
  "size_of ucma_abi_init_qp_attr = 24"
  "off ucma_abi_init_qp_attr [''cmd''] = 0"
  "off ucma_abi_init_qp_attr [''in''] = 4"
  "off ucma_abi_init_qp_attr [''out''] = 6"
  "off ucma_abi_init_qp_attr [''response''] = 8"
  "off ucma_abi_init_qp_attr [''id''] = 16"
  "off ucma_abi_init_qp_attr [''qp_state''] = 20"
  by (simp_all add: layout_defs)

lemma ibv_kern_qp_attr_layout [layout]:
  "size_of ibv_kern_qp_attr = 144"
  by (simp_all add: layout_defs)

lemma ucma_abi_connect_layout [layout]:
  "size_of ucma_abi_connect = 288"
  "off ucma_abi_connect [''cmd''] = 0"
  "off ucma_abi_connect [''in''] = 4"
  "off ucma_abi_connect [''out''] = 6"
  "off ucma_abi_connect [''conn_param''] = 8"
  "off ucma_abi_connect [''id''] = 280"
  "off ucma_abi_connect [''reserved''] = 284"
  by (simp_all add: layout_defs)

lemma ucma_abi_set_option_layout [layout]:
  "size_of ucma_abi_set_option = 32"
  "off ucma_abi_set_option [''cmd''] = 0"
  "off ucma_abi_set_option [''in''] = 4"
  "off ucma_abi_set_option [''out''] = 6"
  "off ucma_abi_set_option [''optval''] = 8"
  "off ucma_abi_set_option [''id''] = 16"
  "off ucma_abi_set_option [''level''] = 20"
  "off ucma_abi_set_option [''optname''] = 24"
  "off ucma_abi_set_option [''optlen''] = 28"
  by (simp_all add: layout_defs)

lemma ucma_abi_migrate_id_layout [layout]:
  "size_of ucma_abi_migrate_id = 24"
  "off ucma_abi_migrate_id [''cmd''] = 0"
  "off ucma_abi_migrate_id [''in''] = 4"
  "off ucma_abi_migrate_id [''out''] = 6"
  "off ucma_abi_migrate_id [''response''] = 8"
  "off ucma_abi_migrate_id [''id''] = 16"
  "off ucma_abi_migrate_id [''fd''] = 20"
  by (simp_all add: layout_defs)

lemma ucma_abi_migrate_resp_layout [layout]:
  "size_of ucma_abi_migrate_resp = 4"
  "off ucma_abi_migrate_resp [''events_reported''] = 0"
  by (simp_all add: layout_defs)

lemma ucma_abi_disconnect_layout [layout]:
  "size_of ucma_abi_disconnect = 12"
  "off ucma_abi_disconnect [''cmd''] = 0"
  "off ucma_abi_disconnect [''in''] = 4"
  "off ucma_abi_disconnect [''out''] = 6"
  "off ucma_abi_disconnect [''id''] = 8"
  by (simp_all add: layout_defs)

lemma sockaddr_in_layout [layout]:
  "size_of sockaddr_in = 16"
  by (simp_all add: layout_defs)

end
