(* ===== verification/FF_Types.thy ===== *)
theory FF_Types
  imports FF_Verbs_ABI
begin

text \<open>
  The wire protocol of \<^verbatim>\<open>ffrouter/types.h\<close>: the function codes, the request and response structs of
  every call, and the shared-memory control piece. The client library has its own copy of the
  enumeration (\<^verbatim>\<open>freeflow-types.h\<close>), kept here as a second list so that the agreement of the two is a
  theorem and not an assumption.
\<close>

datatype (plugins only: code size) RDMA_FUNCTION_CALL =
    IBV_GET_DEVICE_LIST | IBV_GET_CONTEXT | IBV_QUERY_DEV | IBV_EXP_QUERY_DEV |
    IBV_QUERY_PORT | IBV_ALLOC_PD | IBV_DEALLOC_PD | IBV_CREATE_QP | IBV_MODIFY_QP |
    IBV_QUERY_QP | IBV_DESTROY_QP | IBV_CREATE_SRQ | IBV_MODIFY_SRQ | IBV_POST_SRQ_RECV |
    IBV_DESTROY_SRQ | IBV_CREATE_CQ | IBV_DESTROY_CQ | IBV_POLL_CQ | IBV_GET_CQ_EVENT |
    IBV_ACK_CQ_EVENT | IBV_REQ_NOTIFY_CQ | IBV_REG_MR | IBV_REG_MR_MAPPING | IBV_DEREG_MR |
    IBV_REG_CM | IBV_POST_SEND | IBV_POST_RECV | IBV_CREATE_COMP_CHANNEL |
    IBV_DESTROY_COMP_CHANNEL | IBV_CREATE_AH | IBV_DESTROY_AH | IBV_CREATE_FLOW |
    IBV_DESTROY_FLOW | IBV_MALLOC | IBV_FREE | IBV_RESIZE_CQ | CM_CREATE_EVENT_CHANNEL |
    CM_DESTROY_EVENT_CHANNEL | CM_CREATE_ID | CM_BIND_IP | CM_BIND | CM_GET_EVENT |
    CM_QUERY_ROUTE | CM_LISTEN | CM_RESOLVE_IP | CM_RESOLVE_ADDR | CM_UCMA_QUERY_ADDR |
    CM_UCMA_QUERY_GID | CM_UCMA_PROCESS_CONN_RESP | CM_DESTROY_ID | CM_RESOLVE_ROUTE |
    CM_UCMA_QUERY_PATH | CM_INIT_QP_ATTR | CM_CONNECT | CM_ACCEPT | CM_SET_OPTION |
    CM_MIGRATE_ID | CM_DISCONNECT | SOCKET_SOCKET | SOCKET_BIND | SOCKET_ACCEPT |
    SOCKET_ACCEPT4 | SOCKET_CONNECT

datatype CtrlChannelState = IDLE | REQ_DONE | RSP_DONE

definition router_calls :: "RDMA_FUNCTION_CALL list" where
  "router_calls = [
     IBV_GET_DEVICE_LIST, IBV_GET_CONTEXT, IBV_QUERY_DEV, IBV_EXP_QUERY_DEV, IBV_QUERY_PORT,
     IBV_ALLOC_PD, IBV_DEALLOC_PD, IBV_CREATE_QP, IBV_MODIFY_QP, IBV_QUERY_QP, IBV_DESTROY_QP,
     IBV_CREATE_SRQ, IBV_MODIFY_SRQ, IBV_POST_SRQ_RECV, IBV_DESTROY_SRQ, IBV_CREATE_CQ,
     IBV_DESTROY_CQ, IBV_POLL_CQ, IBV_GET_CQ_EVENT, IBV_ACK_CQ_EVENT, IBV_REQ_NOTIFY_CQ,
     IBV_REG_MR, IBV_REG_MR_MAPPING, IBV_DEREG_MR, IBV_REG_CM, IBV_POST_SEND, IBV_POST_RECV,
     IBV_CREATE_COMP_CHANNEL, IBV_DESTROY_COMP_CHANNEL, IBV_CREATE_AH, IBV_DESTROY_AH,
     IBV_CREATE_FLOW, IBV_DESTROY_FLOW, IBV_MALLOC, IBV_FREE, IBV_RESIZE_CQ,
     CM_CREATE_EVENT_CHANNEL, CM_DESTROY_EVENT_CHANNEL, CM_CREATE_ID, CM_BIND_IP, CM_BIND,
     CM_GET_EVENT, CM_QUERY_ROUTE, CM_LISTEN, CM_RESOLVE_IP, CM_RESOLVE_ADDR,
     CM_UCMA_QUERY_ADDR, CM_UCMA_QUERY_GID, CM_UCMA_PROCESS_CONN_RESP, CM_DESTROY_ID,
     CM_RESOLVE_ROUTE, CM_UCMA_QUERY_PATH, CM_INIT_QP_ATTR, CM_CONNECT, CM_ACCEPT,
     CM_SET_OPTION, CM_MIGRATE_ID, CM_DISCONNECT, SOCKET_SOCKET, SOCKET_BIND, SOCKET_ACCEPT,
     SOCKET_ACCEPT4, SOCKET_CONNECT]"

definition client_calls :: "RDMA_FUNCTION_CALL list" where
  "client_calls = [
     IBV_GET_DEVICE_LIST, IBV_GET_CONTEXT, IBV_QUERY_DEV, IBV_EXP_QUERY_DEV, IBV_QUERY_PORT,
     IBV_ALLOC_PD, IBV_DEALLOC_PD, IBV_CREATE_QP, IBV_MODIFY_QP, IBV_QUERY_QP, IBV_DESTROY_QP,
     IBV_CREATE_SRQ, IBV_MODIFY_SRQ, IBV_POST_SRQ_RECV, IBV_DESTROY_SRQ, IBV_CREATE_CQ,
     IBV_DESTROY_CQ, IBV_POLL_CQ, IBV_GET_CQ_EVENT, IBV_ACK_CQ_EVENT, IBV_REQ_NOTIFY_CQ,
     IBV_REG_MR, IBV_REG_MR_MAPPING, IBV_DEREG_MR, IBV_REG_CM, IBV_POST_SEND, IBV_POST_RECV,
     IBV_CREATE_COMP_CHANNEL, IBV_DESTROY_COMP_CHANNEL, IBV_CREATE_AH, IBV_DESTROY_AH,
     IBV_CREATE_FLOW, IBV_DESTROY_FLOW, IBV_MALLOC, IBV_FREE, IBV_RESIZE_CQ,
     CM_CREATE_EVENT_CHANNEL, CM_DESTROY_EVENT_CHANNEL, CM_CREATE_ID, CM_BIND_IP, CM_BIND,
     CM_GET_EVENT, CM_QUERY_ROUTE, CM_LISTEN, CM_RESOLVE_IP, CM_RESOLVE_ADDR,
     CM_UCMA_QUERY_ADDR, CM_UCMA_QUERY_GID, CM_UCMA_PROCESS_CONN_RESP, CM_DESTROY_ID,
     CM_RESOLVE_ROUTE, CM_UCMA_QUERY_PATH, CM_INIT_QP_ATTR, CM_CONNECT, CM_ACCEPT,
     CM_SET_OPTION, CM_MIGRATE_ID, CM_DISCONNECT]"

definition FfrRequestHeader :: cty where [layout_defs]:
  "FfrRequestHeader = Struct
    [(''client_id'', I32), (''func'', Enum), (''body_size'', U32)]"

definition FfrResponseHeader :: cty where [layout_defs]:
  "FfrResponseHeader = Struct
    [(''rsp_size'', I32)]"

definition IBV_GET_CONTEXT_RSP :: cty where [layout_defs]:
  "IBV_GET_CONTEXT_RSP = Struct
    [(''async_fd'', I32), (''num_comp_vectors'', I32)]"

definition IBV_QUERY_DEV_RSP :: cty where [layout_defs]:
  "IBV_QUERY_DEV_RSP = Struct
    [(''dev_attr'', ibv_device_attr)]"

definition IBV_EXP_QUERY_DEV_REQ :: cty where [layout_defs]:
  "IBV_EXP_QUERY_DEV_REQ = Struct
    [(''cmd'', ibv_exp_query_device)]"

definition IBV_EXP_QUERY_DEV_RSP :: cty where [layout_defs]:
  "IBV_EXP_QUERY_DEV_RSP = Struct
    [(''ret_errno'', I32), (''resp'', ibv_exp_query_device_resp)]"

definition IBV_QUERY_PORT_REQ :: cty where [layout_defs]:
  "IBV_QUERY_PORT_REQ = Struct
    [(''port_num'', U8)]"

definition IBV_QUERY_PORT_RSP :: cty where [layout_defs]:
  "IBV_QUERY_PORT_RSP = Struct
    [(''port_attr'', ibv_port_attr)]"

definition IBV_ALLOC_PD_RSP :: cty where [layout_defs]:
  "IBV_ALLOC_PD_RSP = Struct
    [(''pd_handle'', U32)]"

definition IBV_DEALLOC_PD_REQ :: cty where [layout_defs]:
  "IBV_DEALLOC_PD_REQ = Struct
    [(''pd_handle'', U32)]"

definition IBV_DEALLOC_PD_RSP :: cty where [layout_defs]:
  "IBV_DEALLOC_PD_RSP = Struct
    [(''ret'', I32)]"

definition IBV_CREATE_CQ_REQ :: cty where [layout_defs]:
  "IBV_CREATE_CQ_REQ = Struct
    [(''channel_fd'', I32), (''comp_vector'', I32), (''cqe'', I32)]"

definition IBV_CREATE_CQ_RSP :: cty where [layout_defs]:
  "IBV_CREATE_CQ_RSP = Struct
    [(''cqe'', U32), (''handle'', U32), (''shm_name'', Arr U8 100)]"

definition IBV_DESTROY_CQ_REQ :: cty where [layout_defs]:
  "IBV_DESTROY_CQ_REQ = Struct
    [(''cq_handle'', U32)]"

definition IBV_DESTROY_CQ_RSP :: cty where [layout_defs]:
  "IBV_DESTROY_CQ_RSP = Struct
    [(''ret'', I32)]"

definition IBV_REQ_NOTIFY_CQ_REQ :: cty where [layout_defs]:
  "IBV_REQ_NOTIFY_CQ_REQ = Struct
    [(''cq_handle'', U32), (''solicited_only'', I32)]"

definition IBV_REQ_NOTIFY_CQ_RSP :: cty where [layout_defs]:
  "IBV_REQ_NOTIFY_CQ_RSP = Struct
    [(''ret'', I32)]"

definition IBV_CREATE_QP_REQ :: cty where [layout_defs]:
  "IBV_CREATE_QP_REQ = Struct
    [(''pd_handle'', U32), (''qp_type'', Enum), (''sq_sig_all'', I32), (''send_cq_handle'', U32),
     (''recv_cq_handle'', U32), (''srq_handle'', U32), (''cap'', ibv_qp_cap)]"

definition IBV_CREATE_QP_RSP :: cty where [layout_defs]:
  "IBV_CREATE_QP_RSP = Struct
    [(''qp_num'', U32), (''handle'', U32), (''cap'', ibv_qp_cap), (''shm_name'', Arr U8 100)]"

definition IBV_DESTROY_QP_REQ :: cty where [layout_defs]:
  "IBV_DESTROY_QP_REQ = Struct
    [(''qp_handle'', U32)]"

definition IBV_DESTROY_QP_RSP :: cty where [layout_defs]:
  "IBV_DESTROY_QP_RSP = Struct
    [(''ret'', I32)]"

definition IBV_REG_MR_REQ :: cty where [layout_defs]:
  "IBV_REG_MR_REQ = Struct
    [(''pd_handle'', U32), (''mem_size'', U32), (''access_flags'', U32), (''shm_name'', Arr U8 100)]"

definition IBV_REG_MR_RSP :: cty where [layout_defs]:
  "IBV_REG_MR_RSP = Struct
    [(''handle'', U32), (''lkey'', U32), (''rkey'', U32), (''shm_name'', Arr U8 100)]"

definition IBV_REG_MR_MAPPING_REQ :: cty where [layout_defs]:
  "IBV_REG_MR_MAPPING_REQ = Struct
    [(''key'', U32), (''mr_ptr'', Ptr), (''shm_ptr'', Ptr)]"

definition IBV_REG_MR_MAPPING_RSP :: cty where [layout_defs]:
  "IBV_REG_MR_MAPPING_RSP = Struct
    [(''ret'', I32)]"

definition IBV_DEREG_MR_REQ :: cty where [layout_defs]:
  "IBV_DEREG_MR_REQ = Struct
    [(''handle'', U32)]"

definition IBV_DEREG_MR_RSP :: cty where [layout_defs]:
  "IBV_DEREG_MR_RSP = Struct
    [(''ret'', I32)]"

definition IBV_MODIFY_QP_REQ :: cty where [layout_defs]:
  "IBV_MODIFY_QP_REQ = Struct
    [(''handle'', U32), (''attr'', ibv_qp_attr), (''attr_mask'', U32)]"

definition IBV_MODIFY_QP_RSP :: cty where [layout_defs]:
  "IBV_MODIFY_QP_RSP = Struct
    [(''ret'', I32), (''handle'', U32)]"

definition IBV_QUERY_QP_REQ :: cty where [layout_defs]:
  "IBV_QUERY_QP_REQ = Struct
    [(''cmd_size'', I32), (''cmd'', Arr U8 100)]"

definition IBV_QUERY_QP_RSP :: cty where [layout_defs]:
  "IBV_QUERY_QP_RSP = Struct
    [(''ret_errno'', I32), (''resp'', ibv_query_qp_resp)]"

definition IBV_POST_SEND_REQ :: cty where [layout_defs]:
  "IBV_POST_SEND_REQ = Struct
    [(''wr_size'', U32), (''wr'', Ptr)]"

definition IBV_POST_SEND_RSP :: cty where [layout_defs]:
  "IBV_POST_SEND_RSP = Struct
    [(''ret_errno'', I32), (''bad_wr'', U32)]"

definition IBV_POST_RECV_REQ :: cty where [layout_defs]:
  "IBV_POST_RECV_REQ = Struct
    [(''wr_size'', U32), (''wr'', Ptr)]"

definition IBV_POST_RECV_RSP :: cty where [layout_defs]:
  "IBV_POST_RECV_RSP = Struct
    [(''ret_errno'', I32), (''bad_wr'', U32)]"

definition IBV_POLL_CQ_REQ :: cty where [layout_defs]:
  "IBV_POLL_CQ_REQ = Struct
    [(''cq_handle'', U32), (''ne'', I32)]"

definition IBV_POLL_CQ_RSP :: cty where [layout_defs]:
  "IBV_POLL_CQ_RSP = Struct
    [(''ret_errno'', I32), (''wc'', ibv_wc)]"

definition IBV_CREATE_COMP_CHANNEL_RSP :: cty where [layout_defs]:
  "IBV_CREATE_COMP_CHANNEL_RSP = Struct
    [(''fd'', I32)]"

definition IBV_DESTROY_COMP_CHANNEL_REQ :: cty where [layout_defs]:
  "IBV_DESTROY_COMP_CHANNEL_REQ = Struct
    [(''fd'', I32)]"

definition IBV_DESTROY_COMP_CHANNEL_RSP :: cty where [layout_defs]:
  "IBV_DESTROY_COMP_CHANNEL_RSP = Struct
    [(''ret'', I32)]"

definition IBV_GET_CQ_EVENT_REQ :: cty where [layout_defs]:
  "IBV_GET_CQ_EVENT_REQ = Struct
    [(''fd'', I32)]"

definition IBV_GET_CQ_EVENT_RSP :: cty where [layout_defs]:
  "IBV_GET_CQ_EVENT_RSP = Struct
    [(''cq_handle'', U32), (''comp_events_completed'', U32), (''async_events_completed'', U32)]"

definition IBV_ACK_CQ_EVENT_REQ :: cty where [layout_defs]:
  "IBV_ACK_CQ_EVENT_REQ = Struct
    [(''cq_handle'', U32), (''nevents'', U32)]"

definition IBV_ACK_CQ_EVENT_RSP :: cty where [layout_defs]:
  "IBV_ACK_CQ_EVENT_RSP = Struct
    [(''cq_handle'', U32), (''comp_events_completed'', U32), (''async_events_completed'', U32)]"

definition IBV_CREATE_AH_REQ :: cty where [layout_defs]:
  "IBV_CREATE_AH_REQ = Struct
    [(''pd_handle'', U32), (''ah_attr'', ibv_ah_attr)]"

definition IBV_CREATE_AH_RSP :: cty where [layout_defs]:
  "IBV_CREATE_AH_RSP = Struct
    [(''ah_handle'', U32), (''ret'', I32)]"

definition IBV_DESTROY_AH_REQ :: cty where [layout_defs]:
  "IBV_DESTROY_AH_REQ = Struct
    [(''ah_handle'', U32)]"

definition IBV_DESTROY_AH_RSP :: cty where [layout_defs]:
  "IBV_DESTROY_AH_RSP = Struct
    [(''ret'', I32)]"

definition IBV_CREATE_FLOW_REQ :: cty where [layout_defs]:
  "IBV_CREATE_FLOW_REQ = Struct
    [(''exp_flow'', I32), (''written_size'', I32), (''cmd'', Arr U8 1024)]"

definition IBV_CREATE_FLOW_RSP :: cty where [layout_defs]:
  "IBV_CREATE_FLOW_RSP = Struct
    [(''ret_errno'', I32), (''resp'', ibv_create_flow_resp)]"

definition IBV_DESTROY_FLOW_REQ :: cty where [layout_defs]:
  "IBV_DESTROY_FLOW_REQ = Struct
    [(''cmd'', ibv_destroy_flow)]"

definition IBV_DESTROY_FLOW_RSP :: cty where [layout_defs]:
  "IBV_DESTROY_FLOW_RSP = Struct
    [(''ret_errno'', I32)]"

definition IBV_MALLOC_REQ :: cty where [layout_defs]:
  "IBV_MALLOC_REQ = Struct
    [(''length'', U64)]"

definition IBV_MALLOC_RSP :: cty where [layout_defs]:
  "IBV_MALLOC_RSP = Struct
    [(''shm_name'', Arr U8 100)]"

definition IBV_FREE_REQ :: cty where [layout_defs]:
  "IBV_FREE_REQ = Struct
    [(''shm_name'', Arr U8 100)]"

definition IBV_FREE_RSP :: cty where [layout_defs]:
  "IBV_FREE_RSP = Struct
    [(''ret'', I32)]"

definition IBV_CREATE_SRQ_REQ :: cty where [layout_defs]:
  "IBV_CREATE_SRQ_REQ = Struct
    [(''pd_handle'', U32), (''attr'', ibv_srq_init_attr)]"

definition IBV_CREATE_SRQ_RSP :: cty where [layout_defs]:
  "IBV_CREATE_SRQ_RSP = Struct
    [(''srq_handle'', U32), (''shm_name'', Arr U8 100)]"

definition IBV_MODIFY_SRQ_REQ :: cty where [layout_defs]:
  "IBV_MODIFY_SRQ_REQ = Struct
    [(''srq_handle'', U32), (''attr'', ibv_srq_attr), (''srq_attr_mask'', I32)]"

definition IBV_MODIFY_SRQ_RSP :: cty where [layout_defs]:
  "IBV_MODIFY_SRQ_RSP = Struct
    [(''ret'', U32)]"

definition IBV_DESTROY_SRQ_REQ :: cty where [layout_defs]:
  "IBV_DESTROY_SRQ_REQ = Struct
    [(''srq_handle'', U32)]"

definition IBV_DESTROY_SRQ_RSP :: cty where [layout_defs]:
  "IBV_DESTROY_SRQ_RSP = Struct
    [(''ret'', I32)]"

definition IBV_POST_SRQ_RECV_REQ :: cty where [layout_defs]:
  "IBV_POST_SRQ_RECV_REQ = Struct
    [(''wr_size'', U32), (''wr'', Ptr)]"

definition IBV_POST_SRQ_RECV_RSP :: cty where [layout_defs]:
  "IBV_POST_SRQ_RECV_RSP = Struct
    [(''ret_errno'', I32), (''bad_wr'', U32)]"

definition CM_CREATE_EVENT_CHANNEL_RSP :: cty where [layout_defs]:
  "CM_CREATE_EVENT_CHANNEL_RSP = Struct
    [(''ret_errno'', I32), (''ec'', rdma_event_channel)]"

definition CM_DESTROY_EVENT_CHANNEL_REQ :: cty where [layout_defs]:
  "CM_DESTROY_EVENT_CHANNEL_REQ = Struct
    [(''ec'', rdma_event_channel)]"

definition CM_DESTROY_EVENT_CHANNEL_RSP :: cty where [layout_defs]:
  "CM_DESTROY_EVENT_CHANNEL_RSP = Struct
    [(''ret_errno'', I32)]"

definition CM_CREATE_ID_REQ :: cty where [layout_defs]:
  "CM_CREATE_ID_REQ = Struct
    [(''ec'', rdma_event_channel), (''cmd'', ucma_abi_create_id)]"

definition CM_CREATE_ID_RSP :: cty where [layout_defs]:
  "CM_CREATE_ID_RSP = Struct
    [(''ret_errno'', I32), (''resp'', ucma_abi_create_id_resp)]"

definition CM_BIND_IP_REQ :: cty where [layout_defs]:
  "CM_BIND_IP_REQ = Struct
    [(''ec'', rdma_event_channel), (''cmd'', ucma_abi_bind_ip)]"

definition CM_BIND_IP_RSP :: cty where [layout_defs]:
  "CM_BIND_IP_RSP = Struct
    [(''ret_errno'', I32)]"

definition CM_BIND_REQ :: cty where [layout_defs]:
  "CM_BIND_REQ = Struct
    [(''ec'', rdma_event_channel), (''cmd'', ucma_abi_bind)]"

definition CM_BIND_RSP :: cty where [layout_defs]:
  "CM_BIND_RSP = Struct
    [(''ret_errno'', I32)]"

definition CM_GET_EVENT_REQ :: cty where [layout_defs]:
  "CM_GET_EVENT_REQ = Struct
    [(''ec'', rdma_event_channel), (''cmd'', ucma_abi_get_event)]"

definition CM_GET_EVENT_RSP :: cty where [layout_defs]:
  "CM_GET_EVENT_RSP = Struct
    [(''ret_errno'', I32), (''resp'', ucma_abi_event_resp)]"

definition CM_QUERY_ROUTE_REQ :: cty where [layout_defs]:
  "CM_QUERY_ROUTE_REQ = Struct
    [(''ec'', rdma_event_channel), (''cmd'', ucma_abi_query)]"

definition CM_QUERY_ROUTE_RSP :: cty where [layout_defs]:
  "CM_QUERY_ROUTE_RSP = Struct
    [(''ret_errno'', I32), (''resp'', ucma_abi_query_route_resp)]"

definition CM_LISTEN_REQ :: cty where [layout_defs]:
  "CM_LISTEN_REQ = Struct
    [(''ec'', rdma_event_channel), (''cmd'', ucma_abi_listen)]"

definition CM_LISTEN_RSP :: cty where [layout_defs]:
  "CM_LISTEN_RSP = Struct
    [(''ret_errno'', I32)]"

definition CM_RESOLVE_IP_REQ :: cty where [layout_defs]:
  "CM_RESOLVE_IP_REQ = Struct
    [(''ec'', rdma_event_channel), (''cmd'', ucma_abi_resolve_ip)]"

definition CM_RESOLVE_IP_RSP :: cty where [layout_defs]:
  "CM_RESOLVE_IP_RSP = Struct
    [(''ret_errno'', I32)]"

definition CM_RESOLVE_ADDR_REQ :: cty where [layout_defs]:
  "CM_RESOLVE_ADDR_REQ = Struct
    [(''ec'', rdma_event_channel), (''cmd'', ucma_abi_resolve_addr)]"

definition CM_RESOLVE_ADDR_RSP :: cty where [layout_defs]:
  "CM_RESOLVE_ADDR_RSP = Struct
    [(''ret_errno'', I32)]"

definition CM_UCMA_QUERY_ADDR_REQ :: cty where [layout_defs]:
  "CM_UCMA_QUERY_ADDR_REQ = Struct
    [(''ec'', rdma_event_channel), (''cmd'', ucma_abi_query)]"

definition CM_UCMA_QUERY_ADDR_RSP :: cty where [layout_defs]:
  "CM_UCMA_QUERY_ADDR_RSP = Struct
    [(''ret_errno'', I32), (''resp'', ucma_abi_query_addr_resp)]"

definition CM_UCMA_QUERY_GID_REQ :: cty where [layout_defs]:
  "CM_UCMA_QUERY_GID_REQ = Struct
    [(''ec'', rdma_event_channel), (''cmd'', ucma_abi_query)]"

definition CM_UCMA_QUERY_GID_RSP :: cty where [layout_defs]:
  "CM_UCMA_QUERY_GID_RSP = Struct
    [(''ret_errno'', I32), (''resp'', ucma_abi_query_addr_resp)]"

definition CM_UCMA_PROCESS_CONN_RESP_REQ :: cty where [layout_defs]:
  "CM_UCMA_PROCESS_CONN_RESP_REQ = Struct
    [(''ec'', rdma_event_channel), (''cmd'', ucma_abi_accept)]"

definition CM_UCMA_PROCESS_CONN_RESP_RSP :: cty where [layout_defs]:
  "CM_UCMA_PROCESS_CONN_RESP_RSP = Struct
    [(''ret_errno'', I32)]"

definition CM_DESTROY_ID_REQ :: cty where [layout_defs]:
  "CM_DESTROY_ID_REQ = Struct
    [(''ec'', rdma_event_channel), (''cmd'', ucma_abi_destroy_id)]"

definition CM_DESTROY_ID_RSP :: cty where [layout_defs]:
  "CM_DESTROY_ID_RSP = Struct
    [(''ret_errno'', I32), (''resp'', ucma_abi_destroy_id_resp)]"

definition CM_RESOLVE_ROUTE_REQ :: cty where [layout_defs]:
  "CM_RESOLVE_ROUTE_REQ = Struct
    [(''ec'', rdma_event_channel), (''cmd'', ucma_abi_resolve_route)]"

definition CM_RESOLVE_ROUTE_RSP :: cty where [layout_defs]:
  "CM_RESOLVE_ROUTE_RSP = Struct
    [(''ret_errno'', I32)]"

definition CM_UCMA_QUERY_PATH_REQ :: cty where [layout_defs]:
  "CM_UCMA_QUERY_PATH_REQ = Struct
    [(''ec'', rdma_event_channel), (''cmd'', ucma_abi_query)]"

definition CM_UCMA_QUERY_PATH_RSP :: cty where [layout_defs]:
  "CM_UCMA_QUERY_PATH_RSP = Struct
    [(''ret_errno'', I32), (''resp'', ucma_abi_query_path_resp),
     (''path_data'', Arr ibv_path_data 6)]"

definition CM_INIT_QP_ATTR_REQ :: cty where [layout_defs]:
  "CM_INIT_QP_ATTR_REQ = Struct
    [(''ec'', rdma_event_channel), (''cmd'', ucma_abi_init_qp_attr)]"

definition CM_INIT_QP_ATTR_RSP :: cty where [layout_defs]:
  "CM_INIT_QP_ATTR_RSP = Struct
    [(''ret_errno'', I32), (''resp'', ibv_kern_qp_attr)]"

definition CM_CONNECT_REQ :: cty where [layout_defs]:
  "CM_CONNECT_REQ = Struct
    [(''ec'', rdma_event_channel), (''cmd'', ucma_abi_connect)]"

definition CM_CONNECT_RSP :: cty where [layout_defs]:
  "CM_CONNECT_RSP = Struct
    [(''ret_errno'', I32)]"

definition CM_ACCEPT_REQ :: cty where [layout_defs]:
  "CM_ACCEPT_REQ = Struct
    [(''ec'', rdma_event_channel), (''cmd'', ucma_abi_accept)]"

definition CM_ACCEPT_RSP :: cty where [layout_defs]:
  "CM_ACCEPT_RSP = Struct
    [(''ret_errno'', I32)]"

definition CM_SET_OPTION_REQ :: cty where [layout_defs]:
  "CM_SET_OPTION_REQ = Struct
    [(''ec'', rdma_event_channel), (''cmd'', ucma_abi_set_option), (''optval'', Arr U8 100)]"

definition CM_SET_OPTION_RSP :: cty where [layout_defs]:
  "CM_SET_OPTION_RSP = Struct
    [(''ret_errno'', I32)]"

definition CM_MIGRATE_ID_REQ :: cty where [layout_defs]:
  "CM_MIGRATE_ID_REQ = Struct
    [(''ec'', rdma_event_channel), (''cmd'', ucma_abi_migrate_id)]"

definition CM_MIGRATE_ID_RSP :: cty where [layout_defs]:
  "CM_MIGRATE_ID_RSP = Struct
    [(''ret_errno'', I32), (''resp'', ucma_abi_migrate_resp)]"

definition CM_DISCONNECT_REQ :: cty where [layout_defs]:
  "CM_DISCONNECT_REQ = Struct
    [(''ec'', rdma_event_channel), (''cmd'', ucma_abi_disconnect)]"

definition CM_DISCONNECT_RSP :: cty where [layout_defs]:
  "CM_DISCONNECT_RSP = Struct
    [(''ret_errno'', I32)]"

definition CtrlShmPiece :: cty where [layout_defs]:
  "CtrlShmPiece = Struct
    [(''state'', Enum), (''req'', Arr U8 1048576), (''rsp'', Arr U8 1048576)]"

definition SOCKET_SOCKET_REQ :: cty where [layout_defs]:
  "SOCKET_SOCKET_REQ = Struct
    [(''domain'', I32), (''type'', I32), (''protocol'', I32)]"

definition SOCKET_SOCKET_RSP :: cty where [layout_defs]:
  "SOCKET_SOCKET_RSP = Struct
    [(''ret'', I32)]"

definition SOCKET_BIND_RSP :: cty where [layout_defs]:
  "SOCKET_BIND_RSP = Struct
    [(''ret'', I32)]"

definition SOCKET_ACCEPT_RSP :: cty where [layout_defs]:
  "SOCKET_ACCEPT_RSP = Struct
    [(''ret'', I32)]"

definition SOCKET_ACCEPT4_REQ :: cty where [layout_defs]:
  "SOCKET_ACCEPT4_REQ = Struct
    [(''flags'', I32)]"

definition SOCKET_ACCEPT4_RSP :: cty where [layout_defs]:
  "SOCKET_ACCEPT4_RSP = Struct
    [(''ret'', I32)]"

definition SOCKET_CONNECT_REQ :: cty where [layout_defs]:
  "SOCKET_CONNECT_REQ = Struct
    [(''host_addr'', sockaddr_in), (''host_addrlen'', U32)]"

definition SOCKET_CONNECT_RSP :: cty where [layout_defs]:
  "SOCKET_CONNECT_RSP = Struct
    [(''ret'', I32)]"

lemma FfrRequestHeader_layout [layout]:
  "size_of FfrRequestHeader = 12"
  "off FfrRequestHeader [''client_id''] = 0"
  "off FfrRequestHeader [''func''] = 4"
  "off FfrRequestHeader [''body_size''] = 8"
  by (simp_all add: layout_defs)

lemma FfrResponseHeader_layout [layout]:
  "size_of FfrResponseHeader = 4"
  "off FfrResponseHeader [''rsp_size''] = 0"
  by (simp_all add: layout_defs)

lemma IBV_GET_CONTEXT_RSP_layout [layout]:
  "size_of IBV_GET_CONTEXT_RSP = 8"
  "off IBV_GET_CONTEXT_RSP [''async_fd''] = 0"
  "off IBV_GET_CONTEXT_RSP [''num_comp_vectors''] = 4"
  by (simp_all add: layout_defs)

lemma IBV_QUERY_DEV_RSP_layout [layout]:
  "size_of IBV_QUERY_DEV_RSP = 232"
  "off IBV_QUERY_DEV_RSP [''dev_attr''] = 0"
  by (simp_all add: layout_defs)

lemma IBV_EXP_QUERY_DEV_REQ_layout [layout]:
  "size_of IBV_EXP_QUERY_DEV_REQ = 32"
  "off IBV_EXP_QUERY_DEV_REQ [''cmd''] = 0"
  by (simp_all add: layout_defs)

lemma IBV_EXP_QUERY_DEV_RSP_layout [layout]:
  "size_of IBV_EXP_QUERY_DEV_RSP = 424"
  "off IBV_EXP_QUERY_DEV_RSP [''ret_errno''] = 0"
  "off IBV_EXP_QUERY_DEV_RSP [''resp''] = 8"
  by (simp_all add: layout_defs)

lemma IBV_QUERY_PORT_REQ_layout [layout]:
  "size_of IBV_QUERY_PORT_REQ = 1"
  "off IBV_QUERY_PORT_REQ [''port_num''] = 0"
  by (simp_all add: layout_defs)

lemma IBV_QUERY_PORT_RSP_layout [layout]:
  "size_of IBV_QUERY_PORT_RSP = 48"
  "off IBV_QUERY_PORT_RSP [''port_attr''] = 0"
  by (simp_all add: layout_defs)

lemma IBV_ALLOC_PD_RSP_layout [layout]:
  "size_of IBV_ALLOC_PD_RSP = 4"
  "off IBV_ALLOC_PD_RSP [''pd_handle''] = 0"
  by (simp_all add: layout_defs)

lemma IBV_DEALLOC_PD_REQ_layout [layout]:
  "size_of IBV_DEALLOC_PD_REQ = 4"
  "off IBV_DEALLOC_PD_REQ [''pd_handle''] = 0"
  by (simp_all add: layout_defs)

lemma IBV_DEALLOC_PD_RSP_layout [layout]:
  "size_of IBV_DEALLOC_PD_RSP = 4"
  "off IBV_DEALLOC_PD_RSP [''ret''] = 0"
  by (simp_all add: layout_defs)

lemma IBV_CREATE_CQ_REQ_layout [layout]:
  "size_of IBV_CREATE_CQ_REQ = 12"
  "off IBV_CREATE_CQ_REQ [''channel_fd''] = 0"
  "off IBV_CREATE_CQ_REQ [''comp_vector''] = 4"
  "off IBV_CREATE_CQ_REQ [''cqe''] = 8"
  by (simp_all add: layout_defs)

lemma IBV_CREATE_CQ_RSP_layout [layout]:
  "size_of IBV_CREATE_CQ_RSP = 108"
  "off IBV_CREATE_CQ_RSP [''cqe''] = 0"
  "off IBV_CREATE_CQ_RSP [''handle''] = 4"
  "off IBV_CREATE_CQ_RSP [''shm_name''] = 8"
  by (simp_all add: layout_defs)

lemma IBV_DESTROY_CQ_REQ_layout [layout]:
  "size_of IBV_DESTROY_CQ_REQ = 4"
  "off IBV_DESTROY_CQ_REQ [''cq_handle''] = 0"
  by (simp_all add: layout_defs)

lemma IBV_DESTROY_CQ_RSP_layout [layout]:
  "size_of IBV_DESTROY_CQ_RSP = 4"
  "off IBV_DESTROY_CQ_RSP [''ret''] = 0"
  by (simp_all add: layout_defs)

lemma IBV_REQ_NOTIFY_CQ_REQ_layout [layout]:
  "size_of IBV_REQ_NOTIFY_CQ_REQ = 8"
  "off IBV_REQ_NOTIFY_CQ_REQ [''cq_handle''] = 0"
  "off IBV_REQ_NOTIFY_CQ_REQ [''solicited_only''] = 4"
  by (simp_all add: layout_defs)

lemma IBV_REQ_NOTIFY_CQ_RSP_layout [layout]:
  "size_of IBV_REQ_NOTIFY_CQ_RSP = 4"
  "off IBV_REQ_NOTIFY_CQ_RSP [''ret''] = 0"
  by (simp_all add: layout_defs)

lemma IBV_CREATE_QP_REQ_layout [layout]:
  "size_of IBV_CREATE_QP_REQ = 44"
  "off IBV_CREATE_QP_REQ [''pd_handle''] = 0"
  "off IBV_CREATE_QP_REQ [''qp_type''] = 4"
  "off IBV_CREATE_QP_REQ [''sq_sig_all''] = 8"
  "off IBV_CREATE_QP_REQ [''send_cq_handle''] = 12"
  "off IBV_CREATE_QP_REQ [''recv_cq_handle''] = 16"
  "off IBV_CREATE_QP_REQ [''srq_handle''] = 20"
  "off IBV_CREATE_QP_REQ [''cap''] = 24"
  "off IBV_CREATE_QP_REQ [] = 0"
  by (simp_all add: layout_defs)

lemma IBV_CREATE_QP_RSP_layout [layout]:
  "size_of IBV_CREATE_QP_RSP = 128"
  "off IBV_CREATE_QP_RSP [''qp_num''] = 0"
  "off IBV_CREATE_QP_RSP [''handle''] = 4"
  "off IBV_CREATE_QP_RSP [''cap''] = 8"
  "off IBV_CREATE_QP_RSP [''shm_name''] = 28"
  by (simp_all add: layout_defs)

lemma IBV_DESTROY_QP_REQ_layout [layout]:
  "size_of IBV_DESTROY_QP_REQ = 4"
  "off IBV_DESTROY_QP_REQ [''qp_handle''] = 0"
  by (simp_all add: layout_defs)

lemma IBV_DESTROY_QP_RSP_layout [layout]:
  "size_of IBV_DESTROY_QP_RSP = 4"
  "off IBV_DESTROY_QP_RSP [''ret''] = 0"
  by (simp_all add: layout_defs)

lemma IBV_REG_MR_REQ_layout [layout]:
  "size_of IBV_REG_MR_REQ = 112"
  "off IBV_REG_MR_REQ [''pd_handle''] = 0"
  "off IBV_REG_MR_REQ [''mem_size''] = 4"
  "off IBV_REG_MR_REQ [''access_flags''] = 8"
  "off IBV_REG_MR_REQ [''shm_name''] = 12"
  by (simp_all add: layout_defs)

lemma IBV_REG_MR_RSP_layout [layout]:
  "size_of IBV_REG_MR_RSP = 112"
  "off IBV_REG_MR_RSP [''handle''] = 0"
  "off IBV_REG_MR_RSP [''lkey''] = 4"
  "off IBV_REG_MR_RSP [''rkey''] = 8"
  "off IBV_REG_MR_RSP [''shm_name''] = 12"
  by (simp_all add: layout_defs)

lemma IBV_REG_MR_MAPPING_REQ_layout [layout]:
  "size_of IBV_REG_MR_MAPPING_REQ = 24"
  "off IBV_REG_MR_MAPPING_REQ [''key''] = 0"
  "off IBV_REG_MR_MAPPING_REQ [''mr_ptr''] = 8"
  "off IBV_REG_MR_MAPPING_REQ [''shm_ptr''] = 16"
  by (simp_all add: layout_defs)

lemma IBV_REG_MR_MAPPING_RSP_layout [layout]:
  "size_of IBV_REG_MR_MAPPING_RSP = 4"
  "off IBV_REG_MR_MAPPING_RSP [''ret''] = 0"
  by (simp_all add: layout_defs)

lemma IBV_DEREG_MR_REQ_layout [layout]:
  "size_of IBV_DEREG_MR_REQ = 4"
  "off IBV_DEREG_MR_REQ [''handle''] = 0"
  by (simp_all add: layout_defs)

lemma IBV_DEREG_MR_RSP_layout [layout]:
  "size_of IBV_DEREG_MR_RSP = 4"
  "off IBV_DEREG_MR_RSP [''ret''] = 0"
  by (simp_all add: layout_defs)

lemma IBV_MODIFY_QP_REQ_layout [layout]:
  "size_of IBV_MODIFY_QP_REQ = 152"
  "off IBV_MODIFY_QP_REQ [''handle''] = 0"
  "off IBV_MODIFY_QP_REQ [''attr''] = 8"
  "off IBV_MODIFY_QP_REQ [''attr_mask''] = 144"
  by (simp_all add: layout_defs)

lemma IBV_MODIFY_QP_RSP_layout [layout]:
  "size_of IBV_MODIFY_QP_RSP = 8"
  "off IBV_MODIFY_QP_RSP [''ret''] = 0"
  "off IBV_MODIFY_QP_RSP [''handle''] = 4"
  by (simp_all add: layout_defs)

lemma IBV_QUERY_QP_REQ_layout [layout]:
  "size_of IBV_QUERY_QP_REQ = 104"
  "off IBV_QUERY_QP_REQ [''cmd_size''] = 0"
  "off IBV_QUERY_QP_REQ [''cmd''] = 4"
  by (simp_all add: layout_defs)

lemma IBV_QUERY_QP_RSP_layout [layout]:
  "size_of IBV_QUERY_QP_RSP = 136"
  "off IBV_QUERY_QP_RSP [''ret_errno''] = 0"
  "off IBV_QUERY_QP_RSP [''resp''] = 8"
  by (simp_all add: layout_defs)

lemma IBV_POST_SEND_REQ_layout [layout]:
  "size_of IBV_POST_SEND_REQ = 16"
  "off IBV_POST_SEND_REQ [''wr_size''] = 0"
  "off IBV_POST_SEND_REQ [''wr''] = 8"
  by (simp_all add: layout_defs)

lemma IBV_POST_SEND_RSP_layout [layout]:
  "size_of IBV_POST_SEND_RSP = 8"
  "off IBV_POST_SEND_RSP [''ret_errno''] = 0"
  "off IBV_POST_SEND_RSP [''bad_wr''] = 4"
  by (simp_all add: layout_defs)

lemma IBV_POST_RECV_REQ_layout [layout]:
  "size_of IBV_POST_RECV_REQ = 16"
  "off IBV_POST_RECV_REQ [''wr_size''] = 0"
  "off IBV_POST_RECV_REQ [''wr''] = 8"
  by (simp_all add: layout_defs)

lemma IBV_POST_RECV_RSP_layout [layout]:
  "size_of IBV_POST_RECV_RSP = 8"
  "off IBV_POST_RECV_RSP [''ret_errno''] = 0"
  "off IBV_POST_RECV_RSP [''bad_wr''] = 4"
  by (simp_all add: layout_defs)

lemma IBV_POLL_CQ_REQ_layout [layout]:
  "size_of IBV_POLL_CQ_REQ = 8"
  "off IBV_POLL_CQ_REQ [''cq_handle''] = 0"
  "off IBV_POLL_CQ_REQ [''ne''] = 4"
  by (simp_all add: layout_defs)

lemma IBV_POLL_CQ_RSP_layout [layout]:
  "size_of IBV_POLL_CQ_RSP = 56"
  "off IBV_POLL_CQ_RSP [''ret_errno''] = 0"
  "off IBV_POLL_CQ_RSP [''wc''] = 8"
  by (simp_all add: layout_defs)

lemma IBV_CREATE_COMP_CHANNEL_RSP_layout [layout]:
  "size_of IBV_CREATE_COMP_CHANNEL_RSP = 4"
  "off IBV_CREATE_COMP_CHANNEL_RSP [''fd''] = 0"
  by (simp_all add: layout_defs)

lemma IBV_DESTROY_COMP_CHANNEL_REQ_layout [layout]:
  "size_of IBV_DESTROY_COMP_CHANNEL_REQ = 4"
  "off IBV_DESTROY_COMP_CHANNEL_REQ [''fd''] = 0"
  by (simp_all add: layout_defs)

lemma IBV_DESTROY_COMP_CHANNEL_RSP_layout [layout]:
  "size_of IBV_DESTROY_COMP_CHANNEL_RSP = 4"
  "off IBV_DESTROY_COMP_CHANNEL_RSP [''ret''] = 0"
  by (simp_all add: layout_defs)

lemma IBV_GET_CQ_EVENT_REQ_layout [layout]:
  "size_of IBV_GET_CQ_EVENT_REQ = 4"
  "off IBV_GET_CQ_EVENT_REQ [''fd''] = 0"
  by (simp_all add: layout_defs)

lemma IBV_GET_CQ_EVENT_RSP_layout [layout]:
  "size_of IBV_GET_CQ_EVENT_RSP = 12"
  "off IBV_GET_CQ_EVENT_RSP [''cq_handle''] = 0"
  "off IBV_GET_CQ_EVENT_RSP [''comp_events_completed''] = 4"
  "off IBV_GET_CQ_EVENT_RSP [''async_events_completed''] = 8"
  by (simp_all add: layout_defs)

lemma IBV_ACK_CQ_EVENT_REQ_layout [layout]:
  "size_of IBV_ACK_CQ_EVENT_REQ = 8"
  "off IBV_ACK_CQ_EVENT_REQ [''cq_handle''] = 0"
  "off IBV_ACK_CQ_EVENT_REQ [''nevents''] = 4"
  by (simp_all add: layout_defs)

lemma IBV_ACK_CQ_EVENT_RSP_layout [layout]:
  "size_of IBV_ACK_CQ_EVENT_RSP = 12"
  "off IBV_ACK_CQ_EVENT_RSP [''cq_handle''] = 0"
  "off IBV_ACK_CQ_EVENT_RSP [''comp_events_completed''] = 4"
  "off IBV_ACK_CQ_EVENT_RSP [''async_events_completed''] = 8"
  by (simp_all add: layout_defs)

lemma IBV_CREATE_AH_REQ_layout [layout]:
  "size_of IBV_CREATE_AH_REQ = 40"
  "off IBV_CREATE_AH_REQ [''pd_handle''] = 0"
  "off IBV_CREATE_AH_REQ [''ah_attr''] = 8"
  by (simp_all add: layout_defs)

lemma IBV_CREATE_AH_RSP_layout [layout]:
  "size_of IBV_CREATE_AH_RSP = 8"
  "off IBV_CREATE_AH_RSP [''ah_handle''] = 0"
  "off IBV_CREATE_AH_RSP [''ret''] = 4"
  by (simp_all add: layout_defs)

lemma IBV_DESTROY_AH_REQ_layout [layout]:
  "size_of IBV_DESTROY_AH_REQ = 4"
  "off IBV_DESTROY_AH_REQ [''ah_handle''] = 0"
  by (simp_all add: layout_defs)

lemma IBV_DESTROY_AH_RSP_layout [layout]:
  "size_of IBV_DESTROY_AH_RSP = 4"
  "off IBV_DESTROY_AH_RSP [''ret''] = 0"
  by (simp_all add: layout_defs)

lemma IBV_CREATE_FLOW_REQ_layout [layout]:
  "size_of IBV_CREATE_FLOW_REQ = 1032"
  "off IBV_CREATE_FLOW_REQ [''exp_flow''] = 0"
  "off IBV_CREATE_FLOW_REQ [''written_size''] = 4"
  "off IBV_CREATE_FLOW_REQ [''cmd''] = 8"
  by (simp_all add: layout_defs)

lemma IBV_CREATE_FLOW_RSP_layout [layout]:
  "size_of IBV_CREATE_FLOW_RSP = 12"
  "off IBV_CREATE_FLOW_RSP [''ret_errno''] = 0"
  "off IBV_CREATE_FLOW_RSP [''resp''] = 4"
  by (simp_all add: layout_defs)

lemma IBV_DESTROY_FLOW_REQ_layout [layout]:
  "size_of IBV_DESTROY_FLOW_REQ = 32"
  "off IBV_DESTROY_FLOW_REQ [''cmd''] = 0"
  by (simp_all add: layout_defs)

lemma IBV_DESTROY_FLOW_RSP_layout [layout]:
  "size_of IBV_DESTROY_FLOW_RSP = 4"
  "off IBV_DESTROY_FLOW_RSP [''ret_errno''] = 0"
  by (simp_all add: layout_defs)

lemma IBV_MALLOC_REQ_layout [layout]:
  "size_of IBV_MALLOC_REQ = 8"
  "off IBV_MALLOC_REQ [''length''] = 0"
  by (simp_all add: layout_defs)

lemma IBV_MALLOC_RSP_layout [layout]:
  "size_of IBV_MALLOC_RSP = 100"
  "off IBV_MALLOC_RSP [''shm_name''] = 0"
  by (simp_all add: layout_defs)

lemma IBV_FREE_REQ_layout [layout]:
  "size_of IBV_FREE_REQ = 100"
  "off IBV_FREE_REQ [''shm_name''] = 0"
  by (simp_all add: layout_defs)

lemma IBV_FREE_RSP_layout [layout]:
  "size_of IBV_FREE_RSP = 4"
  "off IBV_FREE_RSP [''ret''] = 0"
  by (simp_all add: layout_defs)

lemma IBV_CREATE_SRQ_REQ_layout [layout]:
  "size_of IBV_CREATE_SRQ_REQ = 32"
  "off IBV_CREATE_SRQ_REQ [''pd_handle''] = 0"
  "off IBV_CREATE_SRQ_REQ [''attr''] = 8"
  by (simp_all add: layout_defs)

lemma IBV_CREATE_SRQ_RSP_layout [layout]:
  "size_of IBV_CREATE_SRQ_RSP = 104"
  "off IBV_CREATE_SRQ_RSP [''srq_handle''] = 0"
  "off IBV_CREATE_SRQ_RSP [''shm_name''] = 4"
  by (simp_all add: layout_defs)

lemma IBV_MODIFY_SRQ_REQ_layout [layout]:
  "size_of IBV_MODIFY_SRQ_REQ = 20"
  "off IBV_MODIFY_SRQ_REQ [''srq_handle''] = 0"
  "off IBV_MODIFY_SRQ_REQ [''attr''] = 4"
  "off IBV_MODIFY_SRQ_REQ [''srq_attr_mask''] = 16"
  by (simp_all add: layout_defs)

lemma IBV_MODIFY_SRQ_RSP_layout [layout]:
  "size_of IBV_MODIFY_SRQ_RSP = 4"
  "off IBV_MODIFY_SRQ_RSP [''ret''] = 0"
  by (simp_all add: layout_defs)

lemma IBV_DESTROY_SRQ_REQ_layout [layout]:
  "size_of IBV_DESTROY_SRQ_REQ = 4"
  "off IBV_DESTROY_SRQ_REQ [''srq_handle''] = 0"
  by (simp_all add: layout_defs)

lemma IBV_DESTROY_SRQ_RSP_layout [layout]:
  "size_of IBV_DESTROY_SRQ_RSP = 4"
  "off IBV_DESTROY_SRQ_RSP [''ret''] = 0"
  by (simp_all add: layout_defs)

lemma IBV_POST_SRQ_RECV_REQ_layout [layout]:
  "size_of IBV_POST_SRQ_RECV_REQ = 16"
  "off IBV_POST_SRQ_RECV_REQ [''wr_size''] = 0"
  "off IBV_POST_SRQ_RECV_REQ [''wr''] = 8"
  by (simp_all add: layout_defs)

lemma IBV_POST_SRQ_RECV_RSP_layout [layout]:
  "size_of IBV_POST_SRQ_RECV_RSP = 8"
  "off IBV_POST_SRQ_RECV_RSP [''ret_errno''] = 0"
  "off IBV_POST_SRQ_RECV_RSP [''bad_wr''] = 4"
  by (simp_all add: layout_defs)

lemma CM_CREATE_EVENT_CHANNEL_RSP_layout [layout]:
  "size_of CM_CREATE_EVENT_CHANNEL_RSP = 8"
  "off CM_CREATE_EVENT_CHANNEL_RSP [''ret_errno''] = 0"
  "off CM_CREATE_EVENT_CHANNEL_RSP [''ec''] = 4"
  "off CM_CREATE_EVENT_CHANNEL_RSP [''ec'', ''fd''] = 4"
  by (simp_all add: layout_defs)

lemma CM_DESTROY_EVENT_CHANNEL_REQ_layout [layout]:
  "size_of CM_DESTROY_EVENT_CHANNEL_REQ = 4"
  "off CM_DESTROY_EVENT_CHANNEL_REQ [''ec''] = 0"
  "off CM_DESTROY_EVENT_CHANNEL_REQ [''ec'', ''fd''] = 0"
  by (simp_all add: layout_defs)

lemma CM_DESTROY_EVENT_CHANNEL_RSP_layout [layout]:
  "size_of CM_DESTROY_EVENT_CHANNEL_RSP = 4"
  "off CM_DESTROY_EVENT_CHANNEL_RSP [''ret_errno''] = 0"
  by (simp_all add: layout_defs)

lemma CM_CREATE_ID_REQ_layout [layout]:
  "size_of CM_CREATE_ID_REQ = 40"
  "off CM_CREATE_ID_REQ [''ec''] = 0"
  "off CM_CREATE_ID_REQ [''cmd''] = 8"
  by (simp_all add: layout_defs)

lemma CM_CREATE_ID_RSP_layout [layout]:
  "size_of CM_CREATE_ID_RSP = 8"
  "off CM_CREATE_ID_RSP [''ret_errno''] = 0"
  "off CM_CREATE_ID_RSP [''resp''] = 4"
  by (simp_all add: layout_defs)

lemma CM_BIND_IP_REQ_layout [layout]:
  "size_of CM_BIND_IP_REQ = 56"
  "off CM_BIND_IP_REQ [''ec''] = 0"
  "off CM_BIND_IP_REQ [''cmd''] = 8"
  "off CM_BIND_IP_REQ [''cmd'', ''addr''] = 24"
  "off CM_BIND_IP_REQ [''ec'', ''fd''] = 0"
  by (simp_all add: layout_defs)

lemma CM_BIND_IP_RSP_layout [layout]:
  "size_of CM_BIND_IP_RSP = 4"
  "off CM_BIND_IP_RSP [''ret_errno''] = 0"
  by (simp_all add: layout_defs)

lemma CM_BIND_REQ_layout [layout]:
  "size_of CM_BIND_REQ = 152"
  "off CM_BIND_REQ [''ec''] = 0"
  "off CM_BIND_REQ [''cmd''] = 8"
  by (simp_all add: layout_defs)

lemma CM_BIND_RSP_layout [layout]:
  "size_of CM_BIND_RSP = 4"
  "off CM_BIND_RSP [''ret_errno''] = 0"
  by (simp_all add: layout_defs)

lemma CM_GET_EVENT_REQ_layout [layout]:
  "size_of CM_GET_EVENT_REQ = 24"
  "off CM_GET_EVENT_REQ [''ec''] = 0"
  "off CM_GET_EVENT_REQ [''cmd''] = 8"
  "off CM_GET_EVENT_REQ [''ec'', ''fd''] = 0"
  by (simp_all add: layout_defs)

lemma CM_GET_EVENT_RSP_layout [layout]:
  "size_of CM_GET_EVENT_RSP = 336"
  "off CM_GET_EVENT_RSP [''ret_errno''] = 0"
  "off CM_GET_EVENT_RSP [''resp''] = 8"
  by (simp_all add: layout_defs)

lemma CM_QUERY_ROUTE_REQ_layout [layout]:
  "size_of CM_QUERY_ROUTE_REQ = 32"
  "off CM_QUERY_ROUTE_REQ [''ec''] = 0"
  "off CM_QUERY_ROUTE_REQ [''cmd''] = 8"
  by (simp_all add: layout_defs)

lemma CM_QUERY_ROUTE_RSP_layout [layout]:
  "size_of CM_QUERY_ROUTE_RSP = 208"
  "off CM_QUERY_ROUTE_RSP [''ret_errno''] = 0"
  "off CM_QUERY_ROUTE_RSP [''resp''] = 8"
  by (simp_all add: layout_defs)

lemma CM_LISTEN_REQ_layout [layout]:
  "size_of CM_LISTEN_REQ = 20"
  "off CM_LISTEN_REQ [''ec''] = 0"
  "off CM_LISTEN_REQ [''cmd''] = 4"
  by (simp_all add: layout_defs)

lemma CM_LISTEN_RSP_layout [layout]:
  "size_of CM_LISTEN_RSP = 4"
  "off CM_LISTEN_RSP [''ret_errno''] = 0"
  by (simp_all add: layout_defs)

lemma CM_RESOLVE_IP_REQ_layout [layout]:
  "size_of CM_RESOLVE_IP_REQ = 76"
  "off CM_RESOLVE_IP_REQ [''ec''] = 0"
  "off CM_RESOLVE_IP_REQ [''cmd''] = 4"
  by (simp_all add: layout_defs)

lemma CM_RESOLVE_IP_RSP_layout [layout]:
  "size_of CM_RESOLVE_IP_RSP = 4"
  "off CM_RESOLVE_IP_RSP [''ret_errno''] = 0"
  by (simp_all add: layout_defs)

lemma CM_RESOLVE_ADDR_REQ_layout [layout]:
  "size_of CM_RESOLVE_ADDR_REQ = 288"
  "off CM_RESOLVE_ADDR_REQ [''ec''] = 0"
  "off CM_RESOLVE_ADDR_REQ [''cmd''] = 8"
  by (simp_all add: layout_defs)

lemma CM_RESOLVE_ADDR_RSP_layout [layout]:
  "size_of CM_RESOLVE_ADDR_RSP = 4"
  "off CM_RESOLVE_ADDR_RSP [''ret_errno''] = 0"
  by (simp_all add: layout_defs)

lemma CM_UCMA_QUERY_ADDR_REQ_layout [layout]:
  "size_of CM_UCMA_QUERY_ADDR_REQ = 32"
  "off CM_UCMA_QUERY_ADDR_REQ [''ec''] = 0"
  "off CM_UCMA_QUERY_ADDR_REQ [''cmd''] = 8"
  by (simp_all add: layout_defs)

lemma CM_UCMA_QUERY_ADDR_RSP_layout [layout]:
  "size_of CM_UCMA_QUERY_ADDR_RSP = 280"
  "off CM_UCMA_QUERY_ADDR_RSP [''ret_errno''] = 0"
  "off CM_UCMA_QUERY_ADDR_RSP [''resp''] = 8"
  by (simp_all add: layout_defs)

lemma CM_UCMA_QUERY_GID_REQ_layout [layout]:
  "size_of CM_UCMA_QUERY_GID_REQ = 32"
  "off CM_UCMA_QUERY_GID_REQ [''ec''] = 0"
  "off CM_UCMA_QUERY_GID_REQ [''cmd''] = 8"
  by (simp_all add: layout_defs)

lemma CM_UCMA_QUERY_GID_RSP_layout [layout]:
  "size_of CM_UCMA_QUERY_GID_RSP = 280"
  "off CM_UCMA_QUERY_GID_RSP [''ret_errno''] = 0"
  "off CM_UCMA_QUERY_GID_RSP [''resp''] = 8"
  by (simp_all add: layout_defs)

lemma CM_UCMA_PROCESS_CONN_RESP_REQ_layout [layout]:
  "size_of CM_UCMA_PROCESS_CONN_RESP_REQ = 304"
  "off CM_UCMA_PROCESS_CONN_RESP_REQ [''ec''] = 0"
  "off CM_UCMA_PROCESS_CONN_RESP_REQ [''cmd''] = 8"
  by (simp_all add: layout_defs)

lemma CM_UCMA_PROCESS_CONN_RESP_RSP_layout [layout]:
  "size_of CM_UCMA_PROCESS_CONN_RESP_RSP = 4"
  "off CM_UCMA_PROCESS_CONN_RESP_RSP [''ret_errno''] = 0"
  by (simp_all add: layout_defs)

lemma CM_DESTROY_ID_REQ_layout [layout]:
  "size_of CM_DESTROY_ID_REQ = 32"
  "off CM_DESTROY_ID_REQ [''ec''] = 0"
  "off CM_DESTROY_ID_REQ [''cmd''] = 8"
  by (simp_all add: layout_defs)

lemma CM_DESTROY_ID_RSP_layout [layout]:
  "size_of CM_DESTROY_ID_RSP = 8"
  "off CM_DESTROY_ID_RSP [''ret_errno''] = 0"
  "off CM_DESTROY_ID_RSP [''resp''] = 4"
  by (simp_all add: layout_defs)

lemma CM_RESOLVE_ROUTE_REQ_layout [layout]:
  "size_of CM_RESOLVE_ROUTE_REQ = 20"
  "off CM_RESOLVE_ROUTE_REQ [''ec''] = 0"
  "off CM_RESOLVE_ROUTE_REQ [''cmd''] = 4"
  by (simp_all add: layout_defs)

lemma CM_RESOLVE_ROUTE_RSP_layout [layout]:
  "size_of CM_RESOLVE_ROUTE_RSP = 4"
  "off CM_RESOLVE_ROUTE_RSP [''ret_errno''] = 0"
  by (simp_all add: layout_defs)

lemma CM_UCMA_QUERY_PATH_REQ_layout [layout]:
  "size_of CM_UCMA_QUERY_PATH_REQ = 32"
  "off CM_UCMA_QUERY_PATH_REQ [''ec''] = 0"
  "off CM_UCMA_QUERY_PATH_REQ [''cmd''] = 8"
  by (simp_all add: layout_defs)

lemma CM_UCMA_QUERY_PATH_RSP_layout [layout]:
  "size_of CM_UCMA_QUERY_PATH_RSP = 448"
  "off CM_UCMA_QUERY_PATH_RSP [''ret_errno''] = 0"
  "off CM_UCMA_QUERY_PATH_RSP [''resp''] = 8"
  "off CM_UCMA_QUERY_PATH_RSP [''path_data''] = 16"
  by (simp_all add: layout_defs)

lemma CM_INIT_QP_ATTR_REQ_layout [layout]:
  "size_of CM_INIT_QP_ATTR_REQ = 32"
  "off CM_INIT_QP_ATTR_REQ [''ec''] = 0"
  "off CM_INIT_QP_ATTR_REQ [''cmd''] = 8"
  by (simp_all add: layout_defs)

lemma CM_INIT_QP_ATTR_RSP_layout [layout]:
  "size_of CM_INIT_QP_ATTR_RSP = 148"
  "off CM_INIT_QP_ATTR_RSP [''ret_errno''] = 0"
  "off CM_INIT_QP_ATTR_RSP [''resp''] = 4"
  by (simp_all add: layout_defs)

lemma CM_CONNECT_REQ_layout [layout]:
  "size_of CM_CONNECT_REQ = 292"
  "off CM_CONNECT_REQ [''ec''] = 0"
  "off CM_CONNECT_REQ [''cmd''] = 4"
  by (simp_all add: layout_defs)

lemma CM_CONNECT_RSP_layout [layout]:
  "size_of CM_CONNECT_RSP = 4"
  "off CM_CONNECT_RSP [''ret_errno''] = 0"
  by (simp_all add: layout_defs)

lemma CM_ACCEPT_REQ_layout [layout]:
  "size_of CM_ACCEPT_REQ = 304"
  "off CM_ACCEPT_REQ [''ec''] = 0"
  "off CM_ACCEPT_REQ [''cmd''] = 8"
  by (simp_all add: layout_defs)

lemma CM_ACCEPT_RSP_layout [layout]:
  "size_of CM_ACCEPT_RSP = 4"
  "off CM_ACCEPT_RSP [''ret_errno''] = 0"
  by (simp_all add: layout_defs)

lemma CM_SET_OPTION_REQ_layout [layout]:
  "size_of CM_SET_OPTION_REQ = 144"
  "off CM_SET_OPTION_REQ [''ec''] = 0"
  "off CM_SET_OPTION_REQ [''cmd''] = 8"
  "off CM_SET_OPTION_REQ [''optval''] = 40"
  by (simp_all add: layout_defs)

lemma CM_SET_OPTION_RSP_layout [layout]:
  "size_of CM_SET_OPTION_RSP = 4"
  "off CM_SET_OPTION_RSP [''ret_errno''] = 0"
  by (simp_all add: layout_defs)

lemma CM_MIGRATE_ID_REQ_layout [layout]:
  "size_of CM_MIGRATE_ID_REQ = 32"
  "off CM_MIGRATE_ID_REQ [''ec''] = 0"
  "off CM_MIGRATE_ID_REQ [''cmd''] = 8"
  by (simp_all add: layout_defs)

lemma CM_MIGRATE_ID_RSP_layout [layout]:
  "size_of CM_MIGRATE_ID_RSP = 8"
  "off CM_MIGRATE_ID_RSP [''ret_errno''] = 0"
  "off CM_MIGRATE_ID_RSP [''resp''] = 4"
  by (simp_all add: layout_defs)

lemma CM_DISCONNECT_REQ_layout [layout]:
  "size_of CM_DISCONNECT_REQ = 16"
  "off CM_DISCONNECT_REQ [''ec''] = 0"
  "off CM_DISCONNECT_REQ [''cmd''] = 4"
  by (simp_all add: layout_defs)

lemma CM_DISCONNECT_RSP_layout [layout]:
  "size_of CM_DISCONNECT_RSP = 4"
  "off CM_DISCONNECT_RSP [''ret_errno''] = 0"
  by (simp_all add: layout_defs)

lemma CtrlShmPiece_layout [layout]:
  "size_of CtrlShmPiece = 2097156"
  "off CtrlShmPiece [''state''] = 0"
  "off CtrlShmPiece [''req''] = 4"
  "off CtrlShmPiece [''rsp''] = 1048580"
  by (simp_all add: layout_defs)

lemma SOCKET_SOCKET_REQ_layout [layout]:
  "size_of SOCKET_SOCKET_REQ = 12"
  "off SOCKET_SOCKET_REQ [''domain''] = 0"
  "off SOCKET_SOCKET_REQ [''type''] = 4"
  "off SOCKET_SOCKET_REQ [''protocol''] = 8"
  by (simp_all add: layout_defs)

lemma SOCKET_SOCKET_RSP_layout [layout]:
  "size_of SOCKET_SOCKET_RSP = 4"
  "off SOCKET_SOCKET_RSP [''ret''] = 0"
  by (simp_all add: layout_defs)

lemma SOCKET_BIND_RSP_layout [layout]:
  "size_of SOCKET_BIND_RSP = 4"
  "off SOCKET_BIND_RSP [''ret''] = 0"
  by (simp_all add: layout_defs)

lemma SOCKET_ACCEPT_RSP_layout [layout]:
  "size_of SOCKET_ACCEPT_RSP = 4"
  "off SOCKET_ACCEPT_RSP [''ret''] = 0"
  by (simp_all add: layout_defs)

lemma SOCKET_ACCEPT4_REQ_layout [layout]:
  "size_of SOCKET_ACCEPT4_REQ = 4"
  "off SOCKET_ACCEPT4_REQ [''flags''] = 0"
  by (simp_all add: layout_defs)

lemma SOCKET_ACCEPT4_RSP_layout [layout]:
  "size_of SOCKET_ACCEPT4_RSP = 4"
  "off SOCKET_ACCEPT4_RSP [''ret''] = 0"
  by (simp_all add: layout_defs)

lemma SOCKET_CONNECT_REQ_layout [layout]:
  "size_of SOCKET_CONNECT_REQ = 20"
  "off SOCKET_CONNECT_REQ [''host_addr''] = 0"
  "off SOCKET_CONNECT_REQ [''host_addrlen''] = 16"
  by (simp_all add: layout_defs)

lemma SOCKET_CONNECT_RSP_layout [layout]:
  "size_of SOCKET_CONNECT_RSP = 4"
  "off SOCKET_CONNECT_RSP [''ret''] = 0"
  by (simp_all add: layout_defs)

section \<open>Function codes on the wire\<close>

text \<open>
  A C enumeration without initialisers numbers its constants from 0 in source order. \<open>call_code\<close> is
  the number a side writes for a call, \<open>call_of_code\<close> the constant a side's \<^verbatim>\<open>switch\<close> reads back.
\<close>

fun index_from :: "nat \<Rightarrow> RDMA_FUNCTION_CALL list \<Rightarrow> RDMA_FUNCTION_CALL \<Rightarrow> nat option" where
  "index_from i [] f = None"
| "index_from i (g # gs) f = (if f = g then Some i else index_from (Suc i) gs f)"

definition call_code :: "RDMA_FUNCTION_CALL list \<Rightarrow> RDMA_FUNCTION_CALL \<Rightarrow> nat option" where
  "call_code cs f = index_from 0 cs f"

definition call_of_code :: "RDMA_FUNCTION_CALL list \<Rightarrow> nat \<Rightarrow> RDMA_FUNCTION_CALL option" where
  "call_of_code cs n = (if n < length cs then Some (cs ! n) else None)"

lemma index_from_nth:
  "index_from i cs f = Some n \<Longrightarrow> i \<le> n \<and> n - i < length cs \<and> cs ! (n - i) = f"
proof (induction cs arbitrary: i)
  case Nil
  then show ?case by simp
next
  case (Cons g gs)
  show ?case
  proof (cases "f = g")
    case True
    with Cons.prems show ?thesis by simp
  next
    case False
    then have "index_from (Suc i) gs f = Some n" using Cons.prems by simp
    from Cons.IH[OF this] have ih: "Suc i \<le> n" "n - Suc i < length gs" "gs ! (n - Suc i) = f"
      by auto
    then have "n - i = Suc (n - Suc i)" by simp
    with ih show ?thesis by simp
  qed
qed

lemma index_from_append:
  "index_from i cs f = Some n \<Longrightarrow> index_from i (cs @ ds) f = Some n"
  by (induction cs arbitrary: i) (auto split: if_splits)

lemma call_of_code_prefix:
  assumes "call_code cs f = Some n"
  shows "call_of_code (cs @ ds) n = Some f"
  using index_from_nth[of 0 cs f n] assms
  by (simp add: call_code_def call_of_code_def nth_append)

lemma client_calls_prefix:
  "router_calls = client_calls @ [SOCKET_SOCKET, SOCKET_BIND, SOCKET_ACCEPT, SOCKET_ACCEPT4, SOCKET_CONNECT]"
  by (simp add: router_calls_def client_calls_def)

lemma distinct_router_calls: "distinct router_calls"
  by (simp add: router_calls_def)

text \<open>From here on, offsets are computed by the lemmas of \<open>layout\<close> only.\<close>

declare off.simps [simp del]

end
