(* ===== verification/FF_Env.thy ===== *)
theory FF_Env
  imports FF_Types
begin

text \<open>
  The code the router calls and does not contain: system calls, the clock, the kernel side of the
  verbs and connection-manager character devices, and the user-space verbs library. Each is a
  function over an abstract world \<open>'w\<close>, collected in two records that every operation of the model
  takes as arguments; nothing is assumed about them here. What a property needs of one of them is a
  hypothesis of that property. Pointers to objects the library owns are 64-bit addresses, and their
  fields are read through accessor functions.
\<close>

record 'w os =
  os_read :: "int \<Rightarrow> nat \<Rightarrow> 'w \<Rightarrow> int \<times> bytes \<times> 'w"
  os_write :: "int \<Rightarrow> bytes \<Rightarrow> 'w \<Rightarrow> int \<times> 'w"
  os_close :: "int \<Rightarrow> 'w \<Rightarrow> 'w"
  os_errno :: "'w \<Rightarrow> int"
  os_shm_open :: "string \<Rightarrow> 'w \<Rightarrow> int \<times> 'w"
  os_ftruncate :: "int \<Rightarrow> int \<Rightarrow> 'w \<Rightarrow> 'w"
  os_mmap :: "int \<Rightarrow> int \<Rightarrow> 'w \<Rightarrow> u64 \<times> 'w"
  os_shm_unlink :: "string \<Rightarrow> 'w \<Rightarrow> int \<times> 'w"
  os_sendmsg :: "int \<Rightarrow> int option \<Rightarrow> 'w \<Rightarrow> int \<times> 'w"
  os_recvmsg :: "int \<Rightarrow> 'w \<Rightarrow> int \<times> (nat \<times> int \<times> int \<times> int) option \<times> 'w"
  os_socket :: "int \<Rightarrow> int \<Rightarrow> int \<Rightarrow> 'w \<Rightarrow> int \<times> 'w"
  os_bind :: "int \<Rightarrow> u32 \<Rightarrow> u16 \<Rightarrow> 'w \<Rightarrow> int \<times> 'w"
  os_accept :: "int \<Rightarrow> int \<Rightarrow> 'w \<Rightarrow> int \<times> 'w"
  os_connect :: "int \<Rightarrow> bytes \<Rightarrow> u32 \<Rightarrow> 'w \<Rightarrow> int \<times> 'w"
  os_getfl :: "int \<Rightarrow> 'w \<Rightarrow> int \<times> 'w"
  os_setfl :: "int \<Rightarrow> int \<Rightarrow> 'w \<Rightarrow> 'w"
  os_sendto :: "int \<Rightarrow> bytes \<Rightarrow> u32 \<Rightarrow> u16 \<Rightarrow> 'w \<Rightarrow> int \<times> 'w"
  os_recvfrom :: "int \<Rightarrow> nat \<Rightarrow> 'w \<Rightarrow> int \<times> bytes \<times> u32 \<times> u16 \<times> 'w"
  os_inet_aton :: "string \<Rightarrow> u32 option"
  os_now :: "'w \<Rightarrow> u64 \<times> 'w"
  os_usleep :: "u32 \<Rightarrow> 'w \<Rightarrow> 'w"
  os_getenv :: "string \<Rightarrow> string option"
  os_devwrite :: "int \<Rightarrow> bytes \<Rightarrow> nat \<Rightarrow> 'w \<Rightarrow> int \<times> bytes \<times> 'w"
  os_resp_addr :: u64
  os_stack :: mem
  os_af_ib_support :: bool
  os_ucma_init :: "'w \<Rightarrow> int \<times> 'w"

text \<open>
  \<open>os_recvmsg\<close> returns, for a message with a control header, its length, level, type and descriptor.
  \<open>os_devwrite fd cmd n\<close> is a \<^verbatim>\<open>write\<close> of a command to a verbs or connection-manager device: its result,
  and the \<open>n\<close> bytes the kernel leaves in the response buffer the command points to, which has the
  address \<open>os_resp_addr\<close>. \<open>os_stack\<close> is what a stack buffer holds before it is written. \<open>os_ucma_init\<close> is the start-up of the connection-manager library, which scans
  the devices of the host.
\<close>

record 'w verbs =
  ctx_async_fd :: int
  ctx_num_comp_vectors :: int
  ctx_cmd_fd :: int
  ctx_dev_attr :: bytes
  v_query_port :: "u8 \<Rightarrow> 'w \<Rightarrow> int \<times> bytes \<times> 'w"
  v_alloc_pd :: "'w \<Rightarrow> u64 \<times> 'w"
  v_dealloc_pd :: "u64 \<Rightarrow> 'w \<Rightarrow> int \<times> 'w"
  pd_handle_of :: "'w \<Rightarrow> u64 \<Rightarrow> u32"
  v_create_cq :: "int \<Rightarrow> u64 \<Rightarrow> int \<Rightarrow> 'w \<Rightarrow> u64 \<times> 'w"
  v_destroy_cq :: "u64 \<Rightarrow> 'w \<Rightarrow> int \<times> 'w"
  v_req_notify_cq :: "u64 \<Rightarrow> int \<Rightarrow> 'w \<Rightarrow> int \<times> 'w"
  v_poll_cq :: "u64 \<Rightarrow> int \<Rightarrow> 'w \<Rightarrow> int \<times> bytes \<times> 'w"
  v_get_cq_event :: "u64 \<Rightarrow> 'w \<Rightarrow> u64 \<times> 'w"
  v_ack_cq_events :: "u64 \<Rightarrow> u32 \<Rightarrow> 'w \<Rightarrow> 'w"
  cq_handle_of :: "'w \<Rightarrow> u64 \<Rightarrow> u32"
  cq_cqe_of :: "'w \<Rightarrow> u64 \<Rightarrow> int"
  cq_comp_events_of :: "'w \<Rightarrow> u64 \<Rightarrow> u32"
  cq_async_events_of :: "'w \<Rightarrow> u64 \<Rightarrow> u32"
  v_create_qp :: "u64 \<Rightarrow> u64 \<Rightarrow> u64 \<Rightarrow> u64 \<Rightarrow> u32 list \<Rightarrow> u32 \<Rightarrow> int \<Rightarrow> 'w \<Rightarrow> u64 \<times> u32 list \<times> 'w"
  v_destroy_qp :: "u64 \<Rightarrow> 'w \<Rightarrow> int \<times> 'w"
  v_modify_qp :: "u64 \<Rightarrow> bytes \<Rightarrow> u32 \<Rightarrow> 'w \<Rightarrow> int \<times> 'w"
  qp_handle_of :: "'w \<Rightarrow> u64 \<Rightarrow> u32"
  qp_num_of :: "'w \<Rightarrow> u64 \<Rightarrow> u32"
  qp_type_of :: "'w \<Rightarrow> u64 \<Rightarrow> u32"

record 'w verbs2 = "'w verbs" +
  v_post_send :: "u64 \<Rightarrow> mem \<Rightarrow> u64 \<Rightarrow> 'w \<Rightarrow> int \<times> u64 \<times> 'w"
  v_post_recv :: "u64 \<Rightarrow> mem \<Rightarrow> u64 \<Rightarrow> 'w \<Rightarrow> int \<times> u64 \<times> 'w"
  v_post_srq_recv :: "u64 \<Rightarrow> mem \<Rightarrow> u64 \<Rightarrow> 'w \<Rightarrow> int \<times> u64 \<times> 'w"
  v_reg_mr :: "u64 \<Rightarrow> u64 \<Rightarrow> int \<Rightarrow> u32 \<Rightarrow> 'w \<Rightarrow> u64 \<times> 'w"
  v_dereg_mr :: "u64 \<Rightarrow> 'w \<Rightarrow> int \<times> 'w"
  mr_handle_of :: "'w \<Rightarrow> u64 \<Rightarrow> u32"
  mr_lkey_of :: "'w \<Rightarrow> u64 \<Rightarrow> u32"
  mr_rkey_of :: "'w \<Rightarrow> u64 \<Rightarrow> u32"
  v_create_comp_channel :: "'w \<Rightarrow> u64 \<times> 'w"
  v_destroy_comp_channel :: "u64 \<Rightarrow> 'w \<Rightarrow> int \<times> 'w"
  channel_fd_of :: "'w \<Rightarrow> u64 \<Rightarrow> int"
  v_create_ah :: "u64 \<Rightarrow> bytes \<Rightarrow> 'w \<Rightarrow> u64 \<times> 'w"
  v_destroy_ah :: "u64 \<Rightarrow> 'w \<Rightarrow> int \<times> 'w"
  ah_handle_of :: "'w \<Rightarrow> u64 \<Rightarrow> u32"
  v_create_srq :: "u64 \<Rightarrow> bytes \<Rightarrow> 'w \<Rightarrow> u64 \<times> 'w"
  v_modify_srq :: "u64 \<Rightarrow> bytes \<Rightarrow> int \<Rightarrow> 'w \<Rightarrow> int \<times> 'w"
  v_destroy_srq :: "u64 \<Rightarrow> 'w \<Rightarrow> int \<times> 'w"
  srq_handle_of :: "'w \<Rightarrow> u64 \<Rightarrow> u32"
  v_create_event_channel :: "'w \<Rightarrow> u64 \<times> 'w"
  v_destroy_event_channel :: "u64 \<Rightarrow> 'w \<Rightarrow> 'w"
  ec_fd_of :: "'w \<Rightarrow> u64 \<Rightarrow> int"

end
