(* ===== verification/FF_Inet.thy ===== *)
theory FF_Inet
  imports FF_Prelude
begin

text \<open>
  Text the router prints and parses: decimal numbers as \<^verbatim>\<open>std::stringstream\<close> writes them, the number
  \<^verbatim>\<open>operator>>\<close> reads from a rate-limit setting, and the dotted quads of \<^verbatim>\<open>inet_ntop\<close> and \<^verbatim>\<open>inet_pton\<close> that
  the virtual-address map is keyed by. An address is the four bytes as they lie in memory (network
  order). The round trips show that distinct numbers and distinct addresses have distinct texts.
\<close>

section \<open>Decimal numbers\<close>

definition digit :: "nat \<Rightarrow> char" where
  "digit d = char_of (48 + d mod 10)"

fun dec :: "nat \<Rightarrow> string" where
  "dec n = (if n < 10 then [digit n] else dec (n div 10) @ [digit n])"

declare dec.simps [simp del]

definition dec_int :: "int \<Rightarrow> string" where
  "dec_int i = (if i < 0 then CHR ''-'' # dec (nat (- i)) else dec (nat i))"

definition is_digit :: "char \<Rightarrow> bool" where
  "is_digit c = (48 \<le> (of_char c :: nat) \<and> (of_char c :: nat) \<le> 57)"

definition digit_val :: "char \<Rightarrow> nat" where
  "digit_val c = of_char c - 48"

definition undec :: "string \<Rightarrow> nat" where
  "undec s = foldl (\<lambda>n c. 10 * n + digit_val c) 0 s"

text \<open>
  \<^verbatim>\<open>ss >> rate_limit\<close> for a 64-bit unsigned target: white space is skipped, a sign is read as \<^verbatim>\<open>strtoull\<close> does,
  no digit gives 0 and a value that does not fit gives the largest one.
\<close>

definition stream_u64 :: "string \<Rightarrow> u64" where
  "stream_u64 s =
     (let s = dropWhile (\<lambda>c. c \<in> {CHR '' '', char_of (9 :: nat), char_of (10 :: nat), char_of (11 :: nat),
                                  char_of (12 :: nat), char_of (13 :: nat)}) s;
          neg = (s \<noteq> [] \<and> hd s = CHR ''-'');
          s = (if s \<noteq> [] \<and> hd s \<in> {CHR ''-'', CHR ''+''} then tl s else s);
          n = undec (takeWhile is_digit s)
      in if 2 ^ 64 \<le> n then - 1 else if neg then - word_of_nat n else word_of_nat n)"

lemma of_char_digit: "of_char (digit d) = (48 + d mod 10 :: nat)"
  by (simp add: digit_def of_char_of)

lemma digit_is_digit [simp]: "is_digit (digit d)"
  by (simp add: is_digit_def of_char_digit) 

lemma digit_val_digit [simp]: "digit_val (digit d) = d mod 10"
  by (simp add: digit_val_def of_char_digit)

lemma undec_dec [simp]: "undec (dec n) = n"
proof (induction n rule: dec.induct)
  case (1 n)
  show ?case
  proof (cases "n < 10")
    case True
    then show ?thesis by (simp add: dec.simps[of n] undec_def)
  next
    case False
    with 1 have "undec (dec (n div 10)) = n div 10" by simp
    with False show ?thesis by (simp add: dec.simps[of n] undec_def)
  qed
qed

lemma dec_digits: "list_all is_digit (dec n)"
proof (induction n rule: dec.induct)
  case (1 n)
  then show ?case by (cases "n < 10") (simp_all add: dec.simps[of n])
qed

lemma dec_not_Nil [simp]: "dec n \<noteq> []"
  by (simp add: dec.simps[of n])

lemma dec_inj [simp]: "dec m = dec n \<longleftrightarrow> m = n"
  by (metis undec_dec)

lemma dec_hd_not_letter: "\<not> is_digit c \<Longrightarrow> dec n \<noteq> c # s"
  using dec_digits[of n] by (auto simp: list_all_iff)

section \<open>Dotted quads\<close>

definition inet_ntop :: "bytes \<Rightarrow> string" where
  "inet_ntop a =
     dec (unat (a ! 0)) @ ''.'' @ dec (unat (a ! 1)) @ ''.'' @ dec (unat (a ! 2)) @ ''.'' @ dec (unat (a ! 3))"

text \<open>
  \<^verbatim>\<open>inet_pton\<close> accepts exactly four decimal fields of at most 255, without leading zeros, separated by
  single dots.
\<close>

fun split_dots :: "string \<Rightarrow> string list" where
  "split_dots [] = [[]]"
| "split_dots (c # s) =
     (if c = CHR ''.'' then [] # split_dots s
      else case split_dots s of [] \<Rightarrow> [[c]] | f # fs \<Rightarrow> (c # f) # fs)"

definition octet :: "string \<Rightarrow> u8 option" where
  "octet f =
     (if f \<noteq> [] \<and> list_all is_digit f \<and> undec f \<le> 255 \<and> (length f = 1 \<or> hd f \<noteq> CHR ''0'')
      then Some (word_of_nat (undec f)) else None)"

definition inet_pton :: "string \<Rightarrow> bytes option" where
  "inet_pton s =
     (case split_dots s of
        [a, b, c, d] \<Rightarrow>
          (case (octet a, octet b, octet c, octet d) of
             (Some a, Some b, Some c, Some d) \<Rightarrow> Some [a, b, c, d] | _ \<Rightarrow> None)
      | _ \<Rightarrow> None)"

lemma split_dots_not_Nil [simp]: "split_dots s \<noteq> []"
  by (induction s) (auto split: list.splits)

lemma split_dots_field:
  "list_all is_digit f \<Longrightarrow> split_dots (f @ CHR ''.'' # s) = f # split_dots s"
proof (induction f)
  case Nil
  then show ?case by simp
next
  case (Cons c f)
  then have "c \<noteq> CHR ''.''" by (auto simp: is_digit_def)
  with Cons show ?case by simp
qed

lemma split_dots_last: "list_all is_digit f \<Longrightarrow> split_dots f = [f]"
proof (induction f)
  case Nil
  then show ?case by simp
next
  case (Cons c f)
  then have "c \<noteq> CHR ''.''" by (auto simp: is_digit_def)
  with Cons show ?case by simp
qed

lemma dec_hd_zero: "hd (dec n) = CHR ''0'' \<Longrightarrow> n = 0"
proof (induction n rule: dec.induct)
  case (1 n)
  show ?case
  proof (cases "n < 10")
    case True
    then have "digit n = CHR ''0''" using 1(2) by (simp add: dec.simps[of n])
    then have "digit_val (digit n) = digit_val (CHR ''0'')" by simp
    then show ?thesis using True by (simp add: digit_val_def of_char_digit)
  next
    case False
    then have "hd (dec (n div 10)) = CHR ''0''" using 1(2) by (simp add: dec.simps[of n])
    with 1(1) False have "n div 10 = 0" by simp
    with False show ?thesis by simp
  qed
qed

lemma octet_dec: "octet (dec (unat b)) = Some b"
proof -
  have "unat b \<le> 255" using unsigned_less[of b, where ?'a = nat] by simp
  moreover have "length (dec (unat b)) = 1 \<or> hd (dec (unat b)) \<noteq> CHR ''0''"
    using dec_hd_zero[of "unat b"] by (auto simp: dec.simps[of "unat b"])
  ultimately show ?thesis by (simp add: octet_def dec_digits)
qed

lemma inet_pton_ntop: "length a = 4 \<Longrightarrow> inet_pton (inet_ntop a) = Some a"
proof -
  assume "length a = 4"
  then obtain p q r s where a: "a = [p, q, r, s]"
    by (auto simp: numeral_eq_Suc length_Suc_conv)
  show ?thesis
    by (simp add: a inet_pton_def inet_ntop_def split_dots_field split_dots_last dec_digits octet_dec)
qed

lemma inet_ntop_inj:
  "length a = 4 \<Longrightarrow> length b = 4 \<Longrightarrow> inet_ntop a = inet_ntop b \<Longrightarrow> a = b"
  by (metis inet_pton_ntop option.inject)

end
