(* ===== verification/FF_Vip.thy ===== *)
theory FF_Vip
  imports FF_Inet
begin

text \<open>
  The two etcd watches of the router and the virtual-address map they feed: \<^verbatim>\<open>process_vip_map\<close>,
  \<^verbatim>\<open>process_nodes\<close>, the key range \<^verbatim>\<open>watch_etcd_kv\<close> asks for, \<^verbatim>\<open>map_vip\<close> and \<^verbatim>\<open>get_in_addr\<close>. The JSON reader and the
  base64 codec are third-party code and arguments of the definitions: \<open>jparse\<close> gives the list of the
  events of a watch response, or \<open>None\<close> when the text is no JSON (the router then aborts).
\<close>

datatype kv_type = PUT | DELETE

record kv_event =
  ev_type :: kv_type
  ev_key :: string
  ev_value :: string

type_synonym vips = "string \<Rightarrow> string option"

text \<open>The callback's result is the new map and the byte count it reports; \<open>None\<close> is the abort of \<^verbatim>\<open>CHECK_EQ\<close>.\<close>

definition process_vip_map ::
  "(string \<Rightarrow> kv_event list option) \<Rightarrow> (string \<Rightarrow> string) \<Rightarrow> string \<Rightarrow> nat \<Rightarrow> nat \<Rightarrow> vips \<Rightarrow> (vips \<times> nat) option" where
  "process_vip_map jparse b64_decode buffer sz nmemb vip_map =
     (case jparse buffer of
        None \<Rightarrow> None
      | Some kv \<Rightarrow>
          (case kv of
             [] \<Rightarrow> Some (vip_map, sz * nmemb)
           | e # _ \<Rightarrow>
               let decode_key = b64_decode (ev_key e)
               in if ev_type e \<noteq> DELETE
                  then Some (vip_map(decode_key \<mapsto> b64_decode (ev_value e)), sz * nmemb)
                  else Some (vip_map(decode_key := None), sz * nmemb)))"

text \<open>\<open>HOST_LIST\<close> is a set of names; the set is kept as a list without repetitions, in insertion order.\<close>

definition process_nodes ::
  "(string \<Rightarrow> kv_event list option) \<Rightarrow> (string \<Rightarrow> string) \<Rightarrow> string \<Rightarrow> nat \<Rightarrow> nat \<Rightarrow> string list \<Rightarrow> (string list \<times> nat) option" where
  "process_nodes jparse b64_decode buffer sz nmemb HOST_LIST =
     (case jparse buffer of
        None \<Rightarrow> None
      | Some kv \<Rightarrow>
          (case kv of
             [] \<Rightarrow> Some (HOST_LIST, sz * nmemb)
           | e # _ \<Rightarrow>
               let decode_key = b64_decode (ev_key e)
               in if ev_type e \<noteq> DELETE then Some (List.insert decode_key HOST_LIST, sz * nmemb)
                  else Some (removeAll decode_key HOST_LIST, sz * nmemb)))"

text \<open>
  The request body of a watch: the key in base64, and as its range end the same base64 text with
  the last character incremented. An empty text has no last character (undefined behaviour).
\<close>

definition next_char :: "char \<Rightarrow> char" where
  "next_char c = char_of ((of_char c :: nat) + 1)"

definition watch_post_fields :: "(string \<Rightarrow> string) \<Rightarrow> string \<Rightarrow> ub + string" where
  "watch_post_fields b64_encode key =
     (let encoded_key = b64_encode key; encoded_end_key = b64_encode key; n = length encoded_end_key
      in if n = 0 then Inl OobIndex
         else let encoded_end_key = encoded_end_key[n - 1 := next_char (encoded_key ! (n - 1))]
              in Inr (''{\"create_request\": {\"key\": \"'' @ encoded_key @ ''\", \"range_end\": \"'' @
                      encoded_end_key @ ''\"}}''))"

definition AF_INET :: u16 where
  "AF_INET = 2"

text \<open>The offset of the address bytes in a \<^verbatim>\<open>sockaddr\<close>: 4 in \<^verbatim>\<open>sockaddr_in\<close>, 8 in \<^verbatim>\<open>sockaddr_in6\<close>.\<close>

definition get_in_addr :: "mem \<Rightarrow> nat \<Rightarrow> nat" where
  "get_in_addr m sa = (if get_u16 m sa = AF_INET then sa + 4 else sa + 8)"

definition map_vip :: "vips \<Rightarrow> mem \<Rightarrow> nat \<Rightarrow> mem" where
  "map_vip vip_map m addr =
     (let vip = inet_ntop (get_bytes m addr 4)
      in case vip_map vip of
           Some dip \<Rightarrow> (case inet_pton dip of Some a \<Rightarrow> put_bytes m addr a | None \<Rightarrow> m)
         | None \<Rightarrow> m)"

section \<open>What the callbacks promise\<close>

text \<open>The effect of a whole batch of events on a key-value store, as etcd means it.\<close>

fun apply_event :: "(string \<Rightarrow> string) \<Rightarrow> kv_event \<Rightarrow> vips \<Rightarrow> vips" where
  "apply_event d e m =
     (case ev_type e of PUT \<Rightarrow> m(d (ev_key e) \<mapsto> d (ev_value e)) | DELETE \<Rightarrow> m(d (ev_key e) := None))"

definition apply_events :: "(string \<Rightarrow> string) \<Rightarrow> kv_event list \<Rightarrow> vips \<Rightarrow> vips" where
  "apply_events d es m = foldl (\<lambda>m e. apply_event d e m) m es"

lemma process_vip_map_first:
  "jparse buf = Some es \<Longrightarrow>
     process_vip_map jparse d buf sz nm m = Some (apply_events d (take 1 es) m, sz * nm)"
  by (cases es) (auto simp: process_vip_map_def apply_events_def Let_def split: kv_type.splits)

lemma length_inet_pton: "inet_pton s = Some a \<Longrightarrow> length a = 4"
  by (auto simp: inet_pton_def split: list.splits option.splits)

text \<open>What \<^verbatim>\<open>map_vip\<close> does to the address: a mapped one becomes its target, every other stays.\<close>

lemma map_vip_mapped:
  assumes "length a = 4" "vip_map (inet_ntop (get_bytes m p 4)) = Some (inet_ntop a)"
  shows "map_vip vip_map m p = put_bytes m p a"
  using assms by (simp add: map_vip_def inet_pton_ntop)

lemma map_vip_frame:
  "q + n \<le> p \<or> p + 4 \<le> q \<Longrightarrow> get_bytes (map_vip vip_map m p) q n = get_bytes m q n"
  by (auto simp: map_vip_def Let_def get_put_bytes_apart length_inet_pton split: option.splits)

section \<open>Properties\<close>

text \<open>
  C34: address translation. If the map holds the dotted-quad text of another address under the text
  of the address in a request, the request carries that other address afterwards; without an entry
  it is unchanged; and no byte outside the four of the address changes.
\<close>

theorem map_vip_translates:
  "(length a = 4 \<and> vip_map (inet_ntop (get_bytes m p 4)) = Some (inet_ntop a) \<longrightarrow>
      get_bytes (map_vip vip_map m p) p 4 = a) \<and>
   (vip_map (inet_ntop (get_bytes m p 4)) = None \<longrightarrow> map_vip vip_map m p = m) \<and>
   (q + n \<le> p \<or> p + 4 \<le> q \<longrightarrow> get_bytes (map_vip vip_map m p) q n = get_bytes m q n)"
  by (auto simp: map_vip_mapped map_vip_frame get_put_bytes_same) (simp add: map_vip_def)

theorem map_vip_translates_witness:
  "get_bytes (map_vip [''10.244.1.5'' \<mapsto> ''192.168.0.9''] (put_bytes (\<lambda>_. 0) 4 [10, 244, 1, 5]) 4) 4 4 = [192, 168, 0, 9]"
proof -
  let ?m = "put_bytes (\<lambda>_. 0) 4 [10, 244, 1, 5]"
  have "get_bytes ?m 4 4 = [10, 244, 1, 5]" by (rule get_put_bytes_same) simp
  moreover have "inet_ntop [10, 244, 1, 5] = ''10.244.1.5''" "inet_ntop [192, 168, 0, 9] = ''192.168.0.9''"
    by code_simp+
  ultimately show ?thesis
    using map_vip_translates[of "[192, 168, 0, 9]" "[''10.244.1.5'' \<mapsto> ''192.168.0.9'']" ?m 4 0 0] by simp
qed

text \<open>
  C35: the watch callback applies the first event of a response and no other. A response with at
  most one event brings the map where etcd's events bring it, but there are responses with two
  events after which the map differs from it.
\<close>

theorem process_vip_map_applies_first_event:
  "(jparse buf = Some es \<longrightarrow>
      process_vip_map jparse d buf sz nm m = Some (apply_events d (take 1 es) m, sz * nm)) \<and>
   (jparse buf = Some es \<and> length es \<le> 1 \<longrightarrow>
      process_vip_map jparse d buf sz nm m = Some (apply_events d es m, sz * nm)) \<and>
   (\<exists>es' m'. length es' = 2 \<and> process_vip_map (\<lambda>_. Some es') id buf sz nm m' \<noteq> Some (apply_events id es' m', sz * nm))"
proof -
  let ?es = "[\<lparr>ev_type = PUT, ev_key = ''a'', ev_value = ''b''\<rparr>, \<lparr>ev_type = PUT, ev_key = ''c'', ev_value = ''d''\<rparr>]"
  have "apply_events id (take 1 ?es) Map.empty ''c'' \<noteq> apply_events id ?es Map.empty ''c''"
    by (simp add: apply_events_def)
  then have "process_vip_map (\<lambda>_. Some ?es) id buf sz nm Map.empty \<noteq> Some (apply_events id ?es Map.empty, sz * nm)"
    by (subst process_vip_map_first[of _ _ ?es]) auto
  moreover have "length ?es = 2" by simp
  ultimately have "\<exists>es' m'. length es' = 2 \<and>
      process_vip_map (\<lambda>_. Some es') id buf sz nm m' \<noteq> Some (apply_events id es' m', sz * nm)" by blast
  then show ?thesis by (simp add: process_vip_map_first)
qed

theorem process_vip_map_applies_first_event_witness:
  "process_vip_map (\<lambda>_. Some [\<lparr>ev_type = PUT, ev_key = ''a'', ev_value = ''b''\<rparr>]) id ''x'' 1 7 Map.empty
     = Some ([''a'' \<mapsto> ''b''], 7)"
  using process_vip_map_applies_first_event
    [of "\<lambda>_. Some [\<lparr>ev_type = PUT, ev_key = ''a'', ev_value = ''b''\<rparr>]" "''x''"
        "[\<lparr>ev_type = PUT, ev_key = ''a'', ev_value = ''b''\<rparr>]" id 1 7 Map.empty]
  by (simp add: apply_events_def)

end
