(* ===== verification/FF_Router.thy ===== *)
theory FF_Router
  imports FF_Env FF_Vip FF_TokenBucket
begin

text \<open>
  The state of \<^verbatim>\<open>class FreeFlowRouter\<close> and the operations on it that the request handlers share:
  shared-memory pieces (\<^verbatim>\<open>shared_memory.cpp\<close>, \<^verbatim>\<open>addShmPiece\<close>, \<^verbatim>\<open>initCtrlShm\<close>), descriptor passing, the tables
  indexed by handle, and the ways a handler can end. The tables are functions from index to a 64-bit
  pointer (null is 0); a read or write at an index outside \<open>MAP_SIZE\<close> is undefined behaviour, and so is
  the use of a null pointer. A request is handled as one step: the locks of the router protect
  single map accesses, and the interleaving of two clients is the order of their steps.
\<close>

section \<open>Shared-memory pieces\<close>

record ShmPiece =
  sp_name :: string
  sp_size :: int
  shm_fd :: int
  sp_ptr :: u64

definition ShmPiece_ctor :: "string \<Rightarrow> int \<Rightarrow> ShmPiece" where
  "ShmPiece_ctor name sz = \<lparr>sp_name = name, sp_size = sz, shm_fd = - 1, sp_ptr = NULL\<rparr>"

definition ShmPiece_open :: "'w os \<Rightarrow> ShmPiece \<Rightarrow> 'w \<Rightarrow> bool \<times> ShmPiece \<times> 'w" where
  "ShmPiece_open E sp w =
     (let (fd, w) = os_shm_open E (sp_name sp) w;
          sp = sp\<lparr>shm_fd := fd\<rparr>;
          w = os_ftruncate E fd (sp_size sp) w;
          (ptr, w) = os_mmap E (sp_size sp) fd w;
          sp = sp\<lparr>sp_ptr := ptr\<rparr>
      in (ptr \<noteq> MAP_FAILED, sp, w))"

definition ShmPiece_remove :: "'w os \<Rightarrow> ShmPiece \<Rightarrow> 'w \<Rightarrow> 'w" where
  "ShmPiece_remove E sp w =
     (if sp_ptr sp \<noteq> MAP_FAILED then snd (os_shm_unlink E (sp_name sp) w) else w)"

section \<open>The router\<close>

record MR_SHM =
  mr_ptr :: u64
  shm_ptr :: u64

text \<open>The contents of one control piece (\<^verbatim>\<open>struct CtrlShmPiece\<close>): the state word and the two buffers.\<close>

record CtrlShm =
  cs_state :: CtrlChannelState
  cs_req :: mem
  cs_rsp :: mem

type_synonym table = "nat \<Rightarrow> u64"
type_synonym shm_table = "nat \<Rightarrow> ShmPiece option"

record tables =
  pd_map :: table
  cq_map :: table
  qp_map :: table
  mr_map :: table
  ah_map :: table
  srq_map :: table
  channel_map :: table
  event_channel_map :: table
  shmr_map :: shm_table
  qp_shm_map :: shm_table
  cq_shm_map :: shm_table
  srq_shm_map :: shm_table
  qp_shm_vec :: "u32 list"
  cq_shm_vec :: "u32 list"
  srq_shm_vec :: "u32 list"

record router = tables +
  shm_pool :: "int \<Rightarrow> ShmPiece list option"
  shm_map :: "string \<Rightarrow> ShmPiece option option"
  lkey_ptr :: "u32 \<Rightarrow> u64 option"
  rkey_mr_shm :: "u32 \<Rightarrow> MR_SHM option"
  tokenbucket :: "u32 \<Rightarrow> TokenBucket option option"
  host_ip :: u32
  disable_rdma :: bool
  vip_map :: vips
  host_list :: "string list"
  ctrl :: "u64 \<Rightarrow> CtrlShm"

text \<open>
  \<open>shm_map\<close> and \<open>tokenbucket\<close> are maps of pointers: the outer option is the presence of the key, the
  inner one a null pointer. \<open>ctrl\<close> gives the contents of the control pieces by mapped address.
\<close>

definition FreeFlowRouter_tables :: tables where
  "FreeFlowRouter_tables =
     \<lparr>pd_map = (\<lambda>_. NULL), cq_map = (\<lambda>_. NULL), qp_map = (\<lambda>_. NULL), mr_map = (\<lambda>_. NULL),
      ah_map = (\<lambda>_. NULL), srq_map = (\<lambda>_. NULL), channel_map = (\<lambda>_. NULL), event_channel_map = (\<lambda>_. NULL),
      shmr_map = (\<lambda>_. None), qp_shm_map = (\<lambda>_. None), cq_shm_map = (\<lambda>_. None), srq_shm_map = (\<lambda>_. None),
      qp_shm_vec = [], cq_shm_vec = [], srq_shm_vec = []\<rparr>"

text \<open>
  The address selection of the constructor: the first IPv4 interface address whose bits under the
  mask agree with the prefix, both in network order; \<open>ifs\<close> is the list \<^verbatim>\<open>getifaddrs\<close> returns, \<open>None\<close> for an
  interface without an IPv4 address.
\<close>

fun select_host_ip :: "u32 \<Rightarrow> u32 \<Rightarrow> u32 option list \<Rightarrow> u32" where
  "select_host_ip prefix_ip prefix_mask [] = 0"
| "select_host_ip prefix_ip prefix_mask (None # ifs) = select_host_ip prefix_ip prefix_mask ifs"
| "select_host_ip prefix_ip prefix_mask (Some a # ifs) =
     (if and a prefix_mask = and prefix_ip prefix_mask then a
      else select_host_ip prefix_ip prefix_mask ifs)"

definition FreeFlowRouter_ctor :: "u32 \<Rightarrow> bool \<Rightarrow> router" where
  "FreeFlowRouter_ctor ip dis =
     tables.extend FreeFlowRouter_tables
       \<lparr>shm_pool = (\<lambda>_. None), shm_map = (\<lambda>_. None), lkey_ptr = (\<lambda>_. None), rkey_mr_shm = (\<lambda>_. None),
        tokenbucket = (\<lambda>_. None), host_ip = ip, disable_rdma = dis, vip_map = (\<lambda>_. None), host_list = [],
        ctrl = (\<lambda>_. \<lparr>cs_state = IDLE, cs_req = (\<lambda>_. 0), cs_rsp = (\<lambda>_. 0)\<rparr>)\<rparr>"

section \<open>Shared memory of the router\<close>

definition shm_piece_name :: "int \<Rightarrow> int \<Rightarrow> nat \<Rightarrow> string" where
  "shm_piece_name client_id mem_size count =
     ''client-'' @ dec_int client_id @ ''-memsize-'' @ dec_int mem_size @ ''-index-'' @ dec count"

definition addShmPiece_client :: "'w os \<Rightarrow> int \<Rightarrow> int \<Rightarrow> router \<Rightarrow> 'w \<Rightarrow> ShmPiece option \<times> router \<times> 'w" where
  "addShmPiece_client E client_id mem_size r w =
     (let v = (case shm_pool r client_id of None \<Rightarrow> [] | Some v \<Rightarrow> v);
          count = length v;
          (ok, sp, w) = ShmPiece_open E (ShmPiece_ctor (shm_piece_name client_id mem_size count) mem_size) w;
          r = r\<lparr>shm_pool := (shm_pool r)(client_id \<mapsto> v @ [sp])\<rparr>
      in (if ok then Some sp else None, r, w))"

definition addShmPiece_name :: "'w os \<Rightarrow> string \<Rightarrow> int \<Rightarrow> router \<Rightarrow> 'w \<Rightarrow> ShmPiece option \<times> router \<times> 'w" where
  "addShmPiece_name E shm_name mem_size r w =
     (case shm_map r shm_name of
        Some sp \<Rightarrow> (sp, r, w)
      | None \<Rightarrow>
          let (ok, sp, w) = ShmPiece_open E (ShmPiece_ctor shm_name mem_size) w;
              sp = (if ok then Some sp else None)
          in (sp, r\<lparr>shm_map := (shm_map r)(shm_name \<mapsto> sp)\<rparr>, w))"

definition ctrl_shm_name :: "string \<Rightarrow> u32 \<Rightarrow> string" where
  "ctrl_shm_name tag handle = ''ctrlshm-'' @ tag @ dec (unat handle)"

text \<open>A piece that cannot be opened is reported and then dereferenced.\<close>

definition initCtrlShm :: "'w os \<Rightarrow> string \<Rightarrow> router \<Rightarrow> 'w \<Rightarrow> ub + ShmPiece \<times> router \<times> 'w" where
  "initCtrlShm E name r w =
     (let (ok, sp, w) = ShmPiece_open E (ShmPiece_ctor name (int (size_of CtrlShmPiece))) w
      in if \<not> ok then Inl NullDeref
         else Inr (sp, r\<lparr>ctrl := (ctrl r)(sp_ptr sp := \<lparr>cs_state = IDLE, cs_req = (\<lambda>_. 0), cs_rsp = (\<lambda>_. 0)\<rparr>)\<rparr>, w))"

text \<open>The destructor removes every piece of the pools, then every piece of the named map, in key order.\<close>

definition FreeFlowRouter_dtor :: "'w os \<Rightarrow> int list \<Rightarrow> string list \<Rightarrow> router \<Rightarrow> 'w \<Rightarrow> 'w" where
  "FreeFlowRouter_dtor E clients names r w =
     (let pool = concat (map (\<lambda>c. case shm_pool r c of None \<Rightarrow> [] | Some v \<Rightarrow> v) clients);
          named = concat (map (\<lambda>n. case shm_map r n of Some (Some sp) \<Rightarrow> [sp] | _ \<Rightarrow> []) names)
      in fold (ShmPiece_remove E) (pool @ named) w)"

section \<open>Passing descriptors\<close>

definition send_fd :: "'w os \<Rightarrow> int \<Rightarrow> int \<Rightarrow> 'w \<Rightarrow> int \<times> 'w" where
  "send_fd E sock fd w = (if fd \<noteq> - 1 then os_sendmsg E sock (Some fd) w else os_sendmsg E sock None w)"

text \<open>\<^verbatim>\<open>CMSG_LEN(sizeof(int))\<close>, \<^verbatim>\<open>SOL_SOCKET\<close> and \<^verbatim>\<open>SCM_RIGHTS\<close> on x86-64 Linux.\<close>

definition CMSG_LEN_INT :: nat where
  "CMSG_LEN_INT = 20"

definition SOL_SOCKET :: int where
  "SOL_SOCKET = 1"

definition SCM_RIGHTS :: int where
  "SCM_RIGHTS = 1"

definition recv_fd :: "'w os \<Rightarrow> int \<Rightarrow> 'w \<Rightarrow> int \<times> 'w" where
  "recv_fd E sock w =
     (let (sz, cmsg, w) = os_recvmsg E sock w
      in if sz < 0 then (- 1, w)
         else case cmsg of
                Some (len, level, ty, fd) \<Rightarrow>
                  (if len = CMSG_LEN_INT
                   then if level \<noteq> SOL_SOCKET then (- 1, w)
                        else if ty \<noteq> SCM_RIGHTS then (- 1, w)
                        else (fd, w)
                   else (- 1, w))
              | None \<Rightarrow> (- 1, w))"

end
