(* ===== verification/FF_Handler.thy ===== *)
theory FF_Handler
  imports FF_Router
begin

text \<open>
  The frame of a request handler: the local state of the thread that serves one client
  (\<^verbatim>\<open>HandleRequest\<close>), the ways a \<^verbatim>\<open>case\<close> of its switch can end, and the steps the cases share: reading the
  request body, looking a handle up, using a pointer, filling the response. \<open>req_addr\<close> is the address
  of the request buffer, \<open>cap\<close> the number of bytes both buffers have.
\<close>

record 'w thr =
  ffr :: router
  world :: 'w
  req_body :: mem
  rsp :: mem
  req_addr :: u64
  cap :: nat
  client_sock :: int
  host_fd :: int

record header =
  client_id :: int
  func :: u32
  body_size :: u32

datatype 'a run = Ok 'a | Undefined ub | Diverges

fun andThen :: "'a run \<Rightarrow> ('a \<Rightarrow> 'b run) \<Rightarrow> 'b run" where
  "andThen (Ok a) k = k a"
| "andThen (Undefined u) k = Undefined u"
| "andThen Diverges k = Diverges"

text \<open>
  A case ends with \<^verbatim>\<open>break\<close> and the size of the response, with a jump to \<^verbatim>\<open>end\<close> (no response is sent) or to
  \<^verbatim>\<open>kill\<close> (the connection is closed), or with a \<^verbatim>\<open>return\<close> from the whole function.
\<close>

datatype 'w hres = Break "'w thr" int | GotoEnd "'w thr" | GotoKill "'w thr" | Return "'w thr"

type_synonym 'w handler = "header \<Rightarrow> 'w thr \<Rightarrow> 'w hres run"

text \<open>
  \<^verbatim>\<open>if (read(client_sock, req_body, sizeof(T)) < sizeof(T)) goto kill;\<close> The bytes that arrive are in the
  buffer even when the read is short.
\<close>

definition recv_body :: "'w os \<Rightarrow> nat \<Rightarrow> 'w thr \<Rightarrow> ('w thr \<Rightarrow> 'w hres run) \<Rightarrow> 'w hres run" where
  "recv_body E n t k =
     (let (got, bs, w) = os_read E (client_sock t) n (world t)
      in if cap t < length bs then Undefined HeapOverflow
         else let t = t\<lparr>world := w, req_body := put_bytes (req_body t) 0 bs\<rparr>
              in if ssize_lt got n then Ok (GotoKill t) else k t)"

text \<open>
  The variant of the posting calls: the length comes from the header, is compared as a signed number,
  and a short read jumps to \<^verbatim>\<open>end\<close>.
\<close>

definition recv_posted :: "'w os \<Rightarrow> u32 \<Rightarrow> 'w thr \<Rightarrow> ('w thr \<Rightarrow> 'w hres run) \<Rightarrow> 'w hres run" where
  "recv_posted E n t k =
     (let (got, bs, w) = os_read E (client_sock t) (unat n) (world t)
      in if cap t < length bs then Undefined HeapOverflow
         else let t = t\<lparr>world := w, req_body := put_bytes (req_body t) 0 bs\<rparr>
              in if got < int (unat n) then Ok (GotoEnd t) else k t)"

definition slot :: "(nat \<Rightarrow> 'a) \<Rightarrow> nat \<Rightarrow> ('a \<Rightarrow> 'b run) \<Rightarrow> 'b run" where
  "slot m i k = (if i < MAP_SIZE then k (m i) else Undefined OobIndex)"

definition islot :: "(nat \<Rightarrow> 'a) \<Rightarrow> int \<Rightarrow> ('a \<Rightarrow> 'b run) \<Rightarrow> 'b run" where
  "islot m i k = (if 0 \<le> i \<and> i < int MAP_SIZE then k (m (nat i)) else Undefined OobIndex)"

definition deref :: "u64 \<Rightarrow> 'b run \<Rightarrow> 'b run" where
  "deref p k = (if p = NULL then Undefined NullDeref else k)"

definition reply :: "'w thr \<Rightarrow> nat \<Rightarrow> 'w hres run" where
  "reply t n = (if cap t < n then Undefined HeapOverflow else Ok (Break t (int n)))"

definition rsp_u32 :: "nat \<Rightarrow> u32 \<Rightarrow> 'w thr \<Rightarrow> 'w thr" where
  "rsp_u32 p v t = t\<lparr>rsp := put_u32 (rsp t) p v\<rparr>"

definition rsp_int :: "nat \<Rightarrow> int \<Rightarrow> 'w thr \<Rightarrow> 'w thr" where
  "rsp_int p v t = t\<lparr>rsp := put_int (rsp t) p v\<rparr>"

definition rsp_bytes :: "nat \<Rightarrow> bytes \<Rightarrow> 'w thr \<Rightarrow> 'w thr" where
  "rsp_bytes p bs t = t\<lparr>rsp := put_bytes (rsp t) p bs\<rparr>"

definition rsp_cstr :: "nat \<Rightarrow> string \<Rightarrow> 'w thr \<Rightarrow> 'w thr" where
  "rsp_cstr p s t = t\<lparr>rsp := put_cstr (rsp t) p s\<rparr>"

definition req_u32 :: "'w thr \<Rightarrow> nat \<Rightarrow> u32" where
  "req_u32 t p = get_u32 (req_body t) p"

definition req_int :: "'w thr \<Rightarrow> nat \<Rightarrow> int" where
  "req_int t p = get_int (req_body t) p"

text \<open>The C string at an offset of the request buffer; without a zero byte before the end of the buffer there is none.\<close>

definition req_cstr :: "'w thr \<Rightarrow> nat \<Rightarrow> string option" where
  "req_cstr t p =
     (if (\<exists>i < cap t - p. req_body t (p + i) = 0) then Some (get_cstr (req_body t) p (cap t - p)) else None)"

lemmas handler_frame = recv_body_def slot_def islot_def deref_def reply_def rsp_u32_def rsp_int_def
  rsp_bytes_def rsp_cstr_def req_u32_def req_int_def

lemma andThen_Ok: "andThen x k = Ok b \<longleftrightarrow> (\<exists>a. x = Ok a \<and> k a = Ok b)"
  by (cases x) auto

text \<open>\<^verbatim>\<open>std::vector::erase(std::find(...))\<close> removes the first occurrence, if there is one.\<close>

fun erase_first :: "'a \<Rightarrow> 'a list \<Rightarrow> 'a list" where
  "erase_first x [] = []"
| "erase_first x (y # ys) = (if x = y then ys else y # erase_first x ys)"

lemma set_erase_first_distinct [simp]: "distinct xs \<Longrightarrow> set (erase_first x xs) = set xs - {x}"
  by (induction xs) auto

lemma distinct_erase_first [simp]: "distinct xs \<Longrightarrow> distinct (erase_first x xs)"
  by (induction xs) auto

end
