(* ===== verification/FF_Resources.thy ===== *)
theory FF_Resources
  imports FF_Handler
begin

text \<open>
  The cases of \<^verbatim>\<open>HandleRequest\<close> that create, use and destroy verbs objects: contexts, protection domains,
  completion queues and channels, queue pairs, memory regions, address handles, flows and shared
  receive queues. One definition per case, named after its function code, with the guards and the
  order of effects of the source. \<open>E\<close> is the operating system, \<open>V\<close> the verbs library.
\<close>

section \<open>Context, device and port\<close>

definition on_GET_CONTEXT :: "('w, 'x) verbs_scheme \<Rightarrow> 'w handler" where
  "on_GET_CONTEXT V h t =
     (let t = rsp_int (off IBV_GET_CONTEXT_RSP [''async_fd'']) (ctx_async_fd V) t;
          t = rsp_int (off IBV_GET_CONTEXT_RSP [''num_comp_vectors'']) (ctx_num_comp_vectors V) t
      in reply t (size_of IBV_GET_CONTEXT_RSP))"

definition on_QUERY_DEV :: "('w, 'x) verbs_scheme \<Rightarrow> 'w handler" where
  "on_QUERY_DEV V h t =
     reply (rsp_bytes (off IBV_QUERY_DEV_RSP [''dev_attr'']) (ctx_dev_attr V) t) (size_of IBV_QUERY_DEV_RSP)"

definition on_QUERY_PORT :: "'w os \<Rightarrow> ('w, 'x) verbs_scheme \<Rightarrow> 'w handler" where
  "on_QUERY_PORT E V h t =
     recv_body E (size_of IBV_QUERY_PORT_REQ) t (\<lambda>t.
       let (ret, attr, w) = v_query_port V (get_u8 (req_body t) (off IBV_QUERY_PORT_REQ [''port_num''])) (world t);
           t = rsp_bytes (off IBV_QUERY_PORT_RSP [''port_attr'']) attr (t\<lparr>world := w\<rparr>)
       in reply t (size_of IBV_QUERY_PORT_RSP))"

section \<open>Protection domains\<close>

definition on_ALLOC_PD :: "('w, 'x) verbs_scheme \<Rightarrow> 'w handler" where
  "on_ALLOC_PD V h t =
     (let (pd, w) = v_alloc_pd V (world t); t = t\<lparr>world := w\<rparr>
      in deref pd
        (let i = pd_handle_of V w pd;
             t = (if MAP_SIZE \<le> unat i then t
                  else t\<lparr>ffr := (ffr t)\<lparr>pd_map := (pd_map (ffr t))(unat i := pd)\<rparr>\<rparr>);
             t = rsp_u32 (off IBV_ALLOC_PD_RSP [''pd_handle'']) i t
         in reply t (size_of IBV_ALLOC_PD_RSP)))"

definition on_DEALLOC_PD :: "'w os \<Rightarrow> ('w, 'x) verbs_scheme \<Rightarrow> 'w handler" where
  "on_DEALLOC_PD E V h t =
     recv_body E (size_of IBV_DEALLOC_PD_REQ) t (\<lambda>t.
       let i = unat (req_u32 t (off IBV_DEALLOC_PD_REQ [''pd_handle'']))
       in slot (pd_map (ffr t)) i (\<lambda>pd.
            if pd = NULL then Ok (GotoEnd t)
            else let t = t\<lparr>ffr := (ffr t)\<lparr>pd_map := (pd_map (ffr t))(i := NULL)\<rparr>\<rparr>;
                     (ret, w) = v_dealloc_pd V pd (world t);
                     t = rsp_int (off IBV_DEALLOC_PD_RSP [''ret'']) ret (t\<lparr>world := w\<rparr>)
                 in reply t (size_of IBV_DEALLOC_PD_RSP)))"

section \<open>Completion queues\<close>

definition on_CREATE_CQ :: "'w os \<Rightarrow> ('w, 'x) verbs_scheme \<Rightarrow> 'w handler" where
  "on_CREATE_CQ E V h t =
     recv_body E (size_of IBV_CREATE_CQ_REQ) t (\<lambda>t.
       let channel_fd = req_int t (off IBV_CREATE_CQ_REQ [''channel_fd'']);
           create = (\<lambda>channel.
             let (cq, w) = v_create_cq V (req_int t (off IBV_CREATE_CQ_REQ [''cqe''])) channel
                             (req_int t (off IBV_CREATE_CQ_REQ [''comp_vector''])) (world t);
                 t = t\<lparr>world := w\<rparr>
             in deref cq
               (let i = cq_handle_of V w cq;
                    t = (if MAP_SIZE \<le> unat i then t
                         else t\<lparr>ffr := (ffr t)\<lparr>cq_map := (cq_map (ffr t))(unat i := cq)\<rparr>\<rparr>);
                    t = rsp_int (off IBV_CREATE_CQ_RSP [''cqe'']) (cq_cqe_of V w cq) t;
                    t = rsp_u32 (off IBV_CREATE_CQ_RSP [''handle'']) i t
                in case initCtrlShm E (ctrl_shm_name ''cq'' i) (ffr t) (world t) of
                     Inl u \<Rightarrow> Undefined u
                   | Inr (sp, r, w) \<Rightarrow>
                       if MAP_SIZE \<le> unat i then Undefined OobIndex
                       else let r = r\<lparr>cq_shm_map := (cq_shm_map r)(unat i := Some sp)\<rparr>;
                                t = rsp_cstr (off IBV_CREATE_CQ_RSP [''shm_name'']) (sp_name sp) (t\<lparr>world := w\<rparr>);
                                r = r\<lparr>cq_shm_vec := cq_shm_vec r @ [i]\<rparr>
                            in reply (t\<lparr>ffr := r\<rparr>) (size_of IBV_CREATE_CQ_RSP)))
       in if channel_fd < 0 then create NULL
          else islot (channel_map (ffr t)) channel_fd (\<lambda>channel.
                 if channel = NULL then Ok (GotoEnd t) else create channel))"

definition on_DESTROY_CQ :: "'w os \<Rightarrow> ('w, 'x) verbs_scheme \<Rightarrow> 'w handler" where
  "on_DESTROY_CQ E V h t =
     recv_body E (size_of IBV_DESTROY_CQ_REQ) t (\<lambda>t.
       let handle = req_u32 t (off IBV_DESTROY_CQ_REQ [''cq_handle'']); i = unat handle
       in slot (cq_map (ffr t)) i (\<lambda>cq.
            if cq = NULL then Ok (GotoEnd t)
            else let r = (ffr t)\<lparr>cq_map := (cq_map (ffr t))(i := NULL)\<rparr>;
                     (ret, w) = v_destroy_cq V cq (world t);
                     t = rsp_int (off IBV_DESTROY_CQ_RSP [''ret'']) ret t;
                     r = r\<lparr>cq_shm_vec := erase_first handle (cq_shm_vec r)\<rparr>;
                     w = (case cq_shm_map r i of Some sp \<Rightarrow> ShmPiece_remove E sp w | None \<Rightarrow> w);
                     r = r\<lparr>cq_shm_map := (cq_shm_map r)(i := None)\<rparr>
                 in reply (t\<lparr>ffr := r, world := w\<rparr>) (size_of IBV_DESTROY_CQ_RSP)))"

definition on_REQ_NOTIFY_CQ :: "'w os \<Rightarrow> ('w, 'x) verbs_scheme \<Rightarrow> 'w handler" where
  "on_REQ_NOTIFY_CQ E V h t =
     recv_body E (size_of IBV_REQ_NOTIFY_CQ_REQ) t (\<lambda>t.
       slot (cq_map (ffr t)) (unat (req_u32 t (off IBV_REQ_NOTIFY_CQ_REQ [''cq_handle'']))) (\<lambda>cq.
         if cq = NULL then Ok (GotoEnd t)
         else let (ret, w) = v_req_notify_cq V cq (req_int t (off IBV_REQ_NOTIFY_CQ_REQ [''solicited_only''])) (world t);
                  t = rsp_int (off IBV_REQ_NOTIFY_CQ_RSP [''ret'']) ret (t\<lparr>world := w\<rparr>)
              in reply t (size_of IBV_REQ_NOTIFY_CQ_RSP)))"

definition on_CREATE_COMP_CHANNEL :: "'w os \<Rightarrow> ('w, 'x) verbs2_scheme \<Rightarrow> 'w handler" where
  "on_CREATE_COMP_CHANNEL E V h t =
     (let (channel, w) = v_create_comp_channel V (world t)
      in deref channel
        (let fd = channel_fd_of V w channel
         in if fd < 0 then Undefined OobIndex
            else let r = (if int MAP_SIZE \<le> fd then ffr t
                          else (ffr t)\<lparr>channel_map := (channel_map (ffr t))(nat fd := channel)\<rparr>);
                     (_, w) = send_fd E (client_sock t) fd w;
                     t = rsp_int (off IBV_CREATE_COMP_CHANNEL_RSP [''fd'']) fd (t\<lparr>ffr := r, world := w\<rparr>)
                 in reply t (size_of IBV_CREATE_COMP_CHANNEL_RSP)))"

definition on_DESTROY_COMP_CHANNEL :: "'w os \<Rightarrow> ('w, 'x) verbs2_scheme \<Rightarrow> 'w handler" where
  "on_DESTROY_COMP_CHANNEL E V h t =
     recv_body E (size_of IBV_DESTROY_COMP_CHANNEL_REQ) t (\<lambda>t.
       let fd = req_int t (off IBV_DESTROY_COMP_CHANNEL_REQ [''fd''])
       in islot (channel_map (ffr t)) fd (\<lambda>channel.
            if channel = NULL then Ok (GotoEnd t)
            else let r = (ffr t)\<lparr>channel_map := (channel_map (ffr t))(nat fd := NULL)\<rparr>;
                     (ret, w) = v_destroy_comp_channel V channel (world t);
                     t = rsp_int (off IBV_DESTROY_COMP_CHANNEL_RSP [''ret'']) ret (t\<lparr>ffr := r, world := w\<rparr>)
                 in reply t (size_of IBV_DESTROY_COMP_CHANNEL_RSP)))"

text \<open>The answer to both event calls is filled from the completion queue itself.\<close>

definition cq_event_rsp :: "('w, 'x) verbs_scheme \<Rightarrow> u64 \<Rightarrow> 'w thr \<Rightarrow> 'w hres run" where
  "cq_event_rsp V cq t =
     (let w = world t;
          t = rsp_u32 (off IBV_GET_CQ_EVENT_RSP [''cq_handle'']) (cq_handle_of V w cq) t;
          t = rsp_u32 (off IBV_GET_CQ_EVENT_RSP [''comp_events_completed'']) (cq_comp_events_of V w cq) t;
          t = rsp_u32 (off IBV_GET_CQ_EVENT_RSP [''async_events_completed'']) (cq_async_events_of V w cq) t
      in reply t (size_of IBV_GET_CQ_EVENT_RSP))"

definition on_GET_CQ_EVENT :: "'w os \<Rightarrow> ('w, 'x) verbs_scheme \<Rightarrow> 'w handler" where
  "on_GET_CQ_EVENT E V h t =
     recv_body E (size_of IBV_GET_CQ_EVENT_REQ) t (\<lambda>t.
       islot (channel_map (ffr t)) (req_int t (off IBV_GET_CQ_EVENT_REQ [''fd''])) (\<lambda>channel.
         if channel = NULL then Ok (GotoEnd t)
         else let (cq, w) = v_get_cq_event V channel (world t); t = t\<lparr>world := w\<rparr>
              in if cq = NULL then Ok (GotoEnd t) else cq_event_rsp V cq t))"

definition on_ACK_CQ_EVENT :: "'w os \<Rightarrow> ('w, 'x) verbs_scheme \<Rightarrow> 'w handler" where
  "on_ACK_CQ_EVENT E V h t =
     recv_body E (size_of IBV_ACK_CQ_EVENT_REQ) t (\<lambda>t.
       slot (cq_map (ffr t)) (unat (req_u32 t (off IBV_ACK_CQ_EVENT_REQ [''cq_handle'']))) (\<lambda>cq.
         if cq = NULL then Ok (GotoEnd t)
         else let w = v_ack_cq_events V cq (req_u32 t (off IBV_ACK_CQ_EVENT_REQ [''nevents''])) (world t)
              in cq_event_rsp V cq (t\<lparr>world := w\<rparr>)))"

section \<open>Queue pairs\<close>

definition qp_cap_fields :: "string list" where
  "qp_cap_fields = [''max_send_wr'', ''max_recv_wr'', ''max_send_sge'', ''max_recv_sge'', ''max_inline_data'']"

definition new_bucket :: "'w os \<Rightarrow> int \<Rightarrow> ub + TokenBucket" where
  "new_bucket E client =
     (case os_getenv E (''RATE_LIMIT_'' @ dec_int client) of
        None \<Rightarrow> TokenBucket_ctor MAX_QP_RATE_LIMIT BURST_PER_QP
      | Some rate_env \<Rightarrow> TokenBucket_ctor (stream_u64 rate_env div 8) BURST_PER_QP)"

text \<open>
  The three handles of the request index their tables unchecked. The rate limiter is made only for a
  handle inside the table; the control piece is stored under the handle in any case.
\<close>

definition on_CREATE_QP :: "'w os \<Rightarrow> ('w, 'x) verbs_scheme \<Rightarrow> 'w handler" where
  "on_CREATE_QP E V h t =
     recv_body E (size_of IBV_CREATE_QP_REQ) t (\<lambda>t.
       let f = (\<lambda>x. req_u32 t (off IBV_CREATE_QP_REQ [x]));
           caps = map (\<lambda>x. req_u32 t (off IBV_CREATE_QP_REQ [''cap'', x])) qp_cap_fields
       in slot (srq_map (ffr t)) (unat (f ''srq_handle'')) (\<lambda>srq.
          slot (cq_map (ffr t)) (unat (f ''send_cq_handle'')) (\<lambda>send_cq.
          slot (cq_map (ffr t)) (unat (f ''recv_cq_handle'')) (\<lambda>recv_cq.
          slot (pd_map (ffr t)) (unat (f ''pd_handle'')) (\<lambda>pd.
          deref pd
            (let (qp, caps, w) = v_create_qp V pd srq send_cq recv_cq caps (f ''qp_type'')
                                   (req_int t (off IBV_CREATE_QP_REQ [''sq_sig_all''])) (world t);
                 t = t\<lparr>world := w\<rparr>
             in if qp = NULL then Ok (GotoEnd t)
                else let i = qp_handle_of V w qp
                     in case (if MAP_SIZE \<le> unat i then Inr (ffr t)
                              else map_sum id
                                (\<lambda>tb. (ffr t)\<lparr>qp_map := (qp_map (ffr t))(unat i := qp),
                                              tokenbucket := (tokenbucket (ffr t))(i \<mapsto> Some tb)\<rparr>)
                                (new_bucket E (client_id h))) of
                          Inl u \<Rightarrow> Undefined u
                        | Inr r \<Rightarrow>
                            let t = t\<lparr>ffr := r\<rparr>;
                                t = rsp_u32 (off IBV_CREATE_QP_RSP [''qp_num'']) (qp_num_of V w qp) t;
                                t = rsp_u32 (off IBV_CREATE_QP_RSP [''handle'']) i t;
                                t = fold (\<lambda>(x, v). rsp_u32 (off IBV_CREATE_QP_RSP [''cap'', x]) v) (zip qp_cap_fields caps) t
                            in case initCtrlShm E (ctrl_shm_name ''qp'' i) (ffr t) (world t) of
                                 Inl u \<Rightarrow> Undefined u
                               | Inr (sp, r, w) \<Rightarrow>
                                   if MAP_SIZE \<le> unat i then Undefined OobIndex
                                   else let r = r\<lparr>qp_shm_map := (qp_shm_map r)(unat i := Some sp)\<rparr>;
                                            t = rsp_cstr (off IBV_CREATE_QP_RSP [''shm_name'']) (sp_name sp) (t\<lparr>world := w\<rparr>);
                                            r = r\<lparr>qp_shm_vec := qp_shm_vec r @ [i]\<rparr>
                                        in reply (t\<lparr>ffr := r\<rparr>) (size_of IBV_CREATE_QP_RSP)))))))"

definition on_DESTROY_QP :: "'w os \<Rightarrow> ('w, 'x) verbs_scheme \<Rightarrow> 'w handler" where
  "on_DESTROY_QP E V h t =
     recv_body E (size_of IBV_DESTROY_QP_REQ) t (\<lambda>t.
       let handle = req_u32 t (off IBV_DESTROY_QP_REQ [''qp_handle'']); i = unat handle
       in slot (qp_map (ffr t)) i (\<lambda>qp.
            if qp = NULL then Ok (GotoEnd t)
            else let r = (ffr t)\<lparr>qp_map := (qp_map (ffr t))(i := NULL)\<rparr>;
                     (ret, w) = v_destroy_qp V qp (world t);
                     t = rsp_int (off IBV_DESTROY_QP_RSP [''ret'']) ret t;
                     r = r\<lparr>qp_shm_vec := erase_first handle (qp_shm_vec r)\<rparr>;
                     w = (case qp_shm_map r i of Some sp \<Rightarrow> ShmPiece_remove E sp w | None \<Rightarrow> w);
                     r = r\<lparr>qp_shm_map := (qp_shm_map r)(i := None)\<rparr>
                 in reply (t\<lparr>ffr := r, world := w\<rparr>) (size_of IBV_DESTROY_QP_RSP)))"

text \<open>A handle outside the table is reported through the null queue pair; inside, the library gets the pointer.\<close>

definition on_MODIFY_QP :: "'w os \<Rightarrow> ('w, 'x) verbs_scheme \<Rightarrow> 'w handler" where
  "on_MODIFY_QP E V h t =
     recv_body E (size_of IBV_MODIFY_QP_REQ) t (\<lambda>t.
       let handle = req_u32 t (off IBV_MODIFY_QP_REQ [''handle''])
       in if MAP_SIZE \<le> unat handle then Undefined NullDeref
          else let qp = qp_map (ffr t) (unat handle)
               in deref qp
                 (let attr = get_bytes (req_body t) (off IBV_MODIFY_QP_REQ [''attr'']) (size_of ibv_qp_attr);
                      (ret, w) = v_modify_qp V qp attr (req_u32 t (off IBV_MODIFY_QP_REQ [''attr_mask''])) (world t);
                      t = rsp_int (off IBV_MODIFY_QP_RSP [''ret'']) ret (t\<lparr>world := w\<rparr>);
                      t = rsp_u32 (off IBV_MODIFY_QP_RSP [''handle'']) handle t
                  in reply t (size_of IBV_MODIFY_QP_RSP)))"

end
