(* ===== verification/FF_VerbsCmd.thy ===== *)
theory FF_VerbsCmd
  imports FF_Env
begin

text \<open>
  \<^verbatim>\<open>ffrouter/verbs_cmd.cpp\<close>: the four commands the router replays on the verbs device itself, with the
  header macros of \<^verbatim>\<open>ffrouter/ibverbs.h\<close>. Each result is the value the handler stores in \<^verbatim>\<open>ret_errno\<close> and the
  response bytes when they are copied out. The two commands whose length a client chooses are copied
  into stack buffers of 100 and 1024 bytes.
\<close>

definition IB_USER_VERBS_CMD_QUERY_QP :: u32 where
  "IB_USER_VERBS_CMD_QUERY_QP = 25"

definition IB_USER_VERBS_CMD_CREATE_FLOW :: u32 where
  "IB_USER_VERBS_CMD_CREATE_FLOW = 0x80000032"

definition IB_USER_VERBS_CMD_DESTROY_FLOW :: u32 where
  "IB_USER_VERBS_CMD_DESTROY_FLOW = 0x80000033"

definition IB_USER_VERBS_EXP_CMD_FIRST :: u32 where
  "IB_USER_VERBS_EXP_CMD_FIRST = 64"

definition IB_USER_VERBS_EXP_CMD_QUERY_DEVICE :: u32 where
  "IB_USER_VERBS_EXP_CMD_QUERY_DEVICE = 4"

definition IB_USER_VERBS_EXP_CMD_CREATE_FLOW :: u32 where
  "IB_USER_VERBS_EXP_CMD_CREATE_FLOW = 19"

type_synonym 'w cmd_res = "ub + int \<times> bytes option \<times> 'w"

text \<open>
  \<open>ex_header\<close> fills the fields of \<^verbatim>\<open>struct ex_hdr\<close> in the order of the macros; \<open>words n\<close> is a byte count divided
  by 8 as the macros compute it, in \<^verbatim>\<open>size_t\<close> arithmetic and truncated to 16 bits.
\<close>

definition words :: "u64 \<Rightarrow> u16" where
  "words n = ucast (n div 8)"

definition ex_header :: "u32 \<Rightarrow> u16 \<Rightarrow> u16 \<Rightarrow> u16 \<Rightarrow> u16 \<Rightarrow> u64 \<Rightarrow> mem \<Rightarrow> mem" where
  "ex_header command in_words out_words prov_in prov_out response cmd =
     (let cmd = put_u32 cmd (off ex_hdr [''_anon0'', ''command'']) command;
          cmd = put_u16 cmd (off ex_hdr [''_anon0'', ''in_words'']) in_words;
          cmd = put_u16 cmd (off ex_hdr [''_anon0'', ''out_words'']) out_words;
          cmd = put_u16 cmd (off ex_hdr [''_anon2'', ''provider_in_words'']) prov_in;
          cmd = put_u16 cmd (off ex_hdr [''_anon2'', ''provider_out_words'']) prov_out;
          cmd = put_u64 cmd (off ex_hdr [''_anon1'', ''response'']) response
      in put_u32 cmd (off ex_hdr [''_anon2'', ''reserved'']) 0)"

definition IBV_INIT_CMD_RESP_EXP :: "u32 \<Rightarrow> int \<Rightarrow> u64 \<Rightarrow> nat \<Rightarrow> mem \<Rightarrow> mem" where
  "IBV_INIT_CMD_RESP_EXP opcode cmd_size out osize cmd =
     ex_header (opcode + IB_USER_VERBS_EXP_CMD_FIRST) (words (word_of_int cmd_size - word_of_nat (size_of ex_hdr)))
       (words (word_of_nat osize)) 0 0 out cmd"

definition IBV_INIT_CMD_RESP_EX_V :: "u32 \<Rightarrow> int \<Rightarrow> int \<Rightarrow> u64 \<Rightarrow> nat \<Rightarrow> nat \<Rightarrow> mem \<Rightarrow> mem" where
  "IBV_INIT_CMD_RESP_EX_V opcode cmd_size sz out resp_size outsize cmd =
     ex_header opcode (words (word_of_int cmd_size - word_of_nat (size_of ex_hdr))) (words (word_of_nat resp_size))
       (words (word_of_int (sz - cmd_size))) (words (word_of_nat outsize - word_of_nat resp_size)) out cmd"

definition ibv_exp_cmd_query_device_resp :: "'w os \<Rightarrow> int \<Rightarrow> mem \<Rightarrow> nat \<Rightarrow> 'w \<Rightarrow> 'w cmd_res" where
  "ibv_exp_cmd_query_device_resp E cmd_fd m p w =
     (let T = ibv_exp_query_device; n = size_of ibv_exp_query_device_resp;
          cmd = put_bytes (os_stack E) 0 (get_bytes m p (size_of T));
          cmd = IBV_INIT_CMD_RESP_EXP IB_USER_VERBS_EXP_CMD_QUERY_DEVICE (int (size_of T)) (os_resp_addr E) n cmd;
          (ret, resp, w) = os_devwrite E cmd_fd (get_bytes cmd 0 (size_of T)) n w
      in if ret \<noteq> int (size_of T) then Inr (os_errno E w, None, w) else Inr (0, Some resp, w))"

definition ibv_cmd_query_qp_resp :: "'w os \<Rightarrow> int \<Rightarrow> mem \<Rightarrow> nat \<Rightarrow> int \<Rightarrow> 'w \<Rightarrow> 'w cmd_res" where
  "ibv_cmd_query_qp_resp E cmd_fd m p cmd_size w =
     (let T = ibv_query_qp; n = size_of ibv_query_qp_resp;
          cmd = put_u32 (os_stack E) (off T [''command'']) IB_USER_VERBS_CMD_QUERY_QP;
          cmd = put_u16 cmd (off T [''in_words'']) (word_of_int (cmd_size div 4));
          cmd = put_u16 cmd (off T [''out_words'']) (word_of_nat (n div 4));
          cmd = put_u64 cmd (off T [''response'']) (os_resp_addr E);
          cmd = put_u32 cmd (off T [''qp_handle'']) (get_u32 m (p + off T [''qp_handle'']));
          cmd = put_u32 cmd (off T [''attr_mask'']) (get_u32 m (p + off T [''attr_mask'']))
      in if cmd_size < 0 \<or> 100 < cmd_size then Inl StackOverflow
         else let (ret, resp, w) = os_devwrite E cmd_fd (get_bytes cmd 0 (nat cmd_size)) n w
              in if ret \<noteq> cmd_size then Inr (os_errno E w, None, w) else Inr (0, Some resp, w))"

text \<open>The loop that prints the flow specifications follows the sizes the client wrote into them.\<close>

fun walk_specs :: "nat \<Rightarrow> nat \<Rightarrow> mem \<Rightarrow> bool" where
  "walk_specs 0 q cmd = True"
| "walk_specs (Suc k) q cmd =
     (if 1024 < q + 8 then False
      else walk_specs k (q + unat (get_u16 cmd (q + off ibv_kern_spec [''_anon0'', ''hdr'', ''size'']))) cmd)"

definition ibv_cmd_create_flow_resp :: "'w os \<Rightarrow> int \<Rightarrow> mem \<Rightarrow> nat \<Rightarrow> int \<Rightarrow> int \<Rightarrow> 'w \<Rightarrow> 'w cmd_res" where
  "ibv_cmd_create_flow_resp E cmd_fd m p written_size exp_flow w =
     (if written_size < 0 \<or> 1024 < written_size then Inl StackOverflow
      else let n = size_of ibv_create_flow_resp;
               cmd = put_bytes (os_stack E) 0 (get_bytes m p (nat written_size));
               specs = unat (get_u8 cmd (off ibv_create_flow [''flow_attr'', ''num_of_specs'']))
           in if \<not> walk_specs specs (size_of ibv_create_flow) cmd then Inl OobIndex
              else let cmd = (if exp_flow \<noteq> 0
                         then IBV_INIT_CMD_RESP_EXP IB_USER_VERBS_EXP_CMD_CREATE_FLOW written_size (os_resp_addr E) n cmd
                         else IBV_INIT_CMD_RESP_EX_V IB_USER_VERBS_CMD_CREATE_FLOW written_size written_size
                                (os_resp_addr E) n n cmd);
                       (ret, resp, w) = os_devwrite E cmd_fd (get_bytes cmd 0 (nat written_size)) n w
                   in if ret \<noteq> written_size then Inr (os_errno E w, None, w) else Inr (0, Some resp, w))"

definition ibv_cmd_destroy_flow_resp :: "'w os \<Rightarrow> int \<Rightarrow> mem \<Rightarrow> nat \<Rightarrow> 'w \<Rightarrow> int \<times> 'w" where
  "ibv_cmd_destroy_flow_resp E cmd_fd m p w =
     (let T = ibv_destroy_flow;
          cmd = put_bytes (os_stack E) 0 (get_bytes m p (size_of T));
          cmd = IBV_INIT_CMD_RESP_EX_V IB_USER_VERBS_CMD_DESTROY_FLOW (int (size_of T)) (int (size_of T)) NULL 0 0 cmd;
          (ret, resp, w) = os_devwrite E cmd_fd (get_bytes cmd 0 (size_of T)) 0 w
      in if ret \<noteq> int (size_of T) then (os_errno E w, w) else (0, w))"

end
