(* ===== verification/FF_Memory.thy ===== *)
theory FF_Memory
  imports FF_Handler FF_VerbsCmd
begin

text \<open>
  The remaining cases of \<^verbatim>\<open>HandleRequest\<close> on verbs objects: memory regions and the exchange of their
  mappings between routers (with the receiving side, \<^verbatim>\<open>UDPServer\<close>), address handles, flows, shared receive
  queues, and the two queries that go to the verbs device.
\<close>

section \<open>Device queries\<close>

text \<open>The answer of a replayed command is copied into the \<^verbatim>\<open>resp\<close> field, then \<^verbatim>\<open>ret_errno\<close> is stored.\<close>

definition cmd_rsp :: "cty \<Rightarrow> 'w thr \<Rightarrow> ub + int \<times> bytes option \<times> 'w \<Rightarrow> 'w hres run" where
  "cmd_rsp R t res =
     (case res of
        Inl u \<Rightarrow> Undefined u
      | Inr (ret, resp, w) \<Rightarrow>
          let t = t\<lparr>world := w\<rparr>;
              t = (case resp of None \<Rightarrow> t | Some bs \<Rightarrow> rsp_bytes (off R [''resp'']) bs t);
              t = rsp_int (off R [''ret_errno'']) ret t
          in reply t (size_of R))"

definition on_EXP_QUERY_DEV :: "'w os \<Rightarrow> ('w, 'x) verbs_scheme \<Rightarrow> 'w handler" where
  "on_EXP_QUERY_DEV E V h t =
     recv_body E (size_of IBV_EXP_QUERY_DEV_REQ) t (\<lambda>t.
       cmd_rsp IBV_EXP_QUERY_DEV_RSP t
         (ibv_exp_cmd_query_device_resp E (ctx_cmd_fd V) (req_body t) (off IBV_EXP_QUERY_DEV_REQ [''cmd'']) (world t)))"

definition on_QUERY_QP :: "'w os \<Rightarrow> ('w, 'x) verbs_scheme \<Rightarrow> 'w handler" where
  "on_QUERY_QP E V h t =
     recv_body E (size_of IBV_QUERY_QP_REQ) t (\<lambda>t.
       cmd_rsp IBV_QUERY_QP_RSP t
         (ibv_cmd_query_qp_resp E (ctx_cmd_fd V) (req_body t) (off IBV_QUERY_QP_REQ [''cmd''])
            (req_int t (off IBV_QUERY_QP_REQ [''cmd_size''])) (world t)))"

definition on_CREATE_FLOW :: "'w os \<Rightarrow> ('w, 'x) verbs_scheme \<Rightarrow> 'w handler" where
  "on_CREATE_FLOW E V h t =
     recv_body E (size_of IBV_CREATE_FLOW_REQ) t (\<lambda>t.
       cmd_rsp IBV_CREATE_FLOW_RSP t
         (ibv_cmd_create_flow_resp E (ctx_cmd_fd V) (req_body t) (off IBV_CREATE_FLOW_REQ [''cmd''])
            (req_int t (off IBV_CREATE_FLOW_REQ [''written_size''])) (req_int t (off IBV_CREATE_FLOW_REQ [''exp_flow'']))
            (world t)))"

definition on_DESTROY_FLOW :: "'w os \<Rightarrow> ('w, 'x) verbs_scheme \<Rightarrow> 'w handler" where
  "on_DESTROY_FLOW E V h t =
     recv_body E (size_of IBV_DESTROY_FLOW_REQ) t (\<lambda>t.
       let (ret, w) = ibv_cmd_destroy_flow_resp E (ctx_cmd_fd V) (req_body t) (off IBV_DESTROY_FLOW_REQ [''cmd'']) (world t);
           t = rsp_int (off IBV_DESTROY_FLOW_RSP [''ret_errno'']) ret (t\<lparr>world := w\<rparr>)
       in reply t (size_of IBV_DESTROY_FLOW_RSP))"

section \<open>Memory regions\<close>

definition on_REG_MR :: "'w os \<Rightarrow> ('w, 'x) verbs2_scheme \<Rightarrow> 'w handler" where
  "on_REG_MR E V h t =
     recv_body E (size_of IBV_REG_MR_REQ) t (\<lambda>t.
       let mem_size = req_int t (off IBV_REG_MR_REQ [''mem_size''])
       in case req_cstr t (off IBV_REG_MR_REQ [''shm_name'']) of
            None \<Rightarrow> Undefined OobIndex
          | Some name \<Rightarrow>
              let (sp, r, w) = (if name = [] then addShmPiece_client E (client_id h) mem_size (ffr t) (world t)
                                else addShmPiece_name E name mem_size (ffr t) (world t));
                  t = t\<lparr>ffr := r, world := w\<rparr>
              in case sp of
                   None \<Rightarrow> Ok (GotoEnd t)
                 | Some sp \<Rightarrow>
                     slot (pd_map (ffr t)) (unat (req_u32 t (off IBV_REG_MR_REQ [''pd_handle'']))) (\<lambda>pd.
                       if pd = NULL then Ok (GotoEnd t)
                       else let (mr, w) = v_reg_mr V pd (sp_ptr sp) (sp_size sp)
                                            (req_u32 t (off IBV_REG_MR_REQ [''access_flags''])) (world t);
                                t = t\<lparr>world := w\<rparr>
                            in if mr = NULL then Ok (GotoEnd t)
                               else let i = mr_handle_of V w mr; r = ffr t;
                                        r = (if MAP_SIZE \<le> unat i then r
                                             else r\<lparr>shmr_map := (shmr_map r)(unat i := Some sp),
                                                    mr_map := (mr_map r)(unat i := mr)\<rparr>);
                                        t = rsp_u32 (off IBV_REG_MR_RSP [''handle'']) i t;
                                        t = rsp_u32 (off IBV_REG_MR_RSP [''lkey'']) (mr_lkey_of V w mr) t;
                                        t = rsp_u32 (off IBV_REG_MR_RSP [''rkey'']) (mr_rkey_of V w mr) t;
                                        t = rsp_cstr (off IBV_REG_MR_RSP [''shm_name'']) (sp_name sp) t;
                                        r = r\<lparr>lkey_ptr := (lkey_ptr r)(mr_lkey_of V w mr \<mapsto> sp_ptr sp)\<rparr>
                                    in reply (t\<lparr>ffr := r\<rparr>) (size_of IBV_REG_MR_RSP)))"

text \<open>\<^verbatim>\<open>lkey_ptr[key]\<close> inserts a null pointer under an absent key.\<close>

definition lkey_at :: "u32 \<Rightarrow> router \<Rightarrow> u64 \<times> router" where
  "lkey_at key r =
     (case lkey_ptr r key of Some p \<Rightarrow> (p, r) | None \<Rightarrow> (NULL, r\<lparr>lkey_ptr := (lkey_ptr r)(key \<mapsto> NULL)\<rparr>))"

definition UDP_PORT :: u16 where
  "UDP_PORT = 11232"

text \<open>
  The broadcast of one mapping. A socket that cannot be created ends the thread's function (the
  first component is \<open>False\<close>); an unusable address skips the host and leaves its socket open.
\<close>

fun send_mapping :: "'w os \<Rightarrow> bytes \<Rightarrow> string list \<Rightarrow> 'w \<Rightarrow> bool \<times> 'w" where
  "send_mapping E msg [] w = (True, w)"
| "send_mapping E msg (host # hosts) w =
     (let (s, w) = os_socket E 2 2 17 w
      in if s = - 1 then (False, w)
         else let (ret, w) = os_bind E s 0 0 w
              in if ret < 0 then send_mapping E msg hosts w
                 else case os_inet_aton E host of
                        None \<Rightarrow> send_mapping E msg hosts w
                      | Some ip \<Rightarrow>
                          let (_, w) = os_sendto E s msg ip UDP_PORT w;
                              (_, _, _, _, w) = os_recvfrom E s 1400 w;
                              w = os_close E s w
                          in send_mapping E msg hosts w)"

definition on_REG_MR_MAPPING :: "'w os \<Rightarrow> 'w handler" where
  "on_REG_MR_MAPPING E h t =
     recv_body E (size_of IBV_REG_MR_MAPPING_REQ) t (\<lambda>t.
       let (ptr, r) = lkey_at (req_u32 t (off IBV_REG_MR_MAPPING_REQ [''key''])) (ffr t);
           t = t\<lparr>ffr := r, req_body := put_u64 (req_body t) (off IBV_REG_MR_MAPPING_REQ [''shm_ptr'']) ptr\<rparr>;
           msg = get_bytes (req_body t) 0 (size_of IBV_REG_MR_MAPPING_REQ);
           (ok, w) = send_mapping E msg (host_list (ffr t)) (world t);
           t = t\<lparr>world := w\<rparr>
       in if \<not> ok then Ok (Return t)
          else reply (rsp_int (off IBV_REG_MR_MAPPING_RSP [''ret'']) 0 t) (size_of IBV_REG_MR_MAPPING_RSP))"

text \<open>
  One turn of the receiving loop: \<open>buf\<close> is the server's buffer, which keeps the bytes of the last packet
  where a shorter one does not overwrite them. The result is \<open>None\<close> when the server stops.
\<close>

definition UDPServer_step :: "'w os \<Rightarrow> int \<Rightarrow> mem \<Rightarrow> router \<Rightarrow> 'w \<Rightarrow> (mem \<times> router \<times> 'w) option" where
  "UDPServer_step E s buf r w =
     (let (n, bs, ip, port, w) = os_recvfrom E s 1400 w
      in if n = - 1 then None
         else let buf = put_bytes buf 0 bs;
                  key = get_u32 buf (off IBV_REG_MR_MAPPING_REQ [''key'']);
                  mr_shm = \<lparr>mr_ptr = get_u64 buf (off IBV_REG_MR_MAPPING_REQ [''mr_ptr'']),
                            shm_ptr = get_u64 buf (off IBV_REG_MR_MAPPING_REQ [''shm_ptr''])\<rparr>;
                  r = r\<lparr>rkey_mr_shm := (rkey_mr_shm r)(key \<mapsto> mr_shm)\<rparr>;
                  buf = put_cstr buf 0 (''ack-'' @ dec (unat key));
                  (_, w) = os_sendto E s (get_bytes buf 0 1400) ip port w
              in Some (buf, r, w))"

text \<open>Neither pointer is tested: the library gets the region, then the piece is removed.\<close>

definition on_DEREG_MR :: "'w os \<Rightarrow> ('w, 'x) verbs2_scheme \<Rightarrow> 'w handler" where
  "on_DEREG_MR E V h t =
     recv_body E (size_of IBV_DEREG_MR_REQ) t (\<lambda>t.
       let i = unat (req_u32 t (off IBV_DEREG_MR_REQ [''handle'']))
       in slot (shmr_map (ffr t)) i (\<lambda>sp. slot (mr_map (ffr t)) i (\<lambda>mr.
            let r = (ffr t)\<lparr>shmr_map := (shmr_map (ffr t))(i := None), mr_map := (mr_map (ffr t))(i := NULL)\<rparr>
            in deref mr
              (let (ret, w) = v_dereg_mr V mr (world t)
               in case sp of
                    None \<Rightarrow> Undefined NullDeref
                  | Some sp \<Rightarrow>
                      let w = ShmPiece_remove E sp w;
                          t = rsp_int (off IBV_DEREG_MR_RSP [''ret'']) ret (t\<lparr>ffr := r, world := w\<rparr>)
                      in reply t (size_of IBV_DEREG_MR_RSP)))))"

section \<open>Address handles\<close>

definition on_CREATE_AH :: "'w os \<Rightarrow> ('w, 'x) verbs2_scheme \<Rightarrow> 'w handler" where
  "on_CREATE_AH E V h t =
     recv_body E (size_of IBV_CREATE_AH_REQ) t (\<lambda>t.
       slot (pd_map (ffr t)) (unat (req_u32 t (off IBV_CREATE_AH_REQ [''pd_handle'']))) (\<lambda>pd.
         if pd = NULL then Ok (GotoEnd t)
         else let (ah, w) = v_create_ah V pd
                              (get_bytes (req_body t) (off IBV_CREATE_AH_REQ [''ah_attr'']) (size_of ibv_ah_attr)) (world t);
                  t = t\<lparr>world := w\<rparr>
              in deref ah
                (let i = ah_handle_of V w ah;
                     t = (if MAP_SIZE \<le> unat i then t
                          else t\<lparr>ffr := (ffr t)\<lparr>ah_map := (ah_map (ffr t))(unat i := ah)\<rparr>\<rparr>);
                     t = rsp_u32 (off IBV_CREATE_AH_RSP [''ah_handle'']) i t;
                     t = rsp_int (off IBV_CREATE_AH_RSP [''ret'']) 0 t
                 in reply t (size_of IBV_CREATE_AH_RSP))))"

text \<open>The handle is read through the layout of the creation request, and the table keeps its entry.\<close>

definition on_DESTROY_AH :: "'w os \<Rightarrow> ('w, 'x) verbs2_scheme \<Rightarrow> 'w handler" where
  "on_DESTROY_AH E V h t =
     recv_body E (size_of IBV_DESTROY_AH_REQ) t (\<lambda>t.
       slot (ah_map (ffr t)) (unat (req_u32 t (off IBV_CREATE_AH_REQ [''pd_handle'']))) (\<lambda>ah.
         if ah = NULL then Ok (GotoEnd t)
         else let (ret, w) = v_destroy_ah V ah (world t);
                  t = rsp_int (off IBV_DESTROY_AH_RSP [''ret'']) ret (t\<lparr>world := w\<rparr>)
              in reply t (size_of IBV_DESTROY_AH_RSP)))"

section \<open>Shared receive queues\<close>

definition on_CREATE_SRQ :: "'w os \<Rightarrow> ('w, 'x) verbs2_scheme \<Rightarrow> 'w handler" where
  "on_CREATE_SRQ E V h t =
     recv_body E (size_of IBV_CREATE_SRQ_REQ) t (\<lambda>t.
       slot (pd_map (ffr t)) (unat (req_u32 t (off IBV_CREATE_SRQ_REQ [''pd_handle'']))) (\<lambda>pd.
         if pd = NULL then Ok (GotoEnd t)
         else let (srq, w) = v_create_srq V pd
                               (get_bytes (req_body t) (off IBV_CREATE_SRQ_REQ [''attr'']) (size_of ibv_srq_init_attr)) (world t);
                  t = t\<lparr>world := w\<rparr>
              in deref srq
                (let i = srq_handle_of V w srq;
                     t = (if MAP_SIZE \<le> unat i then t
                          else t\<lparr>ffr := (ffr t)\<lparr>srq_map := (srq_map (ffr t))(unat i := srq)\<rparr>\<rparr>);
                     t = rsp_u32 (off IBV_CREATE_SRQ_RSP [''srq_handle'']) i t
                 in case initCtrlShm E (ctrl_shm_name ''srq'' i) (ffr t) (world t) of
                      Inl u \<Rightarrow> Undefined u
                    | Inr (sp, r, w) \<Rightarrow>
                        if MAP_SIZE \<le> unat i then Undefined OobIndex
                        else let r = r\<lparr>srq_shm_map := (srq_shm_map r)(unat i := Some sp)\<rparr>;
                                 t = rsp_cstr (off IBV_CREATE_SRQ_RSP [''shm_name'']) (sp_name sp) (t\<lparr>world := w\<rparr>);
                                 r = r\<lparr>srq_shm_vec := srq_shm_vec r @ [i]\<rparr>
                             in reply (t\<lparr>ffr := r\<rparr>) (size_of IBV_CREATE_SRQ_RSP))))"

definition on_MODIFY_SRQ :: "'w os \<Rightarrow> ('w, 'x) verbs2_scheme \<Rightarrow> 'w handler" where
  "on_MODIFY_SRQ E V h t =
     recv_body E (size_of IBV_MODIFY_SRQ_REQ) t (\<lambda>t.
       slot (srq_map (ffr t)) (unat (req_u32 t (off IBV_MODIFY_SRQ_REQ [''srq_handle'']))) (\<lambda>srq.
         if srq = NULL then Ok (GotoEnd t)
         else let (ret, w) = v_modify_srq V srq
                               (get_bytes (req_body t) (off IBV_MODIFY_SRQ_REQ [''attr'']) (size_of ibv_srq_attr))
                               (req_int t (off IBV_MODIFY_SRQ_REQ [''srq_attr_mask''])) (world t);
                  t = rsp_int (off IBV_MODIFY_SRQ_RSP [''ret'']) ret (t\<lparr>world := w\<rparr>)
              in reply t (size_of IBV_MODIFY_SRQ_RSP)))"

definition on_DESTROY_SRQ :: "'w os \<Rightarrow> ('w, 'x) verbs2_scheme \<Rightarrow> 'w handler" where
  "on_DESTROY_SRQ E V h t =
     recv_body E (size_of IBV_DESTROY_SRQ_REQ) t (\<lambda>t.
       let handle = req_u32 t (off IBV_DESTROY_SRQ_REQ [''srq_handle'']); i = unat handle
       in slot (srq_map (ffr t)) i (\<lambda>srq.
            if srq = NULL then Ok (GotoEnd t)
            else let r = (ffr t)\<lparr>srq_map := (srq_map (ffr t))(i := NULL)\<rparr>;
                     (ret, w) = v_destroy_srq V srq (world t);
                     t = rsp_int (off IBV_DESTROY_SRQ_RSP [''ret'']) ret t;
                     r = r\<lparr>srq_shm_vec := erase_first handle (srq_shm_vec r)\<rparr>;
                     w = (case srq_shm_map r i of Some sp \<Rightarrow> ShmPiece_remove E sp w | None \<Rightarrow> w);
                     r = r\<lparr>srq_shm_map := (srq_shm_map r)(i := None)\<rparr>
                 in reply (t\<lparr>ffr := r, world := w\<rparr>) (size_of IBV_DESTROY_SRQ_RSP)))"

end
