(* ===== verification/FF_Demo.thy ===== *)
theory FF_Demo
  imports FF_Handler
begin

text \<open>
  A concrete environment, on which the hypotheses the properties put on the operating system and on the
  verbs library can be seen to hold. In \<open>silent_os\<close> nothing ever arrives; in \<open>demo_os\<close> the world is the input that
  waits on the client's socket. Reads are complete, writes succeed, memory is mapped at a fixed address, and the verbs library hands out
  one object of each kind, with handle 7 and keys 11 and 12.
\<close>

definition silent_os :: "'w os" where
  "silent_os =
     \<lparr>os_read = (\<lambda>fd n w. (0, [], w)),
      os_write = (\<lambda>fd bs w. (int (length bs), w)),
      os_close = (\<lambda>fd w. w),
      os_errno = (\<lambda>w. 22),
      os_shm_open = (\<lambda>name w. (9, w)),
      os_ftruncate = (\<lambda>fd n w. w),
      os_mmap = (\<lambda>n fd w. (0x7f0000000000, w)),
      os_shm_unlink = (\<lambda>name w. (0, w)),
      os_sendmsg = (\<lambda>sock fd w. (2, w)),
      os_recvmsg = (\<lambda>sock w. (2, Some (20, 1, 1, 6), w)),
      os_socket = (\<lambda>d t p w. (5, w)),
      os_bind = (\<lambda>fd ip port w. (0, w)),
      os_accept = (\<lambda>fd flags w. (8, w)),
      os_connect = (\<lambda>fd addr len w. (0, w)),
      os_getfl = (\<lambda>fd w. (2050, w)),
      os_setfl = (\<lambda>fd fl w. w),
      os_sendto = (\<lambda>fd bs ip port w. (int (length bs), w)),
      os_recvfrom = (\<lambda>fd n w. (0, [], 0x0100007f, 4000, w)),
      os_inet_aton = (\<lambda>s. Some 0x0100007f),
      os_now = (\<lambda>w. (100000000, w)),
      os_usleep = (\<lambda>n w. w),
      os_getenv = (\<lambda>s. None),
      os_devwrite = (\<lambda>fd cmd n w. (int (length cmd), replicate n 0, w)),
      os_resp_addr = 0x7fff00000000,
      os_stack = (\<lambda>_. 0),
      os_af_ib_support = False,
      os_ucma_init = (\<lambda>w. (0, w))\<rparr>"

definition demo_os :: "bytes os" where
  "demo_os = silent_os\<lparr>
     os_read := (\<lambda>fd n w. (int (length (take n w)), take n w, drop n w)),
     os_recvfrom := (\<lambda>fd n w. (int (length (take n w)), take n w, 0x0100007f, 4000, drop n w))\<rparr>"

definition demo_verbs :: "'w verbs2" where
  "demo_verbs =
     \<lparr>ctx_async_fd = 3, ctx_num_comp_vectors = 1, ctx_cmd_fd = 4, ctx_dev_attr = replicate 232 0,
      v_query_port = (\<lambda>p w. (0, replicate 48 0, w)),
      v_alloc_pd = (\<lambda>w. (0x1000, w)),
      v_dealloc_pd = (\<lambda>pd w. (0, w)),
      pd_handle_of = (\<lambda>w pd. 7),
      v_create_cq = (\<lambda>cqe ch v w. (0x2000, w)),
      v_destroy_cq = (\<lambda>cq w. (0, w)),
      v_req_notify_cq = (\<lambda>cq s w. (0, w)),
      v_poll_cq = (\<lambda>cq ne w. (0, [], w)),
      v_get_cq_event = (\<lambda>ch w. (0x2000, w)),
      v_ack_cq_events = (\<lambda>cq n w. w),
      cq_handle_of = (\<lambda>w cq. 7),
      cq_cqe_of = (\<lambda>w cq. 16),
      cq_comp_events_of = (\<lambda>w cq. 1),
      cq_async_events_of = (\<lambda>w cq. 0),
      v_create_qp = (\<lambda>pd srq scq rcq caps ty sig w. (0x3000, caps, w)),
      v_destroy_qp = (\<lambda>qp w. (0, w)),
      v_modify_qp = (\<lambda>qp a m w. (0, w)),
      qp_handle_of = (\<lambda>w qp. 7),
      qp_num_of = (\<lambda>w qp. 77),
      qp_type_of = (\<lambda>w qp. 2),
      v_post_send = (\<lambda>qp m p w. (0, NULL, w)),
      v_post_recv = (\<lambda>qp m p w. (0, NULL, w)),
      v_post_srq_recv = (\<lambda>srq m p w. (0, NULL, w)),
      v_reg_mr = (\<lambda>pd p n f w. (0x4000, w)),
      v_dereg_mr = (\<lambda>mr w. (0, w)),
      mr_handle_of = (\<lambda>w mr. 7),
      mr_lkey_of = (\<lambda>w mr. 11),
      mr_rkey_of = (\<lambda>w mr. 12),
      v_create_comp_channel = (\<lambda>w. (0x5000, w)),
      v_destroy_comp_channel = (\<lambda>ch w. (0, w)),
      channel_fd_of = (\<lambda>w ch. 6),
      v_create_ah = (\<lambda>pd a w. (0x6000, w)),
      v_destroy_ah = (\<lambda>ah w. (0, w)),
      ah_handle_of = (\<lambda>w ah. 7),
      v_create_srq = (\<lambda>pd a w. (0x7000, w)),
      v_modify_srq = (\<lambda>srq a m w. (0, w)),
      v_destroy_srq = (\<lambda>srq w. (0, w)),
      srq_handle_of = (\<lambda>w srq. 7),
      v_create_event_channel = (\<lambda>w. (0x8000, w)),
      v_destroy_event_channel = (\<lambda>ec w. w),
      ec_fd_of = (\<lambda>w ec. 6)\<rparr>"

definition demo_router :: router where
  "demo_router = FreeFlowRouter_ctor 0x0a00000a False"

text \<open>A connection with \<open>input\<close> waiting on its socket, in front of the router \<open>r\<close>.\<close>

definition demo_thr :: "router \<Rightarrow> bytes \<Rightarrow> bytes thr" where
  "demo_thr r input =
     \<lparr>ffr = r, world = input, req_body = (\<lambda>_. 0), rsp = (\<lambda>_. 0), req_addr = 0x10000, cap = 0xfffff,
      client_sock = 1, host_fd = - 1\<rparr>"

lemma demo_os_sel [simp]:
  "os_read demo_os fd n w = (int (length (take n w)), take n w, drop n w)"
  "os_write demo_os fd bs w = (int (length bs), w)"
  "os_close demo_os fd w = w"
  "os_errno demo_os w = 22"
  "os_shm_open demo_os name w = (9, w)"
  "os_ftruncate demo_os fd sz w = w"
  "os_mmap demo_os sz fd w = (0x7f0000000000, w)"
  "os_shm_unlink demo_os name w = (0, w)"
  "os_now demo_os w = (100000000, w)"
  "os_usleep demo_os us w = w"
  "os_getenv demo_os s = None"
  "os_devwrite demo_os fd cmd n w = (int (length cmd), replicate n 0, w)"
  by (simp_all add: demo_os_def silent_os_def)

lemma demo_thr_sel [simp]:
  "ffr (demo_thr r input) = r" "world (demo_thr r input) = input" "req_body (demo_thr r input) = (\<lambda>_. 0)"
  "rsp (demo_thr r input) = (\<lambda>_. 0)" "req_addr (demo_thr r input) = 0x10000" "cap (demo_thr r input) = 0xfffff"
  "client_sock (demo_thr r input) = 1" "host_fd (demo_thr r input) = - 1"
  by (simp_all add: demo_thr_def)

end
