(* ===== verification/FF_Post.thy ===== *)
theory FF_Post
  imports FF_Memory FF_Demo
begin

text \<open>
  The posting cases of \<^verbatim>\<open>HandleRequest\<close>: a client sends a header, an array of work requests, an array of
  scatter-gather entries and, on a datagram queue pair, an array of address-handle numbers, all in one
  buffer. The router links the work requests, points each at its entries, replaces the addresses of
  the client by its own, and hands the list to the verbs library. Everything happens in the bytes of
  the request buffer, at the offsets of the C structs; an access outside the buffer is undefined.
\<close>

section \<open>Shared steps\<close>

definition IBV_WR_RDMA_WRITE :: u32 where
  "IBV_WR_RDMA_WRITE = 0"

definition IBV_WR_RDMA_WRITE_WITH_IMM :: u32 where
  "IBV_WR_RDMA_WRITE_WITH_IMM = 1"

definition IBV_WR_RDMA_READ :: u32 where
  "IBV_WR_RDMA_READ = 4"

definition IBV_QPT_UD :: u32 where
  "IBV_QPT_UD = 4"

definition one_sided :: "u32 \<Rightarrow> bool" where
  "one_sided opcode =
     (opcode = IBV_WR_RDMA_WRITE \<or> opcode = IBV_WR_RDMA_WRITE_WITH_IMM \<or> opcode = IBV_WR_RDMA_READ)"

text \<open>The address of a byte of a buffer that starts at \<open>base\<close>.\<close>

definition addr_of :: "u64 \<Rightarrow> nat \<Rightarrow> u64" where
  "addr_of base p = base + word_of_nat p"

text \<open>\<^verbatim>\<open>remote_addr = shm_ptr + remote_addr - mr_ptr\<close> for a known key; an unknown one leaves the address.\<close>

definition fix_remote :: "(u32 \<Rightarrow> MR_SHM option) \<Rightarrow> nat \<Rightarrow> mem \<Rightarrow> mem" where
  "fix_remote rkeys q m =
     (case rkeys (get_u32 m (q + off ibv_send_wr [''wr'', ''rdma'', ''rkey''])) of
        None \<Rightarrow> m
      | Some k \<Rightarrow>
          put_u64 m (q + off ibv_send_wr [''wr'', ''rdma'', ''remote_addr''])
            (shm_ptr k + get_u64 m (q + off ibv_send_wr [''wr'', ''rdma'', ''remote_addr'']) - mr_ptr k))"

text \<open>The link to the next work request, and the pointer to the entries of this one.\<close>

definition fix_next :: "u64 \<Rightarrow> nat \<Rightarrow> nat \<Rightarrow> nat \<Rightarrow> nat \<Rightarrow> nat \<Rightarrow> mem \<Rightarrow> mem" where
  "fix_next base first width next_off i n m =
     put_u64 m (first + i * width + next_off)
       (if n - 1 \<le> i then NULL else addr_of base (first + (i + 1) * width))"

section \<open>Rate limiting\<close>

text \<open>
  \<^verbatim>\<open>while (!tb->consume(length)) usleep(...)\<close>: each round reads the clock; \<open>fuel\<close> bounds the rounds, and
  running out of it is \<open>None\<close>. The sleep is computed in 32-bit arithmetic before the division.
\<close>

definition stime :: "u32 \<Rightarrow> u32" where
  "stime len = word_of_nat (unat (len * 1000000) div unat MAX_QP_RATE_LIMIT)"

fun wait_tokens :: "nat \<Rightarrow> 'w os \<Rightarrow> u32 \<Rightarrow> TokenBucket \<Rightarrow> 'w \<Rightarrow> (TokenBucket \<times> 'w) option" where
  "wait_tokens 0 E len tb w = None"
| "wait_tokens (Suc fuel) E len tb w =
     (let (now, w) = os_now E w; (ok, tb) = consume now [] (ucast len) tb
      in if ok then Some (tb, w)
         else wait_tokens fuel E len tb (os_usleep E (if stime len \<noteq> 0 then stime len else 1) w))"

section \<open>POST_SEND\<close>

text \<open>The entries of one work request, from \<open>s\<close> on: wait for the tokens, then add the base of the entry's key.\<close>

fun send_sges :: "nat \<Rightarrow> 'w os \<Rightarrow> u32 \<Rightarrow> nat \<Rightarrow> nat \<Rightarrow> 'w thr \<Rightarrow> 'w thr run" where
  "send_sges fuel E qp_handle 0 s t = Ok t"
| "send_sges fuel E qp_handle (Suc k) s t =
     (if cap t < s + size_of ibv_sge then Undefined OobIndex
      else case tokenbucket (ffr t) qp_handle of
             Some (Some tb) \<Rightarrow>
               (case wait_tokens fuel E (get_u32 (req_body t) (s + off ibv_sge [''length''])) tb (world t) of
                  None \<Rightarrow> Diverges
                | Some (tb, w) \<Rightarrow>
                    let r = (ffr t)\<lparr>tokenbucket := (tokenbucket (ffr t))(qp_handle \<mapsto> Some tb)\<rparr>;
                        (ptr, r) = lkey_at (get_u32 (req_body t) (s + off ibv_sge [''lkey''])) r;
                        m = put_u64 (req_body t) (s + off ibv_sge [''addr''])
                              (ptr + get_u64 (req_body t) (s + off ibv_sge [''addr'']))
                    in send_sges fuel E qp_handle k (s + size_of ibv_sge) (t\<lparr>ffr := r, world := w, req_body := m\<rparr>))
           | _ \<Rightarrow> Undefined NullDeref)"

text \<open>
  The loop over the work requests: \<open>i\<close> counts up to \<open>n\<close>, \<open>s\<close> is the offset of the pointer \<^verbatim>\<open>sge\<close> and \<open>a\<close> that of
  the pointer \<^verbatim>\<open>ah\<close>.
\<close>

function send_wrs :: "nat \<Rightarrow> 'w os \<Rightarrow> u32 \<Rightarrow> bool \<Rightarrow> nat \<Rightarrow> nat \<Rightarrow> nat \<Rightarrow> nat \<Rightarrow> 'w thr \<Rightarrow> 'w thr run" where
  "send_wrs fuel E qp_handle ud i n s a t =
     (if n \<le> i then Ok t
      else let q = size_of ibv_post_send + i * size_of ibv_send_wr
           in if cap t < q + size_of ibv_send_wr then Undefined OobIndex
              else let m = req_body t;
                       m = (if one_sided (get_u32 m (q + off ibv_send_wr [''opcode'']))
                            then fix_remote (rkey_mr_shm (ffr t)) q m else m);
                       m = fix_next (req_addr t) (size_of ibv_post_send) (size_of ibv_send_wr)
                             (off ibv_send_wr [''next'']) i n m;
                       num_sge = get_int m (q + off ibv_send_wr [''num_sge'']);
                       k = nat num_sge;
                       m = put_u64 m (q + off ibv_send_wr [''sg_list'']) (if 0 < k then addr_of (req_addr t) s else NULL)
                   in andThen (send_sges fuel E qp_handle k s (t\<lparr>req_body := m\<rparr>)) (\<lambda>t.
                        if ud
                        then if cap t < a + 4 then Undefined OobIndex
                             else slot (ah_map (ffr t)) (unat (get_u32 (req_body t) a)) (\<lambda>ah.
                                    send_wrs fuel E qp_handle ud (i + 1) n (s + k * size_of ibv_sge) (a + 4)
                                      (t\<lparr>req_body := put_u64 (req_body t) (q + off ibv_send_wr [''wr'', ''ud'', ''ah'']) ah\<rparr>))
                        else send_wrs fuel E qp_handle ud (i + 1) n (s + k * size_of ibv_sge) a t))"
  by pat_completeness auto
termination
  by (relation "measure (\<lambda>(fuel, E, q, ud, i, n, s, a, t). n - i)") auto

declare send_wrs.simps [simp del]

text \<open>\<^verbatim>\<open>tokenbucket[handle]\<close> inserts a null pointer under an absent handle.\<close>

definition bucket_at :: "u32 \<Rightarrow> router \<Rightarrow> router" where
  "bucket_at handle r =
     (case tokenbucket r handle of None \<Rightarrow> r\<lparr>tokenbucket := (tokenbucket r)(handle \<mapsto> None)\<rparr> | Some _ \<Rightarrow> r)"

text \<open>\<^verbatim>\<open>bad_wr - wr\<close>, in work requests of \<open>width\<close> bytes.\<close>

definition bad_index :: "u64 \<Rightarrow> u64 \<Rightarrow> nat \<Rightarrow> u32" where
  "bad_index bad wr width = word_of_int ((sint bad - sint wr) div int width)"

definition on_POST_SEND :: "nat \<Rightarrow> 'w os \<Rightarrow> ('w, 'x) verbs2_scheme \<Rightarrow> 'w handler" where
  "on_POST_SEND fuel E V h t =
     recv_posted E (body_size h) t (\<lambda>t.
       let qp_handle = req_u32 t (off ibv_post_send [''qp_handle'']);
           wr_count = unat (req_u32 t (off ibv_post_send [''wr_count'']));
           sge_count = unat (req_u32 t (off ibv_post_send [''sge_count'']));
           qp = (if MAP_SIZE \<le> unat qp_handle then NULL else qp_map (ffr t) (unat qp_handle));
           t = (if MAP_SIZE \<le> unat qp_handle then t else t\<lparr>ffr := bucket_at qp_handle (ffr t)\<rparr>);
           wr = size_of ibv_post_send;
           sge = wr + wr_count * size_of ibv_send_wr
       in deref qp
         (let ud = (qp_type_of V (world t) qp = IBV_QPT_UD);
              ah = sge + sge_count * size_of ibv_sge
          in andThen (send_wrs fuel E qp_handle ud 0 wr_count sge ah t) (\<lambda>t.
               let (ret, bad_wr, w) = v_post_send V qp (req_body t) (addr_of (req_addr t) wr) (world t);
                   t = rsp_int (off IBV_POST_SEND_RSP [''ret_errno'']) ret (t\<lparr>world := w\<rparr>);
                   t = rsp_u32 (off IBV_POST_SEND_RSP [''bad_wr''])
                         (if bad_wr = NULL then 0
                          else bad_index bad_wr (addr_of (req_addr t) wr) (size_of ibv_send_wr)) t
               in reply t (size_of IBV_POST_SEND_RSP))))"

section \<open>POST_RECV and POST_SRQ_RECV\<close>

fun recv_sges :: "nat \<Rightarrow> nat \<Rightarrow> 'w thr \<Rightarrow> 'w thr run" where
  "recv_sges 0 s t = Ok t"
| "recv_sges (Suc k) s t =
     (if cap t < s + size_of ibv_sge then Undefined OobIndex
      else let (ptr, r) = lkey_at (get_u32 (req_body t) (s + off ibv_sge [''lkey''])) (ffr t);
               m = put_u64 (req_body t) (s + off ibv_sge [''addr''])
                     (ptr + get_u64 (req_body t) (s + off ibv_sge [''addr'']))
           in recv_sges k (s + size_of ibv_sge) (t\<lparr>ffr := r, req_body := m\<rparr>))"

text \<open>\<open>clear\<close>: whether the list pointer of a request without entries is set to null (the shared-queue case does not).\<close>

function recv_wrs :: "bool \<Rightarrow> nat \<Rightarrow> nat \<Rightarrow> nat \<Rightarrow> 'w thr \<Rightarrow> 'w thr run" where
  "recv_wrs clear i n s t =
     (if n \<le> i then Ok t
      else let q = size_of ibv_post_recv + i * size_of ibv_recv_wr
           in if cap t < q + size_of ibv_recv_wr then Undefined OobIndex
              else let m = fix_next (req_addr t) (size_of ibv_post_recv) (size_of ibv_recv_wr)
                             (off ibv_recv_wr [''next'']) i n (req_body t);
                       k = nat (get_int m (q + off ibv_recv_wr [''num_sge'']));
                       m = (if 0 < k then put_u64 m (q + off ibv_recv_wr [''sg_list'']) (addr_of (req_addr t) s)
                            else if clear then put_u64 m (q + off ibv_recv_wr [''sg_list'']) NULL else m)
                   in andThen (recv_sges k s (t\<lparr>req_body := m\<rparr>)) (\<lambda>t.
                        recv_wrs clear (i + 1) n (s + k * size_of ibv_sge) t))"
  by pat_completeness auto
termination
  by (relation "measure (\<lambda>(c, i, n, s, t). n - i)") auto

declare recv_wrs.simps [simp del]

text \<open>The tail of both: post, and report.\<close>

definition post_recv_rsp :: "cty \<Rightarrow> u64 \<Rightarrow> 'w thr \<Rightarrow> int \<times> u64 \<times> 'w \<Rightarrow> 'w hres run" where
  "post_recv_rsp R wr t res =
     (let (ret, bad_wr, w) = res;
          t = rsp_int (off R [''ret_errno'']) ret (t\<lparr>world := w\<rparr>);
          t = rsp_u32 (off R [''bad_wr'']) (if bad_wr = NULL then 0 else bad_index bad_wr wr (size_of ibv_recv_wr)) t
      in reply t (size_of R))"

definition on_POST_RECV :: "'w os \<Rightarrow> ('w, 'x) verbs2_scheme \<Rightarrow> 'w handler" where
  "on_POST_RECV E V h t =
     recv_posted E (body_size h) t (\<lambda>t.
       let qp_handle = req_u32 t (off ibv_post_recv [''qp_handle'']);
           wr_count = unat (req_u32 t (off ibv_post_recv [''wr_count'']));
           qp = (if MAP_SIZE \<le> unat qp_handle then NULL else qp_map (ffr t) (unat qp_handle));
           wr = size_of ibv_post_recv;
           sge = wr + wr_count * size_of ibv_recv_wr
       in andThen (recv_wrs True 0 wr_count sge t) (\<lambda>t.
            deref qp
              (let wr = addr_of (req_addr t) wr
               in post_recv_rsp IBV_POST_RECV_RSP wr t (v_post_recv V qp (req_body t) wr (world t)))))"

definition on_POST_SRQ_RECV :: "'w os \<Rightarrow> ('w, 'x) verbs2_scheme \<Rightarrow> 'w handler" where
  "on_POST_SRQ_RECV E V h t =
     recv_posted E (body_size h) t (\<lambda>t.
       let srq_handle = req_u32 t (off ibv_post_recv [''qp_handle'']);
           wr_count = unat (req_u32 t (off ibv_post_recv [''wr_count'']));
           srq = (if MAP_SIZE \<le> unat srq_handle then NULL else srq_map (ffr t) (unat srq_handle));
           wr = size_of ibv_post_recv;
           sge = wr + wr_count * size_of ibv_recv_wr
       in andThen (recv_wrs False 0 wr_count sge t) (\<lambda>t.
            deref srq
              (let wr = addr_of (req_addr t) wr
               in post_recv_rsp IBV_POST_SRQ_RECV_RSP wr t (v_post_srq_recv V srq (req_body t) wr (world t)))))"

section \<open>POLL_CQ\<close>

definition on_POLL_CQ :: "'w os \<Rightarrow> ('w, 'x) verbs_scheme \<Rightarrow> 'w handler" where
  "on_POLL_CQ E V h t =
     recv_body E (size_of IBV_POLL_CQ_REQ) t (\<lambda>t.
       let i = unat (req_u32 t (off IBV_POLL_CQ_REQ [''cq_handle'']));
           cq = (if MAP_SIZE \<le> i then NULL else cq_map (ffr t) i)
       in if cq = NULL then Ok (GotoEnd t)
          else let (count, wcs, w) = v_poll_cq V cq (req_int t (off IBV_POLL_CQ_REQ [''ne''])) (world t)
               in if cap t < size_of FfrResponseHeader + length wcs then Undefined HeapOverflow
                  else let t = rsp_bytes (size_of FfrResponseHeader) wcs (t\<lparr>world := w\<rparr>)
                       in if count \<le> 0
                          then reply (rsp_int (off FfrResponseHeader [''rsp_size'']) 0 t) (size_of FfrResponseHeader)
                          else reply (rsp_int (off FfrResponseHeader [''rsp_size'']) (count * int (size_of ibv_wc)) t)
                                 (size_of FfrResponseHeader + nat count * size_of ibv_wc))"

section \<open>Waiting for tokens\<close>

text \<open>
  The sleep of a waiting thread: the product is taken in 32 bits and divided by 5000000000, more than any
  32-bit number.
\<close>

lemma stime_zero: "stime len = 0"
proof -
  have "unat (len * 1000000) < 2 ^ 32" using unsigned_less[of "len * 1000000", where ?'a = nat] by simp
  then have "unat (len * 1000000) div unat MAX_QP_RATE_LIMIT = 0" by (simp add: MAX_QP_RATE_LIMIT_def)
  then show ?thesis by (simp add: stime_def)
qed

text \<open>The world at the \<open>k\<close>-th look at the clock, while all attempts before it fail.\<close>

fun wait_world :: "nat \<Rightarrow> 'w os \<Rightarrow> 'w \<Rightarrow> 'w" where
  "wait_world 0 E w = w"
| "wait_world (Suc k) E w = wait_world k E (os_usleep E 1 (snd (os_now E w)))"

definition wait_clock :: "nat \<Rightarrow> 'w os \<Rightarrow> 'w \<Rightarrow> u64" where
  "wait_clock k E w = fst (os_now E (wait_world k E w))"

lemma wait_clock_0: "wait_clock 0 E w = fst (os_now E w)"
  by (simp add: wait_clock_def)

lemma wait_clock_Suc: "wait_clock (Suc k) E w = wait_clock k E (os_usleep E 1 (snd (os_now E w)))"
  by (simp add: wait_clock_def)

lemma consume_fails_keeps: "fst (consume now [] tokens tb) = False \<Longrightarrow> snd (consume now [] tokens tb) = tb"
  by (auto simp: consume_def Let_def split: if_splits)

lemma wait_tokens_Suc:
  "wait_tokens (Suc fuel) E len tb w =
     (if fst (consume (wait_clock 0 E w) [] (ucast len) tb)
      then Some (snd (consume (wait_clock 0 E w) [] (ucast len) tb), snd (os_now E w))
      else wait_tokens fuel E len tb (os_usleep E 1 (snd (os_now E w))))"
  using consume_fails_keeps[of "wait_clock 0 E w" "ucast len" tb]
  by (auto simp: wait_clock_0 stime_zero split: prod.splits)

lemma consume_oversized:
  assumes "timePerBurst tb \<le> now" "now < 2 ^ 63" "tb_time tb < 2 ^ 63"
    and "timePerBurst tb < tokens * timePerToken tb" "tokens * timePerToken tb < 2 ^ 63"
  shows "fst (consume now [] tokens tb) = False"
proof -
  let ?B = "timePerBurst tb" and ?need = "tokens * timePerToken tb"
  have min: "unat (now - ?B) = unat now - unat ?B" using assms(1) by (simp add: unat_sub)
  have le: "unat ?B \<le> unat now" "unat ?B < unat ?need" "unat now < 2 ^ 63" "unat (tb_time tb) < 2 ^ 63" "unat ?need < 2 ^ 63"
    using assms by (simp_all add: word_le_nat_alt word_less_nat_alt)
  have "now < v + ?need" if "v = now - ?B \<or> v = tb_time tb \<and> now - ?B \<le> tb_time tb" for v
  proof -
    have v: "unat now - unat ?B \<le> unat v" "unat v < 2 ^ 63"
      using that min le by (auto simp: word_le_nat_alt)
    then have "unat (v + ?need) = unat v + unat ?need" using le(5) by (intro unat_add_lt) simp
    then show ?thesis using v(1) le(1,2) by (simp add: word_less_nat_alt)
  qed
  then show ?thesis by (auto simp: consume_def Let_def not_less)
qed

lemma wait_tokens_never:
  assumes "\<And>k. timePerBurst tb \<le> wait_clock k E w \<and> wait_clock k E w < 2 ^ 63" "tb_time tb < 2 ^ 63"
    and "timePerBurst tb < ucast len * timePerToken tb" "ucast len * timePerToken tb < 2 ^ 63"
  shows "wait_tokens fuel E len tb w = None"
  using assms(1)
proof (induction fuel arbitrary: w)
  case 0
  then show ?case by simp
next
  case (Suc fuel)
  have "fst (consume (wait_clock 0 E w) [] (ucast len) tb) = False"
    using Suc.prems[of 0] assms(2-4) by (intro consume_oversized) auto
  moreover have "wait_tokens fuel E len tb (os_usleep E 1 (snd (os_now E w))) = None"
    using Suc.prems[of "Suc _"] by (intro Suc.IH) (simp add: wait_clock_Suc)
  ultimately show ?case by (simp only: wait_tokens_Suc) simp
qed

lemma wait_tokens_eventually:
  assumes "fst (consume (wait_clock k E w) [] (ucast len) tb)"
  shows "\<exists>tb' w'. wait_tokens (Suc k) E len tb w = Some (tb', w')"
  using assms
proof (induction k arbitrary: w)
  case 0
  then show ?case by (simp only: wait_tokens_Suc) simp
next
  case (Suc k)
  then have "\<exists>tb' w'. wait_tokens (Suc k) E len tb (os_usleep E 1 (snd (os_now E w))) = Some (tb', w')"
    by (simp only: wait_clock_Suc)
  then show ?case by (subst wait_tokens_Suc) auto
qed

section \<open>Properties\<close>

text \<open>
  C24: an entry that costs more than one burst never gets its tokens: however long the posting thread
  waits, and whatever the clock shows after the first burst, the wait does not end. The thread sleeps
  for one microsecond each time, since the computed time is always 0.
\<close>

theorem oversized_entry_waits_forever:
  assumes "\<And>k. timePerBurst tb \<le> wait_clock k E w \<and> wait_clock k E w < 2 ^ 63" "tb_time tb < 2 ^ 63"
    and "tokenbucket (ffr t) h = Some (Some tb)" "world t = w" "s + 16 \<le> cap t"
    and "len = get_u32 (req_body t) (s + 8)"
    and "timePerBurst tb < ucast len * timePerToken tb" "ucast len * timePerToken tb < 2 ^ 63"
  shows "send_sges fuel E h (Suc k) s t = Diverges \<and> stime len = 0"
  using assms wait_tokens_never[OF assms(1,2,7,8), of fuel] by (simp add: layout stime_zero)

lemma demo_wait_clock: "wait_clock k demo_os w = 100000000"
  by (simp add: wait_clock_def)

text \<open>An entry of 5000000 bytes at offset 160, against the default bucket.\<close>

definition demo_wait_thr :: "bytes thr" where
  "demo_wait_thr =
     (demo_thr (demo_router\<lparr>tokenbucket := [7 \<mapsto> Some \<lparr>tb_time = 0, timePerToken = 1, timePerBurst = 4000000\<rparr>]\<rparr>) [])
       \<lparr>req_body := put_u32 (\<lambda>_. 0) 168 5000000\<rparr>"

theorem oversized_entry_waits_forever_witness:
  "send_sges 1000000 demo_os 7 (Suc 0) 160 demo_wait_thr = Diverges"
proof -
  have "send_sges 1000000 demo_os 7 (Suc 0) 160 demo_wait_thr = Diverges \<and> stime 5000000 = 0"
    by (rule oversized_entry_waits_forever[where tb = "\<lparr>tb_time = 0, timePerToken = 1, timePerBurst = 4000000\<rparr>"
          and w = "[]"])
      (simp_all add: demo_wait_clock demo_wait_thr_def)
  then show ?thesis by blast
qed

text \<open>
  C23: an entry of at most one burst does get its tokens, as soon as a look at the clock finds the bucket's
  time far enough behind: the wait then ends after that many rounds.
\<close>

theorem entry_within_burst_gets_tokens:
  assumes "ucast len * timePerToken tb \<le> timePerBurst tb" "timePerBurst tb \<le> wait_clock k E w"
    and "unat (tb_time tb) + unat (ucast len * timePerToken tb) \<le> unat (wait_clock k E w)"
  shows "\<exists>tb' w'. wait_tokens (Suc k) E len tb w = Some (tb', w')"
proof (rule wait_tokens_eventually)
  have "\<exists>b'. consume (wait_clock k E w) [] (ucast len) tb = (True, b')"
    using assms by (intro consume_admits) auto
  then show "fst (consume (wait_clock k E w) [] (ucast len) tb)" by auto
qed

theorem entry_within_burst_gets_tokens_witness:
  "\<exists>tb' w'. wait_tokens (Suc 3) demo_os 4000000 \<lparr>tb_time = 0, timePerToken = 1, timePerBurst = 4000000\<rparr> [] = Some (tb', w')"
  by (rule entry_within_burst_gets_tokens) (simp_all add: demo_wait_clock)

end
