(* ===== verification/FF_Ucma.thy ===== *)
theory FF_Ucma
  imports FF_Env
begin

text \<open>
  The router's own copy of the connection-manager library
  (\<^verbatim>\<open>libraries-router/librdmacm-1.1.0mlnx/src/cma.c\<close>): the functions \<^verbatim>\<open>..._resp\<close> with which the router replays a
  command of a client on the connection-manager device. Each builds a fresh command, copies the
  client's arguments into it, writes it to the descriptor of the event channel, and copies the
  kernel's answer out. A result carries the return value and, when the function copies an answer,
  its bytes; a copy past the end of the command on the stack is undefined behaviour.
\<close>

datatype (plugins only: code size) ucma_cmd =
    UCMA_CMD_CREATE_ID | UCMA_CMD_DESTROY_ID | UCMA_CMD_BIND_IP | UCMA_CMD_RESOLVE_IP
  | UCMA_CMD_RESOLVE_ROUTE | UCMA_CMD_QUERY_ROUTE | UCMA_CMD_CONNECT | UCMA_CMD_LISTEN
  | UCMA_CMD_ACCEPT | UCMA_CMD_REJECT | UCMA_CMD_DISCONNECT | UCMA_CMD_INIT_QP_ATTR
  | UCMA_CMD_GET_EVENT | UCMA_CMD_GET_OPTION | UCMA_CMD_SET_OPTION | UCMA_CMD_NOTIFY
  | UCMA_CMD_JOIN_IP_MCAST | UCMA_CMD_LEAVE_MCAST | UCMA_CMD_MIGRATE_ID | UCMA_CMD_QUERY
  | UCMA_CMD_BIND | UCMA_CMD_RESOLVE_ADDR | UCMA_CMD_JOIN_MCAST

fun ucma_code :: "ucma_cmd \<Rightarrow> u32" where
  "ucma_code UCMA_CMD_CREATE_ID = 0"
| "ucma_code UCMA_CMD_DESTROY_ID = 1"
| "ucma_code UCMA_CMD_BIND_IP = 2"
| "ucma_code UCMA_CMD_RESOLVE_IP = 3"
| "ucma_code UCMA_CMD_RESOLVE_ROUTE = 4"
| "ucma_code UCMA_CMD_QUERY_ROUTE = 5"
| "ucma_code UCMA_CMD_CONNECT = 6"
| "ucma_code UCMA_CMD_LISTEN = 7"
| "ucma_code UCMA_CMD_ACCEPT = 8"
| "ucma_code UCMA_CMD_REJECT = 9"
| "ucma_code UCMA_CMD_DISCONNECT = 10"
| "ucma_code UCMA_CMD_INIT_QP_ATTR = 11"
| "ucma_code UCMA_CMD_GET_EVENT = 12"
| "ucma_code UCMA_CMD_GET_OPTION = 13"
| "ucma_code UCMA_CMD_SET_OPTION = 14"
| "ucma_code UCMA_CMD_NOTIFY = 15"
| "ucma_code UCMA_CMD_JOIN_IP_MCAST = 16"
| "ucma_code UCMA_CMD_LEAVE_MCAST = 17"
| "ucma_code UCMA_CMD_MIGRATE_ID = 18"
| "ucma_code UCMA_CMD_QUERY = 19"
| "ucma_code UCMA_CMD_BIND = 20"
| "ucma_code UCMA_CMD_RESOLVE_ADDR = 21"
| "ucma_code UCMA_CMD_JOIN_MCAST = 22"

type_synonym 'w cm_res = "ub + int \<times> bytes option \<times> 'w"

section \<open>Building and sending a command\<close>

definition CMA_INIT_CMD :: "cty \<Rightarrow> ucma_cmd \<Rightarrow> mem" where
  "CMA_INIT_CMD T op =
     put_u16 (put_u32 (\<lambda>_. 0) (off T [''cmd'']) (ucma_code op)) (off T [''in'']) (word_of_nat (size_of T - 8))"

definition CMA_INIT_CMD_RESP :: "'w os \<Rightarrow> cty \<Rightarrow> ucma_cmd \<Rightarrow> nat \<Rightarrow> mem" where
  "CMA_INIT_CMD_RESP E T op resp_size =
     put_u64 (put_u16 (CMA_INIT_CMD T op) (off T [''out'']) (word_of_nat resp_size))
       (off T [''response'']) (os_resp_addr E)"

text \<open>\<^verbatim>\<open>cmd.f = cmd_inp->f\<close>, and the copies of a whole field: \<open>cmd_in\<close> starts at \<open>p\<close> in the request.\<close>

definition copy_field :: "cty \<Rightarrow> string \<Rightarrow> mem \<Rightarrow> nat \<Rightarrow> mem \<Rightarrow> mem" where
  "copy_field T f m p cmd =
     (case member T f of
        Some (d, t) \<Rightarrow> put_bytes cmd d (get_bytes m (p + d) (size_of t))
      | None \<Rightarrow> cmd)"

text \<open>
  \<^verbatim>\<open>write(channel->fd, &cmd, sizeof cmd)\<close> and the test of its result. The calls that pass no response
  buffer have \<open>n = 0\<close> and copy nothing out.
\<close>

definition cm_write :: "'w os \<Rightarrow> int \<Rightarrow> cty \<Rightarrow> mem \<Rightarrow> nat \<Rightarrow> 'w \<Rightarrow> int \<times> bytes option \<times> 'w" where
  "cm_write E fd T cmd n w =
     (let (ret, resp, w) = os_devwrite E fd (get_bytes cmd 0 (size_of T)) n w
      in if ret \<noteq> int (size_of T) then (- 1, None, w)
         else (0, if n = 0 then None else Some resp, w))"

section \<open>The replayed calls\<close>

definition rdma_create_id_resp :: "'w os \<Rightarrow> int \<Rightarrow> mem \<Rightarrow> nat \<Rightarrow> 'w \<Rightarrow> 'w cm_res" where
  "rdma_create_id_resp E fd m p w =
     (let T = ucma_abi_create_id; n = size_of ucma_abi_create_id_resp;
          cmd = CMA_INIT_CMD_RESP E T UCMA_CMD_CREATE_ID n;
          cmd = copy_field T ''uid'' m p cmd;
          cmd = copy_field T ''ps'' m p cmd;
          cmd = copy_field T ''qp_type'' m p cmd
      in Inr (cm_write E fd T cmd n w))"

definition ucma_destroy_kern_id_resp :: "'w os \<Rightarrow> int \<Rightarrow> mem \<Rightarrow> nat \<Rightarrow> 'w \<Rightarrow> 'w cm_res" where
  "ucma_destroy_kern_id_resp E fd m p w =
     (let T = ucma_abi_destroy_id; n = size_of ucma_abi_destroy_id_resp;
          cmd = CMA_INIT_CMD_RESP E T UCMA_CMD_DESTROY_ID n;
          cmd = copy_field T ''id'' m p cmd
      in Inr (cm_write E fd T cmd n w))"

definition ucma_query_addr_resp :: "'w os \<Rightarrow> int \<Rightarrow> mem \<Rightarrow> nat \<Rightarrow> 'w \<Rightarrow> 'w cm_res" where
  "ucma_query_addr_resp E fd m p w =
     (let T = ucma_abi_query; n = size_of ucma_abi_query_addr_resp;
          cmd = CMA_INIT_CMD_RESP E T UCMA_CMD_QUERY n;
          cmd = copy_field T ''id'' m p cmd;
          cmd = copy_field T ''option'' m p cmd
      in Inr (cm_write E fd T cmd n w))"

definition ucma_query_gid_resp :: "'w os \<Rightarrow> int \<Rightarrow> mem \<Rightarrow> nat \<Rightarrow> 'w \<Rightarrow> 'w cm_res" where
  "ucma_query_gid_resp E fd m p w =
     (let T = ucma_abi_query; n = size_of ucma_abi_query_addr_resp;
          cmd = CMA_INIT_CMD_RESP E T UCMA_CMD_QUERY n;
          cmd = copy_field T ''id'' m p cmd;
          cmd = copy_field T ''option'' m p cmd
      in Inr (cm_write E fd T cmd n w))"

definition ucma_query_path_resp :: "'w os \<Rightarrow> int \<Rightarrow> mem \<Rightarrow> nat \<Rightarrow> 'w \<Rightarrow> 'w cm_res" where
  "ucma_query_path_resp E fd m p w =
     (let T = ucma_abi_query; n = size_of ucma_abi_query_path_resp + size_of ibv_path_data * 6;
          cmd = CMA_INIT_CMD_RESP E T UCMA_CMD_QUERY n;
          cmd = copy_field T ''id'' m p cmd;
          cmd = copy_field T ''option'' m p cmd
      in Inr (cm_write E fd T cmd n w))"

definition ucma_query_route_resp :: "'w os \<Rightarrow> int \<Rightarrow> mem \<Rightarrow> nat \<Rightarrow> 'w \<Rightarrow> 'w cm_res" where
  "ucma_query_route_resp E fd m p w =
     (let T = ucma_abi_query; n = size_of ucma_abi_query_route_resp;
          cmd = CMA_INIT_CMD_RESP E T UCMA_CMD_QUERY_ROUTE n;
          cmd = copy_field T ''id'' m p cmd
      in Inr (cm_write E fd T cmd n w))"

text \<open>\<^verbatim>\<open>memcpy(&cmd.addr, &cmd_inp->addr, cmd_inp->addr_size)\<close> takes its length from the client.\<close>

definition rdma_bind_resp :: "'w os \<Rightarrow> int \<Rightarrow> mem \<Rightarrow> nat \<Rightarrow> 'w \<Rightarrow> 'w cm_res" where
  "rdma_bind_resp E fd m p w =
     (let T = ucma_abi_bind;
          cmd = CMA_INIT_CMD T UCMA_CMD_BIND;
          cmd = copy_field T ''id'' m p cmd;
          cmd = copy_field T ''addr_size'' m p cmd;
          addr_size = unat (get_u16 m (p + off T [''addr_size'']))
      in if size_of T < off T [''addr''] + addr_size then Inl StackOverflow
         else let cmd = put_bytes cmd (off T [''addr'']) (get_bytes m (p + off T [''addr'']) addr_size)
              in Inr (cm_write E fd T cmd 0 w))"

definition PF_INET :: u16 where
  "PF_INET = 2"

definition PF_INET6 :: u16 where
  "PF_INET6 = 10"

definition PF_IB :: u16 where
  "PF_IB = 27"

definition ucma_addrlen :: "'w os \<Rightarrow> u16 \<Rightarrow> nat" where
  "ucma_addrlen E sa_family =
     (if sa_family = PF_INET then size_of sockaddr_in
      else if sa_family = PF_INET6 then size_of sockaddr_in6
      else if sa_family = PF_IB then (if os_af_ib_support E then 48 else 0)
      else 0)"

definition rdma_bind_addr_resp :: "'w os \<Rightarrow> int \<Rightarrow> mem \<Rightarrow> nat \<Rightarrow> 'w \<Rightarrow> 'w cm_res" where
  "rdma_bind_addr_resp E fd m p w =
     (let T = ucma_abi_bind_ip;
          addrlen = ucma_addrlen E (get_u16 m (p + off T [''addr'']))
      in if addrlen = 0 then Inr (- 1, None, w)
         else let cmd = CMA_INIT_CMD T UCMA_CMD_BIND_IP;
                  cmd = copy_field T ''id'' m p cmd
              in if size_of T < off T [''addr''] + addrlen then Inl StackOverflow
                 else let cmd = put_bytes cmd (off T [''addr'']) (get_bytes m (p + off T [''addr'']) addrlen)
                      in Inr (cm_write E fd T cmd 0 w))"

definition rdma_resolve_addr2_resp :: "'w os \<Rightarrow> int \<Rightarrow> mem \<Rightarrow> nat \<Rightarrow> 'w \<Rightarrow> 'w cm_res" where
  "rdma_resolve_addr2_resp E fd m p w =
     (let T = ucma_abi_resolve_addr;
          cmd = CMA_INIT_CMD T UCMA_CMD_RESOLVE_ADDR;
          cmd = copy_field T ''id'' m p cmd;
          cmd = copy_field T ''src_addr'' m p cmd;
          cmd = copy_field T ''dst_addr'' m p cmd;
          cmd = copy_field T ''src_size'' m p cmd;
          cmd = copy_field T ''dst_size'' m p cmd;
          cmd = copy_field T ''timeout_ms'' m p cmd
      in Inr (cm_write E fd T cmd 0 w))"

definition rdma_resolve_addr_resp :: "'w os \<Rightarrow> int \<Rightarrow> mem \<Rightarrow> nat \<Rightarrow> 'w \<Rightarrow> 'w cm_res" where
  "rdma_resolve_addr_resp E fd m p w =
     (let T = ucma_abi_resolve_ip;
          cmd = CMA_INIT_CMD T UCMA_CMD_RESOLVE_IP;
          cmd = copy_field T ''id'' m p cmd;
          cmd = copy_field T ''src_addr'' m p cmd;
          cmd = copy_field T ''dst_addr'' m p cmd;
          cmd = copy_field T ''timeout_ms'' m p cmd
      in Inr (cm_write E fd T cmd 0 w))"

definition rdma_resolve_route_resp :: "'w os \<Rightarrow> int \<Rightarrow> mem \<Rightarrow> nat \<Rightarrow> 'w \<Rightarrow> 'w cm_res" where
  "rdma_resolve_route_resp E fd m p w =
     (let T = ucma_abi_resolve_route;
          cmd = CMA_INIT_CMD T UCMA_CMD_RESOLVE_ROUTE;
          cmd = copy_field T ''id'' m p cmd;
          cmd = copy_field T ''timeout_ms'' m p cmd
      in Inr (cm_write E fd T cmd 0 w))"

definition rdma_init_qp_attr_resp :: "'w os \<Rightarrow> int \<Rightarrow> mem \<Rightarrow> nat \<Rightarrow> 'w \<Rightarrow> 'w cm_res" where
  "rdma_init_qp_attr_resp E fd m p w =
     (let T = ucma_abi_init_qp_attr; n = size_of ibv_kern_qp_attr;
          cmd = CMA_INIT_CMD_RESP E T UCMA_CMD_INIT_QP_ATTR n;
          cmd = copy_field T ''id'' m p cmd;
          cmd = copy_field T ''qp_state'' m p cmd
      in Inr (cm_write E fd T cmd n w))"

definition rdma_connect_resp :: "'w os \<Rightarrow> int \<Rightarrow> mem \<Rightarrow> nat \<Rightarrow> 'w \<Rightarrow> 'w cm_res" where
  "rdma_connect_resp E fd m p w =
     (let T = ucma_abi_connect;
          cmd = CMA_INIT_CMD T UCMA_CMD_CONNECT;
          cmd = copy_field T ''id'' m p cmd;
          cmd = copy_field T ''conn_param'' m p cmd
      in Inr (cm_write E fd T cmd 0 w))"

definition rdma_listen_resp :: "'w os \<Rightarrow> int \<Rightarrow> mem \<Rightarrow> nat \<Rightarrow> 'w \<Rightarrow> 'w cm_res" where
  "rdma_listen_resp E fd m p w =
     (let T = ucma_abi_listen;
          cmd = CMA_INIT_CMD T UCMA_CMD_LISTEN;
          cmd = copy_field T ''id'' m p cmd;
          cmd = copy_field T ''backlog'' m p cmd
      in Inr (cm_write E fd T cmd 0 w))"

definition rdma_accept_resp :: "'w os \<Rightarrow> int \<Rightarrow> mem \<Rightarrow> nat \<Rightarrow> 'w \<Rightarrow> 'w cm_res" where
  "rdma_accept_resp E fd m p w =
     (let T = ucma_abi_accept;
          cmd = CMA_INIT_CMD T UCMA_CMD_ACCEPT;
          cmd = copy_field T ''id'' m p cmd;
          cmd = copy_field T ''uid'' m p cmd;
          cmd = copy_field T ''conn_param'' m p cmd
      in Inr (cm_write E fd T cmd 0 w))"

definition rdma_disconnect_resp :: "'w os \<Rightarrow> int \<Rightarrow> mem \<Rightarrow> nat \<Rightarrow> 'w \<Rightarrow> 'w cm_res" where
  "rdma_disconnect_resp E fd m p w =
     (let T = ucma_abi_disconnect;
          cmd = CMA_INIT_CMD T UCMA_CMD_DISCONNECT;
          cmd = copy_field T ''id'' m p cmd
      in Inr (cm_write E fd T cmd 0 w))"

definition ucma_process_conn_resp_resp :: "'w os \<Rightarrow> int \<Rightarrow> mem \<Rightarrow> nat \<Rightarrow> 'w \<Rightarrow> 'w cm_res" where
  "ucma_process_conn_resp_resp E fd m p w =
     (let T = ucma_abi_accept;
          cmd = CMA_INIT_CMD T UCMA_CMD_ACCEPT;
          cmd = copy_field T ''id'' m p cmd
      in Inr (cm_write E fd T cmd 0 w))"

definition rdma_get_cm_event_resp :: "'w os \<Rightarrow> int \<Rightarrow> mem \<Rightarrow> nat \<Rightarrow> 'w \<Rightarrow> 'w cm_res" where
  "rdma_get_cm_event_resp E fd m p w =
     (let (ret, w) = os_ucma_init E w
      in if ret \<noteq> 0 then Inr (ret, None, w)
         else let T = ucma_abi_get_event; n = size_of ucma_abi_event_resp;
                  cmd = CMA_INIT_CMD_RESP E T UCMA_CMD_GET_EVENT n
              in Inr (cm_write E fd T cmd n w))"

text \<open>\<open>optval\<close> is the address of the option bytes in the router's request buffer.\<close>

definition rdma_set_option_resp :: "'w os \<Rightarrow> int \<Rightarrow> mem \<Rightarrow> nat \<Rightarrow> u64 \<Rightarrow> 'w \<Rightarrow> 'w cm_res" where
  "rdma_set_option_resp E fd m p optval w =
     (let T = ucma_abi_set_option;
          cmd = CMA_INIT_CMD T UCMA_CMD_SET_OPTION;
          cmd = copy_field T ''id'' m p cmd;
          cmd = put_u64 cmd (off T [''optval'']) optval;
          cmd = copy_field T ''level'' m p cmd;
          cmd = copy_field T ''optname'' m p cmd;
          cmd = copy_field T ''optlen'' m p cmd
      in Inr (cm_write E fd T cmd 0 w))"

definition rdma_migrate_id_resp :: "'w os \<Rightarrow> int \<Rightarrow> mem \<Rightarrow> nat \<Rightarrow> 'w \<Rightarrow> 'w cm_res" where
  "rdma_migrate_id_resp E fd m p w =
     (let T = ucma_abi_migrate_id; n = size_of ucma_abi_migrate_resp;
          cmd = CMA_INIT_CMD_RESP E T UCMA_CMD_MIGRATE_ID n;
          cmd = copy_field T ''id'' m p cmd;
          cmd = copy_field T ''fd'' m p cmd
      in Inr (cm_write E fd T cmd n w))"

end
