(* ===== verification/FF_CM.thy ===== *)
theory FF_CM
  imports FF_Memory FF_Ucma
begin

text \<open>
  The connection-manager and socket cases of \<^verbatim>\<open>HandleRequest\<close>. A connection-manager request carries the
  event channel and the command of the client's library; the router replays the command on the
  channel's descriptor, after replacing virtual addresses where the command holds one. The socket
  cases serve the TCP side: they act on a descriptor the client passes with \<^verbatim>\<open>SCM_RIGHTS\<close>.
\<close>

section \<open>Event channels\<close>

text \<open>\<^verbatim>\<open>struct rdma_event_channel\<close> has the descriptor as its only field; \<^verbatim>\<open>ret_errno\<close> of this answer is never set.\<close>

definition on_CM_CREATE_EVENT_CHANNEL :: "'w os \<Rightarrow> ('w, 'x) verbs2_scheme \<Rightarrow> 'w handler" where
  "on_CM_CREATE_EVENT_CHANNEL E V h t =
     (let (ec, w) = v_create_event_channel V (world t)
      in deref ec
        (let fd = ec_fd_of V w ec
         in if fd < 0 then Undefined OobIndex
            else let r = (if int MAP_SIZE \<le> fd then ffr t
                          else (ffr t)\<lparr>event_channel_map := (event_channel_map (ffr t))(nat fd := ec)\<rparr>);
                     (_, w) = send_fd E (client_sock t) fd w;
                     t = rsp_int (off CM_CREATE_EVENT_CHANNEL_RSP [''ec'']) fd (t\<lparr>ffr := r, world := w\<rparr>)
                 in reply t (size_of CM_CREATE_EVENT_CHANNEL_RSP)))"

definition on_CM_DESTROY_EVENT_CHANNEL :: "'w os \<Rightarrow> ('w, 'x) verbs2_scheme \<Rightarrow> 'w handler" where
  "on_CM_DESTROY_EVENT_CHANNEL E V h t =
     recv_body E (size_of CM_DESTROY_EVENT_CHANNEL_REQ) t (\<lambda>t.
       let fd = req_int t (off CM_DESTROY_EVENT_CHANNEL_REQ [''ec'', ''fd''])
       in islot (event_channel_map (ffr t)) fd (\<lambda>ec.
            if ec = NULL then Ok (GotoEnd t)
            else let r = (ffr t)\<lparr>event_channel_map := (event_channel_map (ffr t))(nat fd := NULL)\<rparr>;
                     w = v_destroy_event_channel V ec (world t);
                     t = rsp_int (off CM_DESTROY_EVENT_CHANNEL_RSP [''ret_errno'']) 0 (t\<lparr>ffr := r, world := w\<rparr>)
                 in reply t (size_of CM_DESTROY_EVENT_CHANNEL_RSP)))"

section \<open>Replayed commands\<close>

text \<open>
  The common body of a replayed command: \<open>Q\<close> is the request struct with the fields \<^verbatim>\<open>ec\<close> and \<^verbatim>\<open>cmd\<close>, \<open>R\<close> the response
  struct, \<open>f\<close> the library function, \<open>prep\<close> what the case does to the request before the call.
\<close>

definition cm_replay ::
  "'w os \<Rightarrow> cty \<Rightarrow> cty \<Rightarrow> ('w thr \<Rightarrow> mem) \<Rightarrow> ('w os \<Rightarrow> int \<Rightarrow> mem \<Rightarrow> nat \<Rightarrow> 'w \<Rightarrow> 'w cm_res) \<Rightarrow> 'w handler" where
  "cm_replay E Q R prep f h t =
     recv_body E (size_of Q) t (\<lambda>t.
       let t = t\<lparr>req_body := prep t\<rparr>
       in cmd_rsp R t (f E (req_int t (off Q [''ec'', ''fd''])) (req_body t) (off Q [''cmd'']) (world t)))"

definition on_CM_CREATE_ID :: "'w os \<Rightarrow> 'w handler" where
  "on_CM_CREATE_ID E = cm_replay E CM_CREATE_ID_REQ CM_CREATE_ID_RSP req_body rdma_create_id_resp"

text \<open>This case never sets the size of its answer, so nothing is written back.\<close>

definition on_CM_BIND_IP :: "'w os \<Rightarrow> 'w handler" where
  "on_CM_BIND_IP E h t =
     recv_body E (size_of CM_BIND_IP_REQ) t (\<lambda>t.
       let t = t\<lparr>req_body := map_vip (vip_map (ffr t)) (req_body t) (off CM_BIND_IP_REQ [''cmd'', ''addr''] + 4)\<rparr>
       in case rdma_bind_addr_resp E (req_int t (off CM_BIND_IP_REQ [''ec'', ''fd''])) (req_body t)
                 (off CM_BIND_IP_REQ [''cmd'']) (world t) of
            Inl u \<Rightarrow> Undefined u
          | Inr (ret, _, w) \<Rightarrow> reply (rsp_int (off CM_BIND_IP_RSP [''ret_errno'']) ret (t\<lparr>world := w\<rparr>)) 0)"

definition vip_field :: "cty \<Rightarrow> string \<Rightarrow> router \<Rightarrow> mem \<Rightarrow> mem" where
  "vip_field Q f r m = map_vip (vip_map r) m (get_in_addr m (off Q [''cmd'', f]))"

definition on_CM_BIND :: "'w os \<Rightarrow> 'w handler" where
  "on_CM_BIND E =
     cm_replay E CM_BIND_REQ CM_BIND_RSP (\<lambda>t. vip_field CM_BIND_REQ ''addr'' (ffr t) (req_body t)) rdma_bind_resp"

definition on_CM_GET_EVENT :: "'w os \<Rightarrow> 'w handler" where
  "on_CM_GET_EVENT E = cm_replay E CM_GET_EVENT_REQ CM_GET_EVENT_RSP req_body rdma_get_cm_event_resp"

definition on_CM_QUERY_ROUTE :: "'w os \<Rightarrow> 'w handler" where
  "on_CM_QUERY_ROUTE E = cm_replay E CM_QUERY_ROUTE_REQ CM_QUERY_ROUTE_RSP req_body ucma_query_route_resp"

definition on_CM_LISTEN :: "'w os \<Rightarrow> 'w handler" where
  "on_CM_LISTEN E = cm_replay E CM_LISTEN_REQ CM_LISTEN_RSP req_body rdma_listen_resp"

definition on_CM_RESOLVE_IP :: "'w os \<Rightarrow> 'w handler" where
  "on_CM_RESOLVE_IP E =
     cm_replay E CM_RESOLVE_IP_REQ CM_RESOLVE_IP_RSP
       (\<lambda>t. vip_field CM_RESOLVE_IP_REQ ''dst_addr'' (ffr t)
              (vip_field CM_RESOLVE_IP_REQ ''src_addr'' (ffr t) (req_body t)))
       rdma_resolve_addr_resp"

text \<open>The size of this answer is that of \<^verbatim>\<open>CM_RESOLVE_IP_RSP\<close> in the source.\<close>

definition on_CM_RESOLVE_ADDR :: "'w os \<Rightarrow> 'w handler" where
  "on_CM_RESOLVE_ADDR E =
     cm_replay E CM_RESOLVE_ADDR_REQ CM_RESOLVE_IP_RSP
       (\<lambda>t. vip_field CM_RESOLVE_ADDR_REQ ''dst_addr'' (ffr t)
              (vip_field CM_RESOLVE_ADDR_REQ ''src_addr'' (ffr t) (req_body t)))
       rdma_resolve_addr2_resp"

definition on_CM_UCMA_QUERY_ADDR :: "'w os \<Rightarrow> 'w handler" where
  "on_CM_UCMA_QUERY_ADDR E = cm_replay E CM_UCMA_QUERY_ADDR_REQ CM_UCMA_QUERY_ADDR_RSP req_body ucma_query_addr_resp"

definition on_CM_UCMA_QUERY_GID :: "'w os \<Rightarrow> 'w handler" where
  "on_CM_UCMA_QUERY_GID E = cm_replay E CM_UCMA_QUERY_GID_REQ CM_UCMA_QUERY_GID_RSP req_body ucma_query_gid_resp"

definition on_CM_UCMA_PROCESS_CONN_RESP :: "'w os \<Rightarrow> 'w handler" where
  "on_CM_UCMA_PROCESS_CONN_RESP E =
     cm_replay E CM_UCMA_PROCESS_CONN_RESP_REQ CM_UCMA_PROCESS_CONN_RESP_RSP req_body ucma_process_conn_resp_resp"

definition on_CM_DESTROY_ID :: "'w os \<Rightarrow> 'w handler" where
  "on_CM_DESTROY_ID E = cm_replay E CM_DESTROY_ID_REQ CM_DESTROY_ID_RSP req_body ucma_destroy_kern_id_resp"

definition on_CM_RESOLVE_ROUTE :: "'w os \<Rightarrow> 'w handler" where
  "on_CM_RESOLVE_ROUTE E = cm_replay E CM_RESOLVE_ROUTE_REQ CM_RESOLVE_ROUTE_RSP req_body rdma_resolve_route_resp"

definition on_CM_UCMA_QUERY_PATH :: "'w os \<Rightarrow> 'w handler" where
  "on_CM_UCMA_QUERY_PATH E = cm_replay E CM_UCMA_QUERY_PATH_REQ CM_UCMA_QUERY_PATH_RSP req_body ucma_query_path_resp"

definition on_CM_INIT_QP_ATTR :: "'w os \<Rightarrow> 'w handler" where
  "on_CM_INIT_QP_ATTR E = cm_replay E CM_INIT_QP_ATTR_REQ CM_INIT_QP_ATTR_RSP req_body rdma_init_qp_attr_resp"

definition on_CM_CONNECT :: "'w os \<Rightarrow> 'w handler" where
  "on_CM_CONNECT E = cm_replay E CM_CONNECT_REQ CM_CONNECT_RSP req_body rdma_connect_resp"

definition on_CM_ACCEPT :: "'w os \<Rightarrow> 'w handler" where
  "on_CM_ACCEPT E = cm_replay E CM_ACCEPT_REQ CM_ACCEPT_RSP req_body rdma_accept_resp"

definition on_CM_SET_OPTION :: "'w os \<Rightarrow> 'w handler" where
  "on_CM_SET_OPTION E h t =
     cm_replay E CM_SET_OPTION_REQ CM_SET_OPTION_RSP req_body
       (\<lambda>E fd m p w. rdma_set_option_resp E fd m p
          (req_addr t + word_of_nat (off CM_SET_OPTION_REQ [''optval''])) w) h t"

definition on_CM_MIGRATE_ID :: "'w os \<Rightarrow> 'w handler" where
  "on_CM_MIGRATE_ID E = cm_replay E CM_MIGRATE_ID_REQ CM_MIGRATE_ID_RSP req_body rdma_migrate_id_resp"

definition on_CM_DISCONNECT :: "'w os \<Rightarrow> 'w handler" where
  "on_CM_DISCONNECT E = cm_replay E CM_DISCONNECT_REQ CM_DISCONNECT_RSP req_body rdma_disconnect_resp"

section \<open>Sockets\<close>

definition O_NONBLOCK :: int where
  "O_NONBLOCK = 2048"

text \<open>A failed call leaves \<^verbatim>\<open>-errno\<close> in the answer.\<close>

definition or_errno :: "'w os \<Rightarrow> int \<Rightarrow> 'w \<Rightarrow> int" where
  "or_errno E ret w = (if ret < 0 then - os_errno E w else ret)"

definition on_SOCKET_SOCKET :: "'w os \<Rightarrow> 'w handler" where
  "on_SOCKET_SOCKET E h t =
     recv_body E (size_of SOCKET_SOCKET_REQ) t (\<lambda>t.
       let (ret, w) = os_socket E 2 (req_int t (off SOCKET_SOCKET_REQ [''type'']))
                        (req_int t (off SOCKET_SOCKET_REQ [''protocol''])) (world t);
           t = rsp_int (off SOCKET_SOCKET_RSP [''ret'']) (or_errno E ret w) (t\<lparr>world := w\<rparr>)
       in reply t (size_of SOCKET_SOCKET_RSP))"

definition recv_host_fd :: "'w os \<Rightarrow> 'w thr \<Rightarrow> ('w thr \<Rightarrow> 'w hres run) \<Rightarrow> 'w hres run" where
  "recv_host_fd E t k =
     (let (fd, w) = recv_fd E (client_sock t) (world t); t = t\<lparr>world := w, host_fd := fd\<rparr>
      in if fd < 0 then Ok (GotoKill t) else k t)"

definition on_SOCKET_BIND :: "'w os \<Rightarrow> 'w handler" where
  "on_SOCKET_BIND E h t =
     recv_host_fd E t (\<lambda>t.
       let (ret, w) = os_bind E (host_fd t) (host_ip (ffr t)) 0 (world t);
           t = rsp_int (off SOCKET_BIND_RSP [''ret'']) (or_errno E ret w) (t\<lparr>world := w\<rparr>)
       in reply t (size_of SOCKET_BIND_RSP))"

text \<open>
  Both accept calls clear the non-blocking flag, accept, and restore the flags they found; the plain
  one is \<^verbatim>\<open>accept4\<close> without flags.
\<close>

definition accept_blocking :: "'w os \<Rightarrow> int \<Rightarrow> int \<Rightarrow> 'w \<Rightarrow> int \<times> 'w" where
  "accept_blocking E fd flags w =
     (let (original_flags, w) = os_getfl E fd w;
          w = os_setfl E fd (and original_flags (not O_NONBLOCK)) w;
          (ret, w) = os_accept E fd flags w;
          ret = or_errno E ret w;
          w = os_setfl E fd original_flags w
      in (ret, w))"

definition on_SOCKET_ACCEPT :: "'w os \<Rightarrow> 'w handler" where
  "on_SOCKET_ACCEPT E h t =
     recv_host_fd E t (\<lambda>t.
       let (ret, w) = accept_blocking E (host_fd t) 0 (world t);
           t = rsp_int (off SOCKET_ACCEPT_RSP [''ret'']) ret (t\<lparr>world := w\<rparr>)
       in reply t (size_of SOCKET_ACCEPT_RSP))"

definition on_SOCKET_ACCEPT4 :: "'w os \<Rightarrow> 'w handler" where
  "on_SOCKET_ACCEPT4 E h t =
     recv_body E (size_of SOCKET_ACCEPT4_REQ) t (\<lambda>t.
       recv_host_fd E t (\<lambda>t.
         let (ret, w) = accept_blocking E (host_fd t) (req_int t (off SOCKET_ACCEPT4_REQ [''flags''])) (world t);
             t = rsp_int (off SOCKET_ACCEPT4_RSP [''ret'']) ret (t\<lparr>world := w\<rparr>)
         in reply t (size_of SOCKET_ACCEPT4_RSP)))"

definition on_SOCKET_CONNECT :: "'w os \<Rightarrow> 'w handler" where
  "on_SOCKET_CONNECT E h t =
     recv_body E (size_of SOCKET_CONNECT_REQ) t (\<lambda>t.
       recv_host_fd E t (\<lambda>t.
         let (ret, w) = os_connect E (host_fd t)
                          (get_bytes (req_body t) (off SOCKET_CONNECT_REQ [''host_addr'']) (size_of sockaddr_in))
                          (req_u32 t (off SOCKET_CONNECT_REQ [''host_addrlen''])) (world t);
             t = rsp_int (off SOCKET_CONNECT_RSP [''ret'']) (or_errno E ret w) (t\<lparr>world := w\<rparr>)
         in reply t (size_of SOCKET_CONNECT_RSP)))"

end
