(* ===== verification/FF_Dispatch.thy ===== *)
theory FF_Dispatch
  imports FF_Resources FF_Post FF_CM
begin

text \<open>
  \<^verbatim>\<open>HandleRequest\<close>: the two buffers of a connection, the loop that reads a header, dispatches on the
  function code, writes the answer and passes a descriptor for the socket calls, and the clean-up at
  its labels \<^verbatim>\<open>end\<close> and \<^verbatim>\<open>kill\<close>.
\<close>

definition new_thread :: "router \<Rightarrow> 'w \<Rightarrow> mem \<Rightarrow> mem \<Rightarrow> u64 \<Rightarrow> int \<Rightarrow> 'w thr" where
  "new_thread r w junk1 junk2 addr sock =
     \<lparr>ffr = r, world = w, req_body = junk1, rsp = junk2, req_addr = addr,
      cap = (if disable_rdma r then 0xff else 0xfffff), client_sock = sock, host_fd = - 1\<rparr>"

section \<open>The switch\<close>

definition HandleRequest_switch :: "nat \<Rightarrow> 'w os \<Rightarrow> ('w, 'x) verbs2_scheme \<Rightarrow> RDMA_FUNCTION_CALL \<Rightarrow> 'w handler" where
  "HandleRequest_switch fuel E V f =
     (case f of
        IBV_GET_CONTEXT \<Rightarrow> on_GET_CONTEXT V
      | IBV_QUERY_DEV \<Rightarrow> on_QUERY_DEV V
      | IBV_EXP_QUERY_DEV \<Rightarrow> on_EXP_QUERY_DEV E V
      | IBV_QUERY_PORT \<Rightarrow> on_QUERY_PORT E V
      | IBV_ALLOC_PD \<Rightarrow> on_ALLOC_PD V
      | IBV_DEALLOC_PD \<Rightarrow> on_DEALLOC_PD E V
      | IBV_CREATE_CQ \<Rightarrow> on_CREATE_CQ E V
      | IBV_DESTROY_CQ \<Rightarrow> on_DESTROY_CQ E V
      | IBV_REQ_NOTIFY_CQ \<Rightarrow> on_REQ_NOTIFY_CQ E V
      | IBV_CREATE_QP \<Rightarrow> on_CREATE_QP E V
      | IBV_DESTROY_QP \<Rightarrow> on_DESTROY_QP E V
      | IBV_REG_MR \<Rightarrow> on_REG_MR E V
      | IBV_REG_MR_MAPPING \<Rightarrow> on_REG_MR_MAPPING E
      | IBV_DEREG_MR \<Rightarrow> on_DEREG_MR E V
      | IBV_MODIFY_QP \<Rightarrow> on_MODIFY_QP E V
      | IBV_QUERY_QP \<Rightarrow> on_QUERY_QP E V
      | IBV_POST_SEND \<Rightarrow> on_POST_SEND fuel E V
      | IBV_POST_RECV \<Rightarrow> on_POST_RECV E V
      | IBV_POLL_CQ \<Rightarrow> on_POLL_CQ E V
      | IBV_CREATE_COMP_CHANNEL \<Rightarrow> on_CREATE_COMP_CHANNEL E V
      | IBV_DESTROY_COMP_CHANNEL \<Rightarrow> on_DESTROY_COMP_CHANNEL E V
      | IBV_GET_CQ_EVENT \<Rightarrow> on_GET_CQ_EVENT E V
      | IBV_ACK_CQ_EVENT \<Rightarrow> on_ACK_CQ_EVENT E V
      | IBV_CREATE_AH \<Rightarrow> on_CREATE_AH E V
      | IBV_DESTROY_AH \<Rightarrow> on_DESTROY_AH E V
      | IBV_CREATE_FLOW \<Rightarrow> on_CREATE_FLOW E V
      | IBV_DESTROY_FLOW \<Rightarrow> on_DESTROY_FLOW E V
      | IBV_CREATE_SRQ \<Rightarrow> on_CREATE_SRQ E V
      | IBV_MODIFY_SRQ \<Rightarrow> on_MODIFY_SRQ E V
      | IBV_DESTROY_SRQ \<Rightarrow> on_DESTROY_SRQ E V
      | IBV_POST_SRQ_RECV \<Rightarrow> on_POST_SRQ_RECV E V
      | CM_CREATE_EVENT_CHANNEL \<Rightarrow> on_CM_CREATE_EVENT_CHANNEL E V
      | CM_DESTROY_EVENT_CHANNEL \<Rightarrow> on_CM_DESTROY_EVENT_CHANNEL E V
      | CM_CREATE_ID \<Rightarrow> on_CM_CREATE_ID E
      | CM_BIND_IP \<Rightarrow> on_CM_BIND_IP E
      | CM_BIND \<Rightarrow> on_CM_BIND E
      | CM_GET_EVENT \<Rightarrow> on_CM_GET_EVENT E
      | CM_QUERY_ROUTE \<Rightarrow> on_CM_QUERY_ROUTE E
      | CM_LISTEN \<Rightarrow> on_CM_LISTEN E
      | CM_RESOLVE_IP \<Rightarrow> on_CM_RESOLVE_IP E
      | CM_RESOLVE_ADDR \<Rightarrow> on_CM_RESOLVE_ADDR E
      | CM_UCMA_QUERY_ADDR \<Rightarrow> on_CM_UCMA_QUERY_ADDR E
      | CM_UCMA_QUERY_GID \<Rightarrow> on_CM_UCMA_QUERY_GID E
      | CM_UCMA_PROCESS_CONN_RESP \<Rightarrow> on_CM_UCMA_PROCESS_CONN_RESP E
      | CM_DESTROY_ID \<Rightarrow> on_CM_DESTROY_ID E
      | CM_RESOLVE_ROUTE \<Rightarrow> on_CM_RESOLVE_ROUTE E
      | CM_UCMA_QUERY_PATH \<Rightarrow> on_CM_UCMA_QUERY_PATH E
      | CM_INIT_QP_ATTR \<Rightarrow> on_CM_INIT_QP_ATTR E
      | CM_CONNECT \<Rightarrow> on_CM_CONNECT E
      | CM_ACCEPT \<Rightarrow> on_CM_ACCEPT E
      | CM_SET_OPTION \<Rightarrow> on_CM_SET_OPTION E
      | CM_MIGRATE_ID \<Rightarrow> on_CM_MIGRATE_ID E
      | CM_DISCONNECT \<Rightarrow> on_CM_DISCONNECT E
      | SOCKET_SOCKET \<Rightarrow> on_SOCKET_SOCKET E
      | SOCKET_BIND \<Rightarrow> on_SOCKET_BIND E
      | SOCKET_ACCEPT \<Rightarrow> on_SOCKET_ACCEPT E
      | SOCKET_ACCEPT4 \<Rightarrow> on_SOCKET_ACCEPT4 E
      | SOCKET_CONNECT \<Rightarrow> on_SOCKET_CONNECT E
      | _ \<Rightarrow> (\<lambda>h t. reply t 0))"

section \<open>One turn of the loop\<close>

datatype 'w turn = Continue "'w thr" | Stop "'w thr"

definition returns_fd :: "RDMA_FUNCTION_CALL option \<Rightarrow> bool" where
  "returns_fd f = (f \<in> {Some SOCKET_SOCKET, Some SOCKET_ACCEPT, Some SOCKET_ACCEPT4})"

definition one_shot :: "RDMA_FUNCTION_CALL option \<Rightarrow> bool" where
  "one_shot f = (f \<in> {Some SOCKET_SOCKET, Some SOCKET_BIND, Some SOCKET_ACCEPT, Some SOCKET_ACCEPT4, Some SOCKET_CONNECT})"

text \<open>The label \<^verbatim>\<open>end\<close>, and the label \<^verbatim>\<open>kill\<close>.\<close>

definition at_end :: "'w os \<Rightarrow> RDMA_FUNCTION_CALL option \<Rightarrow> 'w thr \<Rightarrow> 'w turn" where
  "at_end E f t =
     (let t = (if 0 \<le> host_fd t then t\<lparr>world := os_close E (host_fd t) (world t)\<rparr> else t)
      in if one_shot f then Stop (t\<lparr>world := os_close E (client_sock t) (world t)\<rparr>) else Continue t)"

definition at_kill :: "'w os \<Rightarrow> 'w thr \<Rightarrow> 'w turn" where
  "at_kill E t = Stop (t\<lparr>world := os_close E (client_sock t) (world t)\<rparr>)"

text \<open>
  After \<^verbatim>\<open>break\<close>: the answer is written, and a descriptor is passed and closed. The result of \<^verbatim>\<open>write\<close> is compared
  with the size as a signed number.
\<close>

definition after_break :: "'w os \<Rightarrow> RDMA_FUNCTION_CALL option \<Rightarrow> int \<Rightarrow> 'w thr \<Rightarrow> 'w turn" where
  "after_break E f sz t =
     (let (n, w) = os_write E (client_sock t) (get_bytes (rsp t) 0 (nat sz)) (world t); t = t\<lparr>world := w\<rparr>
      in if n < sz then at_kill E t
         else let ret = get_int (rsp t) (off SOCKET_SOCKET_RSP [''ret'']);
                  t = (if returns_fd f \<and> 0 \<le> ret
                       then let (_, w) = send_fd E (client_sock t) ret (world t)
                            in t\<lparr>world := os_close E ret w\<rparr>
                       else t)
              in at_end E f t)"

definition parse_header :: "bytes \<Rightarrow> header" where
  "parse_header bs =
     (let m = put_bytes (\<lambda>_. 0) 0 bs
      in \<lparr>client_id = get_int m (off FfrRequestHeader [''client_id'']), func = get_u32 m (off FfrRequestHeader [''func'']),
          body_size = get_u32 m (off FfrRequestHeader [''body_size''])\<rparr>)"

text \<open>
  \<open>junk\<close> is what the header struct on the stack holds where a failed \<^verbatim>\<open>read\<close> leaves it alone: the comparison
  with its size lets a negative result through.
\<close>

definition HandleRequest_turn ::
  "nat \<Rightarrow> 'w os \<Rightarrow> ('w, 'x) verbs2_scheme \<Rightarrow> bytes \<Rightarrow> 'w thr \<Rightarrow> 'w turn run" where
  "HandleRequest_turn fuel E V junk t =
     (let t = t\<lparr>host_fd := - 1\<rparr>;
          (n, bs, w) = os_read E (client_sock t) (size_of FfrRequestHeader) (world t);
          t = t\<lparr>world := w\<rparr>
      in if ssize_lt n (size_of FfrRequestHeader) then Ok (at_kill E t)
         else let h = parse_header (bs @ drop (length bs) junk);
                  f = call_of_code router_calls (unat (func h));
                  res = (case f of Some c \<Rightarrow> HandleRequest_switch fuel E V c h t | None \<Rightarrow> reply t 0)
              in andThen res (\<lambda>r. Ok (case r of
                   Break t sz \<Rightarrow> after_break E f sz t
                 | GotoEnd t \<Rightarrow> at_end E f t
                 | GotoKill t \<Rightarrow> at_kill E t
                 | Return t \<Rightarrow> Stop t)))"

text \<open>The loop, for at most \<open>turns\<close> requests: \<open>None\<close> is a connection that is still open then.\<close>

fun HandleRequest :: "nat \<Rightarrow> nat \<Rightarrow> 'w os \<Rightarrow> ('w, 'x) verbs2_scheme \<Rightarrow> bytes \<Rightarrow> 'w thr \<Rightarrow> 'w thr option run" where
  "HandleRequest 0 fuel E V junk t = Ok None"
| "HandleRequest (Suc turns) fuel E V junk t =
     andThen (HandleRequest_turn fuel E V junk t) (\<lambda>nx.
       case nx of Stop t \<Rightarrow> Ok (Some t) | Continue t \<Rightarrow> HandleRequest turns fuel E V junk t)"

end
