(* ===== verification/FF_Client.thy ===== *)
theory FF_Client
  imports FF_Dispatch FF_MemPool
begin

text \<open>
  The client library in the container, \<^verbatim>\<open>libibverbs-1.2.1mlnx1/src/freeflow.c\<close>: its global tables, the
  connection to the router, the request loop over the socket and the one over a control piece. The
  world of the operating system is part of the state of the library. A call returns, has undefined
  behaviour, never returns (\<open>Spins\<close>, when the fuel of a loop runs out) or ends the process.
\<close>

datatype 'a cres = Ret 'a | Ub ub | Spins | Exits

fun cthen :: "'a cres \<Rightarrow> ('a \<Rightarrow> 'b cres) \<Rightarrow> 'b cres" where
  "cthen (Ret a) k = k a"
| "cthen (Ub u) k = Ub u"
| "cthen Spins k = Spins"
| "cthen Exits k = Exits"

lemma cthen_Ret: "cthen x k = Ret b \<longleftrightarrow> (\<exists>a. x = Ret a \<and> k a = Ret b)"
  by (cases x) auto

section \<open>Global state\<close>

text \<open>The entry of a local key: where the application's memory is, and where it is mapped as shared memory.\<close>

record mr_shm =
  mrs_mr :: u64
  mrs_shm :: u64

record sge_record =
  sr_length :: u32
  sr_mr_addr :: u64
  sr_shm_addr :: u64

text \<open>
  A queue of posted receives. \<^verbatim>\<open>queue\<close> is an array of \<^verbatim>\<open>WR_QUEUE_SIZE\<close> records; an entry is the list of
  the records its \<^verbatim>\<open>sge_queue\<close> points to. Of the two spin locks only \<^verbatim>\<open>tail_lock\<close> can stay held after a call.
\<close>

record wr_queue =
  wq_queue :: "nat \<Rightarrow> sge_record list"
  wq_head :: u16
  wq_tail :: u16
  wq_tail_locked :: bool

definition WR_QUEUE_SIZE :: nat where
  "WR_QUEUE_SIZE = 102400"

record 'w lib =
  lib_world :: 'w
  sock_initialized :: bool
  ffr_client_id :: int
  comp_channel_map :: "nat \<Rightarrow> int"
  comp_channel_sock :: "nat \<Rightarrow> int"
  map_cq_to_srq :: "nat \<Rightarrow> u32"
  map_lkey_to_mrshm :: MemPool
  mrshm_data :: "nat \<Rightarrow> mr_shm"
  map_cq_to_wr_queue :: "nat \<Rightarrow> wr_queue option"
  map_srq_to_wr_queue :: "nat \<Rightarrow> wr_queue option"
  lib_qp_shm :: table
  lib_cq_shm :: table
  lib_srq_shm :: table
  lib_ctrl :: "u64 \<Rightarrow> CtrlShm"
  app_mem :: "u64 \<Rightarrow> u8"

text \<open>
  \<open>mrshm_data\<close> gives what the pool's pointers point to, \<open>lib_ctrl\<close> the contents of the control pieces by
  their address in the process, \<open>app_mem\<close> the memory of the process: the application's data, its work
  requests and the shared memory of its regions.
\<close>

text \<open>\<^verbatim>\<open>atoi\<close>: white space, a sign, digits; the value of what does not fit an \<^verbatim>\<open>int\<close> is not used.\<close>

definition atoi :: "string \<Rightarrow> int" where
  "atoi s =
     (let s = dropWhile (\<lambda>c. c \<in> {CHR '' '', char_of (9 :: nat), char_of (10 :: nat), char_of (11 :: nat),
                                  char_of (12 :: nat), char_of (13 :: nat)}) s;
          neg = (s \<noteq> [] \<and> hd s = CHR ''-'');
          s = (if s \<noteq> [] \<and> hd s \<in> {CHR ''-'', CHR ''+''} then tl s else s);
          n = int (undec (takeWhile is_digit s))
      in if neg then - n else n)"

definition init_sock :: "'w os \<Rightarrow> 'w lib \<Rightarrow> 'w lib cres" where
  "init_sock E l =
     (if sock_initialized l then Ret l
      else case os_getenv E ''FFR_ID'' of
        None \<Rightarrow> Exits
      | Some cid \<Rightarrow>
          Ret (l\<lparr>sock_initialized := True, ffr_client_id := atoi cid, comp_channel_sock := (\<lambda>_. - 1), comp_channel_map := (\<lambda>_. - 1),
                map_cq_to_srq := (\<lambda>_. word_of_nat (MAP_SIZE + 1)), map_lkey_to_mrshm := mempool_create\<rparr>))"

section \<open>The connection\<close>

text \<open>
  The path is built in a block of \<^verbatim>\<open>strlen(path) + strlen(router_name)\<close> bytes, one less than it needs;
  \<open>usable n\<close> is what the allocator really gives for \<open>n\<close> bytes. The name is copied into the 108 bytes of
  \<^verbatim>\<open>sun_path\<close>. The result is the descriptor, \<open>- 1\<close> when the connection fails.
\<close>

definition connect_router :: "(nat \<Rightarrow> nat) \<Rightarrow> 'w os \<Rightarrow> 'w \<Rightarrow> (int \<times> 'w) cres" where
  "connect_router usable E w =
     (let (fd, w) = os_socket E 1 1 0 w
      in if fd < 0 then Exits
         else case os_getenv E ''FFR_NAME'' of
                None \<Rightarrow> Ub NullDeref
              | Some router_name \<Rightarrow>
                  let pathname = ''/freeflow/'' @ router_name
                  in if usable (length pathname) < length pathname + 1 then Ub HeapOverflow
                     else if 108 < length pathname + 1 then Ub StackOverflow
                     else let (ret, w) = os_connect E fd (bytes_of_string pathname) (word_of_nat (2 + length pathname)) w
                          in Ret (if ret < 0 then - 1 else fd, w))"

definition get_unix_sock :: "(nat \<Rightarrow> nat) \<Rightarrow> 'w os \<Rightarrow> 'w lib \<Rightarrow> (int \<times> 'w lib) cres" where
  "get_unix_sock usable E l =
     cthen (connect_router usable E (lib_world l)) (\<lambda>(fd, w). Ret (fd, l\<lparr>lib_world := w\<rparr>))"

text \<open>The socket of a completion channel stays open between calls; \<open>None\<close> is the null pointer for a descriptor that is too large.\<close>

definition get_unix_sock_comp_channel :: "(nat \<Rightarrow> nat) \<Rightarrow> 'w os \<Rightarrow> int \<Rightarrow> 'w lib \<Rightarrow> (int option \<times> 'w lib) cres" where
  "get_unix_sock_comp_channel usable E fd l =
     (if int MAP_SIZE \<le> fd then Ret (None, l)
      else if fd < 0 then Ub OobIndex
      else if 0 \<le> comp_channel_sock l (nat fd) then Ret (Some (comp_channel_sock l (nat fd)), l)
      else cthen (connect_router usable E (lib_world l)) (\<lambda>(s, w).
             Ret (Some s, l\<lparr>lib_world := w, comp_channel_sock := (comp_channel_sock l)(nat fd := s)\<rparr>)))"

section \<open>Sizes of requests and answers\<close>

text \<open>
  The switch of \<^verbatim>\<open>request_router\<close>: the size of the answer (\<open>None\<close> when it comes with a header of its own)
  and of the request (\<open>None\<close> when it is the \<^verbatim>\<open>wr_size\<close> of the caller); no entry is the \<^verbatim>\<open>default\<close> case.
\<close>

definition request_sizes :: "RDMA_FUNCTION_CALL \<Rightarrow> (nat option \<times> nat option) option" where
  "request_sizes req =
     (case req of
        IBV_GET_CONTEXT \<Rightarrow> Some (Some (size_of IBV_GET_CONTEXT_RSP), Some 0)
      | IBV_QUERY_DEV \<Rightarrow> Some (Some (size_of IBV_QUERY_DEV_RSP), Some 0)
      | IBV_EXP_QUERY_DEV \<Rightarrow> Some (Some (size_of IBV_EXP_QUERY_DEV_RSP), Some (size_of IBV_EXP_QUERY_DEV_REQ))
      | IBV_QUERY_PORT \<Rightarrow> Some (Some (size_of IBV_QUERY_PORT_RSP), Some (size_of IBV_QUERY_PORT_REQ))
      | IBV_ALLOC_PD \<Rightarrow> Some (Some (size_of IBV_ALLOC_PD_RSP), Some 0)
      | IBV_DEALLOC_PD \<Rightarrow> Some (Some (size_of IBV_DEALLOC_PD_RSP), Some (size_of IBV_DEALLOC_PD_REQ))
      | IBV_CREATE_CQ \<Rightarrow> Some (Some (size_of IBV_CREATE_CQ_RSP), Some (size_of IBV_CREATE_CQ_REQ))
      | IBV_DESTROY_CQ \<Rightarrow> Some (Some (size_of IBV_DESTROY_CQ_RSP), Some (size_of IBV_DESTROY_CQ_REQ))
      | IBV_REQ_NOTIFY_CQ \<Rightarrow> Some (Some (size_of IBV_REQ_NOTIFY_CQ_RSP), Some (size_of IBV_REQ_NOTIFY_CQ_REQ))
      | IBV_CREATE_QP \<Rightarrow> Some (Some (size_of IBV_CREATE_QP_RSP), Some (size_of IBV_CREATE_QP_REQ))
      | IBV_DESTROY_QP \<Rightarrow> Some (Some (size_of IBV_DESTROY_QP_RSP), Some (size_of IBV_DESTROY_QP_REQ))
      | IBV_REG_MR \<Rightarrow> Some (Some (size_of IBV_REG_MR_RSP), Some (size_of IBV_REG_MR_REQ))
      | IBV_REG_MR_MAPPING \<Rightarrow> Some (Some (size_of IBV_REG_MR_MAPPING_RSP), Some (size_of IBV_REG_MR_MAPPING_REQ))
      | IBV_DEREG_MR \<Rightarrow> Some (Some (size_of IBV_DEREG_MR_RSP), Some (size_of IBV_DEREG_MR_REQ))
      | IBV_MODIFY_QP \<Rightarrow> Some (Some (size_of IBV_MODIFY_QP_RSP), Some (size_of IBV_MODIFY_QP_REQ))
      | IBV_QUERY_QP \<Rightarrow> Some (Some (size_of IBV_QUERY_QP_RSP), Some (size_of IBV_QUERY_QP_REQ))
      | IBV_POST_SEND \<Rightarrow> Some (Some (size_of IBV_POST_SEND_RSP), None)
      | IBV_POST_RECV \<Rightarrow> Some (Some (size_of IBV_POST_RECV_RSP), None)
      | IBV_POST_SRQ_RECV \<Rightarrow> Some (Some (size_of IBV_POST_SRQ_RECV_RSP), None)
      | IBV_POLL_CQ \<Rightarrow> Some (None, Some (size_of IBV_POLL_CQ_REQ))
      | IBV_CREATE_COMP_CHANNEL \<Rightarrow> Some (Some (size_of IBV_CREATE_COMP_CHANNEL_RSP), Some 0)
      | IBV_DESTROY_COMP_CHANNEL \<Rightarrow> Some (Some (size_of IBV_DESTROY_COMP_CHANNEL_RSP), Some (size_of IBV_DESTROY_COMP_CHANNEL_REQ))
      | IBV_GET_CQ_EVENT \<Rightarrow> Some (Some (size_of IBV_GET_CQ_EVENT_RSP), Some (size_of IBV_GET_CQ_EVENT_REQ))
      | IBV_ACK_CQ_EVENT \<Rightarrow> Some (Some (size_of IBV_ACK_CQ_EVENT_RSP), Some (size_of IBV_ACK_CQ_EVENT_REQ))
      | IBV_CREATE_AH \<Rightarrow> Some (Some (size_of IBV_CREATE_AH_RSP), Some (size_of IBV_CREATE_AH_REQ))
      | IBV_DESTROY_AH \<Rightarrow> Some (Some (size_of IBV_DESTROY_AH_RSP), Some (size_of IBV_DESTROY_AH_REQ))
      | IBV_CREATE_FLOW \<Rightarrow> Some (Some (size_of IBV_CREATE_FLOW_RSP), Some (size_of IBV_CREATE_FLOW_REQ))
      | IBV_DESTROY_FLOW \<Rightarrow> Some (Some (size_of IBV_DESTROY_FLOW_RSP), Some (size_of IBV_DESTROY_FLOW_REQ))
      | IBV_CREATE_SRQ \<Rightarrow> Some (Some (size_of IBV_CREATE_SRQ_RSP), Some (size_of IBV_CREATE_SRQ_REQ))
      | IBV_MODIFY_SRQ \<Rightarrow> Some (Some (size_of IBV_MODIFY_SRQ_RSP), Some (size_of IBV_MODIFY_SRQ_REQ))
      | IBV_DESTROY_SRQ \<Rightarrow> Some (Some (size_of IBV_DESTROY_SRQ_RSP), Some (size_of IBV_DESTROY_SRQ_REQ))
      | _ \<Rightarrow> None)"

section \<open>A request over the socket\<close>

definition header_bytes :: "int \<Rightarrow> u32 \<Rightarrow> u32 \<Rightarrow> bytes" where
  "header_bytes cid code bsize =
     get_bytes (put_u32 (put_u32 (put_int (\<lambda>_. 0) (off FfrRequestHeader [''client_id'']) cid)
       (off FfrRequestHeader [''func'']) code) (off FfrRequestHeader [''body_size'']) bsize)
       0 (size_of FfrRequestHeader)"

text \<open>
  The reading loops: until \<open>want\<close> bytes have arrived, whatever arrives is stored behind what is there; a
  negative result gives up. The end of the connection is a result of 0, which the loops do not test.
\<close>

fun read_loop :: "nat \<Rightarrow> 'w os \<Rightarrow> int \<Rightarrow> int \<Rightarrow> int \<Rightarrow> mem \<Rightarrow> 'w \<Rightarrow> (bool \<times> mem \<times> 'w) cres" where
  "read_loop 0 E sock want got m w = (if want \<le> got then Ret (True, m, w) else Spins)"
| "read_loop (Suc fuel) E sock want got m w =
     (if want \<le> got then Ret (True, m, w)
      else let (n, bs, w) = os_read E sock (nat (want - got)) w
           in if n < 0 then Ret (False, m, w)
              else read_loop fuel E sock want (got + n) (put_bytes m (nat got) bs) w)"

text \<open>\<^verbatim>\<open>recv_fd\<close> of the client ends the process where the one of the router returns \<open>- 1\<close>.\<close>

definition client_recv_fd :: "'w os \<Rightarrow> int \<Rightarrow> 'w \<Rightarrow> (int \<times> 'w) cres" where
  "client_recv_fd E sock w =
     (let (sz, cmsg, w) = os_recvmsg E sock w
      in if sz < 0 then Exits
         else case cmsg of
                Some (len, level, ty, fd) \<Rightarrow>
                  (if len = CMSG_LEN_INT
                   then if level \<noteq> SOL_SOCKET then Exits else if ty \<noteq> SCM_RIGHTS then Exits else Ret (fd, w)
                   else Ret (- 1, w))
              | None \<Rightarrow> Ret (- 1, w))"

text \<open>
  The exchange once a socket is there. The results of the writes only decide what is printed: a negative
  one compares as a large unsigned number, so the branch that would notice it is never taken. \<open>body\<close> is
  what \<^verbatim>\<open>req_body\<close> points to, \<open>wr_size\<close> the size the posting calls pass, \<open>m\<close> the memory behind \<^verbatim>\<open>rsp\<close>. The
  result is the flag whether the socket is still usable, the answer and its size.
\<close>

definition exchange ::
  "nat \<Rightarrow> 'w os \<Rightarrow> int \<Rightarrow> int \<Rightarrow> RDMA_FUNCTION_CALL \<Rightarrow> nat option \<Rightarrow> u32 \<Rightarrow> mem \<Rightarrow> mem \<Rightarrow> int \<Rightarrow> 'w lib
     \<Rightarrow> (bool \<times> mem \<times> int \<times> 'w lib) cres" where
  "exchange fuel E sock cid req rsp_fixed bsize body m rsp_size l =
     (let (_, w) = os_write E sock (header_bytes cid (word_of_nat (the (call_code client_calls req))) bsize) (lib_world l);
          w = (if 0 < bsize then snd (os_write E sock (get_bytes body 0 (unat bsize)) w) else w)
      in cthen (if req = IBV_CREATE_COMP_CHANNEL then client_recv_fd E sock w else Ret (- 1, w)) (\<lambda>(mapped_fd, w).
         cthen (case rsp_fixed of
                  Some n \<Rightarrow> Ret (True, int n, w)
                | None \<Rightarrow>
                    cthen (read_loop fuel E sock (int (size_of FfrResponseHeader)) 0 (\<lambda>_. 0) w) (\<lambda>(ok, hr, w).
                      Ret (ok, if ok then get_int hr (off FfrResponseHeader [''rsp_size'']) else rsp_size, w))) (\<lambda>(ok, rsp_size, w).
         if \<not> ok then Ret (False, m, rsp_size, l\<lparr>lib_world := w\<rparr>)
         else cthen (read_loop fuel E sock rsp_size 0 m w) (\<lambda>(ok, m, w).
           let l = l\<lparr>lib_world := w\<rparr>
           in if ok \<and> req = IBV_CREATE_COMP_CHANNEL
              then if mapped_fd < 0 \<or> int MAP_SIZE \<le> mapped_fd then Ub OobIndex
                   else Ret (ok, put_int m (off IBV_CREATE_COMP_CHANNEL_RSP [''fd'']) mapped_fd, rsp_size,
                     l\<lparr>comp_channel_map := (comp_channel_map l)
                        (nat mapped_fd := get_int m (off IBV_CREATE_COMP_CHANNEL_RSP [''fd'']))\<rparr>)
              else Ret (ok, m, rsp_size, l)))))"

text \<open>
  The whole function. Without a usable socket it returns at once, and the caller finds in \<open>m\<close> what was
  there before. The socket of a completion channel is kept, every other one is closed.
\<close>

definition request_router ::
  "nat \<Rightarrow> (nat \<Rightarrow> nat) \<Rightarrow> 'w os \<Rightarrow> RDMA_FUNCTION_CALL \<Rightarrow> mem \<Rightarrow> u32 \<Rightarrow> mem \<Rightarrow> int \<Rightarrow> 'w lib \<Rightarrow> (mem \<times> int \<times> 'w lib) cres" where
  "request_router fuel usable E req body wr_size m rsp_size l =
     (let fd = get_int body (off IBV_GET_CQ_EVENT_REQ [''fd'']); keep = (req = IBV_GET_CQ_EVENT)
      in cthen (if keep then get_unix_sock_comp_channel usable E fd l
                else cthen (get_unix_sock usable E l) (\<lambda>(s, l). Ret (Some s, l))) (\<lambda>(s, l).
         case s of
           None \<Rightarrow> Ret (m, rsp_size, l)
         | Some sock \<Rightarrow>
             if sock < 0 then Ret (m, rsp_size, l)
             else case os_getenv E ''FFR_ID'' of
                    None \<Rightarrow> Exits
                  | Some cid \<Rightarrow>
                      case request_sizes req of
                        None \<Rightarrow> Ret (m, rsp_size, l\<lparr>lib_world := os_close E sock (lib_world l)\<rparr>)
                      | Some (rsp_fixed, req_fixed) \<Rightarrow>
                          let bsize = (case req_fixed of Some n \<Rightarrow> word_of_nat n | None \<Rightarrow> wr_size)
                          in cthen (exchange fuel E sock (atoi cid) req rsp_fixed bsize body m rsp_size l)
                               (\<lambda>(ok, m, rsp_size, l).
                                 if keep
                                 then Ret (m, rsp_size, if ok then l
                                        else l\<lparr>comp_channel_sock := (comp_channel_sock l)(nat fd := - 1)\<rparr>)
                                 else Ret (m, rsp_size,
                                        l\<lparr>lib_world := os_close E (if ok then sock else - 1) (lib_world l)\<rparr>))))"

section \<open>A request through a control piece\<close>

text \<open>
  \<^verbatim>\<open>request_router_shm\<close>: \<open>env k\<close> is what the router has done to the piece before the \<open>k\<close>-th look at its
  state.
\<close>

fun request_router_shm :: "nat \<Rightarrow> (nat \<Rightarrow> CtrlShm \<Rightarrow> CtrlShm) \<Rightarrow> nat \<Rightarrow> CtrlShm \<Rightarrow> CtrlShm cres" where
  "request_router_shm 0 env k cs = Spins"
| "request_router_shm (Suc fuel) env k cs =
     (let cs = env k cs
      in case cs_state cs of
           IDLE \<Rightarrow> request_router_shm fuel env (k + 1) (cs\<lparr>cs_state := REQ_DONE\<rparr>)
         | REQ_DONE \<Rightarrow> request_router_shm fuel env (k + 1) cs
         | RSP_DONE \<Rightarrow> Ret cs)"

end
