(* ===== verification/FF_ClientCM.thy ===== *)
theory FF_ClientCM
  imports FF_Client
begin

text \<open>
  The connection-manager library in the container, \<^verbatim>\<open>librdmacm-1.1.0mlnx/src/freeflow.c\<close>: its own
  \<^verbatim>\<open>request_router\<close>, with sockets that stay open and are picked at random, and the sizes of its calls.
\<close>

section \<open>Sizes of requests and answers\<close>

definition cm_request_sizes :: "RDMA_FUNCTION_CALL \<Rightarrow> (nat \<times> nat) option" where
  "cm_request_sizes req =
     (case req of
        CM_CREATE_EVENT_CHANNEL \<Rightarrow> Some (size_of CM_CREATE_EVENT_CHANNEL_RSP, 0)
      | CM_DESTROY_EVENT_CHANNEL \<Rightarrow> Some (size_of CM_DESTROY_EVENT_CHANNEL_RSP, size_of CM_DESTROY_EVENT_CHANNEL_REQ)
      | CM_CREATE_ID \<Rightarrow> Some (size_of CM_CREATE_ID_RSP, size_of CM_CREATE_ID_REQ)
      | CM_BIND_IP \<Rightarrow> Some (size_of CM_BIND_IP_RSP, size_of CM_BIND_IP_REQ)
      | CM_BIND \<Rightarrow> Some (size_of CM_BIND_RSP, size_of CM_BIND_REQ)
      | CM_GET_EVENT \<Rightarrow> Some (size_of CM_GET_EVENT_RSP, size_of CM_GET_EVENT_REQ)
      | CM_QUERY_ROUTE \<Rightarrow> Some (size_of CM_QUERY_ROUTE_RSP, size_of CM_QUERY_ROUTE_REQ)
      | CM_LISTEN \<Rightarrow> Some (size_of CM_LISTEN_RSP, size_of CM_LISTEN_REQ)
      | CM_RESOLVE_IP \<Rightarrow> Some (size_of CM_RESOLVE_IP_RSP, size_of CM_RESOLVE_IP_REQ)
      | CM_RESOLVE_ADDR \<Rightarrow> Some (size_of CM_RESOLVE_ADDR_RSP, size_of CM_RESOLVE_ADDR_REQ)
      | CM_UCMA_QUERY_ADDR \<Rightarrow> Some (size_of CM_UCMA_QUERY_ADDR_RSP, size_of CM_UCMA_QUERY_ADDR_REQ)
      | CM_UCMA_QUERY_GID \<Rightarrow> Some (size_of CM_UCMA_QUERY_GID_RSP, size_of CM_UCMA_QUERY_GID_REQ)
      | CM_DESTROY_ID \<Rightarrow> Some (size_of CM_DESTROY_ID_RSP, size_of CM_DESTROY_ID_REQ)
      | CM_RESOLVE_ROUTE \<Rightarrow> Some (size_of CM_RESOLVE_ROUTE_RSP, size_of CM_RESOLVE_ROUTE_REQ)
      | CM_UCMA_QUERY_PATH \<Rightarrow> Some (size_of CM_UCMA_QUERY_PATH_RSP, size_of CM_UCMA_QUERY_PATH_REQ)
      | CM_UCMA_PROCESS_CONN_RESP \<Rightarrow> Some (size_of CM_UCMA_PROCESS_CONN_RESP_RSP, size_of CM_UCMA_PROCESS_CONN_RESP_REQ)
      | CM_INIT_QP_ATTR \<Rightarrow> Some (size_of CM_INIT_QP_ATTR_RSP, size_of CM_INIT_QP_ATTR_REQ)
      | CM_CONNECT \<Rightarrow> Some (size_of CM_CONNECT_RSP, size_of CM_CONNECT_REQ)
      | CM_ACCEPT \<Rightarrow> Some (size_of CM_ACCEPT_RSP, size_of CM_ACCEPT_REQ)
      | CM_SET_OPTION \<Rightarrow> Some (size_of CM_SET_OPTION_RSP, size_of CM_SET_OPTION_REQ)
      | CM_MIGRATE_ID \<Rightarrow> Some (size_of CM_MIGRATE_ID_RSP, size_of CM_MIGRATE_ID_REQ)
      | CM_DISCONNECT \<Rightarrow> Some (size_of CM_DISCONNECT_RSP, size_of CM_DISCONNECT_REQ)
      | _ \<Rightarrow> None)"


section \<open>Global state\<close>

definition PARALLEL_SIZE :: nat where
  "PARALLEL_SIZE = 10"

text \<open>
  The sockets are kept as their descriptors; \<^verbatim>\<open>write_sock\<close>, \<^verbatim>\<open>read_sock\<close> and \<^verbatim>\<open>poll_sock\<close> are connected but
  never used. \<open>cl_chan_map\<close> is \<^verbatim>\<open>event_channel_map\<close>, from the descriptors of the container to those of the
  router.
\<close>

record 'w cmlib =
  cl_world :: 'w
  cl_initialized :: bool
  cl_control_sock :: "nat \<Rightarrow> int"
  cl_write_sock :: "nat \<Rightarrow> int"
  cl_read_sock :: "nat \<Rightarrow> int"
  cl_poll_sock :: "nat \<Rightarrow> int"
  cl_event_sock :: "nat \<Rightarrow> int"
  cl_chan_sock :: "nat \<Rightarrow> int"
  cl_chan_map :: "nat \<Rightarrow> int"

definition cm_connect ::
  "(nat \<Rightarrow> nat) \<Rightarrow> 'w os \<Rightarrow> (int \<Rightarrow> 'w cmlib \<Rightarrow> 'w cmlib) \<Rightarrow> 'w cmlib \<Rightarrow> 'w cmlib cres" where
  "cm_connect usable E store l =
     cthen (connect_router usable E (cl_world l)) (\<lambda>(s, w). Ret (store s (l\<lparr>cl_world := w\<rparr>)))"

definition connect_five :: "(nat \<Rightarrow> nat) \<Rightarrow> 'w os \<Rightarrow> nat \<Rightarrow> 'w cmlib \<Rightarrow> 'w cmlib cres" where
  "connect_five usable E i l =
     cthen (cm_connect usable E (\<lambda>s l. l\<lparr>cl_control_sock := (cl_control_sock l)(i := s)\<rparr>) l) (\<lambda>l.
     cthen (cm_connect usable E (\<lambda>s l. l\<lparr>cl_write_sock := (cl_write_sock l)(i := s)\<rparr>) l) (\<lambda>l.
     cthen (cm_connect usable E (\<lambda>s l. l\<lparr>cl_read_sock := (cl_read_sock l)(i := s)\<rparr>) l) (\<lambda>l.
     cthen (cm_connect usable E (\<lambda>s l. l\<lparr>cl_poll_sock := (cl_poll_sock l)(i := s)\<rparr>) l) (\<lambda>l.
     cm_connect usable E (\<lambda>s l. l\<lparr>cl_event_sock := (cl_event_sock l)(i := s)\<rparr>) l))))"

fun connect_all :: "(nat \<Rightarrow> nat) \<Rightarrow> 'w os \<Rightarrow> nat list \<Rightarrow> 'w cmlib \<Rightarrow> 'w cmlib cres" where
  "connect_all usable E [] l = Ret l"
| "connect_all usable E (i # is) l = cthen (connect_five usable E i l) (connect_all usable E is)"

definition cm_init_sock :: "(nat \<Rightarrow> nat) \<Rightarrow> 'w os \<Rightarrow> 'w cmlib \<Rightarrow> 'w cmlib cres" where
  "cm_init_sock usable E l =
     (if cl_initialized l then Ret l
      else cthen (connect_all usable E [0..<PARALLEL_SIZE] (l\<lparr>cl_initialized := True\<rparr>)) (\<lambda>l.
             Ret (l\<lparr>cl_chan_sock := (\<lambda>_. - 1), cl_chan_map := (\<lambda>_. - 1)\<rparr>)))"

section \<open>Choosing a socket\<close>

text \<open>
  Which entry of which table a call uses. \<open>pick\<close> is the result of \<^verbatim>\<open>rand()\<close>. \<open>None\<close> is the null pointer.
\<close>

datatype cm_slot = Control nat | Event nat | Channel nat

definition cm_sock :: "cm_slot \<Rightarrow> 'w cmlib \<Rightarrow> int" where
  "cm_sock s l = (case s of Control i \<Rightarrow> cl_control_sock l i | Event i \<Rightarrow> cl_event_sock l i | Channel i \<Rightarrow> cl_chan_sock l i)"

definition cm_set_sock :: "cm_slot \<Rightarrow> int \<Rightarrow> 'w cmlib \<Rightarrow> 'w cmlib" where
  "cm_set_sock s fd l =
     (case s of
        Control i \<Rightarrow> l\<lparr>cl_control_sock := (cl_control_sock l)(i := fd)\<rparr>
      | Event i \<Rightarrow> l\<lparr>cl_event_sock := (cl_event_sock l)(i := fd)\<rparr>
      | Channel i \<Rightarrow> l\<lparr>cl_chan_sock := (cl_chan_sock l)(i := fd)\<rparr>)"

definition cm_reconnect :: "(nat \<Rightarrow> nat) \<Rightarrow> 'w os \<Rightarrow> cm_slot \<Rightarrow> 'w cmlib \<Rightarrow> (cm_slot option \<times> 'w cmlib) cres" where
  "cm_reconnect usable E s l =
     (if cm_sock s l < 0 then cthen (cm_connect usable E (cm_set_sock s) l) (\<lambda>l. Ret (Some s, l)) else Ret (Some s, l))"

definition cm_get_unix_sock ::
  "(nat \<Rightarrow> nat) \<Rightarrow> 'w os \<Rightarrow> nat \<Rightarrow> RDMA_FUNCTION_CALL \<Rightarrow> 'w cmlib \<Rightarrow> (cm_slot option \<times> 'w cmlib) cres" where
  "cm_get_unix_sock usable E pick req l =
     (let i = pick mod PARALLEL_SIZE
      in if req = CM_GET_EVENT then cm_reconnect usable E (Event i) l
         else if req \<in> {CM_CREATE_EVENT_CHANNEL, CM_DESTROY_EVENT_CHANNEL, CM_CREATE_ID, CM_BIND_IP, CM_BIND,
                        CM_QUERY_ROUTE, CM_LISTEN, CM_RESOLVE_IP, CM_RESOLVE_ADDR, CM_UCMA_QUERY_ADDR,
                        CM_UCMA_QUERY_GID, CM_DESTROY_ID, CM_RESOLVE_ROUTE, CM_UCMA_QUERY_PATH,
                        CM_UCMA_PROCESS_CONN_RESP, CM_INIT_QP_ATTR, CM_CONNECT, CM_ACCEPT, CM_SET_OPTION,
                        CM_MIGRATE_ID, CM_DISCONNECT}
         then cm_reconnect usable E (Control i) l
         else Ret (None, l))"

definition get_unix_sock_event_channel ::
  "(nat \<Rightarrow> nat) \<Rightarrow> 'w os \<Rightarrow> int \<Rightarrow> 'w cmlib \<Rightarrow> (cm_slot option \<times> 'w cmlib) cres" where
  "get_unix_sock_event_channel usable E fd l =
     (if int MAP_SIZE \<le> fd then Ret (None, l)
      else if fd < 0 then Ub OobIndex
      else cm_reconnect usable E (Channel (nat fd)) l)"

section \<open>A request\<close>

text \<open>
  The exchange on the socket \<open>s\<close>. As in the verbs library a failed write goes unnoticed; a failed read
  marks the socket as closed, without closing it. The event channel that comes back is entered into the
  table and replaced by the descriptor that was passed along.
\<close>

definition cm_exchange ::
  "nat \<Rightarrow> 'w os \<Rightarrow> cm_slot \<Rightarrow> int \<Rightarrow> RDMA_FUNCTION_CALL \<Rightarrow> nat \<Rightarrow> nat \<Rightarrow> mem \<Rightarrow> mem \<Rightarrow> 'w cmlib \<Rightarrow> (mem \<times> 'w cmlib) cres" where
  "cm_exchange fuel E s cid req rsize bsize body m l =
     (let sock = cm_sock s l;
          (_, w) = os_write E sock (header_bytes cid (word_of_nat (the (call_code client_calls req))) (word_of_nat bsize)) (cl_world l);
          w = (if 0 < bsize then snd (os_write E sock (get_bytes body 0 bsize) w) else w)
      in cthen (if req = CM_CREATE_EVENT_CHANNEL then client_recv_fd E sock w else Ret (- 1, w)) (\<lambda>(mapped_fd, w).
         cthen (read_loop fuel E sock (int rsize) 0 m w) (\<lambda>(ok, m, w).
           let l = l\<lparr>cl_world := w\<rparr>
           in if \<not> ok then Ret (m, cm_set_sock s (- 1) l)
              else if req = CM_CREATE_EVENT_CHANNEL
              then if mapped_fd < 0 \<or> int MAP_SIZE \<le> mapped_fd then Ub OobIndex
                   else Ret (put_int m (off CM_CREATE_EVENT_CHANNEL_RSP [''ec'', ''fd'']) mapped_fd,
                     l\<lparr>cl_chan_map := (cl_chan_map l)
                        (nat mapped_fd := get_int m (off CM_CREATE_EVENT_CHANNEL_RSP [''ec'', ''fd'']))\<rparr>)
              else Ret (m, l))))"

text \<open>
  Without a usable socket the call returns and the caller finds in the answer what was there before. The
  variable \<^verbatim>\<open>FFR_ID\<close> is not tested here.
\<close>

definition cm_request_router ::
  "nat \<Rightarrow> (nat \<Rightarrow> nat) \<Rightarrow> 'w os \<Rightarrow> nat \<Rightarrow> RDMA_FUNCTION_CALL \<Rightarrow> mem \<Rightarrow> mem \<Rightarrow> 'w cmlib \<Rightarrow> (mem \<times> 'w cmlib) cres" where
  "cm_request_router fuel usable E pick req body m l =
     cthen (if req = CM_GET_EVENT
            then get_unix_sock_event_channel usable E (get_int body (off CM_GET_EVENT_REQ [''ec'', ''fd''])) l
            else cm_get_unix_sock usable E pick req l) (\<lambda>(s, l).
       case s of
         None \<Rightarrow> Ret (m, l)
       | Some s \<Rightarrow>
           if cm_sock s l < 0 then Ret (m, l)
           else case os_getenv E ''FFR_ID'' of
                  None \<Rightarrow> Ub NullDeref
                | Some cid \<Rightarrow>
                    case cm_request_sizes req of
                      None \<Rightarrow> Ret (m, l)
                    | Some (rsize, bsize) \<Rightarrow> cm_exchange fuel E s (atoi cid) req rsize bsize body m l)"

end
