(* ===== verification/FF_Framing.thy ===== *)
theory FF_Framing
  imports FF_ClientCM
begin

text \<open>
  Framing: what the client libraries send and wait for against what the router reads and writes, for
  every call. A call whose sizes disagree leaves one side waiting for bytes that never come, or the
  rest of a message in the stream for the next call.
\<close>

named_theorems replies_rules

definition replies :: "nat \<Rightarrow> 'w hres run \<Rightarrow> bool" where
  "replies n r = (\<forall>t sz. r = Ok (Break t sz) \<longrightarrow> sz = int n)"

lemma repliesD: "replies n r \<Longrightarrow> r = Ok (Break t sz) \<Longrightarrow> sz = int n"
  by (simp add: replies_def)

lemma replies_reply [replies_rules]: "replies n (reply t n)"
  by (simp add: replies_def reply_def)

lemma replies_none [replies_rules]:
  "replies n (Ok (GotoEnd t))" "replies n (Ok (GotoKill t))" "replies n (Ok (Return t))"
  "replies n (Undefined u)" "replies n Diverges"
  by (simp_all add: replies_def)

lemma replies_recv_body [replies_rules]: "(\<And>t. replies n (k t)) \<Longrightarrow> replies n (recv_body E b t k)"
  by (auto simp: replies_def recv_body_def Let_def split: prod.splits)

lemma replies_recv_posted [replies_rules]: "(\<And>t. replies n (k t)) \<Longrightarrow> replies n (recv_posted E b t k)"
  by (auto simp: replies_def recv_posted_def Let_def split: prod.splits)

lemma replies_slot [replies_rules]: "(\<And>x. replies n (k x)) \<Longrightarrow> replies n (slot m i k)"
  by (simp add: replies_def slot_def)

lemma replies_islot [replies_rules]: "(\<And>x. replies n (k x)) \<Longrightarrow> replies n (islot m j k)"
  by (simp add: replies_def islot_def)

lemma replies_deref [replies_rules]: "replies n k \<Longrightarrow> replies n (deref p k)"
  by (simp add: replies_def deref_def)

lemma replies_andThen [replies_rules]: "(\<And>a. replies n (k a)) \<Longrightarrow> replies n (andThen x k)"
  by (cases x) (auto simp: replies_def)

lemma replies_if [replies_rules]: "replies n x \<Longrightarrow> replies n y \<Longrightarrow> replies n (if b then x else y)"
  by simp

lemma replies_let [replies_rules]: "(\<And>x. replies n (f x)) \<Longrightarrow> replies n (Let v f)"
  by simp

lemma replies_prod [replies_rules]: "(\<And>a b. replies n (f a b)) \<Longrightarrow> replies n (case p of (a, b) \<Rightarrow> f a b)"
  by (cases p) simp

lemma replies_option [replies_rules]:
  "replies n x \<Longrightarrow> (\<And>a. replies n (f a)) \<Longrightarrow> replies n (case z of None \<Rightarrow> x | Some a \<Rightarrow> f a)"
  by (cases z) simp_all

lemma replies_sum [replies_rules]:
  "(\<And>a. replies n (f a)) \<Longrightarrow> (\<And>a. replies n (g a)) \<Longrightarrow> replies n (case z of Inl a \<Rightarrow> f a | Inr a \<Rightarrow> g a)"
  by (cases z) simp_all

lemma replies_cmd_rsp [replies_rules]: "replies (size_of R) (cmd_rsp R t res)"
  unfolding cmd_rsp_def by (intro replies_rules)

lemma replies_cm_replay [replies_rules]: "replies (size_of R) (cm_replay E Q R prep f h t)"
  unfolding cm_replay_def by (intro replies_rules)

lemma replies_post_recv_rsp [replies_rules]: "replies (size_of R) (post_recv_rsp R wr t res)"
  unfolding post_recv_rsp_def by (intro replies_rules)

lemma replies_cq_event_rsp [replies_rules]: "replies (size_of IBV_GET_CQ_EVENT_RSP) (cq_event_rsp V cq t)"
  unfolding cq_event_rsp_def by (intro replies_rules)

section \<open>Verbs calls\<close>

lemmas verbs_handlers = on_GET_CONTEXT_def on_QUERY_DEV_def on_ALLOC_PD_def on_CREATE_COMP_CHANNEL_def on_EXP_QUERY_DEV_def
  on_QUERY_PORT_def on_DEALLOC_PD_def on_CREATE_CQ_def on_DESTROY_CQ_def on_REQ_NOTIFY_CQ_def on_CREATE_QP_def
  on_DESTROY_QP_def on_REG_MR_def on_REG_MR_MAPPING_def on_DEREG_MR_def on_MODIFY_QP_def on_QUERY_QP_def
  on_DESTROY_COMP_CHANNEL_def on_GET_CQ_EVENT_def on_CREATE_AH_def on_DESTROY_AH_def on_CREATE_FLOW_def
  on_DESTROY_FLOW_def on_CREATE_SRQ_def on_MODIFY_SRQ_def on_DESTROY_SRQ_def on_ACK_CQ_EVENT_def
  on_POLL_CQ_def on_POST_SEND_def on_POST_RECV_def on_POST_SRQ_RECV_def

lemma replies_verbs [replies_rules]:
  "replies (size_of IBV_GET_CONTEXT_RSP) (on_GET_CONTEXT V h t)"
  "replies (size_of IBV_QUERY_DEV_RSP) (on_QUERY_DEV V h t)"
  "replies (size_of IBV_ALLOC_PD_RSP) (on_ALLOC_PD V h t)"
  "replies (size_of IBV_CREATE_COMP_CHANNEL_RSP) (on_CREATE_COMP_CHANNEL E V h t)"
  "replies (size_of IBV_EXP_QUERY_DEV_RSP) (on_EXP_QUERY_DEV E V h t)"
  "replies (size_of IBV_QUERY_PORT_RSP) (on_QUERY_PORT E V h t)"
  "replies (size_of IBV_DEALLOC_PD_RSP) (on_DEALLOC_PD E V h t)"
  "replies (size_of IBV_CREATE_CQ_RSP) (on_CREATE_CQ E V h t)"
  "replies (size_of IBV_DESTROY_CQ_RSP) (on_DESTROY_CQ E V h t)"
  "replies (size_of IBV_REQ_NOTIFY_CQ_RSP) (on_REQ_NOTIFY_CQ E V h t)"
  "replies (size_of IBV_CREATE_QP_RSP) (on_CREATE_QP E V h t)"
  "replies (size_of IBV_DESTROY_QP_RSP) (on_DESTROY_QP E V h t)"
  "replies (size_of IBV_REG_MR_RSP) (on_REG_MR E V h t)"
  "replies (size_of IBV_REG_MR_MAPPING_RSP) (on_REG_MR_MAPPING E h t)"
  "replies (size_of IBV_DEREG_MR_RSP) (on_DEREG_MR E V h t)"
  "replies (size_of IBV_MODIFY_QP_RSP) (on_MODIFY_QP E V h t)"
  "replies (size_of IBV_QUERY_QP_RSP) (on_QUERY_QP E V h t)"
  "replies (size_of IBV_DESTROY_COMP_CHANNEL_RSP) (on_DESTROY_COMP_CHANNEL E V h t)"
  "replies (size_of IBV_GET_CQ_EVENT_RSP) (on_GET_CQ_EVENT E V h t)"
  "replies (size_of IBV_CREATE_AH_RSP) (on_CREATE_AH E V h t)"
  "replies (size_of IBV_DESTROY_AH_RSP) (on_DESTROY_AH E V h t)"
  "replies (size_of IBV_CREATE_FLOW_RSP) (on_CREATE_FLOW E V h t)"
  "replies (size_of IBV_DESTROY_FLOW_RSP) (on_DESTROY_FLOW E V h t)"
  "replies (size_of IBV_CREATE_SRQ_RSP) (on_CREATE_SRQ E V h t)"
  "replies (size_of IBV_MODIFY_SRQ_RSP) (on_MODIFY_SRQ E V h t)"
  "replies (size_of IBV_DESTROY_SRQ_RSP) (on_DESTROY_SRQ E V h t)"
  "replies (size_of IBV_POST_SEND_RSP) (on_POST_SEND fuel E V h t)"
  "replies (size_of IBV_POST_RECV_RSP) (on_POST_RECV E V h t)"
  "replies (size_of IBV_POST_SRQ_RECV_RSP) (on_POST_SRQ_RECV E V h t)"
  apply (unfold verbs_handlers)
  apply (((intro replies_rules; fail) | (unfold Let_def, intro replies_rules; fail))+)
  done

lemma replies_ACK_CQ_EVENT [replies_rules]: "replies (size_of IBV_ACK_CQ_EVENT_RSP) (on_ACK_CQ_EVENT E V h t)"
proof -
  have "replies (size_of IBV_GET_CQ_EVENT_RSP) (on_ACK_CQ_EVENT E V h t)"
    unfolding on_ACK_CQ_EVENT_def by (intro replies_rules)
  then show ?thesis by (simp add: layout)
qed

lemma reads_verbs:
  "\<exists>k. on_EXP_QUERY_DEV E V h t = recv_body E (size_of IBV_EXP_QUERY_DEV_REQ) t k"
  "\<exists>k. on_QUERY_PORT E V h t = recv_body E (size_of IBV_QUERY_PORT_REQ) t k"
  "\<exists>k. on_DEALLOC_PD E V h t = recv_body E (size_of IBV_DEALLOC_PD_REQ) t k"
  "\<exists>k. on_CREATE_CQ E V h t = recv_body E (size_of IBV_CREATE_CQ_REQ) t k"
  "\<exists>k. on_DESTROY_CQ E V h t = recv_body E (size_of IBV_DESTROY_CQ_REQ) t k"
  "\<exists>k. on_REQ_NOTIFY_CQ E V h t = recv_body E (size_of IBV_REQ_NOTIFY_CQ_REQ) t k"
  "\<exists>k. on_CREATE_QP E V h t = recv_body E (size_of IBV_CREATE_QP_REQ) t k"
  "\<exists>k. on_DESTROY_QP E V h t = recv_body E (size_of IBV_DESTROY_QP_REQ) t k"
  "\<exists>k. on_REG_MR E V h t = recv_body E (size_of IBV_REG_MR_REQ) t k"
  "\<exists>k. on_REG_MR_MAPPING E h t = recv_body E (size_of IBV_REG_MR_MAPPING_REQ) t k"
  "\<exists>k. on_DEREG_MR E V h t = recv_body E (size_of IBV_DEREG_MR_REQ) t k"
  "\<exists>k. on_MODIFY_QP E V h t = recv_body E (size_of IBV_MODIFY_QP_REQ) t k"
  "\<exists>k. on_QUERY_QP E V h t = recv_body E (size_of IBV_QUERY_QP_REQ) t k"
  "\<exists>k. on_DESTROY_COMP_CHANNEL E V h t = recv_body E (size_of IBV_DESTROY_COMP_CHANNEL_REQ) t k"
  "\<exists>k. on_GET_CQ_EVENT E V h t = recv_body E (size_of IBV_GET_CQ_EVENT_REQ) t k"
  "\<exists>k. on_CREATE_AH E V h t = recv_body E (size_of IBV_CREATE_AH_REQ) t k"
  "\<exists>k. on_DESTROY_AH E V h t = recv_body E (size_of IBV_DESTROY_AH_REQ) t k"
  "\<exists>k. on_CREATE_FLOW E V h t = recv_body E (size_of IBV_CREATE_FLOW_REQ) t k"
  "\<exists>k. on_DESTROY_FLOW E V h t = recv_body E (size_of IBV_DESTROY_FLOW_REQ) t k"
  "\<exists>k. on_CREATE_SRQ E V h t = recv_body E (size_of IBV_CREATE_SRQ_REQ) t k"
  "\<exists>k. on_MODIFY_SRQ E V h t = recv_body E (size_of IBV_MODIFY_SRQ_REQ) t k"
  "\<exists>k. on_DESTROY_SRQ E V h t = recv_body E (size_of IBV_DESTROY_SRQ_REQ) t k"
  "\<exists>k. on_ACK_CQ_EVENT E V h t = recv_body E (size_of IBV_ACK_CQ_EVENT_REQ) t k"
  "\<exists>k. on_POLL_CQ E V h t = recv_body E (size_of IBV_POLL_CQ_REQ) t k"
  "\<exists>k. on_POST_SEND fuel E V h t = recv_posted E (body_size h) t k"
  "\<exists>k. on_POST_RECV E V h t = recv_posted E (body_size h) t k"
  "\<exists>k. on_POST_SRQ_RECV E V h t = recv_posted E (body_size h) t k"
  by (unfold verbs_handlers, (rule exI, rule refl)+)

lemmas verbs_switch = request_sizes_def HandleRequest_switch_def RDMA_FUNCTION_CALL.case
  option.inject prod.inject option.distinct False_implies_equals simp_thms less_irrefl

lemma verbs_replies:
  assumes "request_sizes c = Some (Some n, b)"
  shows "replies n (HandleRequest_switch fuel E V c h t)"
  using assms
  apply (cases c)
  apply (simp_all only: verbs_switch)
  apply (elim conjE, hypsubst, rule replies_verbs replies_ACK_CQ_EVENT)+
  done

lemma verbs_reads:
  assumes "request_sizes c = Some (r, Some n)" "0 < n"
  shows "\<exists>k. HandleRequest_switch fuel E V c h t = recv_body E n t k"
  using assms
  apply (cases c)
  apply (simp_all only: verbs_switch)
  apply (elim conjE, hypsubst, (rule reads_verbs | simp))+
  done

lemma verbs_reads_posted:
  assumes "request_sizes c = Some (r, None)"
  shows "\<exists>k. HandleRequest_switch fuel E V c h t = recv_posted E (body_size h) t k"
  using assms
  apply (cases c)
  apply (simp_all only: verbs_switch)
  apply (rule reads_verbs)+
  done

section \<open>Connection-manager calls\<close>

lemmas cm_handlers = on_CM_CREATE_EVENT_CHANNEL_def on_CM_DESTROY_EVENT_CHANNEL_def on_CM_BIND_IP_def on_CM_RESOLVE_ADDR_def
  on_CM_CREATE_ID_def on_CM_BIND_def on_CM_GET_EVENT_def on_CM_QUERY_ROUTE_def on_CM_LISTEN_def
  on_CM_RESOLVE_IP_def on_CM_UCMA_QUERY_ADDR_def on_CM_UCMA_QUERY_GID_def on_CM_DESTROY_ID_def
  on_CM_RESOLVE_ROUTE_def on_CM_UCMA_QUERY_PATH_def on_CM_UCMA_PROCESS_CONN_RESP_def on_CM_INIT_QP_ATTR_def
  on_CM_CONNECT_def on_CM_ACCEPT_def on_CM_SET_OPTION_def on_CM_MIGRATE_ID_def on_CM_DISCONNECT_def
  cm_replay_def

lemma replies_cm:
  "replies (size_of CM_CREATE_EVENT_CHANNEL_RSP) (on_CM_CREATE_EVENT_CHANNEL E V h t)"
  "replies (size_of CM_DESTROY_EVENT_CHANNEL_RSP) (on_CM_DESTROY_EVENT_CHANNEL E V h t)"
  "replies (size_of CM_CREATE_ID_RSP) (on_CM_CREATE_ID E h t)"
  "replies (size_of CM_BIND_RSP) (on_CM_BIND E h t)"
  "replies (size_of CM_GET_EVENT_RSP) (on_CM_GET_EVENT E h t)"
  "replies (size_of CM_QUERY_ROUTE_RSP) (on_CM_QUERY_ROUTE E h t)"
  "replies (size_of CM_LISTEN_RSP) (on_CM_LISTEN E h t)"
  "replies (size_of CM_RESOLVE_IP_RSP) (on_CM_RESOLVE_IP E h t)"
  "replies (size_of CM_UCMA_QUERY_ADDR_RSP) (on_CM_UCMA_QUERY_ADDR E h t)"
  "replies (size_of CM_UCMA_QUERY_GID_RSP) (on_CM_UCMA_QUERY_GID E h t)"
  "replies (size_of CM_DESTROY_ID_RSP) (on_CM_DESTROY_ID E h t)"
  "replies (size_of CM_RESOLVE_ROUTE_RSP) (on_CM_RESOLVE_ROUTE E h t)"
  "replies (size_of CM_UCMA_QUERY_PATH_RSP) (on_CM_UCMA_QUERY_PATH E h t)"
  "replies (size_of CM_UCMA_PROCESS_CONN_RESP_RSP) (on_CM_UCMA_PROCESS_CONN_RESP E h t)"
  "replies (size_of CM_INIT_QP_ATTR_RSP) (on_CM_INIT_QP_ATTR E h t)"
  "replies (size_of CM_CONNECT_RSP) (on_CM_CONNECT E h t)"
  "replies (size_of CM_ACCEPT_RSP) (on_CM_ACCEPT E h t)"
  "replies (size_of CM_SET_OPTION_RSP) (on_CM_SET_OPTION E h t)"
  "replies (size_of CM_MIGRATE_ID_RSP) (on_CM_MIGRATE_ID E h t)"
  "replies (size_of CM_DISCONNECT_RSP) (on_CM_DISCONNECT E h t)"
  by (unfold cm_handlers, (intro replies_rules; fail)+)

lemma replies_CM_RESOLVE_ADDR: "replies (size_of CM_RESOLVE_ADDR_RSP) (on_CM_RESOLVE_ADDR E h t)"
proof -
  have "replies (size_of CM_RESOLVE_IP_RSP) (on_CM_RESOLVE_ADDR E h t)"
    unfolding cm_handlers by (intro replies_rules)
  then show ?thesis by (simp add: layout)
qed

lemma replies_CM_BIND_IP: "replies 0 (on_CM_BIND_IP E h t)"
  unfolding cm_handlers by (intro replies_rules)

lemma reads_cm:
  "\<exists>k. on_CM_DESTROY_EVENT_CHANNEL E V h t = recv_body E (size_of CM_DESTROY_EVENT_CHANNEL_REQ) t k"
  "\<exists>k. on_CM_BIND_IP E h t = recv_body E (size_of CM_BIND_IP_REQ) t k"
  "\<exists>k. on_CM_RESOLVE_ADDR E h t = recv_body E (size_of CM_RESOLVE_ADDR_REQ) t k"
  "\<exists>k. on_CM_CREATE_ID E h t = recv_body E (size_of CM_CREATE_ID_REQ) t k"
  "\<exists>k. on_CM_BIND E h t = recv_body E (size_of CM_BIND_REQ) t k"
  "\<exists>k. on_CM_GET_EVENT E h t = recv_body E (size_of CM_GET_EVENT_REQ) t k"
  "\<exists>k. on_CM_QUERY_ROUTE E h t = recv_body E (size_of CM_QUERY_ROUTE_REQ) t k"
  "\<exists>k. on_CM_LISTEN E h t = recv_body E (size_of CM_LISTEN_REQ) t k"
  "\<exists>k. on_CM_RESOLVE_IP E h t = recv_body E (size_of CM_RESOLVE_IP_REQ) t k"
  "\<exists>k. on_CM_UCMA_QUERY_ADDR E h t = recv_body E (size_of CM_UCMA_QUERY_ADDR_REQ) t k"
  "\<exists>k. on_CM_UCMA_QUERY_GID E h t = recv_body E (size_of CM_UCMA_QUERY_GID_REQ) t k"
  "\<exists>k. on_CM_DESTROY_ID E h t = recv_body E (size_of CM_DESTROY_ID_REQ) t k"
  "\<exists>k. on_CM_RESOLVE_ROUTE E h t = recv_body E (size_of CM_RESOLVE_ROUTE_REQ) t k"
  "\<exists>k. on_CM_UCMA_QUERY_PATH E h t = recv_body E (size_of CM_UCMA_QUERY_PATH_REQ) t k"
  "\<exists>k. on_CM_UCMA_PROCESS_CONN_RESP E h t = recv_body E (size_of CM_UCMA_PROCESS_CONN_RESP_REQ) t k"
  "\<exists>k. on_CM_INIT_QP_ATTR E h t = recv_body E (size_of CM_INIT_QP_ATTR_REQ) t k"
  "\<exists>k. on_CM_CONNECT E h t = recv_body E (size_of CM_CONNECT_REQ) t k"
  "\<exists>k. on_CM_ACCEPT E h t = recv_body E (size_of CM_ACCEPT_REQ) t k"
  "\<exists>k. on_CM_SET_OPTION E h t = recv_body E (size_of CM_SET_OPTION_REQ) t k"
  "\<exists>k. on_CM_MIGRATE_ID E h t = recv_body E (size_of CM_MIGRATE_ID_REQ) t k"
  "\<exists>k. on_CM_DISCONNECT E h t = recv_body E (size_of CM_DISCONNECT_REQ) t k"
  by (unfold cm_handlers, (rule exI, rule refl)+)

lemmas cm_switch = cm_request_sizes_def HandleRequest_switch_def RDMA_FUNCTION_CALL.case
  option.inject prod.inject option.distinct False_implies_equals simp_thms less_irrefl

lemma cm_replies:
  assumes "cm_request_sizes c = Some (n, b)" "c \<noteq> CM_BIND_IP"
  shows "replies n (HandleRequest_switch fuel E V c h t)"
  using assms
  apply (cases c)
  apply (simp_all only: cm_switch)
  apply (elim conjE, hypsubst, rule replies_cm replies_CM_RESOLVE_ADDR)+
  done

lemma cm_reads:
  assumes "cm_request_sizes c = Some (r, n)" "0 < n"
  shows "\<exists>k. HandleRequest_switch fuel E V c h t = recv_body E n t k"
  using assms
  apply (cases c)
  apply (simp_all only: cm_switch)
  apply (elim conjE, hypsubst, (rule reads_cm | simp))+
  done

section \<open>What the properties state\<close>

text \<open>
  \<open>consumes E b h t f\<close>: the handler \<open>f\<close> reads exactly the body the client sends, of the fixed size
  \<open>b\<close> or of the size in the header, before it does anything else; for an empty body it reads nothing, so
  that its result does not depend on what \<^verbatim>\<open>read\<close> would return.
\<close>

definition consumes :: "'w os \<Rightarrow> nat option \<Rightarrow> header \<Rightarrow> 'w thr \<Rightarrow> ('w os \<Rightarrow> 'w hres run) \<Rightarrow> bool" where
  "consumes E b h t f =
     (case b of
        None \<Rightarrow> \<exists>k. f E = recv_posted E (body_size h) t k
      | Some 0 \<Rightarrow> \<forall>rd. f (E\<lparr>os_read := rd\<rparr>) = f E
      | Some n \<Rightarrow> \<exists>k. f E = recv_body E n t k)"

lemma send_fd_reads [simp]: "send_fd (E\<lparr>os_read := rd\<rparr>) = send_fd E"
  by (simp add: send_fd_def fun_eq_iff)

lemma create_channel_reads [simp]:
  "on_CREATE_COMP_CHANNEL (E\<lparr>os_read := rd\<rparr>) V h t = on_CREATE_COMP_CHANNEL E V h t"
  "on_CM_CREATE_EVENT_CHANNEL (E\<lparr>os_read := rd\<rparr>) V h t = on_CM_CREATE_EVENT_CHANNEL E V h t"
  by (unfold on_CREATE_COMP_CHANNEL_def on_CM_CREATE_EVENT_CHANNEL_def send_fd_reads) (rule refl)+

lemma verbs_no_body:
  assumes "request_sizes c = Some (r, Some 0)"
  shows "HandleRequest_switch fuel (E\<lparr>os_read := rd\<rparr>) V c h t = HandleRequest_switch fuel E V c h t"
  using assms
  by (cases c) (simp_all add: verbs_switch layout)

lemma cm_no_body:
  assumes "cm_request_sizes c = Some (r, 0)"
  shows "HandleRequest_switch fuel (E\<lparr>os_read := rd\<rparr>) V c h t = HandleRequest_switch fuel E V c h t"
  using assms
  by (cases c) (simp_all add: cm_switch layout)

text \<open>
  C13: for every call of the verbs library, the router reads a body of exactly the size the client
  writes, and an answer of the router has exactly the size the client waits for, if that is fixed.
\<close>

theorem verbs_framing_agrees:
  assumes "request_sizes c = Some (r, b)"
  shows "consumes E b h t (\<lambda>E. HandleRequest_switch fuel E V c h t) \<and>
    (\<forall>n t' sz. r = Some n \<longrightarrow> HandleRequest_switch fuel E V c h t = Ok (Break t' sz) \<longrightarrow> sz = int n)"
proof (intro conjI allI impI)
  show "consumes E b h t (\<lambda>E. HandleRequest_switch fuel E V c h t)"
    using assms verbs_no_body verbs_reads verbs_reads_posted
    by (fastforce simp: consumes_def split: option.splits nat.splits)
next
  fix n t' sz
  assume "r = Some n" "HandleRequest_switch fuel E V c h t = Ok (Break t' sz)"
  then show "sz = int n" using assms verbs_replies repliesD by blast
qed

theorem verbs_framing_agrees_witness:
  "consumes demo_os (Some 4) \<lparr>client_id = 1, func = 6, body_size = 4\<rparr> (demo_thr demo_router [0, 0, 0, 0])
     (\<lambda>E. HandleRequest_switch 1 E demo_verbs IBV_DEALLOC_PD \<lparr>client_id = 1, func = 6, body_size = 4\<rparr>
        (demo_thr demo_router [0, 0, 0, 0]))"
  using verbs_framing_agrees[of IBV_DEALLOC_PD "Some 4" "Some 4" demo_os
      "\<lparr>client_id = 1, func = 6, body_size = 4\<rparr>" "demo_thr demo_router [0, 0, 0, 0]" 1 demo_verbs]
  by (simp add: request_sizes_def layout)

text \<open>
  C14: the same for the calls of the connection-manager library, except that the answer to
  \<^verbatim>\<open>CM_BIND_IP\<close> is always empty, while the client waits for the four bytes of its answer.
\<close>

theorem cm_framing_agrees:
  assumes "cm_request_sizes c = Some (n, b)"
  shows "consumes E (Some b) h t (\<lambda>E. HandleRequest_switch fuel E V c h t) \<and>
    (\<forall>t' sz. HandleRequest_switch fuel E V c h t = Ok (Break t' sz) \<longrightarrow> sz = (if c = CM_BIND_IP then 0 else int n)) \<and>
    (c = CM_BIND_IP \<longrightarrow> n = 4)"
proof (intro conjI allI impI)
  show "consumes E (Some b) h t (\<lambda>E. HandleRequest_switch fuel E V c h t)"
    using assms cm_no_body cm_reads by (fastforce simp: consumes_def split: nat.splits)
next
  fix t' sz
  assume "HandleRequest_switch fuel E V c h t = Ok (Break t' sz)"
  then show "sz = (if c = CM_BIND_IP then 0 else int n)"
    using assms cm_replies[OF assms] replies_CM_BIND_IP[THEN repliesD] repliesD
    by (cases "c = CM_BIND_IP") (fastforce simp: HandleRequest_switch_def)+
next
  assume "c = CM_BIND_IP"
  then show "n = 4" using assms by (simp add: cm_request_sizes_def layout)
qed

theorem cm_framing_agrees_witness:
  "\<not> (\<exists>t'. HandleRequest_switch 1 demo_os demo_verbs CM_BIND_IP \<lparr>client_id = 1, func = 39, body_size = 56\<rparr>
       (demo_thr demo_router (replicate 56 0)) = Ok (Break t' 4))"
  using cm_framing_agrees[of CM_BIND_IP 4 "size_of CM_BIND_IP_REQ" demo_os
      "\<lparr>client_id = 1, func = 39, body_size = 56\<rparr>" "demo_thr demo_router (replicate 56 0)" 1 demo_verbs]
  by (simp add: cm_request_sizes_def layout) force

section \<open>The request header\<close>

lemma length_header_bytes [simp]: "length (header_bytes cid code n) = 12"
  by (simp add: header_bytes_def layout)

lemma parse_header_bytes:
  assumes "- (2 ^ 31) \<le> cid" and "cid < 2 ^ 31"
  shows "parse_header (header_bytes cid code n) = \<lparr>client_id = cid, func = code, body_size = n\<rparr>"
  using assms
  by (simp add: parse_header_def header_bytes_def layout Let_def get_u32_copy get_int_copy get_put_int)

lemma code_fits:
  assumes "call_code client_calls c = Some n"
  shows "unat (word_of_nat n :: u32) = n"
proof -
  have "n < 58" using index_from_nth[of 0 client_calls c n] assms
    by (simp add: call_code_def client_calls_def)
  then show ?thesis by (simp add: unsigned_of_nat take_bit_nat_eq_self)
qed

lemma router_reads_code:
  "call_code client_calls c = Some n \<Longrightarrow> call_of_code router_calls n = Some c"
  using call_of_code_prefix by (simp add: client_calls_prefix)

lemma turn_dispatches:
  assumes "call_code client_calls c = Some n"
    and "- (2 ^ 31) \<le> cid" and "cid < 2 ^ 31"
    and "os_read E (client_sock t) 12 (world t) = (12, header_bytes cid (word_of_nat n) b, w)"
    and "length junk = 12"
  shows "HandleRequest_turn fuel E V junk t =
    andThen (HandleRequest_switch fuel E V c \<lparr>client_id = cid, func = word_of_nat n, body_size = b\<rparr>
        (t\<lparr>host_fd := - 1, world := w\<rparr>))
      (\<lambda>r. Ok (case r of Break t sz \<Rightarrow> after_break E (Some c) sz t | GotoEnd t \<Rightarrow> at_end E (Some c) t
                | GotoKill t \<Rightarrow> at_kill E t | Return t \<Rightarrow> Stop t))"
  using assms parse_header_bytes[of cid "word_of_nat n" b] code_fits[of c n] router_reads_code[of c n]
  by (simp add: HandleRequest_turn_def Let_def layout ssize_lt_nonneg cong: hres.case_cong)

text \<open>
  C15: a header written by a client library, read whole by the router, takes the connection thread to
  the handler of the same call with the same client number and body size; the bytes that the header
  struct held before play no part.
\<close>

theorem request_reaches_handler:
  assumes "call_code client_calls c = Some n"
    and "- (2 ^ 31) \<le> cid" and "cid < 2 ^ 31"
    and "os_read E (client_sock t) 12 (world t) = (12, header_bytes cid (word_of_nat n) b, w)"
    and "length junk = 12"
  shows "HandleRequest_turn fuel E V junk t =
    andThen (HandleRequest_switch fuel E V c \<lparr>client_id = cid, func = word_of_nat n, body_size = b\<rparr>
        (t\<lparr>host_fd := - 1, world := w\<rparr>))
      (\<lambda>r. Ok (case r of Break t sz \<Rightarrow> after_break E (Some c) sz t | GotoEnd t \<Rightarrow> at_end E (Some c) t
                | GotoKill t \<Rightarrow> at_kill E t | Return t \<Rightarrow> Stop t))"
  using assms by (rule turn_dispatches)

theorem request_reaches_handler_witness:
  "HandleRequest_turn 1 demo_os demo_verbs (replicate 12 0) (demo_thr demo_router (header_bytes 3 1 0)) =
    andThen (HandleRequest_switch 1 demo_os demo_verbs IBV_GET_CONTEXT \<lparr>client_id = 3, func = 1, body_size = 0\<rparr>
        ((demo_thr demo_router (header_bytes 3 1 0))\<lparr>host_fd := - 1, world := []\<rparr>))
      (\<lambda>r. Ok (case r of Break t sz \<Rightarrow> after_break demo_os (Some IBV_GET_CONTEXT) sz t
                | GotoEnd t \<Rightarrow> at_end demo_os (Some IBV_GET_CONTEXT) t
                | GotoKill t \<Rightarrow> at_kill demo_os t | Return t \<Rightarrow> Stop t))"
  using request_reaches_handler[of IBV_GET_CONTEXT 1 3 demo_os "demo_thr demo_router (header_bytes 3 1 0)" 0 "[]"
      "replicate 12 0" 1 demo_verbs]
  by (simp add: call_code_def client_calls_def)

section \<open>Reading the answer\<close>

text \<open>
  \<open>delivers E sock n bs w w'\<close>: reads on the socket, each asking for the rest of \<open>n\<close> bytes, deliver
  the bytes \<open>bs\<close> in pieces of at least one byte.
\<close>

inductive delivers :: "'w os \<Rightarrow> int \<Rightarrow> nat \<Rightarrow> bytes \<Rightarrow> 'w \<Rightarrow> 'w \<Rightarrow> bool" for E sock where
  delivers_Nil: "delivers E sock 0 [] w w"
| delivers_part: "\<lbrakk>os_read E sock n w = (int (length part), part, w1); part \<noteq> []; length part \<le> n;
     delivers E sock (n - length part) bs w1 w2\<rbrakk> \<Longrightarrow> delivers E sock n (part @ bs) w w2"

lemma delivers_length: "delivers E sock n bs w w' \<Longrightarrow> length bs = n"
  by (induction rule: delivers.induct) auto

lemma put_bytes_append: "put_bytes (put_bytes m p xs) (p + length xs) ys = put_bytes m p (xs @ ys)"
  by (rule ext) (auto simp: put_bytes_def nth_append)

lemma read_loop_delivers:
  assumes "delivers E sock n bs w w'" "n \<le> fuel"
  shows "read_loop fuel E sock (int (got + n)) (int got) m w = Ret (True, put_bytes m got bs, w')"
  using assms
proof (induction arbitrary: fuel got m rule: delivers.induct)
  case (delivers_Nil w)
  then show ?case by (cases fuel) simp_all
next
  case (delivers_part n w part w1 bs w2)
  then have n: "0 < n" by (cases part) auto
  with delivers_part.prems obtain f where f: "fuel = Suc f" by (cases fuel) auto
  have le: "n - length part \<le> f" using delivers_part.prems delivers_part.hyps f by (cases part) auto
  have sum: "got + length part + (n - length part) = got + n" using delivers_part.hyps by simp
  show ?case
    using delivers_part.IH[OF le, of "got + length part" "put_bytes m got part"] delivers_part.hyps n
    by (simp add: f sum put_bytes_append nat_add_distrib)
qed

text \<open>
  C21: an answer that arrives in any number of pieces is read completely, in order, and the loop then
  stops; as many turns as the answer has bytes are always enough.
\<close>

theorem answer_read_completely:
  assumes "delivers E sock n bs w w'" and "n \<le> fuel"
  shows "read_loop fuel E sock (int n) 0 m w = Ret (True, put_bytes m 0 bs, w')"
  using read_loop_delivers[OF assms, of 0 m] by simp

theorem answer_read_completely_witness:
  "read_loop 4 (demo_os\<lparr>os_read := (\<lambda>fd n w. (int (length (take 3 (take n w))), take 3 (take n w), drop (min 3 n) w))\<rparr>)
     1 4 0 (\<lambda>_. 0) [5, 6, 7, 8, 9] = Ret (True, put_bytes (\<lambda>_. 0) 0 [5, 6, 7, 8], [9])"
proof -
  let ?E = "demo_os\<lparr>os_read := (\<lambda>fd n w. (int (length (take 3 (take n w))), take 3 (take n w), drop (min 3 n) w))\<rparr>"
  have "delivers ?E 1 1 ([8] @ []) [8, 9] [9]" by (rule delivers_part) (auto intro: delivers_Nil)
  then have "delivers ?E 1 4 ([5, 6, 7] @ [8]) [5, 6, 7, 8, 9] [9]" by (intro delivers_part) auto
  from answer_read_completely[OF this, of 4] show ?thesis by simp
qed

text \<open>
  C22: when the router closes the connection before the whole answer has been read, the client never
  returns from the call: a read at the end of the stream returns 0, and the loop repeats it.
\<close>

theorem closed_connection_spins:
  assumes "\<And>n. os_read E sock n w = (0, [], w)" and "got < want"
  shows "read_loop fuel E sock want got m w = Spins"
  using assms by (induction fuel) simp_all

theorem closed_connection_spins_witness:
  "read_loop 1000 demo_os 1 4 0 (\<lambda>_. 0) [] = Spins"
  by (rule closed_connection_spins) simp_all

text \<open>
  C20: the answer to \<^verbatim>\<open>IBV_POLL_CQ\<close> is a header with a length and exactly as many bytes as that length
  says, a whole number of completions, none when the verbs library reports an error.
\<close>

theorem poll_answer_announces_its_length:
  assumes poll: "\<And>cq ne w. length (fst (snd (v_poll_cq V cq ne w))) = nat (fst (v_poll_cq V cq ne w)) * size_of ibv_wc"
    and cap: "cap t \<le> 0xfffff"
    and run: "HandleRequest_switch fuel E V IBV_POLL_CQ h t = Ok (Break t' sz)"
  shows "sz = int (size_of FfrResponseHeader) + get_int (rsp t') (off FfrResponseHeader [''rsp_size'']) \<and>
    0 \<le> get_int (rsp t') (off FfrResponseHeader [''rsp_size'']) \<and>
    get_int (rsp t') (off FfrResponseHeader [''rsp_size'']) mod int (size_of ibv_wc) = 0"
proof -
  from run obtain cq ne w count wcs w1 t1 where c: "v_poll_cq V cq ne w = (count, wcs, w1)"
    and fits: "4 + length wcs \<le> cap t"
    and r: "(if count \<le> 0 then reply (rsp_int 0 0 t1) 4
       else reply (rsp_int 0 (count * 48) t1) (4 + nat count * 48)) = Ok (Break t' sz)"
    by (auto simp: HandleRequest_switch_def on_POLL_CQ_def recv_body_def Let_def layout rsp_bytes_def
      split: prod.splits if_splits)
  have "nat count * 48 < 0xfffff" using poll[of cq ne w] c fits cap by (simp add: layout)
  then have "get_int (put_int m 0 (count * 48)) 0 = count * 48" if "0 < count" for m
    using that by (intro get_put_int) auto
  then show ?thesis using r
    by (auto simp: reply_def rsp_int_def layout get_put_int split: if_splits)
qed

theorem poll_answer_announces_its_length_witness:
  "\<exists>t'. HandleRequest_switch 1 demo_os (demo_verbs\<lparr>v_poll_cq := (\<lambda>cq ne w. (2, replicate 96 0, w))\<rparr>) IBV_POLL_CQ
     \<lparr>client_id = 1, func = 17, body_size = 8\<rparr>
     (demo_thr (demo_router\<lparr>cq_map := (\<lambda>_. 0x2000)\<rparr>) (replicate 8 0)) = Ok (Break t' 100) \<and>
     get_int (rsp t') (off FfrResponseHeader [''rsp_size'']) = 96"
proof -
  let ?V = "demo_verbs\<lparr>v_poll_cq := (\<lambda>cq ne w. (2, replicate 96 0, w))\<rparr>"
  let ?h = "\<lparr>client_id = 1, func = 17, body_size = 8\<rparr>"
  let ?t = "demo_thr (demo_router\<lparr>cq_map := (\<lambda>_. 0x2000)\<rparr>) (replicate 8 0)"
  have z: "put_bytes (\<lambda>_. 0) 0 (replicate 8 0) = (\<lambda>_. 0)" by (rule ext) (simp add: put_bytes_def)
  obtain t' where t': "HandleRequest_switch 1 demo_os ?V IBV_POLL_CQ ?h ?t = Ok (Break t' 100)"
    by (simp add: HandleRequest_switch_def on_POLL_CQ_def recv_body_def Let_def layout ssize_lt_nonneg
      reply_def rsp_int_def rsp_bytes_def MAP_SIZE_def NULL_def req_u32_def z)
  have "length (fst (snd (v_poll_cq ?V cq ne w))) = nat (fst (v_poll_cq ?V cq ne w)) * size_of ibv_wc" for cq ne w
    by (simp add: layout)
  moreover have "cap ?t \<le> 0xfffff" by simp
  ultimately have "100 = int (size_of FfrResponseHeader) + get_int (rsp t') (off FfrResponseHeader [''rsp_size''])"
    using poll_answer_announces_its_length[OF _ _ t'] by blast
  then show ?thesis using t' by (intro exI[of _ t']) (simp add: layout)
qed

end
