(* ===== verification/FF_FastPath.thy ===== *)
theory FF_FastPath
  imports FF_Post
begin

text \<open>
  \<^verbatim>\<open>CtrlChannelLoop\<close>, the data path over shared memory: one thread polls the control pieces of all queue
  pairs, completion queues and shared receive queues, serves the requests it finds and marks them
  answered. A piece is served in place: its request and response areas are the buffers of a thread
  state whose request buffer starts after the request header. The variables \<^verbatim>\<open>qp\<close>, \<^verbatim>\<open>cq\<close> and \<^verbatim>\<open>srq\<close> of the loop
  live across requests, as in the source.
\<close>

definition CTRL_REQ_SIZE :: nat where
  "CTRL_REQ_SIZE = 1024 * 1024"

definition CTRL_RSP_SIZE :: nat where
  "CTRL_RSP_SIZE = 1024 * 1024"

record 'w ctl =
  c_ffr :: router
  c_world :: 'w
  c_qp :: u64
  c_cq :: u64
  c_srq :: u64

section \<open>A piece as a pair of buffers\<close>

text \<open>\<^verbatim>\<open>req_body = csp->req + sizeof(struct FfrRequestHeader)\<close> and \<^verbatim>\<open>rsp = csp->rsp + sizeof(struct FfrResponseHeader)\<close>.\<close>

definition piece_view :: "u64 \<Rightarrow> 'w ctl \<Rightarrow> 'w thr" where
  "piece_view p c =
     (let cs = ctrl (c_ffr c) p
      in \<lparr>ffr = c_ffr c, world = c_world c,
          req_body = (\<lambda>i. cs_req cs (size_of FfrRequestHeader + i)),
          rsp = (\<lambda>i. cs_rsp cs (size_of FfrResponseHeader + i)),
          req_addr = p + word_of_nat (off CtrlShmPiece [''req''] + size_of FfrRequestHeader),
          cap = CTRL_REQ_SIZE - size_of FfrRequestHeader, client_sock = - 1, host_fd = - 1\<rparr>)"

text \<open>What the loop leaves in the piece: the rewritten request, the response and its size, and the state.\<close>

definition piece_done :: "u64 \<Rightarrow> int option \<Rightarrow> 'w thr \<Rightarrow> 'w ctl \<Rightarrow> 'w ctl" where
  "piece_done p rsp_size t c =
     (let r = ffr t; cs = ctrl r p;
          req = (\<lambda>i. if i < size_of FfrRequestHeader then cs_req cs i else req_body t (i - size_of FfrRequestHeader));
          rs = (\<lambda>i. if i < size_of FfrResponseHeader then cs_rsp cs i else rsp t (i - size_of FfrResponseHeader));
          rs = (case rsp_size of None \<Rightarrow> rs | Some n \<Rightarrow> put_int rs (off FfrResponseHeader [''rsp_size'']) n)
      in c\<lparr>c_ffr := r\<lparr>ctrl := (ctrl r)(p := \<lparr>cs_state = RSP_DONE, cs_req = req, cs_rsp = rs\<rparr>)\<rparr>, c_world := world t\<rparr>)"

definition piece_func :: "u64 \<Rightarrow> 'w ctl \<Rightarrow> u32" where
  "piece_func p c = get_u32 (cs_req (ctrl (c_ffr c) p)) (off FfrRequestHeader [''func''])"

section \<open>Waiting for a remote key\<close>

text \<open>
  A key that is not known yet is looked up again, as the thread that receives mappings may add it
  meanwhile: \<open>views\<close> gives the map at each look-up, \<open>k\<close> numbers the look-ups of a request and \<open>count\<close> its
  failed ones. The counter is shared by the work requests of one call.
\<close>

function retry_rkey :: "(nat \<Rightarrow> u32 \<Rightarrow> MR_SHM option) \<Rightarrow> u32 \<Rightarrow> nat \<Rightarrow> nat \<Rightarrow> MR_SHM option \<times> nat \<times> nat" where
  "retry_rkey views rkey k count =
     (case views k rkey of
        Some e \<Rightarrow> (Some e, k + 1, count)
      | None \<Rightarrow> if 4 < count then (None, k + 1, count) else retry_rkey views rkey (k + 1) (count + 1))"
  by pat_completeness auto
termination
  by (relation "measure (\<lambda>(v, r, k, count). 5 - count)") auto

declare retry_rkey.simps [simp del]

section \<open>Queue pairs\<close>

text \<open>
  The loop over the work requests. It differs from the one of the socket path in three ways: the
  look-up of remote keys is retried, no tokens are taken, and the pointer \<^verbatim>\<open>ah\<close> is not advanced, so every
  work request of a datagram queue pair gets the address handle of the first.
\<close>

function fast_send_wrs ::
  "(nat \<Rightarrow> u32 \<Rightarrow> MR_SHM option) \<Rightarrow> bool \<Rightarrow> nat \<Rightarrow> nat \<Rightarrow> nat \<Rightarrow> nat \<Rightarrow> nat \<Rightarrow> nat \<Rightarrow> 'w thr \<Rightarrow> 'w thr run" where
  "fast_send_wrs views ud k count i n s a t =
     (if n \<le> i then Ok t
      else let q = size_of ibv_post_send + i * size_of ibv_send_wr
           in if cap t < q + size_of ibv_send_wr then Undefined OobIndex
              else let m = req_body t;
                       rkey = get_u32 m (q + off ibv_send_wr [''wr'', ''rdma'', ''rkey'']);
                       (e, k, count) = (if one_sided (get_u32 m (q + off ibv_send_wr [''opcode'']))
                                        then retry_rkey views rkey k count else (None, k, count));
                       m = (case e of None \<Rightarrow> m | Some e \<Rightarrow> fix_remote [rkey \<mapsto> e] q m);
                       m = fix_next (req_addr t) (size_of ibv_post_send) (size_of ibv_send_wr)
                             (off ibv_send_wr [''next'']) i n m;
                       j = nat (get_int m (q + off ibv_send_wr [''num_sge'']));
                       m = put_u64 m (q + off ibv_send_wr [''sg_list'']) (if 0 < j then addr_of (req_addr t) s else NULL)
                   in andThen (recv_sges j s (t\<lparr>req_body := m\<rparr>)) (\<lambda>t.
                        if ud
                        then if cap t < a + 4 then Undefined OobIndex
                             else slot (ah_map (ffr t)) (unat (get_u32 (req_body t) a)) (\<lambda>ah.
                                    fast_send_wrs views ud k count (i + 1) n (s + j * size_of ibv_sge) a
                                      (t\<lparr>req_body := put_u64 (req_body t) (q + off ibv_send_wr [''wr'', ''ud'', ''ah'']) ah\<rparr>))
                        else fast_send_wrs views ud k count (i + 1) n (s + j * size_of ibv_sge) a t))"
  by pat_completeness auto
termination
  by (relation "measure (\<lambda>(v, ud, k, c, i, n, s, a, t). n - i)") auto

declare fast_send_wrs.simps [simp del]

definition fast_post_send ::
  "(nat \<Rightarrow> u32 \<Rightarrow> MR_SHM option) \<Rightarrow> ('w, 'x) verbs2_scheme \<Rightarrow> u64 \<Rightarrow> 'w ctl \<Rightarrow> 'w ctl run" where
  "fast_post_send views V p c =
     (let t = piece_view p c;
          qp_handle = req_u32 t (off ibv_post_send [''qp_handle'']);
          wr_count = unat (req_u32 t (off ibv_post_send [''wr_count'']));
          sge_count = unat (req_u32 t (off ibv_post_send [''sge_count'']));
          qp = (if MAP_SIZE \<le> unat qp_handle then c_qp c else qp_map (ffr t) (unat qp_handle));
          c = c\<lparr>c_qp := qp\<rparr>;
          t = (if MAP_SIZE \<le> unat qp_handle then t else t\<lparr>ffr := bucket_at qp_handle (ffr t)\<rparr>);
          wr = size_of ibv_post_send;
          sge = wr + wr_count * size_of ibv_send_wr
      in deref qp
        (let ud = (qp_type_of V (world t) qp = IBV_QPT_UD);
             ah = sge + sge_count * size_of ibv_sge
         in andThen (fast_send_wrs views ud 0 0 0 wr_count sge ah t) (\<lambda>t.
              let (ret, bad_wr, w) = v_post_send V qp (req_body t) (addr_of (req_addr t) wr) (world t);
                  t = rsp_int (off IBV_POST_SEND_RSP [''ret_errno'']) ret (t\<lparr>world := w\<rparr>);
                  t = rsp_u32 (off IBV_POST_SEND_RSP [''bad_wr''])
                        (if bad_wr = NULL then 0
                         else bad_index bad_wr (addr_of (req_addr t) wr) (size_of ibv_send_wr)) t
              in Ok (piece_done p (Some (int (size_of IBV_POST_SEND_RSP))) t c))))"

text \<open>The answer of a posted receive, on a queue pair or a shared queue.\<close>

definition fast_recv_rsp :: "cty \<Rightarrow> u64 \<Rightarrow> 'w thr \<Rightarrow> int \<times> u64 \<times> 'w \<Rightarrow> 'w thr" where
  "fast_recv_rsp R wr t res =
     (let (ret, bad_wr, w) = res;
          t = rsp_int (off R [''ret_errno'']) ret (t\<lparr>world := w\<rparr>)
      in rsp_u32 (off R [''bad_wr'']) (if bad_wr = NULL then 0 else bad_index bad_wr wr (size_of ibv_recv_wr)) t)"

definition fast_post_recv :: "('w, 'x) verbs2_scheme \<Rightarrow> u64 \<Rightarrow> 'w ctl \<Rightarrow> 'w ctl run" where
  "fast_post_recv V p c =
     (let t = piece_view p c;
          qp_handle = req_u32 t (off ibv_post_recv [''qp_handle'']);
          wr_count = unat (req_u32 t (off ibv_post_recv [''wr_count'']));
          qp = (if MAP_SIZE \<le> unat qp_handle then c_qp c else qp_map (ffr t) (unat qp_handle));
          c = c\<lparr>c_qp := qp\<rparr>;
          wr = size_of ibv_post_recv;
          sge = wr + wr_count * size_of ibv_recv_wr
      in andThen (recv_wrs True 0 wr_count sge t) (\<lambda>t.
           deref qp
             (let wr = addr_of (req_addr t) wr;
                  t = fast_recv_rsp IBV_POST_RECV_RSP wr t (v_post_recv V qp (req_body t) wr (world t))
              in Ok (piece_done p (Some (int (size_of IBV_POST_RECV_RSP))) t c))))"

text \<open>One queue pair of the scan: nothing happens unless its piece holds a request.\<close>

definition serve_qp ::
  "(nat \<Rightarrow> u32 \<Rightarrow> MR_SHM option) \<Rightarrow> ('w, 'x) verbs2_scheme \<Rightarrow> u32 \<Rightarrow> 'w ctl \<Rightarrow> 'w ctl run" where
  "serve_qp views V handle c =
     slot (qp_shm_map (c_ffr c)) (unat handle) (\<lambda>sp.
       case sp of
         None \<Rightarrow> Ok c
       | Some sp \<Rightarrow>
           let p = sp_ptr sp
           in if cs_state (ctrl (c_ffr c) p) = REQ_DONE
              then case call_of_code router_calls (unat (piece_func p c)) of
                     Some IBV_POST_SEND \<Rightarrow> fast_post_send views V p c
                   | Some IBV_POST_RECV \<Rightarrow> fast_post_recv V p c
                   | _ \<Rightarrow> Ok (piece_done p None (piece_view p c) c)
              else Ok c)"

fun qp_pass ::
  "(nat \<Rightarrow> u32 \<Rightarrow> MR_SHM option) \<Rightarrow> ('w, 'x) verbs2_scheme \<Rightarrow> u32 list \<Rightarrow> 'w ctl \<Rightarrow> 'w ctl run" where
  "qp_pass views V [] c = Ok c"
| "qp_pass views V (h # hs) c = andThen (serve_qp views V h c) (qp_pass views V hs)"

section \<open>Completion queues\<close>

text \<open>
  A poll. The count comes back in an unsigned variable: a negative result passes the test and the loop
  over the completions runs far outside the response area. A queue that is not known leaves the
  request unanswered. The second component of the result is the count, when there was a poll.
\<close>

definition serve_cq :: "('w, 'x) verbs2_scheme \<Rightarrow> u32 \<Rightarrow> 'w ctl \<Rightarrow> ('w ctl \<times> nat option) run" where
  "serve_cq V handle c =
     slot (cq_shm_map (c_ffr c)) (unat handle) (\<lambda>sp.
       case sp of
         None \<Rightarrow> Ok (c, None)
       | Some sp \<Rightarrow>
           let p = sp_ptr sp
           in if cs_state (ctrl (c_ffr c) p) = REQ_DONE
              then let t = piece_view p c;
                       i = unat (req_u32 t (off IBV_POLL_CQ_REQ [''cq_handle'']));
                       cq = (if MAP_SIZE \<le> i then c_cq c else cq_map (ffr t) i);
                       c = c\<lparr>c_cq := cq\<rparr>
                   in if cq = NULL then Ok (c, None)
                      else let (ret, wcs, w) = v_poll_cq V cq (req_int t (off IBV_POLL_CQ_REQ [''ne''])) (world t);
                               count = unat (word_of_int ret :: u32)
                           in if CTRL_RSP_SIZE < size_of FfrResponseHeader + max (length wcs) (count * size_of ibv_wc)
                              then Undefined OobIndex
                              else let t = rsp_bytes 0 wcs (t\<lparr>world := w\<rparr>);
                                       rsp_size = (if count = 0 then 0 else int (count * size_of ibv_wc))
                                   in Ok (piece_done p (Some rsp_size) t c, Some count)
              else Ok (c, None))"

text \<open>
  The scan of the completion queues. The loop over the completions of one queue uses the index of the
  scan, so after a poll with \<open>count\<close> completions the scan goes on at \<open>count + 1\<close>. \<open>fuel\<close> bounds the turns.
\<close>

fun cq_pass :: "nat \<Rightarrow> ('w, 'x) verbs2_scheme \<Rightarrow> nat \<Rightarrow> 'w ctl \<Rightarrow> 'w ctl run" where
  "cq_pass 0 V i c = (if length (cq_shm_vec (c_ffr c)) \<le> i then Ok c else Diverges)"
| "cq_pass (Suc fuel) V i c =
     (if length (cq_shm_vec (c_ffr c)) \<le> i then Ok c
      else andThen (serve_cq V (cq_shm_vec (c_ffr c) ! i) c) (\<lambda>(c, count).
             case count of None \<Rightarrow> cq_pass fuel V (i + 1) c | Some n \<Rightarrow> cq_pass fuel V (n + 1) c))"

section \<open>Shared receive queues\<close>

definition serve_srq :: "('w, 'x) verbs2_scheme \<Rightarrow> u32 \<Rightarrow> 'w ctl \<Rightarrow> 'w ctl run" where
  "serve_srq V handle c =
     slot (srq_shm_map (c_ffr c)) (unat handle) (\<lambda>sp.
       case sp of
         None \<Rightarrow> Ok c
       | Some sp \<Rightarrow>
           let p = sp_ptr sp
           in if cs_state (ctrl (c_ffr c) p) = REQ_DONE
              then let t = piece_view p c;
                       srq_handle = req_u32 t (off ibv_post_srq_recv [''srq_handle'']);
                       wr_count = unat (req_u32 t (off ibv_post_srq_recv [''wr_count'']));
                       srq = (if MAP_SIZE \<le> unat srq_handle then c_srq c else srq_map (ffr t) (unat srq_handle));
                       c = c\<lparr>c_srq := srq\<rparr>;
                       wr = size_of ibv_post_srq_recv;
                       sge = wr + wr_count * size_of ibv_recv_wr
                   in andThen (recv_wrs True 0 wr_count sge t) (\<lambda>t.
                        deref srq
                          (let wr = addr_of (req_addr t) wr;
                               t = fast_recv_rsp IBV_POST_SRQ_RECV_RSP wr t (v_post_srq_recv V srq (req_body t) wr (world t))
                           in Ok (piece_done p (Some (int (size_of IBV_POST_SRQ_RECV_RSP))) t c)))
              else Ok c)"

fun srq_pass :: "('w, 'x) verbs2_scheme \<Rightarrow> u32 list \<Rightarrow> 'w ctl \<Rightarrow> 'w ctl run" where
  "srq_pass V [] c = Ok c"
| "srq_pass V (h # hs) c = andThen (serve_srq V h c) (srq_pass V hs)"

section \<open>One turn of the loop\<close>

definition CtrlChannelLoop_turn ::
  "nat \<Rightarrow> (nat \<Rightarrow> u32 \<Rightarrow> MR_SHM option) \<Rightarrow> ('w, 'x) verbs2_scheme \<Rightarrow> 'w ctl \<Rightarrow> 'w ctl run" where
  "CtrlChannelLoop_turn fuel views V c =
     andThen (qp_pass views V (qp_shm_vec (c_ffr c)) c) (\<lambda>c.
     andThen (cq_pass fuel V 0 c) (\<lambda>c.
       srq_pass V (srq_shm_vec (c_ffr c)) c))"

end
