(* ===== verification/FF_Rewrite.thy ===== *)
theory FF_Rewrite
  imports FF_FastPath FF_Demo
begin

text \<open>
  What the posting loops of the router do to a request: a function on the bytes of the buffer that all of
  them compute (the socket path and the shared-memory path, sends and receives), the fields of every
  work request and of every entry afterwards, and the list the verbs library finds when it follows
  the links.
\<close>

section \<open>The rewriting as a function on the buffer\<close>

text \<open>
  All posting loops rewrite their buffer in the same way, given the map from local keys to bases and what
  is done to a work request first (\<open>pre\<close>: nothing, or the translation of its remote address). \<open>F\<close> is
  the offset of the first work request and \<open>W\<close> their distance; the links, the list pointer and the
  number of entries are at the same offsets in send and receive requests.
\<close>

definition lkey_base :: "router \<Rightarrow> u32 \<Rightarrow> u64" where
  "lkey_base r key = (case lkey_ptr r key of Some p \<Rightarrow> p | None \<Rightarrow> NULL)"

fun fix_sges :: "(u32 \<Rightarrow> u64) \<Rightarrow> nat \<Rightarrow> nat \<Rightarrow> mem \<Rightarrow> mem" where
  "fix_sges L 0 s m = m"
| "fix_sges L (Suc k) s m = fix_sges L k (s + 16) (put_u64 m s (L (get_u32 m (s + 12)) + get_u64 m s))"

definition num_sges :: "nat \<Rightarrow> nat \<Rightarrow> mem \<Rightarrow> nat \<Rightarrow> nat" where
  "num_sges F W m l = nat (get_int m (F + l * W + 24))"

definition link_wr :: "(nat \<Rightarrow> mem \<Rightarrow> mem) \<Rightarrow> (u32 \<Rightarrow> u64) \<Rightarrow> u64 \<Rightarrow> nat \<Rightarrow> nat \<Rightarrow> nat \<Rightarrow> nat \<Rightarrow> nat \<Rightarrow> mem \<Rightarrow> mem" where
  "link_wr pre L base F W i n s m =
     (let m = fix_next base F W 8 i n (pre (F + i * W) m); k = num_sges F W m i;
          m = put_u64 m (F + i * W + 16) (if 0 < k then addr_of base s else NULL)
      in fix_sges L k s m)"

function link_wrs :: "(nat \<Rightarrow> mem \<Rightarrow> mem) \<Rightarrow> (u32 \<Rightarrow> u64) \<Rightarrow> u64 \<Rightarrow> nat \<Rightarrow> nat \<Rightarrow> nat \<Rightarrow> nat \<Rightarrow> nat \<Rightarrow> mem \<Rightarrow> mem" where
  "link_wrs pre L base F W i n s m =
     (if n \<le> i then m
      else link_wrs pre L base F W (i + 1) n (s + num_sges F W m i * 16) (link_wr pre L base F W i n s m))"
  by pat_completeness auto
termination
  by (relation "measure (\<lambda>(pre, L, base, F, W, i, n, s, m). n - i)") auto

declare link_wrs.simps [simp del]

lemma fix_sges_outside: "b < s \<or> s + k * 16 \<le> b \<Longrightarrow> fix_sges L k s m b = m b"
  by (induction k arbitrary: s m) (auto simp: put_u64_outside)

lemma fix_sges_tail:
  "j < k \<Longrightarrow> s + j * 16 + 8 \<le> b \<Longrightarrow> b < s + j * 16 + 16 \<Longrightarrow> fix_sges L k s m b = m b"
proof (induction k arbitrary: s m j)
  case 0
  then show ?case by simp
next
  case (Suc k)
  show ?case
  proof (cases j)
    case 0
    with Suc.prems show ?thesis by (simp add: fix_sges_outside put_u64_outside)
  next
    case (Suc j')
    with Suc.prems Suc.IH[of j' "s + 16"] show ?thesis by (simp add: put_u64_outside)
  qed
qed

lemma fix_sges_addr:
  "j < k \<Longrightarrow> get_u64 (fix_sges L k s m) (s + j * 16) = L (get_u32 m (s + j * 16 + 12)) + get_u64 m (s + j * 16)"
proof (induction k arbitrary: s m j)
  case 0
  then show ?case by simp
next
  case (Suc k)
  let ?m = "put_u64 m s (L (get_u32 m (s + 12)) + get_u64 m s)"
  show ?case
  proof (cases j)
    case 0
    have "get_u64 (fix_sges L k (s + 16) ?m) s = get_u64 ?m s"
      by (rule get_u64_cong) (simp add: fix_sges_outside)
    with 0 show ?thesis by simp
  next
    case (Suc j')
    then have eq: "s + j * 16 = s + 16 + j' * 16" by simp
    have lt: "j' < k" using Suc Suc.prems by simp
    show ?thesis unfolding fix_sges.simps eq Suc.IH[OF lt] by simp
  qed
qed

text \<open>
  What the rewriting leaves in the buffer, for any work requests of at least 32 bytes whose first 32 are
  not touched by \<open>pre\<close>. The entries follow the work requests, so the two arrays do not overlap.
\<close>

locale work_requests =
  fixes F W :: nat and pre :: "nat \<Rightarrow> mem \<Rightarrow> mem"
  assumes W: "32 \<le> W"
    and pre_outside: "b < q + 32 \<or> q + W \<le> b \<Longrightarrow> pre q m b = m b"
    and pre_local: "(\<And>b. q \<le> b \<Longrightarrow> b < q + W \<Longrightarrow> m b = m' b) \<Longrightarrow> q + 32 \<le> b \<Longrightarrow> b < q + W \<Longrightarrow> pre q m b = pre q m' b"
begin

lemma apart: "l < i \<Longrightarrow> F + l * W + W \<le> F + i * W"
  using mult_le_mono1[of "Suc l" i W] by simp

lemma num_sges_pre [simp]: "num_sges F W (fix_next base F W 8 i n (pre (F + i * W) m)) i = num_sges F W m i"
  unfolding num_sges_def fix_next_def
  by (subst get_int_cong[where m' = m]) (auto simp: put_u64_outside pre_outside)

lemma link_wr_eq:
  "link_wr pre L base F W i n s m =
     fix_sges L (num_sges F W m i) s
       (put_u64 (fix_next base F W 8 i n (pre (F + i * W) m)) (F + i * W + 16)
         (if 0 < num_sges F W m i then addr_of base s else NULL))"
  by (simp only: link_wr_def Let_def num_sges_pre)

lemma link_wr_outside:
  assumes "i < n" "F + n * W \<le> s"
    and "b < F + i * W \<or> F + i * W + W \<le> b \<and> b < s \<or> s + num_sges F W m i * 16 \<le> b"
  shows "link_wr pre L base F W i n s m b = m b"
proof -
  have "F + i * W + W \<le> F + n * W" using apart assms(1) .
  then show ?thesis
    using assms W
    by (auto simp: link_wr_eq fix_next_def fix_sges_outside put_u64_outside pre_outside)
qed

lemma link_wr_fields:
  assumes "i < n" "F + n * W \<le> s"
  shows "get_u64 (link_wr pre L base F W i n s m) (F + i * W + 8) =
      (if n - 1 \<le> i then NULL else addr_of base (F + (i + 1) * W))"
    and "get_u64 (link_wr pre L base F W i n s m) (F + i * W + 16) =
      (if 0 < num_sges F W m i then addr_of base s else NULL)"
    and "F + i * W \<le> b \<and> b < F + i * W + 8 \<or> F + i * W + 24 \<le> b \<and> b < F + i * W + W \<Longrightarrow>
      link_wr pre L base F W i n s m b = pre (F + i * W) m b"
proof -
  let ?q = "F + i * W"
  let ?m1 = "fix_next base F W 8 i n (pre ?q m)"
  let ?m2 = "put_u64 ?m1 (?q + 16) (if 0 < num_sges F W m i then addr_of base s else NULL)"
  have le: "?q + W \<le> s" using apart[OF assms(1)] assms(2) by simp
  have eq: "link_wr pre L base F W i n s m = fix_sges L (num_sges F W m i) s ?m2"
    by (rule link_wr_eq)
  have same: "link_wr pre L base F W i n s m b = ?m2 b" if "b < s" for b
    using that by (simp add: eq fix_sges_outside)
  have "get_u64 (link_wr pre L base F W i n s m) (?q + 8) = get_u64 ?m2 (?q + 8)"
    using le W by (intro get_u64_cong same) simp
  then show "get_u64 (link_wr pre L base F W i n s m) (?q + 8) =
      (if n - 1 \<le> i then NULL else addr_of base (F + (i + 1) * W))"
    by (simp add: fix_next_def)
  have "get_u64 (link_wr pre L base F W i n s m) (?q + 16) = get_u64 ?m2 (?q + 16)"
    using le W by (intro get_u64_cong same) simp
  then show "get_u64 (link_wr pre L base F W i n s m) (?q + 16) =
      (if 0 < num_sges F W m i then addr_of base s else NULL)" by simp
  show "link_wr pre L base F W i n s m b = pre ?q m b"
    if "?q \<le> b \<and> b < ?q + 8 \<or> ?q + 24 \<le> b \<and> b < ?q + W"
    using that le W same[of b] by (auto simp: fix_next_def put_u64_outside)
qed

lemma link_wr_sges:
  assumes "i < n" "F + n * W \<le> s" "j < num_sges F W m i"
  shows "get_u64 (link_wr pre L base F W i n s m) (s + j * 16) =
      L (get_u32 m (s + j * 16 + 12)) + get_u64 m (s + j * 16)"
    and "s + j * 16 + 8 \<le> b \<Longrightarrow> b < s + j * 16 + 16 \<Longrightarrow> link_wr pre L base F W i n s m b = m b"
proof -
  let ?q = "F + i * W"
  let ?m2 = "put_u64 (fix_next base F W 8 i n (pre ?q m)) (?q + 16) (if 0 < num_sges F W m i then addr_of base s else NULL)"
  have le: "?q + W \<le> s" using apart[OF assms(1)] assms(2) by simp
  have eq: "link_wr pre L base F W i n s m = fix_sges L (num_sges F W m i) s ?m2"
    by (rule link_wr_eq)
  have same: "?m2 b = m b" if "s \<le> b" for b
    using that le W by (auto simp: fix_next_def put_u64_outside pre_outside)
  have "get_u64 ?m2 (s + j * 16) = get_u64 m (s + j * 16)" by (rule get_u64_cong) (simp add: same)
  moreover have "get_u32 ?m2 (s + j * 16 + 12) = get_u32 m (s + j * 16 + 12)"
    by (rule get_u32_cong) (simp add: same)
  ultimately show "get_u64 (link_wr pre L base F W i n s m) (s + j * 16) =
      L (get_u32 m (s + j * 16 + 12)) + get_u64 m (s + j * 16)"
    by (simp only: eq fix_sges_addr[OF assms(3)])
  show "link_wr pre L base F W i n s m b = m b" if "s + j * 16 + 8 \<le> b" "b < s + j * 16 + 16"
    using fix_sges_tail[OF assms(3) that] that by (simp add: eq same)
qed

lemma num_sges_later:
  assumes "i < l" "l < n" "F + n * W \<le> s"
  shows "num_sges F W (link_wr pre L base F W i n s m) l = num_sges F W m l"
proof -
  have "F + i * W + W \<le> F + l * W" "F + l * W + W \<le> F + n * W" using apart assms(1,2) by auto
  then show ?thesis
    unfolding num_sges_def using assms W
    by (subst get_int_cong[where m' = m]) (auto intro!: link_wr_outside)
qed

lemma link_wrs_before:
  assumes "F + n * W \<le> s" "b < F + i * W \<or> F + n * W \<le> b \<and> b < s"
  shows "link_wrs pre L base F W i n s m b = m b"
  using assms
proof (induction "n - i" arbitrary: i s m)
  case 0
  then show ?case by (simp add: link_wrs.simps)
next
  case (Suc d)
  let ?m = "link_wr pre L base F W i n s m"
  have lt: "i < n" using Suc.hyps(2) by simp
  have "link_wrs pre L base F W (i + 1) n (s + num_sges F W m i * 16) ?m b = ?m b"
    using Suc.hyps Suc.prems by (intro Suc.hyps(1)) auto
  moreover have "?m b = m b"
    using lt Suc.prems apart[OF lt] by (intro link_wr_outside) auto
  ultimately show ?case using lt by (simp add: link_wrs.simps[of _ _ _ _ _ i])
qed

lemma link_wrs_step:
  "i < n \<Longrightarrow> link_wrs pre L base F W i n s m =
     link_wrs pre L base F W (i + 1) n (s + num_sges F W m i * 16) (link_wr pre L base F W i n s m)"
  by (simp add: link_wrs.simps[of _ _ _ _ _ i])

lemma sum_num_sges_later:
  assumes "i < n" "F + n * W \<le> s" "l \<le> n"
  shows "(\<Sum>x = i + 1..<l. num_sges F W (link_wr pre L base F W i n s m) x) = (\<Sum>x = i + 1..<l. num_sges F W m x)"
  using assms by (intro sum.cong num_sges_later) auto

lemma link_wrs_after:
  assumes "F + n * W \<le> s" "s + (\<Sum>x = i..<n. num_sges F W m x) * 16 \<le> b"
  shows "link_wrs pre L base F W i n s m b = m b"
  using assms
proof (induction "n - i" arbitrary: i s m)
  case 0
  then show ?case by (simp add: link_wrs.simps)
next
  case (Suc d)
  let ?m = "link_wr pre L base F W i n s m"
  have lt: "i < n" using Suc.hyps(2) by simp
  have sum: "(\<Sum>x = i..<n. num_sges F W m x) = num_sges F W m i + (\<Sum>x = i + 1..<n. num_sges F W m x)"
    using lt by (simp add: sum.atLeast_Suc_lessThan)
  have "link_wrs pre L base F W (i + 1) n (s + num_sges F W m i * 16) ?m b = ?m b"
    using Suc.hyps(2) Suc.prems sum_num_sges_later[OF lt Suc.prems(1), of n] sum
    by (intro Suc.hyps(1)) auto
  moreover have "?m b = m b"
    using lt Suc.prems sum by (intro link_wr_outside) auto
  ultimately show ?case by (simp add: link_wrs_step[OF lt])
qed

text \<open>The fields of work request \<open>l\<close> afterwards.\<close>

lemma link_wrs_fields:
  assumes "i \<le> l" "l < n" "F + n * W \<le> s"
  shows "get_u64 (link_wrs pre L base F W i n s m) (F + l * W + 8) =
      (if n - 1 \<le> l then NULL else addr_of base (F + (l + 1) * W)) \<and>
    get_u64 (link_wrs pre L base F W i n s m) (F + l * W + 16) =
      (if 0 < num_sges F W m l then addr_of base (s + (\<Sum>x = i..<l. num_sges F W m x) * 16) else NULL) \<and>
    (\<forall>b. F + l * W \<le> b \<and> b < F + l * W + 8 \<or> F + l * W + 24 \<le> b \<and> b < F + l * W + W \<longrightarrow>
      link_wrs pre L base F W i n s m b = pre (F + l * W) m b)"
  using assms
proof (induction "n - i" arbitrary: i s m)
  case 0
  then show ?case by simp
next
  case (Suc d)
  let ?m = "link_wr pre L base F W i n s m" and ?s = "s + num_sges F W m i * 16" and ?q = "F + l * W"
  let ?r = "link_wrs pre L base F W i n s m"
  have lt: "i < n" using Suc.hyps(2) by simp
  have step: "?r = link_wrs pre L base F W (i + 1) n ?s ?m" by (rule link_wrs_step[OF lt])
  show ?case
  proof (cases "l = i")
    case True
    have same: "?r b = ?m b" if "b < F + l * W + W" for b
      unfolding step using that Suc.prems True by (intro link_wrs_before) auto
    have "get_u64 ?r (?q + 8) = get_u64 ?m (?q + 8)" "get_u64 ?r (?q + 16) = get_u64 ?m (?q + 16)"
      using W by (intro get_u64_cong same; simp)+
    moreover have "?r b = pre ?q m b" if "?q \<le> b \<and> b < ?q + 8 \<or> ?q + 24 \<le> b \<and> b < ?q + W" for b
      using that same[of b] link_wr_fields(3)[OF lt Suc.prems(3), of b] True W by auto
    ultimately show ?thesis
      using link_wr_fields(1,2)[OF lt Suc.prems(3)] True by simp
  next
    case False
    then have il: "i < l" using Suc.prems by simp
    have ap: "F + i * W + W \<le> ?q" "?q + W \<le> F + n * W" using apart il Suc.prems by auto
    have pre: "pre ?q ?m b = pre ?q m b"
      if "?q \<le> b" "b < ?q + W" for b
    proof -
      have eq: "?m c = m c" if "?q \<le> c" "c < ?q + W" for c
        using that ap Suc.prems by (intro link_wr_outside[OF lt]) auto
      show ?thesis
      proof (cases "b < ?q + 32")
        case True
        then show ?thesis using that by (simp add: pre_outside eq)
      next
        case False
        then show ?thesis using that by (intro pre_local eq) auto
      qed
    qed
    have sum: "(\<Sum>x = i..<l. num_sges F W m x) = num_sges F W m i + (\<Sum>x = i + 1..<l. num_sges F W m x)"
      using il by (simp add: sum.atLeast_Suc_lessThan)
    have nl: "num_sges F W ?m l = num_sges F W m l"
      using il Suc.prems by (intro num_sges_later) auto
    have "d = n - (i + 1)" "i + 1 \<le> l" "F + n * W \<le> ?s" using Suc.hyps(2) Suc.prems il by auto
    from Suc.hyps(1)[OF this(1,2) Suc.prems(2) this(3), of ?m] show ?thesis
      unfolding step nl sum using pre sum_num_sges_later[OF lt Suc.prems(3), of l L base m] Suc.prems W
      by (auto simp: algebra_simps)
  qed
qed

text \<open>The entries afterwards: the address of entry \<open>j\<close>, and its length and key.\<close>

lemma link_wrs_sges:
  assumes "i \<le> n" "F + n * W \<le> s" "j < (\<Sum>x = i..<n. num_sges F W m x)"
  shows "get_u64 (link_wrs pre L base F W i n s m) (s + j * 16) =
      L (get_u32 m (s + j * 16 + 12)) + get_u64 m (s + j * 16) \<and>
    (\<forall>b. s + j * 16 + 8 \<le> b \<and> b < s + j * 16 + 16 \<longrightarrow> link_wrs pre L base F W i n s m b = m b)"
  using assms
proof (induction "n - i" arbitrary: i s m j)
  case 0
  then show ?case by simp
next
  case (Suc d)
  let ?m = "link_wr pre L base F W i n s m" and ?k = "num_sges F W m i" and ?r = "link_wrs pre L base F W i n s m"
  have lt: "i < n" using Suc.hyps(2) by simp
  have step: "?r = link_wrs pre L base F W (i + 1) n (s + ?k * 16) ?m" by (rule link_wrs_step[OF lt])
  have sum: "(\<Sum>x = i..<n. num_sges F W m x) = ?k + (\<Sum>x = i + 1..<n. num_sges F W m x)"
    using lt by (simp add: sum.atLeast_Suc_lessThan)
  show ?case
  proof (cases "j < ?k")
    case True
    have same: "?r b = ?m b" if "s \<le> b" "b < s + ?k * 16" for b
      unfolding step using that Suc.prems by (intro link_wrs_before) auto
    have "get_u64 ?r (s + j * 16) = get_u64 ?m (s + j * 16)"
      using True by (intro get_u64_cong same) auto
    then show ?thesis
      using link_wr_sges[OF lt Suc.prems(2) True] True same by simp
  next
    case False
    let ?s = "s + ?k * 16" and ?j = "j - ?k"
    have eq: "s + j * 16 = ?s + ?j * 16" using False by (simp add: diff_mult_distrib)
    have same: "?m b = m b" if "?s \<le> b" for b
      using that Suc.prems by (intro link_wr_outside[OF lt]) auto
    have "d = n - (i + 1)" "i + 1 \<le> n" "F + n * W \<le> ?s" "?j < (\<Sum>x = i + 1..<n. num_sges F W ?m x)"
      using Suc.hyps(2) Suc.prems lt False sum sum_num_sges_later[OF lt Suc.prems(2), of n L base m] by auto
    note ih = Suc.hyps(1)[OF this]
    moreover have "get_u64 ?m (?s + ?j * 16) = get_u64 m (?s + ?j * 16)"
      "get_u32 ?m (?s + ?j * 16 + 12) = get_u32 m (?s + ?j * 16 + 12)"
      by (rule get_u64_cong get_u32_cong, simp add: same)+
    ultimately show ?thesis unfolding eq step by (simp add: same)
  qed
qed

end

section \<open>The loops compute it\<close>

definition fix_remote_of :: "(u32 \<Rightarrow> MR_SHM option) \<Rightarrow> nat \<Rightarrow> mem \<Rightarrow> mem" where
  "fix_remote_of rkeys q m = (if one_sided (get_u32 m (q + 28)) then fix_remote rkeys q m else m)"

interpretation recv_reqs: work_requests 32 32 "\<lambda>q m. m"
  by unfold_locales auto

lemma fix_remote_of_outside: "b < q + 40 \<or> q + 48 \<le> b \<Longrightarrow> fix_remote_of rkeys q m b = m b"
  by (auto simp: fix_remote_of_def fix_remote_def layout put_u64_outside split: option.splits)

lemma put_u64_same_outside: "m b = m' b \<Longrightarrow> put_u64 m p v b = put_u64 m' p v b"
  by (simp add: put_u64_def put_bytes_def)

interpretation send_reqs: work_requests 32 128 "fix_remote_of rkeys"
proof unfold_locales
  fix q b and m m' :: mem
  assume same: "\<And>b. q \<le> b \<Longrightarrow> b < q + 128 \<Longrightarrow> m b = m' b" and b: "q + 32 \<le> b" "b < q + 128"
  have "get_u32 m (q + 28) = get_u32 m' (q + 28)" "get_u32 m (q + 48) = get_u32 m' (q + 48)"
    "get_u64 m (q + 40) = get_u64 m' (q + 40)"
    by (rule get_u32_cong get_u64_cong, simp add: same)+
  then show "fix_remote_of rkeys q m b = fix_remote_of rkeys q m' b"
    using b by (auto simp: fix_remote_of_def fix_remote_def layout same split: option.splits
      intro!: put_u64_same_outside)
qed (auto simp: fix_remote_of_outside)

text \<open>A look-up of a local key may insert a null pointer; no later look-up sees the difference.\<close>

definition lkeys_touched :: "'w thr \<Rightarrow> 'w thr \<Rightarrow> bool" where
  "lkeys_touched t t' =
     (\<exists>lp. ffr t' = (ffr t)\<lparr>lkey_ptr := lp\<rparr> \<and> lkey_base (ffr t') = lkey_base (ffr t) \<and> world t' = world t \<and>
       rsp t' = rsp t \<and> req_addr t' = req_addr t \<and> cap t' = cap t \<and> client_sock t' = client_sock t \<and> host_fd t' = host_fd t)"

lemma lkeys_touched_refl [simp]: "lkeys_touched t (t\<lparr>req_body := m\<rparr>)"
  unfolding lkeys_touched_def by (rule exI[of _ "lkey_ptr (ffr t)"]) simp

lemma lkeys_touched_trans: "lkeys_touched t t' \<Longrightarrow> lkeys_touched t' t'' \<Longrightarrow> lkeys_touched t t''"
  unfolding lkeys_touched_def by auto

lemma lkey_at_base: "\<exists>lp. lkey_at key r = (lkey_base r key, r\<lparr>lkey_ptr := lp\<rparr>) \<and> lkey_base (r\<lparr>lkey_ptr := lp\<rparr>) = lkey_base r"
proof (cases "lkey_ptr r key")
  case None
  then have "lkey_base (r\<lparr>lkey_ptr := (lkey_ptr r)(key \<mapsto> NULL)\<rparr>) = lkey_base r"
    by (auto simp: lkey_base_def fun_eq_iff)
  with None show ?thesis by (auto simp: lkey_at_def lkey_base_def)
next
  case (Some p)
  then show ?thesis
    by (intro exI[of _ "lkey_ptr r"]) (simp add: lkey_at_def lkey_base_def)
qed

lemma recv_sges_fix:
  assumes "k = 0 \<or> s + k * 16 \<le> cap t"
  shows "\<exists>t'. recv_sges k s t = Ok t' \<and> lkeys_touched t t' \<and>
    req_body t' = fix_sges (lkey_base (ffr t)) k s (req_body t)"
  using assms
proof (induction k arbitrary: s t)
  case 0
  show ?case using lkeys_touched_refl[of t "req_body t"] by simp
next
  case (Suc k)
  let ?key = "get_u32 (req_body t) (s + 12)"
  obtain lp where lp: "lkey_at ?key (ffr t) = (lkey_base (ffr t) ?key, (ffr t)\<lparr>lkey_ptr := lp\<rparr>)"
    and base: "lkey_base ((ffr t)\<lparr>lkey_ptr := lp\<rparr>) = lkey_base (ffr t)"
    using lkey_at_base[of ?key "ffr t"] by blast
  let ?m = "put_u64 (req_body t) s (lkey_base (ffr t) ?key + get_u64 (req_body t) s)"
  let ?t = "t\<lparr>ffr := (ffr t)\<lparr>lkey_ptr := lp\<rparr>, req_body := ?m\<rparr>"
  have touched: "lkeys_touched t ?t" unfolding lkeys_touched_def using base by auto
  have step: "recv_sges (Suc k) s t = recv_sges k (s + 16) ?t" using Suc.prems lp by (simp add: layout)
  obtain t' where "recv_sges k (s + 16) ?t = Ok t'" "lkeys_touched ?t t'"
    "req_body t' = fix_sges (lkey_base (ffr ?t)) k (s + 16) (req_body ?t)"
    using Suc.IH[of "s + 16" ?t] Suc.prems by auto
  then show ?case unfolding step using lkeys_touched_trans[OF touched] base by auto
qed

lemma sum_num_sges_head: "i < n \<Longrightarrow> (\<Sum>x = i..<n. num_sges F W m x) = num_sges F W m i + (\<Sum>x = i + 1..<n. num_sges F W m x)"
  by (simp add: sum.atLeast_Suc_lessThan)

lemma recv_wrs_link:
  assumes "32 + n * 32 \<le> s" "s + (\<Sum>x = i..<n. num_sges 32 32 (req_body t) x) * 16 \<le> cap t"
  shows "\<exists>t'. recv_wrs True i n s t = Ok t' \<and> lkeys_touched t t' \<and>
    req_body t' = link_wrs (\<lambda>q m. m) (lkey_base (ffr t)) (req_addr t) 32 32 i n s (req_body t)"
  using assms
proof (induction "n - i" arbitrary: i s t)
  case 0
  then show ?case
    using lkeys_touched_refl[of t "req_body t"] by (simp add: recv_wrs.simps link_wrs.simps)
next
  case (Suc d)
  let ?m = "req_body t" and ?L = "lkey_base (ffr t)"
  let ?k = "num_sges 32 32 ?m i" and ?m' = "link_wr (\<lambda>q m. m) ?L (req_addr t) 32 32 i n s ?m"
  let ?m2 = "put_u64 (fix_next (req_addr t) 32 32 8 i n ?m) (32 + i * 32 + 16) (if 0 < ?k then addr_of (req_addr t) s else NULL)"
  have lt: "i < n" using Suc.hyps(2) by simp
  have room: "32 + i * 32 + 32 \<le> cap t" using recv_reqs.apart[OF lt] Suc.prems by linarith
  have k: "nat (get_int (fix_next (req_addr t) 32 32 8 i n ?m) (32 + i * 32 + 24)) = ?k"
    using recv_reqs.num_sges_pre[of "req_addr t" i n ?m] by (simp add: num_sges_def)
  have "s + ?k * 16 \<le> cap t" using Suc.prems(2) sum_num_sges_head[OF lt, of 32 32 ?m] by simp
  then obtain t1 where t1: "recv_sges ?k s (t\<lparr>req_body := ?m2\<rparr>) = Ok t1" "lkeys_touched (t\<lparr>req_body := ?m2\<rparr>) t1"
    "req_body t1 = fix_sges ?L ?k s ?m2"
    using recv_sges_fix[of ?k s "t\<lparr>req_body := ?m2\<rparr>"] by auto
  have step: "recv_wrs True i n s t = recv_wrs True (i + 1) n (s + ?k * 16) t1"
    using lt room k t1(1) by (subst recv_wrs.simps, cases "0 < ?k") (auto simp: layout Let_def simp del: zero_less_nat_eq)
  have m1: "req_body t1 = ?m'" using t1(3) by (simp only: recv_reqs.link_wr_eq)
  have touched: "lkeys_touched t t1"
    using lkeys_touched_trans[OF lkeys_touched_refl t1(2)] .
  then have same: "cap t1 = cap t" "req_addr t1 = req_addr t" "lkey_base (ffr t1) = ?L"
    unfolding lkeys_touched_def by auto
  have sum: "(\<Sum>x = i + 1..<n. num_sges 32 32 (req_body t1) x) = (\<Sum>x = i + 1..<n. num_sges 32 32 ?m x)"
    unfolding m1 using lt Suc.prems(1) by (intro recv_reqs.sum_num_sges_later) auto
  have "d = n - (i + 1)" "32 + n * 32 \<le> s + ?k * 16"
    "s + ?k * 16 + (\<Sum>x = i + 1..<n. num_sges 32 32 (req_body t1) x) * 16 \<le> cap t1"
    using Suc.hyps(2) Suc.prems sum same sum_num_sges_head[OF lt, of 32 32 ?m] by auto
  from Suc.hyps(1)[OF this] obtain t' where "recv_wrs True (i + 1) n (s + ?k * 16) t1 = Ok t'" "lkeys_touched t1 t'"
    "req_body t' = link_wrs (\<lambda>q m. m) ?L (req_addr t) 32 32 (i + 1) n (s + ?k * 16) ?m'"
    using same m1 by auto
  then show ?case
    unfolding step using lkeys_touched_trans[OF touched] recv_reqs.link_wrs_step[OF lt] by auto
qed

text \<open>The same for the sends of the shared-memory path, while the map of remote keys does not change.\<close>

lemma retry_rkey_const: "fst (retry_rkey (\<lambda>_. rkeys) rkey k count) = rkeys rkey"
proof (induction "\<lambda>_ :: nat. rkeys" rkey k count rule: retry_rkey.induct)
  case (1 rkey k count)
  then show ?case by (subst retry_rkey.simps) (auto split: option.splits)
qed

lemma fix_remote_single:
  "(case rkeys (get_u32 m (q + 48)) of None \<Rightarrow> m | Some e \<Rightarrow> fix_remote [get_u32 m (q + 48) \<mapsto> e] q m) = fix_remote rkeys q m"
  by (auto simp: fix_remote_def layout split: option.splits)

lemma fast_send_wrs_step:
  assumes "i < n" "32 + i * 128 + 128 \<le> cap t"
    and num: "nat (get_int (fix_next (req_addr t) 32 128 8 i n (fix_remote_of rkeys (32 + i * 128) (req_body t))) (32 + i * 128 + 24)) = j"
    and sges: "recv_sges j s (t\<lparr>req_body :=
        put_u64 (fix_next (req_addr t) 32 128 8 i n (fix_remote_of rkeys (32 + i * 128) (req_body t))) (32 + i * 128 + 16)
          (if 0 < j then addr_of (req_addr t) s else NULL)\<rparr>) = Ok t1"
  shows "\<exists>k' c'. fast_send_wrs (\<lambda>_. rkeys) False k c i n s a t =
    fast_send_wrs (\<lambda>_. rkeys) False k' c' (i + 1) n (s + j * 16) a t1"
proof -
  obtain q where q: "32 + i * 128 = q" by simp
  let ?m = "req_body t"
  show ?thesis
  proof (cases "one_sided (get_u32 ?m (q + 28))")
    case True
    obtain k' c' where "retry_rkey (\<lambda>_. rkeys) (get_u32 ?m (q + 48)) k c = (rkeys (get_u32 ?m (q + 48)), k', c')"
      using retry_rkey_const[of rkeys "get_u32 ?m (q + 48)" k c] by (metis prod.collapse)
    with True have "fast_send_wrs (\<lambda>_. rkeys) False k c i n s a t =
        fast_send_wrs (\<lambda>_. rkeys) False k' c' (i + 1) n (s + j * 16) a t1"
      using assms q
      by (subst fast_send_wrs.simps)
        (simp add: layout Let_def fix_remote_single fix_remote_of_def del: zero_less_nat_eq)
    then show ?thesis by blast
  next
    case False
    with assms q have "fast_send_wrs (\<lambda>_. rkeys) False k c i n s a t =
        fast_send_wrs (\<lambda>_. rkeys) False k c (i + 1) n (s + j * 16) a t1"
      by (subst fast_send_wrs.simps) (simp add: layout Let_def fix_remote_of_def del: zero_less_nat_eq)
    then show ?thesis by blast
  qed
qed

lemma fast_send_wrs_link:
  assumes "32 + n * 128 \<le> s" "s + (\<Sum>x = i..<n. num_sges 32 128 (req_body t) x) * 16 \<le> cap t"
  shows "\<exists>t'. fast_send_wrs (\<lambda>_. rkeys) False k c i n s a t = Ok t' \<and> lkeys_touched t t' \<and>
    req_body t' = link_wrs (fix_remote_of rkeys) (lkey_base (ffr t)) (req_addr t) 32 128 i n s (req_body t)"
  using assms
proof (induction "n - i" arbitrary: i s t k c)
  case 0
  then show ?case
    using lkeys_touched_refl[of t "req_body t"] by (simp add: fast_send_wrs.simps link_wrs.simps)
next
  case (Suc d)
  let ?m = "req_body t" and ?L = "lkey_base (ffr t)" and ?q = "32 + i * 128"
  let ?k = "num_sges 32 128 ?m i" and ?m' = "link_wr (fix_remote_of rkeys) ?L (req_addr t) 32 128 i n s ?m"
  let ?m1 = "fix_next (req_addr t) 32 128 8 i n (fix_remote_of rkeys ?q ?m)"
  let ?m2 = "put_u64 ?m1 (?q + 16) (if 0 < ?k then addr_of (req_addr t) s else NULL)"
  have lt: "i < n" using Suc.hyps(2) by simp
  have room: "?q + 128 \<le> cap t" using send_reqs.apart[OF lt] Suc.prems by linarith
  have num: "nat (get_int ?m1 (?q + 24)) = ?k"
    using send_reqs.num_sges_pre[where rkeys = rkeys and base = "req_addr t" and i = i and n = n and m = ?m] by (simp add: num_sges_def)
  have "s + ?k * 16 \<le> cap t" using Suc.prems(2) sum_num_sges_head[OF lt, of 32 128 ?m] by simp
  then obtain t1 where t1: "recv_sges ?k s (t\<lparr>req_body := ?m2\<rparr>) = Ok t1" "lkeys_touched (t\<lparr>req_body := ?m2\<rparr>) t1"
    "req_body t1 = fix_sges ?L ?k s ?m2"
    using recv_sges_fix[of ?k s "t\<lparr>req_body := ?m2\<rparr>"] by auto
  obtain k' c' where step: "fast_send_wrs (\<lambda>_. rkeys) False k c i n s a t =
      fast_send_wrs (\<lambda>_. rkeys) False k' c' (i + 1) n (s + ?k * 16) a t1"
    using fast_send_wrs_step[OF lt room num t1(1)] by blast
  have m1: "req_body t1 = ?m'" using t1(3) by (simp only: send_reqs.link_wr_eq)
  have touched: "lkeys_touched t t1" using lkeys_touched_trans[OF lkeys_touched_refl t1(2)] .
  then have same: "cap t1 = cap t" "req_addr t1 = req_addr t" "lkey_base (ffr t1) = ?L"
    unfolding lkeys_touched_def by auto
  have sum: "(\<Sum>x = i + 1..<n. num_sges 32 128 (req_body t1) x) = (\<Sum>x = i + 1..<n. num_sges 32 128 ?m x)"
    unfolding m1 using lt Suc.prems(1) by (intro send_reqs.sum_num_sges_later) auto
  have "d = n - (i + 1)" "32 + n * 128 \<le> s + ?k * 16"
    "s + ?k * 16 + (\<Sum>x = i + 1..<n. num_sges 32 128 (req_body t1) x) * 16 \<le> cap t1"
    using Suc.hyps(2) Suc.prems sum same sum_num_sges_head[OF lt, of 32 128 ?m] by auto
  from Suc.hyps(1)[OF this] obtain t' where "fast_send_wrs (\<lambda>_. rkeys) False k' c' (i + 1) n (s + ?k * 16) a t1 = Ok t'"
    "lkeys_touched t1 t'"
    "req_body t' = link_wrs (fix_remote_of rkeys) ?L (req_addr t) 32 128 (i + 1) n (s + ?k * 16) ?m'"
    using same m1 by fastforce
  then show ?case
    unfolding step using lkeys_touched_trans[OF touched] send_reqs.link_wrs_step[OF lt] by auto
qed


lemma lkey_base_tokenbucket [simp]: "lkey_base (r\<lparr>tokenbucket := b\<rparr>) = lkey_base r"
  by (simp add: lkey_base_def fun_eq_iff)





section \<open>What the verbs library finds\<close>

text \<open>The library starts at a pointer and follows the links; \<open>base\<close> is the address of the buffer.\<close>

fun follow_links :: "nat \<Rightarrow> u64 \<Rightarrow> mem \<Rightarrow> u64 \<Rightarrow> u64 list option" where
  "follow_links 0 base m p = (if p = NULL then Some [] else None)"
| "follow_links (Suc n) base m p =
     (if p = NULL then Some []
      else map_option ((#) p) (follow_links n base m (get_u64 m (unat (p - base) + 8))))"

text \<open>
  \<open>m\<close> is the request as the client sent it and \<open>m'\<close> what the library is given: from the first work
  request the links lead through all \<open>n\<close> in order and end; each points at its own entries, or nowhere if
  it has none; every entry has the address of its key added and keeps its length and key; the rest of
  a work request is what \<open>pre\<close> makes of it.
\<close>

definition library_sees ::
  "(nat \<Rightarrow> mem \<Rightarrow> mem) \<Rightarrow> (u32 \<Rightarrow> u64) \<Rightarrow> u64 \<Rightarrow> nat \<Rightarrow> nat \<Rightarrow> nat \<Rightarrow> mem \<Rightarrow> mem \<Rightarrow> bool" where
  "library_sees pre L base F W n m m' =
     (let s = F + n * W; tot = (\<lambda>l. (\<Sum>x = 0..<l. num_sges F W m x))
      in follow_links n base m' (addr_of base F) = Some (map (\<lambda>l. addr_of base (F + l * W)) [0..<n]) \<and>
         (\<forall>l < n.
            get_u64 m' (F + l * W + 16) = (if 0 < num_sges F W m l then addr_of base (s + tot l * 16) else NULL) \<and>
            get_bytes m' (F + l * W) 8 = get_bytes m (F + l * W) 8 \<and>
            get_bytes m' (F + l * W + 24) (W - 24) = get_bytes (pre (F + l * W) m) (F + l * W + 24) (W - 24)) \<and>
         (\<forall>j < tot n.
            get_u64 m' (s + j * 16) = L (get_u32 m (s + j * 16 + 12)) + get_u64 m (s + j * 16) \<and>
            get_bytes m' (s + j * 16 + 8) 8 = get_bytes m (s + j * 16 + 8) 8))"

lemma addr_of_back: "unat base + p < 2 ^ 64 \<Longrightarrow> unat (addr_of base p - base) = p"
  by (simp add: addr_of_def unat_of_nat)

lemma addr_of_nonnull: "unat base + p < 2 ^ 64 \<Longrightarrow> 0 < p \<Longrightarrow> addr_of base p \<noteq> NULL"
proof -
  assume *: "unat base + p < 2 ^ 64" "0 < p"
  then have "unat (addr_of base p) = unat base + p"
    by (simp add: addr_of_def unat_word_ariths unat_of_nat)
  with *(2) show ?thesis by (auto simp: NULL_def)
qed

context work_requests
begin

lemma follow_links_link_wrs:
  assumes "0 < F" "F + n * W \<le> s" "unat base + (F + n * W) < 2 ^ 64" "l < n"
  shows "follow_links (n - l) base (link_wrs pre L base F W 0 n s m) (addr_of base (F + l * W))
    = Some (map (\<lambda>l. addr_of base (F + l * W)) [l..<n])"
  using assms(4)
proof (induction "n - l" arbitrary: l)
  case 0
  then show ?case by simp
next
  case (Suc d)
  let ?m = "link_wrs pre L base F W 0 n s m"
  have bound: "unat base + (F + l * W) < 2 ^ 64" using apart[OF Suc.prems] assms(3) by simp
  have nn: "addr_of base (F + l * W) \<noteq> NULL" using bound assms(1) by (intro addr_of_nonnull) auto
  have nx: "get_u64 ?m (F + l * W + 8) = (if n - 1 \<le> l then NULL else addr_of base (F + (l + 1) * W))"
    using link_wrs_fields[of 0 l n s L base m] Suc.prems assms(2) by simp
  have step: "follow_links (n - l) base ?m (addr_of base (F + l * W)) =
      map_option ((#) (addr_of base (F + l * W))) (follow_links d base ?m (get_u64 ?m (F + l * W + 8)))"
    using nn addr_of_back[OF bound] Suc.hyps(2)[symmetric] by simp
  have upt: "[l..<n] = l # [l + 1..<n]" using Suc.prems by (simp add: upt_conv_Cons)
  show ?case
  proof (cases "l + 1 < n")
    case True
    have "d = n - (l + 1)" using Suc.hyps(2) by simp
    with Suc.hyps(1)[OF this True] True show ?thesis unfolding step upt by (simp add: nx)
  next
    case False
    then have "d = 0" "n = l + 1" using Suc by auto
    then have "get_u64 ?m (F + l * W + 8) = NULL" using nx by simp
    with \<open>d = 0\<close> False show ?thesis unfolding step upt by simp
  qed
qed

lemma library_sees_link_wrs:
  assumes "0 < F" "0 < n" "unat base + (F + n * W) < 2 ^ 64"
  shows "library_sees pre L base F W n m (link_wrs pre L base F W 0 n (F + n * W) m)"
proof -
  let ?s = "F + n * W"
  let ?m = "link_wrs pre L base F W 0 n ?s m"
  note fields = link_wrs_fields[of 0 _ n ?s L base m, simplified]
  note sges = link_wrs_sges[of 0 n ?s _ m L base, simplified]
  have "follow_links n base ?m (addr_of base F) = Some (map (\<lambda>l. addr_of base (F + l * W)) [0..<n])"
    using follow_links_link_wrs[of n ?s base 0 L m] assms by simp
  moreover have "get_bytes ?m (F + l * W) 8 = get_bytes m (F + l * W) 8" if "l < n" for l
    using fields[OF that] by (intro get_bytes_cong) (simp add: pre_outside)
  moreover have "get_bytes ?m (F + l * W + 24) (W - 24) = get_bytes (pre (F + l * W) m) (F + l * W + 24) (W - 24)"
    if "l < n" for l
    using fields[OF that] W by (intro get_bytes_cong) simp
  moreover have "get_bytes ?m (?s + j * 16 + 8) 8 = get_bytes m (?s + j * 16 + 8) 8"
    if "j < (\<Sum>x = 0..<n. num_sges F W m x)" for j
    using sges[of j] that by (intro get_bytes_cong) simp
  ultimately show ?thesis
    unfolding library_sees_def Let_def using fields sges by simp
qed

end

section \<open>Properties\<close>

lemma recv_posted_full:
  assumes "os_read E (client_sock t) (unat n) (world t) = (int (unat n), bs, w)" "length bs = unat n" "unat n \<le> cap t"
  shows "recv_posted E n t k = k (t\<lparr>world := w, req_body := put_bytes (req_body t) 0 bs\<rparr>)"
  using assms by (simp add: recv_posted_def)

text \<open>
  C5: receives posted over the socket. When the whole request arrives, its queue pair is known and its
  work requests and entries fit into the buffer, the handler calls the verbs library on a buffer in
  which the library finds exactly the work requests the client sent, in order, each with its entries,
  and every entry at the router's address of its memory.
\<close>

theorem posted_receives_reach_library:
  assumes "os_read E (client_sock t) (unat (body_size h)) (world t) = (int (unat (body_size h)), bs, w)"
    and "length bs = unat (body_size h)" "unat (body_size h) \<le> cap t"
    and "m = put_bytes (req_body t) 0 bs" "n = unat (get_u32 m 20)" "0 < n"
    and "32 + n * 32 + (\<Sum>x = 0..<n. num_sges 32 32 m x) * 16 \<le> cap t" "unat (req_addr t) + cap t < 2 ^ 64"
    and "unat (get_u32 m 16) < MAP_SIZE" "qp = qp_map (ffr t) (unat (get_u32 m 16))" "qp \<noteq> NULL"
  shows "\<exists>t'. library_sees (\<lambda>q m. m) (lkey_base (ffr t)) (req_addr t) 32 32 n m (req_body t') \<and>
    on_POST_RECV E V h t =
      post_recv_rsp IBV_POST_RECV_RSP (addr_of (req_addr t) 32) t'
        (v_post_recv V qp (req_body t') (addr_of (req_addr t) 32) w)"
proof -
  let ?t = "t\<lparr>world := w, req_body := m\<rparr>"
  obtain t' where t': "recv_wrs True 0 n (32 + n * 32) ?t = Ok t'" "lkeys_touched ?t t'"
    "req_body t' = link_wrs (\<lambda>q m. m) (lkey_base (ffr t)) (req_addr t) 32 32 0 n (32 + n * 32) m"
    using recv_wrs_link[where n = n and s = "32 + n * 32" and i = 0 and t = ?t] assms(7) by auto
  have "library_sees (\<lambda>q m. m) (lkey_base (ffr t)) (req_addr t) 32 32 n m (req_body t')"
    unfolding t'(3) using assms(6-8) by (intro recv_reqs.library_sees_link_wrs) auto
  moreover have "world t' = w" "req_addr t' = req_addr t" using t'(2) unfolding lkeys_touched_def by auto
  moreover have "on_POST_RECV E V h t = andThen (recv_wrs True 0 n (32 + n * 32) ?t) (\<lambda>t.
      deref qp (let wr = addr_of (req_addr t) 32
        in post_recv_rsp IBV_POST_RECV_RSP wr t (v_post_recv V qp (req_body t) wr (world t))))"
    unfolding on_POST_RECV_def recv_posted_full[OF assms(1-3)]
    using assms(4,5,9,10) by (simp add: layout req_u32_def Let_def)
  ultimately show ?thesis using t'(1) assms(11) by (intro exI[of _ t']) (simp add: deref_def Let_def)
qed

text \<open>A request with one work request and one entry, of key 11, for the queue pair 7.\<close>

definition demo_post_recv :: bytes where
  "demo_post_recv =
     get_bytes (put_u32 (put_u64 (put_u32 (put_u32 (put_u32 (\<lambda>_. 0) 16 7) 20 1) 56 1) 64 0x30) 76 11) 0 80"

definition demo_qp_router :: router where
  "demo_qp_router = demo_router\<lparr>qp_map := (\<lambda>_. 0x3000), lkey_ptr := [11 \<mapsto> 0x7f0000000000]\<rparr>"

lemma demo_post_recv_fields:
  "get_u32 (put_bytes m 0 demo_post_recv) 20 = 1" "get_u32 (put_bytes m 0 demo_post_recv) 16 = 7"
  "get_int (put_bytes m 0 demo_post_recv) 56 = 1" "get_u32 (put_bytes m 0 demo_post_recv) 76 = 11"
  "get_u64 (put_bytes m 0 demo_post_recv) 64 = 0x30"
  unfolding demo_post_recv_def by (simp_all add: get_u32_copy get_u64_copy get_int_def)

theorem posted_receives_reach_library_witness:
  "\<exists>t'. get_u64 (req_body t') 64 = 0x7f0000000030 \<and>
    on_POST_RECV demo_os demo_verbs \<lparr>client_id = 1, func = 20, body_size = 80\<rparr> (demo_thr demo_qp_router demo_post_recv) =
      post_recv_rsp IBV_POST_RECV_RSP (addr_of 0x10000 32) t'
        (v_post_recv demo_verbs 0x3000 (req_body t') (addr_of 0x10000 32) [])"
proof -
  let ?m = "put_bytes (\<lambda>_. 0) 0 demo_post_recv" and ?r = demo_qp_router
  have len: "length demo_post_recv = 80" by (simp add: demo_post_recv_def)
  have num: "num_sges 32 32 ?m 0 = 1" by (simp add: num_sges_def demo_post_recv_fields)
  have r: "qp_map ?r 7 = 0x3000" "lkey_base ?r 11 = 0x7f0000000000"
    by (simp_all add: demo_qp_router_def lkey_base_def)
  have "\<exists>t'. library_sees (\<lambda>q m. m) (lkey_base ?r) 0x10000 32 32 1 ?m (req_body t') \<and>
    on_POST_RECV demo_os demo_verbs \<lparr>client_id = 1, func = 20, body_size = 80\<rparr> (demo_thr ?r demo_post_recv) =
      post_recv_rsp IBV_POST_RECV_RSP (addr_of 0x10000 32) t'
        (v_post_recv demo_verbs 0x3000 (req_body t') (addr_of 0x10000 32) [])"
    using posted_receives_reach_library[of demo_os "demo_thr ?r demo_post_recv"
        "\<lparr>client_id = 1, func = 20, body_size = 80\<rparr>" demo_post_recv "[]" ?m 1 "0x3000" demo_verbs]
    by (simp add: len num r demo_post_recv_fields MAP_SIZE_def NULL_def)
  moreover have "get_u64 m' 64 = 0x7f0000000030" if "library_sees (\<lambda>q m. m) (lkey_base ?r) 0x10000 32 32 1 ?m m'" for m'
    using that num by (simp add: library_sees_def demo_post_recv_fields r)
  ultimately show ?thesis by blast
qed

text \<open>The response area of a piece after a send: the size of the answer, then its two fields.\<close>

lemma lkey_base_bucket_at [simp]: "lkey_base (bucket_at h r) = lkey_base r"
  by (simp add: bucket_at_def split: option.splits)

lemma get_u32_above:
  "n \<le> p \<Longrightarrow> get_u32 (\<lambda>i. if i < n then f i else g (i - n)) p = get_u32 g (p - n)"
  unfolding get_u32_def get_bytes_def by (rule arg_cong[where f = "\<lambda>x. word_of_nat (le_val x)"]) auto

lemma piece_done_rsp:
  assumes "4 \<le> q"
  shows "get_u32 (cs_rsp (ctrl (c_ffr (piece_done p (Some k) t c)) p)) q = get_u32 (rsp t) (q - 4)"
  using assms by (simp add: piece_done_def Let_def layout put_int_def get_u32_above cong: if_cong)

lemma piece_done_size:
  "get_u32 (cs_rsp (ctrl (c_ffr (piece_done p (Some k) t c)) p)) 0 = word_of_int k"
  by (simp add: piece_done_def Let_def layout put_int_def)

lemma fast_post_send_sees:
  assumes "m = req_body (piece_view p c)" "n = unat (get_u32 m 20)" "0 < n" "base = req_addr (piece_view p c)"
    and "32 + n * 128 + (\<Sum>x = 0..<n. num_sges 32 128 m x) * 16 \<le> CTRL_REQ_SIZE - 12"
    and "unat base + CTRL_REQ_SIZE < 2 ^ 64"
    and "unat (get_u32 m 16) < MAP_SIZE" "qp = qp_map (c_ffr c) (unat (get_u32 m 16))" "qp \<noteq> NULL"
    and "qp_type_of V (c_world c) qp \<noteq> IBV_QPT_UD"
  shows "\<exists>m' c'. library_sees (fix_remote_of rkeys) (lkey_base (c_ffr c)) base 32 128 n m m' \<and>
    fast_post_send (\<lambda>_. rkeys) V p c = Ok c' \<and>
    (case v_post_send V qp m' (addr_of base 32) (c_world c) of (ret, bad_wr, w) \<Rightarrow>
      c_world c' = w \<and> cs_state (ctrl (c_ffr c') p) = RSP_DONE \<and>
      get_u32 (cs_rsp (ctrl (c_ffr c') p)) 0 = 8 \<and>
      get_u32 (cs_rsp (ctrl (c_ffr c') p)) 4 = word_of_int ret \<and>
      get_u32 (cs_rsp (ctrl (c_ffr c') p)) 8 = (if bad_wr = NULL then 0 else bad_index bad_wr (addr_of base 32) 128))"
proof -
  let ?h = "get_u32 m 16"
  let ?t = "piece_view p c\<lparr>ffr := bucket_at ?h (ffr (piece_view p c))\<rparr>"
  have view: "ffr (piece_view p c) = c_ffr c" "world (piece_view p c) = c_world c"
    "cap (piece_view p c) = CTRL_REQ_SIZE - 12"
    by (simp_all add: piece_view_def Let_def layout)
  let ?a = "32 + n * 128 + unat (get_u32 m 24) * 16"
  obtain t' where t': "fast_send_wrs (\<lambda>_. rkeys) False 0 0 0 n (32 + n * 128) ?a ?t = Ok t'" "lkeys_touched ?t t'"
    "req_body t' = link_wrs (fix_remote_of rkeys) (lkey_base (c_ffr c)) base 32 128 0 n (32 + n * 128) m"
    using fast_send_wrs_link[where n = n and s = "32 + n * 128" and i = 0 and t = ?t and rkeys = rkeys and k = 0 and c = 0 and a = ?a]
      assms(1,4,5) view by auto
  have w: "world t' = c_world c" "req_addr t' = base"
    using t'(2) view assms(4) unfolding lkeys_touched_def by auto
  obtain ret bad_wr w where lib: "v_post_send V qp (req_body t') (addr_of base 32) (c_world c) = (ret, bad_wr, w)"
    using prod_cases3 by blast
  define c' where "c' = piece_done p (Some (int (size_of IBV_POST_SEND_RSP)))
    (rsp_u32 4 (if bad_wr = NULL then 0 else bad_index bad_wr (addr_of base 32) 128)
      (rsp_int 0 ret (t'\<lparr>world := w\<rparr>))) (c\<lparr>c_qp := qp\<rparr>)"
  have run: "fast_post_send (\<lambda>_. rkeys) V p c = Ok c'"
    unfolding fast_post_send_def c'_def using assms(1,2,7-10) t'(1) view w lib
    by (simp add: layout req_u32_def Let_def deref_def rsp_int_def rsp_u32_def)
  moreover have "library_sees (fix_remote_of rkeys) (lkey_base (c_ffr c)) base 32 128 n m (req_body t')"
    unfolding t'(3) using assms(3,5,6) by (intro send_reqs.library_sees_link_wrs) auto
  moreover have "c_world c' = w" "cs_state (ctrl (c_ffr c') p) = RSP_DONE"
    by (simp_all add: c'_def piece_done_def Let_def rsp_u32_def rsp_int_def)
  moreover have "get_u32 (cs_rsp (ctrl (c_ffr c') p)) 0 = 8"
    "get_u32 (cs_rsp (ctrl (c_ffr c') p)) 4 = word_of_int ret"
    "get_u32 (cs_rsp (ctrl (c_ffr c') p)) 8 = (if bad_wr = NULL then 0 else bad_index bad_wr (addr_of base 32) 128)"
    unfolding c'_def by (simp_all add: piece_done_rsp piece_done_size layout rsp_u32_def rsp_int_def put_int_def)
  ultimately show ?thesis using lib by (intro exI[of _ "req_body t'"] exI[of _ c']) simp
qed

text \<open>
  C4: sends over shared memory, on a queue pair that is not of datagram type. While the map of remote keys
  does not change, a request that fits into the piece is answered: the library is called on a buffer in
  which it finds the client's work requests in order, each with its entries, the entries and the remote
  addresses of one-sided requests translated; the piece is marked answered and holds the size of the
  answer, the library's result and the index of the request it rejected.
\<close>

theorem fast_sends_reach_library:
  assumes "m = req_body (piece_view p c)" "n = unat (get_u32 m 20)" "0 < n" "base = req_addr (piece_view p c)"
    and "32 + n * 128 + (\<Sum>x = 0..<n. num_sges 32 128 m x) * 16 \<le> CTRL_REQ_SIZE - 12"
    and "unat base + CTRL_REQ_SIZE < 2 ^ 64"
    and "unat (get_u32 m 16) < MAP_SIZE" "qp = qp_map (c_ffr c) (unat (get_u32 m 16))" "qp \<noteq> NULL"
    and "qp_type_of V (c_world c) qp \<noteq> IBV_QPT_UD"
  shows "\<exists>m' c'. library_sees (fix_remote_of rkeys) (lkey_base (c_ffr c)) base 32 128 n m m' \<and>
    fast_post_send (\<lambda>_. rkeys) V p c = Ok c' \<and>
    (case v_post_send V qp m' (addr_of base 32) (c_world c) of (ret, bad_wr, w) \<Rightarrow>
      c_world c' = w \<and> cs_state (ctrl (c_ffr c') p) = RSP_DONE \<and>
      get_u32 (cs_rsp (ctrl (c_ffr c') p)) 0 = 8 \<and>
      get_u32 (cs_rsp (ctrl (c_ffr c') p)) 4 = word_of_int ret \<and>
      get_u32 (cs_rsp (ctrl (c_ffr c') p)) 8 = (if bad_wr = NULL then 0 else bad_index bad_wr (addr_of base 32) 128))"
  using assms by (rule fast_post_send_sees)

text \<open>A one-sided write of one entry, of local key 11 and remote key 99, in the piece of queue pair 7.\<close>

definition demo_post_send :: mem where
  "demo_post_send =
     put_u32 (put_u64 (put_u32 (put_u64 (put_u32 (put_u32 (put_u32 (\<lambda>_. 0) 16 7) 20 1) 56 1) 72 0x40100) 80 99) 160 0x30) 172 11"

definition demo_piece_ctl :: "bytes ctl" where
  "demo_piece_ctl =
     \<lparr>c_ffr = demo_qp_router\<lparr>ctrl := (\<lambda>_. \<lparr>cs_state = REQ_DONE,
        cs_req = (\<lambda>i. if i < 12 then 0 else demo_post_send (i - 12)), cs_rsp = (\<lambda>_. 0)\<rparr>)\<rparr>,
      c_world = [], c_qp = NULL, c_cq = NULL, c_srq = NULL\<rparr>"

lemma demo_piece_view:
  "req_body (piece_view 0x200000 demo_piece_ctl) = demo_post_send"
  "req_addr (piece_view 0x200000 demo_piece_ctl) = 0x200010"
  by (simp_all add: piece_view_def demo_piece_ctl_def layout Let_def)

lemma demo_post_send_fields:
  "get_u32 demo_post_send 20 = 1" "get_u32 demo_post_send 16 = 7" "get_int demo_post_send 56 = 1"
  by (simp_all add: demo_post_send_def get_int_def)

theorem fast_sends_reach_library_witness:
  "\<exists>c'. fast_post_send (\<lambda>_. [99 \<mapsto> \<lparr>mr_ptr = 0x40000, shm_ptr = 0x7e0000000000\<rparr>]) demo_verbs 0x200000 demo_piece_ctl = Ok c' \<and>
    cs_state (ctrl (c_ffr c') 0x200000) = RSP_DONE \<and> get_u32 (cs_rsp (ctrl (c_ffr c') 0x200000)) 0 = 8"
proof -
  have num: "num_sges 32 128 demo_post_send 0 = 1" by (simp add: num_sges_def demo_post_send_fields)
  have r: "qp_map (c_ffr demo_piece_ctl) 7 = 0x3000" by (simp add: demo_piece_ctl_def demo_qp_router_def)
  have v: "qp_type_of demo_verbs w qp = 2" "v_post_send demo_verbs qp m q w = (0, NULL, w)" for w qp m q
    by (simp_all add: demo_verbs_def)
  show ?thesis
    using fast_sends_reach_library[of demo_post_send "0x200000" demo_piece_ctl 1 "0x200010" "0x3000" demo_verbs
        "[99 \<mapsto> \<lparr>mr_ptr = 0x40000, shm_ptr = 0x7e0000000000\<rparr>]"]
    by (auto simp: demo_piece_view demo_post_send_fields num r v CTRL_REQ_SIZE_def MAP_SIZE_def NULL_def IBV_QPT_UD_def)
qed





end
