(* ===== verification/FF_Channel.thy ===== *)
theory FF_Channel
  imports FF_Rewrite FF_Client
begin

text \<open>
  The shared-memory channel between client and router. An interface gives what a scan of
  \<^verbatim>\<open>CtrlChannelLoop\<close> needs of the service of one piece: it touches no other piece, leaves the tables of the
  router alone and does nothing without a request. The scans of queue pairs and shared queues
  also answer every request; the scan of completion queues does not, and its index jumps.
\<close>

section \<open>Pieces\<close>

definition piece_at :: "(router \<Rightarrow> shm_table) \<Rightarrow> router \<Rightarrow> u32 \<Rightarrow> u64 option" where
  "piece_at pieces r h = (if unat h < MAP_SIZE then map_option sp_ptr (pieces r (unat h)) else None)"

definition same_tables :: "router \<Rightarrow> router \<Rightarrow> bool" where
  "same_tables r r' = (\<exists>lp tb cm. r' = r\<lparr>lkey_ptr := lp, tokenbucket := tb, ctrl := cm\<rparr>)"

definition keys_only :: "router \<Rightarrow> router \<Rightarrow> bool" where
  "keys_only r r' = (\<exists>lp tb. r' = r\<lparr>lkey_ptr := lp, tokenbucket := tb\<rparr>)"

lemma keys_only_refl [simp]: "keys_only r r"
  unfolding keys_only_def by (rule exI[of _ "lkey_ptr r"], rule exI[of _ "tokenbucket r"]) simp

lemma keys_only_trans: "keys_only r r1 \<Longrightarrow> keys_only r1 r2 \<Longrightarrow> keys_only r r2"
  unfolding keys_only_def by (elim exE) (simp, blast)

lemma keys_only_ctrl: "keys_only r r' \<Longrightarrow> ctrl r' = ctrl r"
  by (auto simp: keys_only_def)

lemma keys_only_upd [simp]: "keys_only r (r\<lparr>lkey_ptr := lp\<rparr>)" "keys_only r (r\<lparr>tokenbucket := tb\<rparr>)"
  unfolding keys_only_def
  by (rule exI[of _ lp], rule exI[of _ "tokenbucket r"], simp)
     (rule exI[of _ "lkey_ptr r"], rule exI[of _ tb], simp)

lemma same_tables_refl [simp]: "same_tables r r"
  unfolding same_tables_def
  by (rule exI[of _ "lkey_ptr r"], rule exI[of _ "tokenbucket r"], rule exI[of _ "ctrl r"]) simp

lemma same_tables_trans: "same_tables r r1 \<Longrightarrow> same_tables r1 r2 \<Longrightarrow> same_tables r r2"
  unfolding same_tables_def by (elim exE) (simp, blast)

lemma same_tables_sel:
  "same_tables r r' \<Longrightarrow> qp_shm_map r' = qp_shm_map r" "same_tables r r' \<Longrightarrow> cq_shm_map r' = cq_shm_map r"
  "same_tables r r' \<Longrightarrow> srq_shm_map r' = srq_shm_map r" "same_tables r r' \<Longrightarrow> cq_shm_vec r' = cq_shm_vec r"
  "same_tables r r' \<Longrightarrow> qp_shm_vec r' = qp_shm_vec r" "same_tables r r' \<Longrightarrow> srq_shm_vec r' = srq_shm_vec r"
  "same_tables r r' \<Longrightarrow> cq_map r' = cq_map r" "same_tables r r' \<Longrightarrow> qp_map r' = qp_map r"
  by (auto simp: same_tables_def)

lemma keys_only_same: "keys_only r r' \<Longrightarrow> same_tables r (r'\<lparr>ctrl := cm\<rparr>)"
  by (auto simp: keys_only_def same_tables_def)

section \<open>What serving a request changes\<close>

lemma lkey_at_keys: "lkey_at key r = (b, r') \<Longrightarrow> keys_only r r'"
  using lkey_at_base[of key r] by auto

lemma recv_sges_keys: "recv_sges k s t = Ok t' \<Longrightarrow> keys_only (ffr t) (ffr t')"
  by (induction k s t rule: recv_sges.induct)
    (auto simp: Let_def split: if_splits prod.splits dest!: lkey_at_keys elim: keys_only_trans)

lemma recv_wrs_keys: "recv_wrs clear i n s t = Ok t' \<Longrightarrow> keys_only (ffr t) (ffr t')"
proof (induction clear i n s t rule: recv_wrs.induct)
  case (1 clear i n s t)
  show ?case
  proof (cases "n \<le> i")
    case True
    then show ?thesis using "1.prems" by (simp add: recv_wrs.simps[of clear i n s t])
  next
    case False
    show ?thesis
      using "1.prems" "1.IH"[OF False refl _ refl refl refl]
      by (subst (asm) recv_wrs.simps)
        (fastforce simp: Let_def andThen_Ok False split: if_splits dest: recv_sges_keys elim: keys_only_trans)
  qed
qed

text \<open>The same as a property of a computation, for the loop with many branches.\<close>

definition keeps :: "router \<Rightarrow> 'w thr run \<Rightarrow> bool" where
  "keeps r x = (\<forall>t. x = Ok t \<longrightarrow> keys_only r (ffr t))"

lemma keeps_intros:
  "keys_only r (ffr t) \<Longrightarrow> keeps r (Ok t)" "keeps r (Undefined u)"
  "keys_only r (ffr t) \<Longrightarrow> keeps r (recv_sges j s t)"
  "keeps r x \<Longrightarrow> (\<And>t. keys_only r (ffr t) \<Longrightarrow> keeps r (k t)) \<Longrightarrow> keeps r (andThen x k)"
  "(\<And>v. keeps r (f v)) \<Longrightarrow> keeps r (slot m i f)"
  "(\<And>v. keeps r (g v)) \<Longrightarrow> keeps r (Let v g)"
  "(\<And>a b. keeps r (h a b)) \<Longrightarrow> keeps r (case p of (a, b) \<Rightarrow> h a b)"
  "keeps r y \<Longrightarrow> keeps r z \<Longrightarrow> keeps r (if b then y else z)"
  by (auto simp: keeps_def andThen_Ok slot_def split: prod.splits dest: recv_sges_keys intro: keys_only_trans)

lemma keeps_fast_send_wrs: "keys_only r (ffr t) \<Longrightarrow> keeps r (fast_send_wrs views ud k count i n s a t)"
proof (induction "n - i" arbitrary: k count i s t)
  case 0
  then show ?case by (simp add: fast_send_wrs.simps[of views ud k count i n s a t] keeps_intros)
next
  case (Suc x)
  then have "x = n - (i + 1)" by simp
  note IH = Suc.hyps(1)[OF this]
  show ?case
    by (subst fast_send_wrs.simps) (intro keeps_intros IH; simp add: Suc.prems)
qed

lemma fast_send_wrs_keys: "fast_send_wrs views ud k count i n s a t = Ok t' \<Longrightarrow> keys_only (ffr t) (ffr t')"
  using keeps_fast_send_wrs[of "ffr t" t] by (simp add: keeps_def)

lemma keys_only_bucket_at [simp]: "keys_only r (bucket_at h r)"
  by (simp add: bucket_at_def split: option.splits)

text \<open>A finished request: only the piece at \<open>p\<close> has changed, and it is answered.\<close>

definition answered :: "u64 \<Rightarrow> 'w ctl \<Rightarrow> 'w ctl \<Rightarrow> bool" where
  "answered p c c' =
     (same_tables (c_ffr c) (c_ffr c') \<and> (\<forall>q. q \<noteq> p \<longrightarrow> ctrl (c_ffr c') q = ctrl (c_ffr c) q) \<and>
      cs_state (ctrl (c_ffr c') p) = RSP_DONE)"

lemma answered_piece_done:
  "keys_only (c_ffr c) (ffr t) \<Longrightarrow> answered p c (piece_done p n t c')"
  by (auto simp: answered_def piece_done_def Let_def keys_only_ctrl intro: keys_only_same)

lemma ffr_piece_view [simp]: "ffr (piece_view p c) = c_ffr c"
  by (simp add: piece_view_def Let_def)

lemma ffr_rsp [simp]: "ffr (rsp_int i v t) = ffr t" "ffr (rsp_u32 i u t) = ffr t" "ffr (rsp_bytes i bs t) = ffr t"
  by (simp_all add: rsp_int_def rsp_u32_def rsp_bytes_def)

lemma ffr_fast_recv_rsp [simp]: "ffr (fast_recv_rsp R wr t res) = ffr t"
  by (simp add: fast_recv_rsp_def Let_def split: prod.splits)

lemma fast_post_send_answers:
  assumes "fast_post_send views V p c = Ok c'"
  shows "answered p c c'"
  using assms
  by (auto simp: fast_post_send_def Let_def deref_def andThen_Ok split: if_splits prod.splits
      dest!: fast_send_wrs_keys intro!: answered_piece_done intro: keys_only_trans[OF keys_only_bucket_at])

lemma fast_post_recv_answers:
  assumes "fast_post_recv V p c = Ok c'"
  shows "answered p c c'"
  using assms
  by (auto simp: fast_post_recv_def Let_def deref_def andThen_Ok split: if_splits
      dest!: recv_wrs_keys intro!: answered_piece_done)

section \<open>The interface of a scan\<close>

locale piece_server =
  fixes serve :: "u32 \<Rightarrow> 'w ctl \<Rightarrow> 'w ctl run" and pieces :: "router \<Rightarrow> shm_table"
  assumes pieces_tables: "same_tables r r' \<Longrightarrow> pieces r' = pieces r"
    and serve_tables: "serve h c = Ok c' \<Longrightarrow> same_tables (c_ffr c) (c_ffr c')"
    and serve_frame: "serve h c = Ok c' \<Longrightarrow> piece_at pieces (c_ffr c) h \<noteq> Some q \<Longrightarrow>
      ctrl (c_ffr c') q = ctrl (c_ffr c) q"
    and serve_idle: "piece_at pieces (c_ffr c) h = Some p \<Longrightarrow> cs_state (ctrl (c_ffr c) p) \<noteq> REQ_DONE \<Longrightarrow>
      serve h c = Ok c"
begin

lemma piece_at_kept: "serve h c = Ok c' \<Longrightarrow> piece_at pieces (c_ffr c') g = piece_at pieces (c_ffr c) g"
  using serve_tables[of h c c'] pieces_tables[of "c_ffr c" "c_ffr c'"] by (simp add: piece_at_def)

lemma serve_untouched:
  assumes "serve h c = Ok c'" "cs_state (ctrl (c_ffr c) p) \<noteq> REQ_DONE"
  shows "ctrl (c_ffr c') p = ctrl (c_ffr c) p"
  using assms serve_frame[of h c c' p] serve_idle[of c h p]
  by (cases "piece_at pieces (c_ffr c) h = Some p") auto

end

text \<open>The loop over a list of handles.\<close>

fun scan :: "(u32 \<Rightarrow> 'w ctl \<Rightarrow> 'w ctl run) \<Rightarrow> u32 list \<Rightarrow> 'w ctl \<Rightarrow> 'w ctl run" where
  "scan serve [] c = Ok c"
| "scan serve (h # hs) c = andThen (serve h c) (scan serve hs)"

locale answering_server = piece_server +
  assumes serve_answers: "serve h c = Ok c' \<Longrightarrow> piece_at pieces (c_ffr c) h = Some p \<Longrightarrow>
      cs_state (ctrl (c_ffr c) p) = REQ_DONE \<Longrightarrow> cs_state (ctrl (c_ffr c') p) = RSP_DONE"
begin

lemma scan_tables: "scan serve hs c = Ok c' \<Longrightarrow> same_tables (c_ffr c) (c_ffr c')"
  by (induction hs arbitrary: c) (auto simp: andThen_Ok dest: serve_tables intro: same_tables_trans)

text \<open>A piece without a request, and one that no scanned handle has, is not changed at all.\<close>

lemma scan_untouched:
  "scan serve hs c = Ok c' \<Longrightarrow> cs_state (ctrl (c_ffr c) p) \<noteq> REQ_DONE \<Longrightarrow> ctrl (c_ffr c') p = ctrl (c_ffr c) p"
  by (induction hs arbitrary: c) (auto simp: andThen_Ok serve_untouched)

lemma scan_frame:
  "scan serve hs c = Ok c' \<Longrightarrow> \<forall>h\<in>set hs. piece_at pieces (c_ffr c) h \<noteq> Some p \<Longrightarrow>
    ctrl (c_ffr c') p = ctrl (c_ffr c) p"
  by (induction hs arbitrary: c) (auto simp: andThen_Ok serve_frame piece_at_kept)

lemma scan_answers:
  assumes "scan serve hs c = Ok c'" "h \<in> set hs" "piece_at pieces (c_ffr c) h = Some p"
    "cs_state (ctrl (c_ffr c) p) = REQ_DONE"
  shows "cs_state (ctrl (c_ffr c') p) = RSP_DONE"
  using assms
proof (induction hs arbitrary: c)
  case (Cons g gs)
  then obtain c1 where c1: "serve g c = Ok c1" and rest: "scan serve gs c1 = Ok c'" by (auto simp: andThen_Ok)
  show ?case
  proof (cases "piece_at pieces (c_ffr c) g = Some p")
    case True
    then have "cs_state (ctrl (c_ffr c1) p) = RSP_DONE" using Cons.prems c1 serve_answers by blast
    then show ?thesis using scan_untouched[OF rest, of p] by simp
  next
    case False
    then have "h \<in> set gs" "ctrl (c_ffr c1) p = ctrl (c_ffr c) p"
      using Cons.prems c1 serve_frame by auto
    then show ?thesis using Cons.IH[OF rest] Cons.prems piece_at_kept[OF c1] by simp
  qed
qed simp

lemma scan_spec:
  assumes "scan serve hs c = Ok c'"
  shows "same_tables (c_ffr c) (c_ffr c') \<and>
    (\<forall>p. ctrl (c_ffr c') p = ctrl (c_ffr c) p \<or>
      cs_state (ctrl (c_ffr c) p) = REQ_DONE \<and> cs_state (ctrl (c_ffr c') p) = RSP_DONE \<and>
      (\<exists>h\<in>set hs. piece_at pieces (c_ffr c) h = Some p)) \<and>
    (\<forall>h\<in>set hs. \<forall>p. piece_at pieces (c_ffr c) h = Some p \<longrightarrow> cs_state (ctrl (c_ffr c') p) \<noteq> REQ_DONE)"
proof (intro conjI allI ballI impI)
  show "same_tables (c_ffr c) (c_ffr c')" using scan_tables[OF assms] .
next
  fix p
  show "ctrl (c_ffr c') p = ctrl (c_ffr c) p \<or>
      cs_state (ctrl (c_ffr c) p) = REQ_DONE \<and> cs_state (ctrl (c_ffr c') p) = RSP_DONE \<and>
      (\<exists>h\<in>set hs. piece_at pieces (c_ffr c) h = Some p)"
    using scan_untouched[OF assms, of p] scan_frame[OF assms, of p] scan_answers[OF assms, of _ p] by blast
next
  fix h p
  assume "h \<in> set hs" "piece_at pieces (c_ffr c) h = Some p"
  then show "cs_state (ctrl (c_ffr c') p) \<noteq> REQ_DONE"
    using scan_answers[OF assms, of h p] scan_untouched[OF assms, of p]
    by (cases "cs_state (ctrl (c_ffr c) p) = REQ_DONE") auto
qed

end

section \<open>Queue pairs and shared receive queues\<close>

lemma serve_qp_cases:
  assumes "serve_qp views V h c = Ok c'"
  shows "(c' = c \<and> (\<forall>p. piece_at qp_shm_map (c_ffr c) h = Some p \<longrightarrow> cs_state (ctrl (c_ffr c) p) \<noteq> REQ_DONE)) \<or>
    (\<exists>p. piece_at qp_shm_map (c_ffr c) h = Some p \<and> answered p c c')"
  using assms
  by (auto simp: serve_qp_def slot_def piece_at_def Let_def fast_post_recv_answers answered_piece_done
      split: if_splits option.splits RDMA_FUNCTION_CALL.splits dest: fast_post_send_answers)

interpretation qp_server: answering_server "serve_qp views V" qp_shm_map
proof
  fix h c c' p
  show "piece_at qp_shm_map (c_ffr c) h = Some p \<Longrightarrow> cs_state (ctrl (c_ffr c) p) \<noteq> REQ_DONE \<Longrightarrow>
      serve_qp views V h c = Ok c"
    by (auto simp: serve_qp_def slot_def piece_at_def split: if_splits)
qed (auto simp: same_tables_sel answered_def dest!: serve_qp_cases)

lemma serve_srq_cases:
  assumes "serve_srq V h c = Ok c'"
  shows "(c' = c \<and> (\<forall>p. piece_at srq_shm_map (c_ffr c) h = Some p \<longrightarrow> cs_state (ctrl (c_ffr c) p) \<noteq> REQ_DONE)) \<or>
    (\<exists>p. piece_at srq_shm_map (c_ffr c) h = Some p \<and> answered p c c')"
  using assms
  by (auto simp: serve_srq_def slot_def piece_at_def Let_def deref_def andThen_Ok
      split: if_splits option.splits dest!: recv_wrs_keys intro!: answered_piece_done)

interpretation srq_server: answering_server "serve_srq V" srq_shm_map
proof
  fix h c c' p
  show "piece_at srq_shm_map (c_ffr c) h = Some p \<Longrightarrow> cs_state (ctrl (c_ffr c) p) \<noteq> REQ_DONE \<Longrightarrow>
      serve_srq V h c = Ok c"
    by (auto simp: serve_srq_def slot_def piece_at_def split: if_splits)
qed (auto simp: same_tables_sel answered_def dest!: serve_srq_cases)

lemma qp_pass_scan: "qp_pass views V hs = scan (serve_qp views V) hs"
  by (induction hs) (rule ext, simp)+

lemma srq_pass_scan: "srq_pass V hs = scan (serve_srq V) hs"
  by (induction hs) (rule ext, simp)+

text \<open>What a scan over the handles \<open>hs\<close> may do to the pieces of a table.\<close>

definition scanned :: "(router \<Rightarrow> shm_table) \<Rightarrow> u32 list \<Rightarrow> 'w ctl \<Rightarrow> 'w ctl \<Rightarrow> bool" where
  "scanned pieces hs c c' =
     (same_tables (c_ffr c) (c_ffr c') \<and>
      (\<forall>p. ctrl (c_ffr c') p = ctrl (c_ffr c) p \<or>
        cs_state (ctrl (c_ffr c) p) = REQ_DONE \<and> cs_state (ctrl (c_ffr c') p) = RSP_DONE \<and>
        (\<exists>h\<in>set hs. piece_at pieces (c_ffr c) h = Some p)) \<and>
      (\<forall>h\<in>set hs. \<forall>p. piece_at pieces (c_ffr c) h = Some p \<longrightarrow> cs_state (ctrl (c_ffr c') p) \<noteq> REQ_DONE))"

text \<open>
  C12: a scan of the queue pairs, or of the shared receive queues, that comes through answers every request
  that was waiting in a scanned piece. A piece without a request, and a piece of another queue, is left
  exactly as it was.
\<close>

theorem scans_answer_every_request:
  "(qp_pass views V hs c = Ok c' \<longrightarrow> scanned qp_shm_map hs c c') \<and>
   (srq_pass V hs c = Ok c' \<longrightarrow> scanned srq_shm_map hs c c')"
  using qp_server.scan_spec[of views V hs c c'] srq_server.scan_spec[of V hs c c']
  by (simp add: scanned_def qp_pass_scan srq_pass_scan)

text \<open>A router with one queue pair, handle 7, whose piece at \<open>0x9000\<close> holds the request \<open>req\<close>.\<close>

definition demo_ctl :: "mem \<Rightarrow> bytes ctl" where
  "demo_ctl req =
     \<lparr>c_ffr = demo_router\<lparr>qp_map := (\<lambda>_. 0x3000), cq_map := (\<lambda>_. 0x2000), qp_shm_vec := [7], cq_shm_vec := [7],
        qp_shm_map := [7 \<mapsto> \<lparr>sp_name = ''ctrlshm-qp7'', sp_size = int (size_of CtrlShmPiece), shm_fd = 9, sp_ptr = 0x9000\<rparr>],
        cq_shm_map := [7 \<mapsto> \<lparr>sp_name = ''ctrlshm-cq7'', sp_size = int (size_of CtrlShmPiece), shm_fd = 9, sp_ptr = 0xa000\<rparr>],
        ctrl := (\<lambda>_. \<lparr>cs_state = REQ_DONE, cs_req = req, cs_rsp = (\<lambda>_. 0)\<rparr>)\<rparr>,
      c_world = [], c_qp = 0, c_cq = 0, c_srq = 0\<rparr>"

theorem scans_answer_every_request_witness:
  "\<exists>c'. qp_pass (\<lambda>_. Map.empty) demo_verbs [7] (demo_ctl (\<lambda>_. 0)) = Ok c' \<and>
     scanned qp_shm_map [7] (demo_ctl (\<lambda>_. 0)) c'"
proof -
  obtain c' where "qp_pass (\<lambda>_. Map.empty) demo_verbs [7] (demo_ctl (\<lambda>_. 0)) = Ok c'"
    by (simp add: serve_qp_def slot_def demo_ctl_def MAP_SIZE_def piece_func_def call_of_code_def router_calls_def)
  then show ?thesis
    using scans_answer_every_request[of "\<lambda>_. Map.empty" demo_verbs "[7]" "demo_ctl (\<lambda>_. 0)" c'] by blast
qed

section \<open>Completion queues\<close>

lemma serve_cq_cases:
  assumes "serve_cq V h c = Ok (c', count)"
  shows "(count = None \<and> (\<exists>cq. c' = c\<lparr>c_cq := cq\<rparr>)) \<or>
    (\<exists>n p. count = Some n \<and> piece_at cq_shm_map (c_ffr c) h = Some p \<and>
       cs_state (ctrl (c_ffr c) p) = REQ_DONE \<and> answered p c c')"
proof (cases count)
  case None
  with assms show ?thesis
    by (auto simp: serve_cq_def slot_def Let_def split: if_splits option.splits prod.splits
        intro: exI[of _ "c_cq c"])
next
  case (Some n)
  with assms show ?thesis
    by (auto simp: serve_cq_def slot_def piece_at_def Let_def split: if_splits option.splits prod.splits
        intro!: answered_piece_done)
qed


interpretation cq_server: piece_server "\<lambda>h c. andThen (serve_cq V h c) (\<lambda>(c, n). Ok c)" cq_shm_map
proof
  fix h c c' p
  show "piece_at cq_shm_map (c_ffr c) h = Some p \<Longrightarrow> cs_state (ctrl (c_ffr c) p) \<noteq> REQ_DONE \<Longrightarrow>
      andThen (serve_cq V h c) (\<lambda>(c, n). Ok c) = Ok c"
    by (auto simp: serve_cq_def slot_def piece_at_def split: if_splits)
qed (auto simp: same_tables_sel answered_def andThen_Ok dest!: serve_cq_cases)








text \<open>
  C38: a poll that returns \<open>n\<close> completions makes the scan go on behind index \<open>n\<close>: when the first queue
  returns as many completions as there are other queues, no other queue is looked at in this turn, and
  the requests that wait there stay as they are.
\<close>

theorem busy_queue_hides_the_others:
  assumes "serve_cq V (hd (cq_shm_vec (c_ffr c))) c = Ok (c', Some n)"
    and "cq_shm_vec (c_ffr c) \<noteq> []" and "length (cq_shm_vec (c_ffr c)) \<le> n + 1"
  shows "cq_pass (Suc (Suc fuel)) V 0 c = Ok c' \<and>
    (\<forall>q. piece_at cq_shm_map (c_ffr c) (hd (cq_shm_vec (c_ffr c))) \<noteq> Some q \<longrightarrow> ctrl (c_ffr c') q = ctrl (c_ffr c) q)"
proof -
  from serve_cq_cases[OF assms(1)] obtain p
    where p: "piece_at cq_shm_map (c_ffr c) (hd (cq_shm_vec (c_ffr c))) = Some p" and a: "answered p c c'" by auto
  then have "cq_shm_vec (c_ffr c') = cq_shm_vec (c_ffr c)" by (simp add: answered_def same_tables_sel)
  then show ?thesis using assms p a by (auto simp: hd_conv_nth answered_def)
qed

text \<open>A request to poll a queue that the router does not know.\<close>

definition polls_unknown :: "u64 \<Rightarrow> 'w ctl \<Rightarrow> bool" where
  "polls_unknown p c =
     (let i = unat (get_u32 (cs_req (ctrl (c_ffr c) p)) (size_of FfrRequestHeader + off IBV_POLL_CQ_REQ [''cq_handle'']))
      in cs_state (ctrl (c_ffr c) p) = REQ_DONE \<and> i < MAP_SIZE \<and> cq_map (c_ffr c) i = NULL)"

lemma req_u32_piece_view:
  "req_u32 (piece_view p c) x = get_u32 (cs_req (ctrl (c_ffr c) p)) (size_of FfrRequestHeader + x)"
  by (simp add: req_u32_def piece_view_def Let_def get_u32_def get_bytes_def add.assoc)

lemma serve_unknown:
  assumes "polls_unknown p c" "serve_cq V h c = Ok (c', n)"
  shows "ctrl (c_ffr c') p = ctrl (c_ffr c) p \<and> polls_unknown p c'"
proof (cases "piece_at cq_shm_map (c_ffr c) h = Some p")
  case True
  then have "c' = c\<lparr>c_cq := NULL\<rparr>"
    using assms by (auto simp: serve_cq_def slot_def piece_at_def Let_def polls_unknown_def req_u32_piece_view split: if_splits)
  then show ?thesis using assms(1) by (simp add: polls_unknown_def)
next
  case False
  with serve_cq_cases[OF assms(2)] have "same_tables (c_ffr c) (c_ffr c')" "ctrl (c_ffr c') p = ctrl (c_ffr c) p"
    by (auto simp: answered_def)
  then show ?thesis using assms(1) by (simp add: polls_unknown_def same_tables_sel)
qed

lemma cq_pass_unknown:
  "polls_unknown p c \<Longrightarrow> cq_pass fuel V i c = Ok c' \<Longrightarrow> ctrl (c_ffr c') p = ctrl (c_ffr c) p \<and> polls_unknown p c'"
  by (induction fuel V i c rule: cq_pass.induct)
    (fastforce simp: andThen_Ok split: if_splits option.splits dest: serve_unknown)+

text \<open>
  C37: a poll on a queue the router no longer knows is not answered: no scan touches the request, and the
  client, who waits for the state of the piece to change, never returns from \<^verbatim>\<open>request_router_shm\<close>.
\<close>

theorem poll_of_unknown_queue_hangs:
  assumes "polls_unknown p c"
  shows "(\<forall>fuel i c'. cq_pass fuel V i c = Ok c' \<longrightarrow> ctrl (c_ffr c') p = ctrl (c_ffr c) p) \<and>
    request_router_shm turns (\<lambda>k cs. cs) k (ctrl (c_ffr c) p) = Spins"
proof (intro conjI allI impI)
  fix fuel i c'
  assume "cq_pass fuel V i c = Ok c'"
  then show "ctrl (c_ffr c') p = ctrl (c_ffr c) p" using assms cq_pass_unknown by blast
next
  have "cs_state (ctrl (c_ffr c) p) = REQ_DONE" using assms by (simp add: polls_unknown_def Let_def)
  then show "request_router_shm turns (\<lambda>k cs. cs) k (ctrl (c_ffr c) p) = Spins"
    by (induction turns arbitrary: k) simp_all
qed

theorem poll_of_unknown_queue_hangs_witness:
  "request_router_shm 1000 (\<lambda>k cs. cs) 0
     (ctrl (c_ffr (demo_ctl (\<lambda>_. 0)\<lparr>c_ffr := (c_ffr (demo_ctl (\<lambda>_. 0)))\<lparr>cq_map := (\<lambda>_. NULL)\<rparr>\<rparr>)) 0xa000) = Spins"
proof -
  have "polls_unknown 0xa000 (demo_ctl (\<lambda>_. 0)\<lparr>c_ffr := (c_ffr (demo_ctl (\<lambda>_. 0)))\<lparr>cq_map := (\<lambda>_. NULL)\<rparr>\<rparr>)"
    by (simp add: polls_unknown_def demo_ctl_def MAP_SIZE_def)
  from poll_of_unknown_queue_hangs[OF this] show ?thesis by blast
qed

theorem busy_queue_hides_the_others_witness:
  "\<exists>c'. cq_pass (Suc (Suc 0)) (demo_verbs\<lparr>v_poll_cq := (\<lambda>cq ne w. (1, replicate 48 0, w))\<rparr>) 0
     ((demo_ctl (\<lambda>_. 0))\<lparr>c_ffr := (c_ffr (demo_ctl (\<lambda>_. 0)))\<lparr>cq_shm_vec := [7, 8]\<rparr>\<rparr>) = Ok c'"
proof -
  let ?V = "demo_verbs\<lparr>v_poll_cq := (\<lambda>cq ne w. (1, replicate 48 0, w))\<rparr>"
  let ?c = "(demo_ctl (\<lambda>_. 0))\<lparr>c_ffr := (c_ffr (demo_ctl (\<lambda>_. 0)))\<lparr>cq_shm_vec := [7, 8]\<rparr>\<rparr>"
  obtain c' where "serve_cq ?V (hd (cq_shm_vec (c_ffr ?c))) ?c = Ok (c', Some 1)"
    by (simp add: demo_ctl_def serve_cq_def slot_def MAP_SIZE_def Let_def layout req_u32_piece_view NULL_def
        CTRL_RSP_SIZE_def rsp_bytes_def)
  from busy_queue_hides_the_others[OF this, of 0] show ?thesis by (simp add: demo_ctl_def)
qed

section \<open>The protocol of one piece\<close>

text \<open>
  A client and the router around the piece at \<open>p\<close>, with counters of the requests the client has written,
  the router has served and the client has taken back. The steps are those of the code: the client
  writes a request into an idle piece and sets \<^verbatim>\<open>REQ_DONE\<close>, sees \<^verbatim>\<open>RSP_DONE\<close>, reads the answer and sets
  \<^verbatim>\<open>IDLE\<close>; the router visits a queue; anything else may happen to the rest of the router.
\<close>

record 'w chan =
  ch_ctl :: "'w ctl"
  ch_posted :: nat
  ch_served :: nat
  ch_taken :: nat

definition set_piece :: "u64 \<Rightarrow> CtrlShm \<Rightarrow> 'w ctl \<Rightarrow> 'w ctl" where
  "set_piece p cs c = c\<lparr>c_ffr := (c_ffr c)\<lparr>ctrl := (ctrl (c_ffr c))(p := cs)\<rparr>\<rparr>"

definition ch_state :: "u64 \<Rightarrow> 'w chan \<Rightarrow> CtrlChannelState" where
  "ch_state p s = cs_state (ctrl (c_ffr (ch_ctl s)) p)"

inductive chan_step ::
  "(u32 \<Rightarrow> 'w ctl \<Rightarrow> 'w ctl run) \<Rightarrow> (router \<Rightarrow> shm_table) \<Rightarrow> u64 \<Rightarrow> 'w chan \<Rightarrow> 'w chan \<Rightarrow> bool"
  for serve pieces p where
  client_posts: "ch_state p s = IDLE \<Longrightarrow> cs_state cs = REQ_DONE \<Longrightarrow>
    chan_step serve pieces p s (s\<lparr>ch_ctl := set_piece p cs (ch_ctl s), ch_posted := ch_posted s + 1\<rparr>)"
| client_takes: "ch_state p s = RSP_DONE \<Longrightarrow> cs_state cs = IDLE \<Longrightarrow>
    chan_step serve pieces p s (s\<lparr>ch_ctl := set_piece p cs (ch_ctl s), ch_taken := ch_taken s + 1\<rparr>)"
| router_visits: "serve h (ch_ctl s) = Ok c' \<Longrightarrow>
    served = (if piece_at pieces (c_ffr (ch_ctl s)) h = Some p \<and> ch_state p s = REQ_DONE then 1 else 0) \<Longrightarrow>
    chan_step serve pieces p s (s\<lparr>ch_ctl := c', ch_served := ch_served s + served\<rparr>)"
| elsewhere: "ctrl (c_ffr c') p = ctrl (c_ffr (ch_ctl s)) p \<Longrightarrow>
    chan_step serve pieces p s (s\<lparr>ch_ctl := c'\<rparr>)"

definition chan_inv :: "u64 \<Rightarrow> 'w chan \<Rightarrow> bool" where
  "chan_inv p s =
     (ch_posted s = ch_taken s + (if ch_state p s = IDLE then 0 else 1) \<and>
      ch_served s = ch_taken s + (if ch_state p s = RSP_DONE then 1 else 0))"

context answering_server begin

lemma visit_state:
  assumes "serve h c = Ok c'"
  shows "cs_state (ctrl (c_ffr c') p) =
    (if piece_at pieces (c_ffr c) h = Some p \<and> cs_state (ctrl (c_ffr c) p) = REQ_DONE then RSP_DONE
     else cs_state (ctrl (c_ffr c) p))"
  using assms serve_answers[of h c c' p] serve_frame[of h c c' p] serve_untouched[of h c c' p] by auto

lemma chan_inv_step: "chan_step serve pieces p s s' \<Longrightarrow> chan_inv p s \<Longrightarrow> chan_inv p s'"
  by (induction rule: chan_step.induct) (auto simp: chan_inv_def ch_state_def set_piece_def visit_state split: if_splits)

lemma chan_inv_reachable: "(chan_step serve pieces p)\<^sup>*\<^sup>* s s' \<Longrightarrow> chan_inv p s \<Longrightarrow> chan_inv p s'"
  by (induction rule: rtranclp_induct) (auto intro: chan_inv_step)

end




end
