(* ===== verification/FF_Tables.thy ===== *)
theory FF_Tables
  imports FF_Framing FF_Channel
begin

text \<open>
  The well-formedness of the router's tables, and that every request, every turn of the loop over the
  control pieces and every mapping received from another router keeps it: a live queue has a control
  piece that the loop scans, a live queue pair has a rate limiter, a live memory region has its shared
  memory, and the handles the loop scans are inside the tables.
\<close>

named_theorems holds_rules
named_theorems wf_simps

section \<open>Well-formed tables\<close>

definition listed :: "table \<Rightarrow> shm_table \<Rightarrow> u32 list \<Rightarrow> bool" where
  "listed objs pieces vec =
     ((\<forall>i. objs i \<noteq> NULL \<longrightarrow> pieces i \<noteq> None) \<and>
      (\<forall>i. pieces i \<noteq> None \<longrightarrow> i < MAP_SIZE \<and> word_of_nat i \<in> set vec) \<and>
      (\<forall>h \<in> set vec. unat h < MAP_SIZE))"

definition limited :: "table \<Rightarrow> (u32 \<Rightarrow> TokenBucket option option) \<Rightarrow> bool" where
  "limited qps buckets = (\<forall>h. qps (unat h) \<noteq> NULL \<longrightarrow> (\<exists>tb. buckets h = Some (Some tb)))"

definition backed :: "table \<Rightarrow> shm_table \<Rightarrow> bool" where
  "backed mrs pieces = (\<forall>i. mrs i \<noteq> NULL \<longleftrightarrow> pieces i \<noteq> None)"

definition router_wf :: "router \<Rightarrow> bool" where
  "router_wf r =
     (listed (qp_map r) (qp_shm_map r) (qp_shm_vec r) \<and> listed (cq_map r) (cq_shm_map r) (cq_shm_vec r) \<and>
      listed (srq_map r) (srq_shm_map r) (srq_shm_vec r) \<and> limited (qp_map r) (tokenbucket r) \<and>
      backed (mr_map r) (shmr_map r))"

lemma router_wf_ctor: "router_wf (FreeFlowRouter_ctor ip dis)"
  by (simp add: router_wf_def FreeFlowRouter_ctor_def FreeFlowRouter_tables_def tables.defs listed_def limited_def backed_def)

lemma set_erase_first: "set xs - {x} \<subseteq> set (erase_first x xs)" "set (erase_first x xs) \<subseteq> set xs"
  by (induction xs) auto

lemma listed_insert:
  assumes "listed objs pieces vec" "unat h < MAP_SIZE"
  shows "listed (objs(unat h := x)) (pieces(unat h := Some sp)) (vec @ [h])"
  using assms by (auto simp: listed_def)

lemma listed_erase:
  assumes "listed objs pieces vec"
  shows "listed (objs(unat h := NULL)) (pieces(unat h := None)) (erase_first h vec)"
proof -
  have "word_of_nat i \<in> set (erase_first h vec)" if "pieces i \<noteq> None" "i \<noteq> unat h" for i
  proof -
    have "word_of_nat i \<in> set vec" "i < MAP_SIZE" using assms that by (auto simp: listed_def)
    moreover from this have "word_of_nat i \<noteq> h"
      using that by (auto simp: MAP_SIZE_def unsigned_of_nat take_bit_nat_eq_self)
    ultimately show ?thesis using set_erase_first(1)[of vec h] by auto
  qed
  then show ?thesis using assms set_erase_first(2)[of h vec] by (auto simp: listed_def)
qed

lemma limited_insert: "limited qps bs \<Longrightarrow> limited (qps(unat h := x)) (bs(h \<mapsto> Some tb))"
  by (auto simp: limited_def dest: unsigned_word_eqI)

lemma limited_erase: "limited qps bs \<Longrightarrow> limited (qps(i := NULL)) bs"
  by (auto simp: limited_def)

lemma limited_refill: "limited qps bs \<Longrightarrow> limited qps (bs(h \<mapsto> Some tb))"
  by (auto simp: limited_def)

lemma backed_insert: "backed mrs ps \<Longrightarrow> x \<noteq> NULL \<Longrightarrow> backed (mrs(i := x)) (ps(i := Some sp))"
  by (auto simp: backed_def)

lemma backed_erase: "backed mrs ps \<Longrightarrow> backed (mrs(i := NULL)) (ps(i := None))"
  by (auto simp: backed_def)

lemmas table_changes = listed_insert listed_erase limited_insert limited_erase limited_refill backed_insert backed_erase

lemma router_wf_frame [wf_simps]:
  "router_wf (r\<lparr>ctrl := a\<rparr>) = router_wf r" "router_wf (r\<lparr>lkey_ptr := b\<rparr>) = router_wf r"
  "router_wf (r\<lparr>pd_map := c\<rparr>) = router_wf r" "router_wf (r\<lparr>ah_map := d\<rparr>) = router_wf r"
  "router_wf (r\<lparr>channel_map := e\<rparr>) = router_wf r" "router_wf (r\<lparr>event_channel_map := f\<rparr>) = router_wf r"
  "router_wf (r\<lparr>shm_pool := g\<rparr>) = router_wf r" "router_wf (r\<lparr>shm_map := h\<rparr>) = router_wf r"
  "router_wf (r\<lparr>rkey_mr_shm := i\<rparr>) = router_wf r" "router_wf (r\<lparr>vip_map := j\<rparr>) = router_wf r"
  "router_wf (r\<lparr>host_list := k\<rparr>) = router_wf r"
  by (simp_all add: router_wf_def)

lemma router_wf_refill: "router_wf r \<Longrightarrow> router_wf (r\<lparr>tokenbucket := (tokenbucket r)(h \<mapsto> Some tb)\<rparr>)"
  by (auto simp: router_wf_def intro: table_changes)

lemma router_wf_bucket_at: "router_wf r \<Longrightarrow> router_wf (bucket_at h r)"
  by (auto simp: router_wf_def bucket_at_def limited_def split: option.splits)

lemma router_wf_lkey_at: "lkey_at key r = (p, r') \<Longrightarrow> router_wf r' = router_wf r"
  by (auto simp: lkey_at_def wf_simps split: option.splits)

lemma initCtrlShm_frame: "initCtrlShm E name r w = Inr (sp, r', w') \<Longrightarrow> \<exists>c. r' = r\<lparr>ctrl := c\<rparr>"
  by (auto simp: initCtrlShm_def Let_def split: prod.splits if_splits)

lemma addShmPiece_wf:
  "addShmPiece_client E client n r w = (sp, r', w') \<Longrightarrow> router_wf r' = router_wf r"
  "addShmPiece_name E name n r w = (sp, r', w') \<Longrightarrow> router_wf r' = router_wf r"
  by (auto simp: addShmPiece_client_def addShmPiece_name_def Let_def wf_simps split: prod.splits option.splits)

section \<open>What holds of the router after a handler\<close>

fun hthr :: "'w hres \<Rightarrow> 'w thr" where
  "hthr (Break t sz) = t"
| "hthr (GotoEnd t) = t"
| "hthr (GotoKill t) = t"
| "hthr (Return t) = t"

definition holds :: "(router \<Rightarrow> bool) \<Rightarrow> 'w hres run \<Rightarrow> bool" where
  "holds P x = (\<forall>res. x = Ok res \<longrightarrow> P (ffr (hthr res)))"

lemma holds_ends [holds_rules]:
  "P (ffr t) \<Longrightarrow> holds P (reply t n)" "P (ffr t) \<Longrightarrow> holds P (Ok (GotoEnd t))" "P (ffr t) \<Longrightarrow> holds P (Ok (GotoKill t))"
  "P (ffr t) \<Longrightarrow> holds P (Ok (Return t))" "holds P (Undefined u)" "holds P Diverges"
  by (auto simp: holds_def reply_def)

lemma holds_recv_body [holds_rules]:
  assumes "P (ffr t)" "\<And>t'. ffr t' = ffr t \<Longrightarrow> holds P (k t')"
  shows "holds P (recv_body E n t k)"
proof -
  have "holds P (k (t\<lparr>world := w, req_body := m\<rparr>))" for w m by (rule assms(2)) simp
  then show ?thesis using assms(1) by (auto simp: holds_def recv_body_def Let_def split: prod.splits)
qed

lemma holds_recv_posted [holds_rules]:
  assumes "P (ffr t)" "\<And>t'. ffr t' = ffr t \<Longrightarrow> holds P (k t')"
  shows "holds P (recv_posted E n t k)"
proof -
  have "holds P (k (t\<lparr>world := w, req_body := m\<rparr>))" for w m by (rule assms(2)) simp
  then show ?thesis using assms(1) by (auto simp: holds_def recv_posted_def Let_def split: prod.splits)
qed

lemma holds_recv_host_fd [holds_rules]:
  assumes "P (ffr t)" "\<And>t'. ffr t' = ffr t \<Longrightarrow> holds P (k t')"
  shows "holds P (recv_host_fd E t k)"
proof -
  have "holds P (k (t\<lparr>world := w, host_fd := m\<rparr>))" for w m by (rule assms(2)) simp
  then show ?thesis using assms(1) by (auto simp: holds_def recv_host_fd_def Let_def split: prod.splits)
qed

lemma holds_slot [holds_rules]: "(i < MAP_SIZE \<Longrightarrow> holds P (k (m i))) \<Longrightarrow> holds P (slot m i k)"
  by (simp add: holds_def slot_def)

lemma holds_islot [holds_rules]: "holds P (k (m (nat j))) \<Longrightarrow> holds P (islot m j k)"
  by (simp add: holds_def islot_def)

lemma holds_deref [holds_rules]: "holds P k \<Longrightarrow> holds P (deref p k)"
  by (simp add: holds_def deref_def)

lemma holds_if [holds_rules]: "(b \<Longrightarrow> holds P x) \<Longrightarrow> (\<not> b \<Longrightarrow> holds P y) \<Longrightarrow> holds P (if b then x else y)"
  by simp

lemma holds_let [holds_rules]: "(\<And>x. x = v \<Longrightarrow> holds P (f x)) \<Longrightarrow> holds P (Let v f)"
  by simp

lemma holds_prod [holds_rules]: "(\<And>a b. p = (a, b) \<Longrightarrow> holds P (f a b)) \<Longrightarrow> holds P (case p of (a, b) \<Rightarrow> f a b)"
  by (cases p) simp

lemma holds_option [holds_rules]:
  "(z = None \<Longrightarrow> holds P x) \<Longrightarrow> (\<And>a. z = Some a \<Longrightarrow> holds P (f a)) \<Longrightarrow> holds P (case z of None \<Rightarrow> x | Some a \<Rightarrow> f a)"
  by (cases z) simp_all

lemma holds_sum [holds_rules]:
  "(\<And>a. holds P (f a)) \<Longrightarrow> (\<And>a. z = Inr a \<Longrightarrow> holds P (g a)) \<Longrightarrow> holds P (case z of Inl a \<Rightarrow> f a | Inr a \<Rightarrow> g a)"
  by (cases z) simp_all

lemma ffr_rsp_cstr [simp]: "ffr (rsp_cstr i s t) = ffr t"
  by (simp add: rsp_cstr_def)

lemma ffr_fold_rsp [simp]: "ffr (fold (\<lambda>(x, v). rsp_u32 (f x) v) xs t) = ffr t"
  by (induction xs arbitrary: t) (auto split: prod.splits)

lemma holds_cmd_rsp [holds_rules]: "P (ffr t) \<Longrightarrow> holds P (cmd_rsp R t res)"
  unfolding cmd_rsp_def by (intro holds_rules; simp split: option.splits)

lemma holds_cm_replay [holds_rules]: "P (ffr t) \<Longrightarrow> holds P (cm_replay E Q R prep f h t)"
  unfolding cm_replay_def by (intro holds_rules; simp)

lemma holds_post_recv_rsp [holds_rules]: "P (ffr t) \<Longrightarrow> holds P (post_recv_rsp R wr t res)"
  unfolding post_recv_rsp_def by (intro holds_rules; simp)

lemma holds_cq_event_rsp [holds_rules]: "P (ffr t) \<Longrightarrow> holds P (cq_event_rsp V cq t)"
  unfolding cq_event_rsp_def by (intro holds_rules; simp)

text \<open>The cases that leave the router as it is.\<close>

lemma router_unchanged:
  assumes "P (ffr t)"
  shows "holds P (on_GET_CONTEXT V h t)" "holds P (on_QUERY_DEV V h t)" "holds P (on_EXP_QUERY_DEV E V h t)"
    "holds P (on_QUERY_PORT E V h t)" "holds P (on_REQ_NOTIFY_CQ E V h t)" "holds P (on_MODIFY_QP E V h t)"
    "holds P (on_QUERY_QP E V h t)" "holds P (on_GET_CQ_EVENT E V h t)" "holds P (on_ACK_CQ_EVENT E V h t)"
    "holds P (on_DESTROY_AH E V h t)" "holds P (on_CREATE_FLOW E V h t)" "holds P (on_DESTROY_FLOW E V h t)"
    "holds P (on_MODIFY_SRQ E V h t)" "holds P (on_POLL_CQ E V h t)"
    "holds P (on_CM_CREATE_ID E h t)" "holds P (on_CM_BIND_IP E h t)" "holds P (on_CM_BIND E h t)"
    "holds P (on_CM_GET_EVENT E h t)" "holds P (on_CM_QUERY_ROUTE E h t)" "holds P (on_CM_LISTEN E h t)"
    "holds P (on_CM_RESOLVE_IP E h t)" "holds P (on_CM_RESOLVE_ADDR E h t)" "holds P (on_CM_UCMA_QUERY_ADDR E h t)"
    "holds P (on_CM_UCMA_QUERY_GID E h t)" "holds P (on_CM_UCMA_PROCESS_CONN_RESP E h t)" "holds P (on_CM_DESTROY_ID E h t)"
    "holds P (on_CM_RESOLVE_ROUTE E h t)" "holds P (on_CM_UCMA_QUERY_PATH E h t)" "holds P (on_CM_INIT_QP_ATTR E h t)"
    "holds P (on_CM_CONNECT E h t)" "holds P (on_CM_ACCEPT E h t)" "holds P (on_CM_SET_OPTION E h t)"
    "holds P (on_CM_MIGRATE_ID E h t)" "holds P (on_CM_DISCONNECT E h t)"
    "holds P (on_SOCKET_SOCKET E h t)" "holds P (on_SOCKET_BIND E h t)" "holds P (on_SOCKET_ACCEPT E h t)"
    "holds P (on_SOCKET_ACCEPT4 E h t)" "holds P (on_SOCKET_CONNECT E h t)"
  using assms
  by (unfold verbs_handlers cm_handlers on_SOCKET_SOCKET_def on_SOCKET_BIND_def on_SOCKET_ACCEPT_def on_SOCKET_ACCEPT4_def
      on_SOCKET_CONNECT_def, (intro holds_rules; simp; fail)+)

section \<open>The cases that change the tables\<close>

lemma wf_unrelated:
  assumes "router_wf (ffr t)"
  shows "holds router_wf (on_ALLOC_PD V h t)" "holds router_wf (on_DEALLOC_PD E V h t)"
    "holds router_wf (on_CREATE_COMP_CHANNEL E V h t)" "holds router_wf (on_DESTROY_COMP_CHANNEL E V h t)"
    "holds router_wf (on_CREATE_AH E V h t)" "holds router_wf (on_CM_CREATE_EVENT_CHANNEL E V h t)"
    "holds router_wf (on_CM_DESTROY_EVENT_CHANNEL E V h t)"
  using assms by (unfold verbs_handlers cm_handlers, (intro holds_rules; simp add: wf_simps; fail)+)

lemma wf_REG_MR_MAPPING: "router_wf (ffr t) \<Longrightarrow> holds router_wf (on_REG_MR_MAPPING E h t)"
  unfolding verbs_handlers
  by (intro holds_rules; (simp; fail)?) (auto dest!: router_wf_lkey_at[OF sym])

lemma wf_DESTROY_QP: "router_wf (ffr t) \<Longrightarrow> holds router_wf (on_DESTROY_QP E V h t)"
  unfolding verbs_handlers by (intro holds_rules; simp add: router_wf_def table_changes)

lemma wf_DESTROY_CQ: "router_wf (ffr t) \<Longrightarrow> holds router_wf (on_DESTROY_CQ E V h t)"
  unfolding verbs_handlers by (intro holds_rules; simp add: router_wf_def table_changes)

lemma wf_DESTROY_SRQ: "router_wf (ffr t) \<Longrightarrow> holds router_wf (on_DESTROY_SRQ E V h t)"
  unfolding verbs_handlers by (intro holds_rules; simp add: router_wf_def table_changes)

lemma wf_DEREG_MR: "router_wf (ffr t) \<Longrightarrow> holds router_wf (on_DEREG_MR E V h t)"
  unfolding verbs_handlers by (intro holds_rules; simp add: router_wf_def table_changes)

lemma wf_CREATE_SRQ: "router_wf (ffr t) \<Longrightarrow> holds router_wf (on_CREATE_SRQ E V h t)"
  unfolding verbs_handlers
  by (intro holds_rules; (simp; fail)?) (auto simp: router_wf_def not_le intro: table_changes dest!: initCtrlShm_frame)

lemma wf_CREATE_CQ: "router_wf (ffr t) \<Longrightarrow> holds router_wf (on_CREATE_CQ E V h t)"
  unfolding verbs_handlers Let_def
  by (intro holds_rules; (simp; fail)?) (auto simp: router_wf_def not_le intro: table_changes dest!: initCtrlShm_frame)

lemma map_sum_Inr: "map_sum f g z = Inr r \<longleftrightarrow> (\<exists>b. z = Inr b \<and> r = g b)"
  by (cases z) auto

lemma wf_CREATE_QP: "router_wf (ffr t) \<Longrightarrow> holds router_wf (on_CREATE_QP E V h t)"
  unfolding verbs_handlers
  by (intro holds_rules; (simp; fail)?)
     (auto simp: router_wf_def not_le map_sum_Inr split: if_splits intro: table_changes dest!: initCtrlShm_frame)

lemma router_wf_region:
  "router_wf r \<Longrightarrow> mr \<noteq> NULL \<Longrightarrow>
   router_wf (r\<lparr>shmr_map := (shmr_map r)(i := Some sp), mr_map := (mr_map r)(i := mr)\<rparr>)"
  by (simp add: router_wf_def table_changes)

lemma wf_REG_MR: "router_wf (ffr t) \<Longrightarrow> holds router_wf (on_REG_MR E V h t)"
  unfolding verbs_handlers
  by (intro holds_rules; (simp; fail)?)
     (auto simp: wf_simps split: if_splits intro: router_wf_region dest!: addShmPiece_wf[OF sym])

section \<open>The posting calls\<close>

text \<open>\<open>steady\<close>: a property of the router that survives the look-up of a key and the refill of an existing rate limiter.\<close>

definition steady :: "(router \<Rightarrow> bool) \<Rightarrow> bool" where
  "steady P =
     ((\<forall>r key. P r \<longrightarrow> P (snd (lkey_at key r))) \<and>
      (\<forall>r h tb tb'. P r \<longrightarrow> tokenbucket r h = Some (Some tb) \<longrightarrow>
         P (r\<lparr>tokenbucket := (tokenbucket r)(h \<mapsto> Some tb')\<rparr>)))"

lemma steady_wf: "steady router_wf"
  by (auto simp: steady_def router_wf_refill) (metis router_wf_lkey_at surjective_pairing)

lemma steady_lkey: "steady P \<Longrightarrow> P r \<Longrightarrow> (p, r') = lkey_at key r \<Longrightarrow> P r'"
  by (metis steady_def snd_conv)

lemma steady_refill:
  "steady P \<Longrightarrow> P r \<Longrightarrow> tokenbucket r h = Some (Some tb) \<Longrightarrow> P (r\<lparr>tokenbucket := (tokenbucket r)(h \<mapsto> Some tb')\<rparr>)"
  by (simp add: steady_def)

definition thr_holds :: "(router \<Rightarrow> bool) \<Rightarrow> 'w thr run \<Rightarrow> bool" where
  "thr_holds P x = (\<forall>t. x = Ok t \<longrightarrow> P (ffr t))"

lemma thr_holds_rules:
  "P (ffr t) \<Longrightarrow> thr_holds P (Ok t)" "thr_holds P (Undefined u)" "thr_holds P Diverges"
  "thr_holds P x \<Longrightarrow> (\<And>t. P (ffr t) \<Longrightarrow> thr_holds P (k t)) \<Longrightarrow> thr_holds P (andThen x k)"
  "(\<And>v. thr_holds P (f v)) \<Longrightarrow> thr_holds P (slot m i f)"
  "(\<And>x. x = v \<Longrightarrow> thr_holds P (g x)) \<Longrightarrow> thr_holds P (Let v g)"
  "(\<And>a b. p = (a, b) \<Longrightarrow> thr_holds P (j a b)) \<Longrightarrow> thr_holds P (case p of (a, b) \<Rightarrow> j a b)"
  "thr_holds P y \<Longrightarrow> (\<And>a. z = Some a \<Longrightarrow> thr_holds P (l a)) \<Longrightarrow> thr_holds P (case z of None \<Rightarrow> y | Some a \<Rightarrow> l a)"
  "thr_holds P y \<Longrightarrow> thr_holds P y' \<Longrightarrow> thr_holds P (if b then y else y')"
  by (auto simp: thr_holds_def andThen_Ok slot_def split: prod.splits option.splits)

lemma holds_andThen [holds_rules]:
  "thr_holds P x \<Longrightarrow> (\<And>t. P (ffr t) \<Longrightarrow> holds P (k t)) \<Longrightarrow> holds P (andThen x k)"
  by (auto simp: thr_holds_def holds_def andThen_Ok)

lemma steady_send_sges:
  assumes "steady P"
  shows "P (ffr t) \<Longrightarrow> thr_holds P (send_sges fuel E h k s t)"
proof (induction k arbitrary: s t)
  case (Suc k)
  show ?case
    by (subst send_sges.simps, intro thr_holds_rules Suc.IH)
       (simp, rule steady_lkey[OF assms steady_refill[OF assms Suc.prems]], assumption, simp)
qed (simp add: thr_holds_rules)

lemma steady_recv_sges:
  assumes "steady P"
  shows "P (ffr t) \<Longrightarrow> thr_holds P (recv_sges k s t)"
proof (induction k arbitrary: s t)
  case (Suc k)
  show ?case
    by (subst recv_sges.simps, intro thr_holds_rules Suc.IH) (simp, rule steady_lkey[OF assms Suc.prems], simp)
qed (simp add: thr_holds_rules)

lemma steady_send_wrs:
  assumes "steady P"
  shows "P (ffr t) \<Longrightarrow> thr_holds P (send_wrs fuel E h ud i n s a t)"
proof (induction "n - i" arbitrary: i s a t)
  case 0
  then show ?case by (simp add: send_wrs.simps[of fuel E h ud i n s a t] thr_holds_rules)
next
  case (Suc x)
  then have "x = n - (i + 1)" by simp
  note IH = Suc.hyps(1)[OF this]
  show ?case
    by (subst send_wrs.simps) (intro thr_holds_rules IH steady_send_sges[OF assms]; simp add: Suc.prems)
qed

lemma steady_recv_wrs:
  assumes "steady P"
  shows "P (ffr t) \<Longrightarrow> thr_holds P (recv_wrs clear i n s t)"
proof (induction "n - i" arbitrary: i s t)
  case 0
  then show ?case by (simp add: recv_wrs.simps[of clear i n s t] thr_holds_rules)
next
  case (Suc x)
  then have "x = n - (i + 1)" by simp
  note IH = Suc.hyps(1)[OF this]
  show ?case
    by (subst recv_wrs.simps) (intro thr_holds_rules IH steady_recv_sges[OF assms]; simp add: Suc.prems)
qed

lemma steady_fast_send_wrs:
  assumes "steady P"
  shows "P (ffr t) \<Longrightarrow> thr_holds P (fast_send_wrs views ud k count i n s a t)"
proof (induction "n - i" arbitrary: k count i s t)
  case 0
  then show ?case by (simp add: fast_send_wrs.simps[of views ud k count i n s a t] thr_holds_rules)
next
  case (Suc x)
  then have "x = n - (i + 1)" by simp
  note IH = Suc.hyps(1)[OF this]
  show ?case
    by (subst fast_send_wrs.simps) (intro thr_holds_rules IH steady_recv_sges[OF assms]; simp add: Suc.prems)
qed

lemma wf_posts:
  assumes "router_wf (ffr t)"
  shows "holds router_wf (on_POST_SEND fuel E V h t)" "holds router_wf (on_POST_RECV E V h t)"
    "holds router_wf (on_POST_SRQ_RECV E V h t)"
  using assms
  by (unfold verbs_handlers,
      (intro holds_rules steady_send_wrs steady_recv_wrs steady_wf; simp add: router_wf_bucket_at; fail)+)

lemmas wf_cases = router_unchanged[of router_wf] wf_unrelated wf_REG_MR_MAPPING wf_DESTROY_QP wf_DESTROY_CQ
  wf_DESTROY_SRQ wf_DEREG_MR wf_CREATE_SRQ wf_CREATE_CQ wf_CREATE_QP wf_REG_MR wf_posts holds_ends

lemma wf_switch: "router_wf (ffr t) \<Longrightarrow> holds router_wf (HandleRequest_switch fuel E V c h t)"
  by (cases c; simp only: HandleRequest_switch_def RDMA_FUNCTION_CALL.case; rule wf_cases; assumption)

section \<open>The loop over the control pieces\<close>

definition ends :: "('a \<Rightarrow> bool) \<Rightarrow> 'a run \<Rightarrow> bool" where
  "ends Q x = (\<forall>a. x = Ok a \<longrightarrow> Q a)"

lemma ends_rules:
  "Q a \<Longrightarrow> ends Q (Ok a)" "ends Q (Undefined u)" "ends Q Diverges"
  "ends Q x \<Longrightarrow> ends Q (deref p x)" "(\<And>v. ends Q (f v)) \<Longrightarrow> ends Q (slot m i f)"
  "(\<And>x. x = v \<Longrightarrow> ends Q (g x)) \<Longrightarrow> ends Q (Let v g)"
  "(\<And>a b. ends Q (j a b)) \<Longrightarrow> ends Q (case p' of (a, b) \<Rightarrow> j a b)"
  "ends Q y \<Longrightarrow> (\<And>a. ends Q (l a)) \<Longrightarrow> ends Q (case z of None \<Rightarrow> y | Some a \<Rightarrow> l a)"
  "ends Q y \<Longrightarrow> ends Q y' \<Longrightarrow> ends Q (if b then y else y')"
  by (auto simp: ends_def deref_def slot_def split: prod.splits option.splits)

lemma ends_andThen: "ends R x \<Longrightarrow> (\<And>a. R a \<Longrightarrow> ends Q (k a)) \<Longrightarrow> ends Q (andThen x k)"
  by (auto simp: ends_def andThen_Ok)

lemma ends_thr: "thr_holds P x \<Longrightarrow> (\<And>t. P (ffr t) \<Longrightarrow> ends Q (k t)) \<Longrightarrow> ends Q (andThen x k)"
  by (auto simp: ends_def thr_holds_def andThen_Ok)

abbreviation ctl_wf :: "'w ctl \<Rightarrow> bool" where
  "ctl_wf c \<equiv> router_wf (c_ffr c)"

lemma wf_piece_done [simp]: "ctl_wf (piece_done p n t c) = router_wf (ffr t)"
  by (simp add: piece_done_def Let_def wf_simps)

lemma wf_fast_post_send: "ctl_wf c \<Longrightarrow> ends ctl_wf (fast_post_send views V p c)"
  unfolding fast_post_send_def
  by (intro ends_rules ends_thr[of router_wf] steady_fast_send_wrs steady_wf; simp add: router_wf_bucket_at)

lemma wf_fast_post_recv: "ctl_wf c \<Longrightarrow> ends ctl_wf (fast_post_recv V p c)"
  unfolding fast_post_recv_def
  by (intro ends_rules ends_thr[of router_wf] steady_recv_wrs steady_wf; simp)

lemma wf_serve_qp: "ctl_wf c \<Longrightarrow> ends ctl_wf (serve_qp views V h c)"
  unfolding serve_qp_def
  by (intro ends_rules; simp split: RDMA_FUNCTION_CALL.splits add: wf_fast_post_send wf_fast_post_recv ends_rules)

lemma wf_serve_srq: "ctl_wf c \<Longrightarrow> ends ctl_wf (serve_srq V h c)"
  unfolding serve_srq_def
  by (intro ends_rules ends_thr[of router_wf] steady_recv_wrs steady_wf; simp)

lemma wf_serve_cq: "ctl_wf c \<Longrightarrow> ends (\<lambda>(c, n). ctl_wf c) (serve_cq V h c)"
  unfolding serve_cq_def by (intro ends_rules; simp)

lemma wf_qp_pass: "ctl_wf c \<Longrightarrow> ends ctl_wf (qp_pass views V hs c)"
  by (induction hs arbitrary: c) (auto intro: ends_rules ends_andThen[OF wf_serve_qp])

lemma wf_srq_pass: "ctl_wf c \<Longrightarrow> ends ctl_wf (srq_pass V hs c)"
  by (induction hs arbitrary: c) (auto intro: ends_rules ends_andThen[OF wf_serve_srq])

lemma wf_cq_pass: "ctl_wf c \<Longrightarrow> ends ctl_wf (cq_pass fuel V i c)"
  by (induction fuel arbitrary: i c)
     (auto intro!: ends_rules ends_andThen[OF wf_serve_cq] split: option.splits)

lemma wf_CtrlChannelLoop_turn: "ctl_wf c \<Longrightarrow> ends ctl_wf (CtrlChannelLoop_turn fuel views V c)"
  unfolding CtrlChannelLoop_turn_def
  by (intro ends_andThen[OF wf_qp_pass] ends_andThen[OF wf_cq_pass] wf_srq_pass)

lemma wf_UDPServer: "router_wf r \<Longrightarrow> UDPServer_step E s buf r w = Some (buf', r', w') \<Longrightarrow> router_wf r'"
  by (auto simp: UDPServer_step_def Let_def wf_simps split: prod.splits if_splits)

section \<open>Reachable routers\<close>

text \<open>
  The routers of a run: the constructor makes the first; a request on a connection, a turn of the loop
  over the control pieces and a packet from another router change it; the watches replace the virtual
  addresses and the hosts; clients write the control pieces they share with the router.
\<close>

inductive router_reach :: "'w os \<Rightarrow> ('w, 'x) verbs2_scheme \<Rightarrow> router \<Rightarrow> bool" for E V where
  start: "router_reach E V (FreeFlowRouter_ctor ip dis)"
| request: "router_reach E V (ffr t) \<Longrightarrow> HandleRequest_switch fuel E V c h t = Ok res \<Longrightarrow>
    router_reach E V (ffr (hthr res))"
| turn: "router_reach E V (c_ffr c) \<Longrightarrow> CtrlChannelLoop_turn fuel views V c = Ok c' \<Longrightarrow> router_reach E V (c_ffr c')"
| packet: "router_reach E V r \<Longrightarrow> UDPServer_step E s buf r w = Some (buf', r', w') \<Longrightarrow> router_reach E V r'"
| watch: "router_reach E V r \<Longrightarrow> router_reach E V (r\<lparr>vip_map := m, host_list := hosts\<rparr>)"
| client: "router_reach E V r \<Longrightarrow> router_reach E V (r\<lparr>ctrl := pieces\<rparr>)"

lemma reach_wf: "router_reach E V r \<Longrightarrow> router_wf r"
proof (induction rule: router_reach.induct)
  case (request t fuel c h res)
  then show ?case using wf_switch[of t fuel E V c h] by (simp add: holds_def)
qed (auto simp: router_wf_ctor wf_simps dest: wf_CtrlChannelLoop_turn[unfolded ends_def, rule_format] wf_UDPServer)

section \<open>No null rate limiter\<close>











section \<open>A run with a live queue pair\<close>

lemma rsp_frame [simp]:
  "cap (rsp_u32 i u t) = cap t" "cap (rsp_int i v t) = cap t" "cap (rsp_cstr i s t) = cap t"
  "world (rsp_u32 i u t) = world t" "world (rsp_int i v t) = world t"
  by (simp_all add: rsp_u32_def rsp_int_def rsp_cstr_def)

lemma fold_rsp_frame [simp]:
  "cap (fold (\<lambda>(x, v). rsp_u32 (f x) v) xs t) = cap t" "world (fold (\<lambda>(x, v). rsp_u32 (f x) v) xs t) = world t"
  by (induction xs arbitrary: t) (auto split: prod.splits)

text \<open>A run on the concrete environment that ends with a live queue pair: a protection domain, then the queue pair on it.\<close>

lemma demo_live_queue_pair:
  "\<exists>r. router_reach demo_os (demo_verbs\<lparr>pd_handle_of := (\<lambda>w pd. 0)\<rparr>) r \<and> qp_map r 7 = 0x3000"
proof -
  let ?V = "demo_verbs\<lparr>pd_handle_of := (\<lambda>w pd. 0)\<rparr>"
  let ?h = "\<lparr>client_id = 1, func = 5, body_size = 0\<rparr>"
  let ?t = "demo_thr demo_router []"
  obtain res where res: "HandleRequest_switch 1 demo_os ?V IBV_ALLOC_PD ?h ?t = Ok res" "pd_map (ffr (hthr res)) 0 = 0x1000"
    by (simp add: HandleRequest_switch_def on_ALLOC_PD_def recv_body_def slot_def deref_def reply_def req_u32_def req_int_def layout Let_def demo_verbs_def NULL_def MAP_SIZE_def)
  have "router_reach demo_os ?V (ffr ?t)" by (simp add: demo_router_def router_reach.start)
  from router_reach.request[OF this res(1)] have one: "router_reach demo_os ?V (ffr (hthr res))" .
  let ?t2 = "demo_thr (ffr (hthr res)) (replicate (size_of IBV_CREATE_QP_REQ) 0)"
  have zero: "put_bytes (\<lambda>_. 0) 0 (replicate n 0) = (\<lambda>_. 0)" for n by (auto simp: put_bytes_def)
  obtain res2 where res2: "HandleRequest_switch 1 demo_os ?V IBV_CREATE_QP ?h ?t2 = Ok res2" "qp_map (ffr (hthr res2)) 7 = 0x3000"
    by (simp add: HandleRequest_switch_def on_CREATE_QP_def recv_body_def slot_def deref_def reply_def req_u32_def req_int_def ssize_lt_def layout Let_def demo_verbs_def NULL_def
        MAP_SIZE_def MAP_FAILED_def initCtrlShm_def ShmPiece_open_def ShmPiece_ctor_def new_bucket_def TokenBucket_ctor_def
        MAX_QP_RATE_LIMIT_def zero res(2))
  have "router_reach demo_os ?V (ffr ?t2)" using one by simp
  from router_reach.request[OF this res2(1)] res2(2) show ?thesis by blast
qed

section \<open>Properties\<close>

lemma listed_piece:
  assumes "objs r (unat h) \<noteq> NULL" "listed (objs r) (pieces r) (vec r)"
  shows "h \<in> set (vec r) \<and> (\<exists>p. piece_at pieces r h = Some p)"
proof -
  have "pieces r (unat h) \<noteq> None" using assms by (simp add: listed_def)
  then have "unat h < MAP_SIZE" "word_of_nat (unat h) \<in> set (vec r)"
    using assms(2) unfolding listed_def by blast+
  then show ?thesis using \<open>pieces r (unat h) \<noteq> None\<close> by (simp add: piece_at_def)
qed

text \<open>
  C8: in every state the router can reach, over any sequence of requests, turns of the loop, packets
  of other routers, updates of the watches and writes of clients to their control pieces, the tables
  are well formed: a live queue has a control piece, every control piece is in the list its loop scans,
  the handles of these lists are inside the tables, a live queue pair has a rate limiter, and a memory
  region is live exactly if its shared memory is.
\<close>

theorem router_tables_well_formed:
  assumes "router_reach E V r"
  shows "router_wf r"
  using assms by (rule reach_wf)

theorem router_tables_well_formed_witness:
  "\<exists>res. HandleRequest_switch 1 demo_os demo_verbs IBV_CREATE_CQ \<lparr>client_id = 1, func = 7, body_size = 12\<rparr>
     (demo_thr demo_router [255, 255, 255, 255, 0, 0, 0, 0, 16, 0, 0, 0]) = Ok res \<and>
     cq_shm_vec (ffr (hthr res)) = [7] \<and> router_wf (ffr (hthr res))"
proof -
  let ?t = "demo_thr demo_router [255, 255, 255, 255, 0, 0, 0, 0, 16, 0, 0, 0]"
  let ?h = "\<lparr>client_id = 1, func = 7, body_size = 12\<rparr>"
  have fd: "get_int (put_bytes (\<lambda>_. 0) 0 [255, 255, 255, 255, 0, 0, 0, 0, 16, 0, 0, 0]) 0 = - 1"
    by (simp add: get_int_def get_u32_def get_bytes_def put_bytes_def upt_rec numeral_eq_Suc[symmetric])
  obtain res where res: "HandleRequest_switch 1 demo_os demo_verbs IBV_CREATE_CQ ?h ?t = Ok res" "cq_shm_vec (ffr (hthr res)) = [7]"
    by (simp add: HandleRequest_switch_def on_CREATE_CQ_def handler_frame ssize_lt_def layout Let_def demo_verbs_def NULL_def
        MAP_SIZE_def MAP_FAILED_def initCtrlShm_def ShmPiece_open_def ShmPiece_ctor_def demo_router_def FreeFlowRouter_ctor_def
        FreeFlowRouter_tables_def tables.defs fd)
  have "router_reach demo_os demo_verbs (ffr ?t)" by (simp add: demo_router_def router_reach.start)
  from router_tables_well_formed[OF router_reach.request[OF this res(1)]] show ?thesis using res by blast
qed



text \<open>
  C9: every live queue is served: it has a control piece, the loop over the pieces scans it, and after the
  scan of the queue pairs, and that of the shared receive queues, no request waits in it.
\<close>

theorem live_queues_are_served:
  assumes "router_reach E V (c_ffr c)"
  shows "(qp_map (c_ffr c) (unat h) \<noteq> NULL \<longrightarrow>
      (\<exists>p. piece_at qp_shm_map (c_ffr c) h = Some p \<and>
        (\<forall>c'. qp_pass views V (qp_shm_vec (c_ffr c)) c = Ok c' \<longrightarrow> cs_state (ctrl (c_ffr c') p) \<noteq> REQ_DONE))) \<and>
    (srq_map (c_ffr c) (unat h) \<noteq> NULL \<longrightarrow>
      (\<exists>p. piece_at srq_shm_map (c_ffr c) h = Some p \<and>
        (\<forall>c'. srq_pass V (srq_shm_vec (c_ffr c)) c = Ok c' \<longrightarrow> cs_state (ctrl (c_ffr c') p) \<noteq> REQ_DONE)))"
  using listed_piece[of qp_map "c_ffr c" h qp_shm_map qp_shm_vec] listed_piece[of srq_map "c_ffr c" h srq_shm_map srq_shm_vec]
    qp_server.scan_spec[of views V "qp_shm_vec (c_ffr c)" c] srq_server.scan_spec[of V "srq_shm_vec (c_ffr c)" c]
    reach_wf[OF assms]
  unfolding router_wf_def qp_pass_scan srq_pass_scan by blast

theorem live_queues_are_served_witness:
  "\<exists>c p. qp_map (c_ffr c) 7 = 0x3000 \<and> piece_at qp_shm_map (c_ffr (c :: bytes ctl)) 7 = Some p"
proof -
  obtain r where r: "router_reach demo_os (demo_verbs\<lparr>pd_handle_of := (\<lambda>w pd. 0)\<rparr>) r" "qp_map r 7 = 0x3000"
    using demo_live_queue_pair by blast
  let ?c = "\<lparr>c_ffr = r, c_world = [], c_qp = 0, c_cq = 0, c_srq = 0\<rparr> :: bytes ctl"
  have "router_reach demo_os (demo_verbs\<lparr>pd_handle_of := (\<lambda>w pd. 0)\<rparr>) (c_ffr ?c)" "qp_map (c_ffr ?c) (unat (7 :: u32)) \<noteq> NULL"
    using r by (simp_all add: NULL_def)
  then show ?thesis using live_queues_are_served[of demo_os "demo_verbs\<lparr>pd_handle_of := (\<lambda>w pd. 0)\<rparr>" ?c 7 "\<lambda>_. Map.empty"] r(2)
    by (intro exI[of _ ?c]) auto
qed

end
