(* ===== verification/FF_ClientPost.thy ===== *)
theory FF_ClientPost
  imports FF_Channel
begin

text \<open>
  The data path of the client library, \<^verbatim>\<open>ibv_cmd_post_send\<close>, \<^verbatim>\<open>ibv_cmd_post_recv\<close>, \<^verbatim>\<open>ibv_cmd_post_srq_recv\<close> and
  \<^verbatim>\<open>ibv_cmd_poll_cq\<close> of \<^verbatim>\<open>libibverbs-1.2.1mlnx1/src/cmd.c\<close>: work requests of the application are copied
  into the request area of a control piece, their data into shared memory; posted receives are
  remembered in a queue, from which polling takes the places where received data goes. The loops over
  the application's list of work requests follow its links; a cyclic list never ends (\<open>Spins\<close>).
\<close>

unbundle bit_operations_syntax

section \<open>The memory of the process\<close>

definition app_at :: "(u64 \<Rightarrow> u8) \<Rightarrow> u64 \<Rightarrow> mem" where
  "app_at M p = (\<lambda>i. M (p + word_of_nat i))"

text \<open>\<^verbatim>\<open>memcpy\<close> within the process, and from a buffer into the process.\<close>

definition app_copy :: "u64 \<Rightarrow> u64 \<Rightarrow> nat \<Rightarrow> (u64 \<Rightarrow> u8) \<Rightarrow> (u64 \<Rightarrow> u8)" where
  "app_copy dst src n M = (\<lambda>a. if unat (a - dst) < n then M (src + (a - dst)) else M a)"

definition app_store :: "u64 \<Rightarrow> bytes \<Rightarrow> (u64 \<Rightarrow> u8) \<Rightarrow> (u64 \<Rightarrow> u8)" where
  "app_store dst bs M = (\<lambda>a. if unat (a - dst) < length bs then bs ! unat (a - dst) else M a)"

section \<open>Queues of posted receives\<close>

text \<open>
  \<^verbatim>\<open>head\<close> and \<^verbatim>\<open>tail\<close> have 16 bits, so they wrap to 0 after 65535 by themselves; the comparison with
  \<^verbatim>\<open>WR_QUEUE_SIZE\<close>, which is larger, never succeeds.
\<close>

definition advance :: "u16 \<Rightarrow> u16" where
  "advance i = (let i = i + 1 in if WR_QUEUE_SIZE \<le> unat i then 0 else i)"

definition wr_queue_push :: "sge_record list \<Rightarrow> wr_queue \<Rightarrow> wr_queue" where
  "wr_queue_push rs q = q\<lparr>wq_queue := (wq_queue q)(unat (wq_head q) := rs), wq_head := advance (wq_head q)\<rparr>"

definition wr_queue_pop :: "wr_queue \<Rightarrow> sge_record list \<times> wr_queue" where
  "wr_queue_pop q = (wq_queue q (unat (wq_tail q)), q\<lparr>wq_tail := advance (wq_tail q)\<rparr>)"

section \<open>Work requests of the application\<close>

text \<open>The first loop of the posting functions: the numbers of work requests and of entries, in 32 bits.\<close>

fun count_wrs :: "nat \<Rightarrow> (u64 \<Rightarrow> u8) \<Rightarrow> u64 \<Rightarrow> u32 \<Rightarrow> u32 \<Rightarrow> (u32 \<times> u32) cres" where
  "count_wrs 0 M p wrs sges = (if p = NULL then Ret (wrs, sges) else Spins)"
| "count_wrs (Suc fuel) M p wrs sges =
     (if p = NULL then Ret (wrs, sges)
      else count_wrs fuel M (get_u64 (app_at M p) (off ibv_send_wr [''next''])) (wrs + 1)
             (sges + word_of_int (get_int (app_at M p) (off ibv_send_wr [''num_sge'']))))"

text \<open>\<^verbatim>\<open>while (--wr_count) i = i->next;\<close> for the index the router reports.\<close>

fun walk_next :: "nat \<Rightarrow> (u64 \<Rightarrow> u8) \<Rightarrow> u64 \<Rightarrow> u64 cres" where
  "walk_next 0 M p = Ret p"
| "walk_next (Suc k) M p =
     (if p = NULL then Ub NullDeref else walk_next k M (get_u64 (app_at M p) (off ibv_send_wr [''next''])))"

text \<open>What is stored through \<^verbatim>\<open>bad_wr\<close>, if anything.\<close>

definition bad_wr_result :: "(u64 \<Rightarrow> u8) \<Rightarrow> u64 \<Rightarrow> u32 \<Rightarrow> u32 \<Rightarrow> u64 option cres" where
  "bad_wr_result M wr bad ret_errno =
     (if bad \<noteq> 0 then cthen (walk_next (unat bad - 1) M wr) (\<lambda>p. Ret (Some p))
      else Ret (if ret_errno \<noteq> 0 then Some wr else None))"

section \<open>The exchange\<close>

definition fastpath_disabled :: "'w os \<Rightarrow> bool" where
  "fastpath_disabled E =
     (case os_getenv E ''DISABLE_FASTPATH'' of None \<Rightarrow> False | Some s \<Rightarrow> (word_of_int (atoi s) :: u8) \<noteq> 0)"

text \<open>The control piece of a handle, which a failed \<^verbatim>\<open>mmap\<close> has left as \<^verbatim>\<open>MAP_FAILED\<close>; \<open>env\<close> is what the router does to the piece while the client waits.\<close>

definition csp_of :: "table \<Rightarrow> u32 \<Rightarrow> u64 cres" where
  "csp_of tab h =
     (if MAP_SIZE \<le> unat h then Ub OobIndex
      else if tab (unat h) = NULL \<or> tab (unat h) = MAP_FAILED then Ub NullDeref
      else Ret (tab (unat h)))"

definition post_exchange ::
  "nat \<Rightarrow> (nat \<Rightarrow> nat) \<Rightarrow> 'w os \<Rightarrow> (nat \<Rightarrow> CtrlShm \<Rightarrow> CtrlShm) \<Rightarrow> RDMA_FUNCTION_CALL \<Rightarrow> u64 \<Rightarrow> 'w lib \<Rightarrow> 'w lib cres" where
  "post_exchange fuel usable E env req csp l =
     (let cs = lib_ctrl l csp
      in if fastpath_disabled E
         then cthen (request_router fuel usable E req (\<lambda>i. cs_req cs (size_of FfrRequestHeader + i))
                       (get_u32 (cs_req cs) (off FfrRequestHeader [''body_size'']))
                       (\<lambda>i. cs_rsp cs (size_of FfrResponseHeader + i)) (get_int (cs_rsp cs) 0) l) (\<lambda>(m, n, l).
                Ret (l\<lparr>lib_ctrl := (lib_ctrl l)(csp := cs\<lparr>cs_rsp :=
                  (\<lambda>i. if i < size_of FfrResponseHeader
                       then (if req = IBV_POLL_CQ then put_int (cs_rsp cs) 0 n i else cs_rsp cs i)
                       else m (i - size_of FfrResponseHeader))\<rparr>)\<rparr>))
         else cthen (request_router_shm fuel env 0 cs) (\<lambda>cs. Ret (l\<lparr>lib_ctrl := (lib_ctrl l)(csp := cs)\<rparr>)))"

text \<open>The two headers of a posting request.\<close>

definition post_header :: "int \<Rightarrow> u32 \<Rightarrow> u32 \<Rightarrow> u32 \<Rightarrow> u32 \<Rightarrow> u32 \<Rightarrow> mem \<Rightarrow> mem" where
  "post_header cid code bsize handle wr_count sge_count req =
     (let H = size_of FfrRequestHeader;
          req = put_int req (off FfrRequestHeader [''client_id'']) cid;
          req = put_u32 req (off FfrRequestHeader [''func'']) code;
          req = put_u32 req (off FfrRequestHeader [''body_size'']) bsize;
          req = put_u32 req (H + off ibv_post_send [''qp_handle'']) handle;
          req = put_u32 req (H + off ibv_post_send [''wr_count'']) wr_count
      in put_u32 req (H + off ibv_post_send [''sge_count'']) sge_count)"

definition lib_code :: "RDMA_FUNCTION_CALL \<Rightarrow> u32" where
  "lib_code req = word_of_nat (the (call_code client_calls req))"

section \<open>Sends\<close>

text \<open>
  The loop over the entries of a work request, at offset \<open>s\<close> of the request area: the key is looked up,
  the data is copied into the shared memory unless it is there already, and the address becomes an
  offset into the region.
\<close>

fun send_entries :: "nat \<Rightarrow> nat \<Rightarrow> 'w lib \<Rightarrow> mem \<Rightarrow> ('w lib \<times> mem) cres" where
  "send_entries 0 s l req = Ret (l, req)"
| "send_entries (Suc k) s l req =
     (let (ptr, pool) = mempool_get (get_u32 req (s + off ibv_sge [''lkey''])) (map_lkey_to_mrshm l);
          l = l\<lparr>map_lkey_to_mrshm := pool\<rparr>
      in if ptr = 0 then Ub NullDeref
         else let e = mrshm_data l ptr;
                  addr = get_u64 req (s + off ibv_sge [''addr'']);
                  dst = mrs_shm e + (addr - mrs_mr e);
                  n = unat (get_u32 req (s + off ibv_sge [''length'']));
                  l = (if dst \<noteq> addr then l\<lparr>app_mem := app_copy dst addr n (app_mem l)\<rparr> else l)
              in send_entries k (s + size_of ibv_sge) l (put_u64 req (s + off ibv_sge [''addr'']) (addr - mrs_mr e)))"

text \<open>The loop over the work requests. \<open>q\<close>, \<open>s\<close> and \<open>a\<close> are the places of the next request, entry and address handle.\<close>

fun send_requests :: "nat \<Rightarrow> bool \<Rightarrow> u64 \<Rightarrow> nat \<Rightarrow> nat \<Rightarrow> nat \<Rightarrow> 'w lib \<Rightarrow> mem \<Rightarrow> ('w lib \<times> mem) cres" where
  "send_requests 0 ud p q s a l req = (if p = NULL then Ret (l, req) else Spins)"
| "send_requests (Suc fuel) ud p q s a l req =
     (if p = NULL then Ret (l, req)
      else if CTRL_REQ_SIZE < q + size_of ibv_send_wr then Ub OobIndex
      else let wr = app_at (app_mem l) p;
               req = put_bytes req q (get_bytes wr 0 (size_of ibv_send_wr));
               ah = get_u64 wr (off ibv_send_wr [''wr'', ''ud'', ''ah''])
           in if ud \<and> ah = NULL then Ub NullDeref
              else if ud \<and> CTRL_REQ_SIZE < a + 4 then Ub OobIndex
              else let req = (if ud then put_u32 req a (get_u32 (app_at (app_mem l) ah) (off ibv_ah [''handle''])) else req);
                       a = (if ud then a + 4 else a);
                       n = get_int req (q + off ibv_send_wr [''num_sge'']);
                       k = nat n * size_of ibv_sge
                   in if n < 0 \<or> CTRL_REQ_SIZE < s + k then Ub OobIndex
                      else let req = put_bytes req s (get_bytes (app_at (app_mem l) (get_u64 wr (off ibv_send_wr [''sg_list'']))) 0 k)
                           in cthen (send_entries (nat n) s l req) (\<lambda>(l, req).
                                send_requests fuel ud (get_u64 (app_at (app_mem l) p) (off ibv_send_wr [''next'']))
                                  (q + size_of ibv_send_wr) (s + k) a l req))"

text \<open>What a queue pair of the client has: its handle, its type and the handle of its receive completion queue.\<close>

record client_qp =
  cqp_handle :: u32
  cqp_type :: u32
  cqp_recv_cq :: u32

text \<open>The request in the piece, before it is handed over.\<close>

definition marshal_send :: "nat \<Rightarrow> client_qp \<Rightarrow> u64 \<Rightarrow> u64 \<Rightarrow> 'w lib \<Rightarrow> 'w lib cres" where
  "marshal_send fuel qp wr csp l =
     cthen (count_wrs fuel (app_mem l) wr 0 0) (\<lambda>(wr_count, sge_count).
       let ud = (cqp_type qp = IBV_QPT_UD); cs = lib_ctrl l csp;
           bsize = word_of_nat (size_of ibv_post_send + unat wr_count * size_of ibv_send_wr
                     + unat sge_count * size_of ibv_sge + (if ud then unat wr_count * 4 else 0));
           req = post_header (ffr_client_id l) (lib_code IBV_POST_SEND) bsize (cqp_handle qp) wr_count sge_count (cs_req cs);
           q = size_of FfrRequestHeader + size_of ibv_post_send;
           s = q + unat wr_count * size_of ibv_send_wr;
           a = s + unat sge_count * size_of ibv_sge
       in cthen (send_requests fuel ud wr q s a l req) (\<lambda>(l, req).
            Ret (l\<lparr>lib_ctrl := (lib_ctrl l)(csp := cs\<lparr>cs_req := req\<rparr>)\<rparr>)))"

text \<open>The end of the posting functions: the answer is read and the piece given back.\<close>

definition post_result :: "u64 \<Rightarrow> u64 \<Rightarrow> 'w lib \<Rightarrow> (u32 \<times> u64 option \<times> 'w lib) cres" where
  "post_result wr csp l =
     (let cs = lib_ctrl l csp;
          ret_errno = get_u32 (cs_rsp cs) (size_of FfrResponseHeader + off IBV_POST_SEND_RSP [''ret_errno'']);
          bad = get_u32 (cs_rsp cs) (size_of FfrResponseHeader + off IBV_POST_SEND_RSP [''bad_wr''])
      in cthen (bad_wr_result (app_mem l) wr bad ret_errno) (\<lambda>b.
           Ret (ret_errno, b, l\<lparr>lib_ctrl := (lib_ctrl l)(csp := cs\<lparr>cs_state := IDLE\<rparr>)\<rparr>)))"

definition ibv_cmd_post_send ::
  "nat \<Rightarrow> (nat \<Rightarrow> nat) \<Rightarrow> 'w os \<Rightarrow> (nat \<Rightarrow> CtrlShm \<Rightarrow> CtrlShm) \<Rightarrow> client_qp \<Rightarrow> u64 \<Rightarrow> 'w lib
     \<Rightarrow> (u32 \<times> u64 option \<times> 'w lib) cres" where
  "ibv_cmd_post_send fuel usable E env qp wr l =
     cthen (csp_of (lib_qp_shm l) (cqp_handle qp)) (\<lambda>csp.
     cthen (marshal_send fuel qp wr csp l) (\<lambda>l.
     cthen (post_exchange fuel usable E env IBV_POST_SEND csp l) (\<lambda>l.
       post_result wr csp l)))"

section \<open>Receives\<close>

text \<open>
  The loop over the entries of a receive: addresses become offsets, and a record keeps where in the
  application and where in shared memory the data will be.
\<close>

fun recv_entries :: "nat \<Rightarrow> nat \<Rightarrow> 'w lib \<Rightarrow> mem \<Rightarrow> (sge_record list \<times> 'w lib \<times> mem) cres" where
  "recv_entries 0 s l req = Ret ([], l, req)"
| "recv_entries (Suc k) s l req =
     (let (ptr, pool) = mempool_get (get_u32 req (s + off ibv_sge [''lkey''])) (map_lkey_to_mrshm l);
          l = l\<lparr>map_lkey_to_mrshm := pool\<rparr>
      in if ptr = 0 then Ub NullDeref
         else let e = mrshm_data l ptr;
                  d = get_u64 req (s + off ibv_sge [''addr'']) - mrs_mr e;
                  r = \<lparr>sr_length = get_u32 req (s + off ibv_sge [''length'']), sr_mr_addr = mrs_mr e + d, sr_shm_addr = mrs_shm e + d\<rparr>
              in cthen (recv_entries k (s + size_of ibv_sge) l (put_u64 req (s + off ibv_sge [''addr'']) d))
                   (\<lambda>(rs, l, req). Ret (r # rs, l, req)))"

text \<open>
  The loop over the work requests of \<^verbatim>\<open>ibv_cmd_post_recv\<close> and \<^verbatim>\<open>ibv_cmd_post_srq_recv\<close>: \<open>wq\<close> is the queue of the
  completion queue or of the shared receive queue. The list pointer of a request with entries is
  set to where the entries are in the piece; \<open>base\<close> is the address of the piece.
\<close>

fun recv_requests :: "nat \<Rightarrow> u64 \<Rightarrow> u64 \<Rightarrow> nat \<Rightarrow> nat \<Rightarrow> wr_queue \<Rightarrow> 'w lib \<Rightarrow> mem \<Rightarrow> (wr_queue \<times> 'w lib \<times> mem) cres" where
  "recv_requests 0 base p q s wq l req = (if p = NULL then Ret (wq, l, req) else Spins)"
| "recv_requests (Suc fuel) base p q s wq l req =
     (if p = NULL then Ret (wq, l, req)
      else if CTRL_REQ_SIZE < q + size_of ibv_recv_wr then Ub OobIndex
      else let wr = app_at (app_mem l) p;
               req = put_bytes req q (get_bytes wr 0 (size_of ibv_recv_wr));
               n = get_int req (q + off ibv_recv_wr [''num_sge'']);
               k = nat n * size_of ibv_sge
           in if n < 0 \<or> CTRL_REQ_SIZE < s + k then Ub OobIndex
              else let req = (if n = 0 then req
                              else put_u64 req (q + off ibv_recv_wr [''sg_list'']) (addr_of base (off CtrlShmPiece [''req''] + s)));
                       req = put_bytes req s (get_bytes (app_at (app_mem l) (get_u64 wr (off ibv_recv_wr [''sg_list'']))) 0 k)
                   in cthen (recv_entries (nat n) s l req) (\<lambda>(rs, l, req).
                        recv_requests fuel base (get_u64 (app_at (app_mem l) p) (off ibv_recv_wr [''next'']))
                          (q + size_of ibv_recv_wr) (s + k) (wr_queue_push rs wq) l req))"

definition queue_of :: "(nat \<Rightarrow> wr_queue option) \<Rightarrow> u32 \<Rightarrow> wr_queue cres" where
  "queue_of tab h =
     (if MAP_SIZE \<le> unat h then Ub OobIndex else case tab (unat h) of None \<Rightarrow> Ub NullDeref | Some q \<Rightarrow> Ret q)"

definition marshal_recv ::
  "nat \<Rightarrow> RDMA_FUNCTION_CALL \<Rightarrow> u32 \<Rightarrow> u64 \<Rightarrow> u64 \<Rightarrow> wr_queue \<Rightarrow> 'w lib \<Rightarrow> (wr_queue \<times> 'w lib) cres" where
  "marshal_recv fuel call handle wr csp wq l =
     cthen (count_wrs fuel (app_mem l) wr 0 0) (\<lambda>(wr_count, sge_count).
       let cs = lib_ctrl l csp;
           bsize = word_of_nat (size_of ibv_post_recv + unat wr_count * size_of ibv_recv_wr + unat sge_count * size_of ibv_sge);
           req = post_header (ffr_client_id l) (lib_code call) bsize handle wr_count sge_count (cs_req cs);
           q = size_of FfrRequestHeader + size_of ibv_post_recv
       in cthen (recv_requests fuel csp wr q (q + unat wr_count * size_of ibv_recv_wr) wq l req) (\<lambda>(wq, l, req).
            Ret (wq, l\<lparr>lib_ctrl := (lib_ctrl l)(csp := cs\<lparr>cs_req := req\<rparr>)\<rparr>)))"

definition ibv_cmd_post_recv ::
  "nat \<Rightarrow> (nat \<Rightarrow> nat) \<Rightarrow> 'w os \<Rightarrow> (nat \<Rightarrow> CtrlShm \<Rightarrow> CtrlShm) \<Rightarrow> client_qp \<Rightarrow> u64 \<Rightarrow> 'w lib
     \<Rightarrow> (u32 \<times> u64 option \<times> 'w lib) cres" where
  "ibv_cmd_post_recv fuel usable E env qp wr l =
     cthen (csp_of (lib_qp_shm l) (cqp_handle qp)) (\<lambda>csp.
     cthen (queue_of (map_cq_to_wr_queue l) (cqp_recv_cq qp)) (\<lambda>wq.
     cthen (marshal_recv fuel IBV_POST_RECV (cqp_handle qp) wr csp wq l) (\<lambda>(wq, l).
     cthen (post_exchange fuel usable E env IBV_POST_RECV csp
              (l\<lparr>map_cq_to_wr_queue := (map_cq_to_wr_queue l)(unat (cqp_recv_cq qp) := Some wq)\<rparr>)) (\<lambda>l.
       post_result wr csp l))))"

definition ibv_cmd_post_srq_recv ::
  "nat \<Rightarrow> (nat \<Rightarrow> nat) \<Rightarrow> 'w os \<Rightarrow> (nat \<Rightarrow> CtrlShm \<Rightarrow> CtrlShm) \<Rightarrow> u32 \<Rightarrow> u64 \<Rightarrow> 'w lib
     \<Rightarrow> (u32 \<times> u64 option \<times> 'w lib) cres" where
  "ibv_cmd_post_srq_recv fuel usable E env srq wr l =
     cthen (csp_of (lib_srq_shm l) srq) (\<lambda>csp.
     cthen (queue_of (map_srq_to_wr_queue l) srq) (\<lambda>wq.
     cthen (marshal_recv fuel IBV_POST_SRQ_RECV srq wr csp wq l) (\<lambda>(wq, l).
     cthen (post_exchange fuel usable E env IBV_POST_SRQ_RECV csp
              (l\<lparr>map_srq_to_wr_queue := (map_srq_to_wr_queue l)(unat srq := Some wq)\<rparr>)) (\<lambda>l.
       post_result wr csp l))))"

section \<open>Completions\<close>

definition IBV_WC_RECV :: u32 where
  "IBV_WC_RECV = 128"

text \<open>The data of one receive goes from shared memory to the application, unless they are the same memory.\<close>

definition deliver :: "sge_record list \<Rightarrow> (u64 \<Rightarrow> u8) \<Rightarrow> (u64 \<Rightarrow> u8)" where
  "deliver rs M =
     fold (\<lambda>r M. if sr_mr_addr r \<noteq> sr_shm_addr r then app_copy (sr_mr_addr r) (sr_shm_addr r) (unat (sr_length r)) M else M) rs M"

text \<open>
  Which queue a completion queue takes from: its own, or the one of the shared receive queue it was
  associated with. The test allows the index \<^verbatim>\<open>MAP_SIZE\<close>, one behind the table.
\<close>

definition poll_queue :: "u32 \<Rightarrow> 'w lib \<Rightarrow> wr_queue cres" where
  "poll_queue cq l =
     (if unat (map_cq_to_srq l (unat cq)) \<le> MAP_SIZE then queue_of (map_srq_to_wr_queue l) (map_cq_to_srq l (unat cq))
      else queue_of (map_cq_to_wr_queue l) cq)"

definition set_poll_queue :: "u32 \<Rightarrow> wr_queue \<Rightarrow> 'w lib \<Rightarrow> 'w lib" where
  "set_poll_queue cq q l =
     (if unat (map_cq_to_srq l (unat cq)) \<le> MAP_SIZE
      then l\<lparr>map_srq_to_wr_queue := (map_srq_to_wr_queue l)(unat (map_cq_to_srq l (unat cq)) := Some q)\<rparr>
      else l\<lparr>map_cq_to_wr_queue := (map_cq_to_wr_queue l)(unat cq := Some q)\<rparr>)"

text \<open>The loop over the completions \<open>i\<close>, ..., \<open>i + k - 1\<close> of the list \<open>wcs\<close>.\<close>

fun take_completions :: "nat \<Rightarrow> nat \<Rightarrow> mem \<Rightarrow> u32 \<Rightarrow> 'w lib \<Rightarrow> 'w lib cres" where
  "take_completions 0 i wcs cq l = Ret l"
| "take_completions (Suc k) i wcs cq l =
     (if get_u32 wcs (i * size_of ibv_wc + off ibv_wc [''opcode'']) AND IBV_WC_RECV \<noteq> 0
      then cthen (poll_queue cq l) (\<lambda>q.
             let (rs, q) = wr_queue_pop q; l = set_poll_queue cq q l
             in take_completions k (i + 1) wcs cq (l\<lparr>app_mem := deliver rs (app_mem l)\<rparr>))
      else take_completions k (i + 1) wcs cq l)"

text \<open>\<^verbatim>\<open>pthread_spin_lock\<close> on a lock that is held never returns here: no other thread would release it.\<close>

definition lock_srq_tail :: "u32 \<Rightarrow> 'w lib \<Rightarrow> 'w lib cres" where
  "lock_srq_tail cq l =
     (if unat (map_cq_to_srq l (unat cq)) \<le> MAP_SIZE
      then cthen (queue_of (map_srq_to_wr_queue l) (map_cq_to_srq l (unat cq))) (\<lambda>q.
             if wq_tail_locked q then Spins else Ret (set_poll_queue cq (q\<lparr>wq_tail_locked := True\<rparr>) l))
      else Ret l)"

definition unlock_srq_tail :: "u32 \<Rightarrow> 'w lib \<Rightarrow> 'w lib cres" where
  "unlock_srq_tail cq l =
     (if unat (map_cq_to_srq l (unat cq)) \<le> MAP_SIZE
      then cthen (queue_of (map_srq_to_wr_queue l) (map_cq_to_srq l (unat cq))) (\<lambda>q.
             Ret (set_poll_queue cq (q\<lparr>wq_tail_locked := False\<rparr>) l))
      else Ret l)"

text \<open>
  The size of the answer is a signed number, compared and divided as an unsigned one. A size that is not a
  multiple of a completion returns \<open>- 1\<close> at once, with the state of the piece and the spin lock as they are.
  The completions are copied to \<open>wc\<close>.
\<close>

definition ibv_cmd_poll_cq ::
  "nat \<Rightarrow> (nat \<Rightarrow> nat) \<Rightarrow> 'w os \<Rightarrow> (nat \<Rightarrow> CtrlShm \<Rightarrow> CtrlShm) \<Rightarrow> u32 \<Rightarrow> int \<Rightarrow> u64 \<Rightarrow> 'w lib \<Rightarrow> (int \<times> 'w lib) cres" where
  "ibv_cmd_poll_cq fuel usable E env cq ne wc l =
     cthen (csp_of (lib_cq_shm l) cq) (\<lambda>csp.
       let cs = lib_ctrl l csp; H = size_of FfrRequestHeader;
           req = put_int (cs_req cs) (off FfrRequestHeader [''client_id'']) (ffr_client_id l);
           req = put_u32 req (off FfrRequestHeader [''func'']) (lib_code IBV_POLL_CQ);
           req = put_u32 req (off FfrRequestHeader [''body_size'']) (word_of_nat (size_of IBV_POLL_CQ_REQ));
           req = put_u32 req (H + off IBV_POLL_CQ_REQ [''cq_handle'']) cq;
           req = put_int req (H + off IBV_POLL_CQ_REQ [''ne'']) ne
       in cthen (lock_srq_tail cq (l\<lparr>lib_ctrl := (lib_ctrl l)(csp := cs\<lparr>cs_req := req\<rparr>)\<rparr>)) (\<lambda>l.
          cthen (post_exchange fuel usable E env IBV_POLL_CQ csp l) (\<lambda>l.
            let cs = lib_ctrl l csp;
                sz = unat (word_of_int (get_int (cs_rsp cs) (off FfrResponseHeader [''rsp_size''])) :: u64);
                wcs = (\<lambda>i. cs_rsp cs (size_of FfrResponseHeader + i))
            in if sz mod size_of ibv_wc \<noteq> 0 then Ret (- 1, l)
               else if CTRL_RSP_SIZE < size_of FfrResponseHeader + sz then Ub OobIndex
               else let count = sz div size_of ibv_wc; M = app_store wc (get_bytes wcs 0 sz) (app_mem l)
                    in cthen (take_completions count 0 wcs cq (l\<lparr>app_mem := M\<rparr>)) (\<lambda>l.
                       cthen (unlock_srq_tail cq (l\<lparr>lib_ctrl := (lib_ctrl l)(csp := cs\<lparr>cs_state := IDLE\<rparr>)\<rparr>)) (\<lambda>l.
                         Ret (int count, l))))))"

end
