(* ===== verification/FF_WrQueue.thy ===== *)
theory FF_WrQueue
  imports FF_ClientPost
begin

text \<open>
  The queues in which the client remembers posted receives, as an implementation of a bounded queue: what
  it holds, how pushing and popping change that, what happens at its limit, and what polling makes of
  it.
\<close>

unbundle bit_operations_syntax

section \<open>Bounded queues\<close>

locale bounded_fifo =
  fixes push :: "'a \<Rightarrow> 'q \<Rightarrow> 'q" and pop :: "'q \<Rightarrow> 'a \<times> 'q" and contents :: "'q \<Rightarrow> 'a list" and limit :: nat
  assumes push_contents: "length (contents q) < limit \<Longrightarrow> contents (push x q) = contents q @ [x]"
    and pop_contents: "contents q \<noteq> [] \<Longrightarrow> fst (pop q) = hd (contents q) \<and> contents (snd (pop q)) = tl (contents q)"
begin

lemma push_all: "length (contents q) + length xs \<le> limit \<Longrightarrow> contents (fold push xs q) = contents q @ xs"
  by (induction xs arbitrary: q) (auto simp: push_contents)

end

text \<open>\<open>n\<close> elements taken one after the other.\<close>

fun pops :: "('q \<Rightarrow> 'a \<times> 'q) \<Rightarrow> nat \<Rightarrow> 'q \<Rightarrow> 'a list \<times> 'q" where
  "pops pop 0 q = ([], q)"
| "pops pop (Suc n) q = (let (x, q) = pop q; (xs, q) = pops pop n q in (x # xs, q))"

context bounded_fifo begin

lemma pops_contents:
  "n \<le> length (contents q) \<Longrightarrow> fst (pops pop n q) = take n (contents q) \<and> contents (snd (pops pop n q)) = drop n (contents q)"
proof (induction n arbitrary: q)
  case (Suc n)
  then have ne: "contents q \<noteq> []" by auto
  obtain x q' where p: "pop q = (x, q')" by (cases "pop q")
  with pop_contents[OF ne] have q': "x = hd (contents q)" "contents q' = tl (contents q)" by auto
  then have "n \<le> length (contents q')" using Suc.prems ne by (cases "contents q") auto
  from Suc.IH[OF this] q' ne p show ?case
    by (cases "contents q") (auto simp: Let_def split: prod.splits)
qed simp

lemma first_in_first_out:
  assumes "contents q = []" "length xs \<le> limit"
  shows "fst (pops pop (length xs) (fold push xs q)) = xs"
  using pops_contents[of "length xs" "fold push xs q"] push_all[of q xs] assms by simp

end

section \<open>The ring\<close>

definition wq_list :: "wr_queue \<Rightarrow> sge_record list list" where
  "wq_list q = map (\<lambda>i. wq_queue q (unat (wq_tail q + word_of_nat i))) [0..<unat (wq_head q - wq_tail q)]"

lemma advance_wraps: "advance i = i + 1"
proof -
  have "unat (i + 1) < 2 ^ 16" using unsigned_less[of "i + 1", where ?'a = nat] by simp
  then show ?thesis by (simp add: advance_def WR_QUEUE_SIZE_def Let_def)
qed

lemma length_wq_list [simp]: "length (wq_list q) = unat (wq_head q - wq_tail q)"
  by (simp add: wq_list_def)

lemma unat_Suc_u16: "unat (x :: u16) < 65535 \<Longrightarrow> unat (x + 1) = unat x + 1"
  by (simp add: unat_word_ariths)

lemma slot_not_head: "i < unat (h - t :: u16) \<Longrightarrow> unat (t + word_of_nat i) \<noteq> unat h"
proof
  assume i: "i < unat (h - t)" and "unat (t + word_of_nat i) = unat h"
  then have "t + word_of_nat i = h" by (simp add: word_unat_eq_iff)
  then have "word_of_nat i = h - t" by (metis add_diff_cancel_left')
  then have "unat (h - t) = unat (word_of_nat i :: u16)" by simp
  also have "\<dots> = i mod 65536" by (simp add: unsigned_of_nat take_bit_eq_mod)
  finally show False using i by (metis mod_less_eq_dividend leD)
qed

lemma push_list:
  assumes "length (wq_list q) < 65535"
  shows "wq_list (wr_queue_push rs q) = wq_list q @ [rs]"
proof -
  let ?n = "unat (wq_head q - wq_tail q)"
  have "unat (wq_head q + 1 - wq_tail q) = ?n + 1"
    using unat_Suc_u16[of "wq_head q - wq_tail q"] assms by (simp add: algebra_simps)
  moreover have "wq_tail q + word_of_nat ?n = wq_head q" by simp
  ultimately show ?thesis
    by (auto simp: wq_list_def wr_queue_push_def advance_wraps slot_not_head)
qed

lemma pop_list:
  assumes "wq_list q \<noteq> []"
  shows "fst (wr_queue_pop q) = hd (wq_list q) \<and> wq_list (snd (wr_queue_pop q)) = tl (wq_list q)"
proof -
  let ?d = "wq_head q - wq_tail q"
  have pos: "0 < unat ?d" using assms by (simp add: wq_list_def)
  then have "unat (?d - 1) = unat ?d - 1" by (metis Suc_pred' One_nat_def unat_minus_one unat_gt_0 neq0_conv)
  then have d: "unat (wq_head q - (wq_tail q + 1)) = unat ?d - 1" by (simp add: algebra_simps)
  have "[0..<unat ?d] = 0 # map Suc [0..<unat ?d - 1]"
    using pos by (metis One_nat_def Suc_pred' map_Suc_upt upt_conv_Cons)
  then show ?thesis
    by (simp add: wq_list_def wr_queue_pop_def advance_wraps d comp_def add.assoc)
qed

interpretation wr_fifo: bounded_fifo wr_queue_push wr_queue_pop wq_list 65535
  by unfold_locales (auto simp: push_list pop_list)
text \<open>
  C17: the ring of posted receives implements a queue of at most 65535 elements: pushing appends,
  popping removes the oldest, and whatever is pushed onto an empty queue within that limit comes
  back in the same order.
\<close>

theorem wr_queue_refines_fifo:
  "(length (wq_list q) < 65535 \<longrightarrow> wq_list (wr_queue_push rs q) = wq_list q @ [rs]) \<and>
   (wq_list q \<noteq> [] \<longrightarrow> fst (wr_queue_pop q) = hd (wq_list q) \<and> wq_list (snd (wr_queue_pop q)) = tl (wq_list q)) \<and>
   (wq_list q = [] \<and> length xs \<le> 65535 \<longrightarrow> fst (pops wr_queue_pop (length xs) (fold wr_queue_push xs q)) = xs)"
  by (simp add: push_list pop_list wr_fifo.first_in_first_out)

text \<open>A queue whose indices are about to wrap.\<close>

definition demo_wr_queue :: wr_queue where
  "demo_wr_queue = \<lparr>wq_queue = (\<lambda>_. []), wq_head = 65535, wq_tail = 65535, wq_tail_locked = False\<rparr>"

definition demo_record :: "u64 \<Rightarrow> sge_record" where
  "demo_record a = \<lparr>sr_length = 8, sr_mr_addr = a, sr_shm_addr = a + 0x10000\<rparr>"

theorem wr_queue_refines_fifo_witness:
  "let xs = [[demo_record 1], [], [demo_record 2]]
   in fst (pops wr_queue_pop (length xs) (fold wr_queue_push xs demo_wr_queue)) = xs"
proof -
  have "wq_list demo_wr_queue = []" by (simp add: wq_list_def demo_wr_queue_def)
  moreover have "length [[demo_record 1], [], [demo_record 2]] \<le> 65535" by simp
  ultimately show ?thesis
    unfolding Let_def using wr_queue_refines_fifo[of demo_wr_queue "[]" "[[demo_record 1], [], [demo_record 2]]"] by blast
qed

text \<open>
  C40: the limit is 65535 and not the \<^verbatim>\<open>WR_QUEUE_SIZE\<close> of 102400 the array has: with 65535 receives
  outstanding the next one makes the indices equal, and the queue counts as empty.
\<close>

theorem wr_queue_empties_at_65536:
  assumes "length (wq_list q) = 65535"
  shows "wq_list (wr_queue_push rs q) = [] \<and> length (wq_list q) < WR_QUEUE_SIZE"
proof -
  have "word_of_nat (length (wq_list q)) = wq_head q - wq_tail q" by simp
  then have "wq_head q - wq_tail q = 65535" unfolding assms by simp
  then have "wq_head q + 1 - wq_tail q = 0" by (simp add: diff_eq_eq)
  then show ?thesis using assms by (simp add: wq_list_def wr_queue_push_def advance_wraps WR_QUEUE_SIZE_def)
qed

theorem wr_queue_empties_at_65536_witness:
  "wq_list (wr_queue_push [] \<lparr>wq_queue = (\<lambda>_. [demo_record 1]), wq_head = 4, wq_tail = 5, wq_tail_locked = False\<rparr>) = []"
  using wr_queue_empties_at_65536[of "\<lparr>wq_queue = (\<lambda>_. [demo_record 1]), wq_head = 4, wq_tail = 5, wq_tail_locked = False\<rparr>" "[]"]
  by (simp add: unsigned_minus_1_eq_mask mask_eq_exp_minus_1)

section \<open>Polling\<close>

definition is_recv :: "mem \<Rightarrow> nat \<Rightarrow> bool" where
  "is_recv wcs i = (get_u32 wcs (i * size_of ibv_wc + off ibv_wc [''opcode'']) AND IBV_WC_RECV \<noteq> 0)"

definition num_recv :: "mem \<Rightarrow> nat \<Rightarrow> nat \<Rightarrow> nat" where
  "num_recv wcs i k = length (filter (is_recv wcs) [i..<i + k])"

lemma num_recv_Suc: "num_recv wcs i (Suc k) = (if is_recv wcs i then 1 else 0) + num_recv wcs (i + 1) k"
  by (simp add: num_recv_def upt_conv_Cons del: upt_Suc)

lemma poll_queue_set:
  "poll_queue cq l = Ret q0 \<Longrightarrow> poll_queue cq (set_poll_queue cq q l) = Ret q"
  by (auto simp: poll_queue_def set_poll_queue_def queue_of_def split: if_splits)

lemma poll_queue_mem [simp]: "poll_queue cq (l\<lparr>app_mem := M\<rparr>) = poll_queue cq l"
  by (simp add: poll_queue_def)

lemma app_mem_set_poll_queue [simp]: "app_mem (set_poll_queue cq q l) = app_mem l"
  by (simp add: set_poll_queue_def)

text \<open>A library with one completion queue, handle 7, and one receive of 8 bytes outstanding.\<close>

definition demo_full_queue :: wr_queue where
  "demo_full_queue = \<lparr>wq_queue = (\<lambda>_. [demo_record 0x1000]), wq_head = 1, wq_tail = 0, wq_tail_locked = False\<rparr>"

definition demo_lib :: "bytes lib" where
  "demo_lib =
     \<lparr>lib_world = [], sock_initialized = True, ffr_client_id = 1, comp_channel_map = (\<lambda>_. - 1), comp_channel_sock = (\<lambda>_. - 1),
      map_cq_to_srq = (\<lambda>_. word_of_nat (MAP_SIZE + 1)), map_lkey_to_mrshm = mempool_create,
      mrshm_data = (\<lambda>_. \<lparr>mrs_mr = 0x1000, mrs_shm = 0x11000\<rparr>),
      map_cq_to_wr_queue = (\<lambda>_. Some demo_full_queue), map_srq_to_wr_queue = (\<lambda>_. None),
      lib_qp_shm = (\<lambda>_. 0x9000), lib_cq_shm = (\<lambda>_. 0xa000), lib_srq_shm = (\<lambda>_. NULL),
      lib_ctrl = (\<lambda>_. \<lparr>cs_state = IDLE, cs_req = (\<lambda>_. 0), cs_rsp = (\<lambda>_. 0)\<rparr>),
      app_mem = (\<lambda>a. word_of_nat (unat a))\<rparr>"

text \<open>
  C18: polling takes one remembered receive for each completed receive, oldest first, and copies its
  data from shared memory to where the application asked for it; completed sends take none. The rest
  of the queue stays.
\<close>

theorem polled_receives_delivered:
  assumes "poll_queue cq l = Ret q" and "num_recv wcs i k \<le> length (wq_list q)"
  shows "\<exists>l' q'. take_completions k i wcs cq l = Ret l' \<and> poll_queue cq l' = Ret q' \<and>
    wq_list q' = drop (num_recv wcs i k) (wq_list q) \<and>
    app_mem l' = fold deliver (take (num_recv wcs i k) (wq_list q)) (app_mem l)"
  using assms
proof (induction k arbitrary: i l q)
  case 0
  then show ?case by (simp add: num_recv_def)
next
  case (Suc k)
  show ?case
  proof (cases "is_recv wcs i")
    case False
    then show ?thesis using Suc.IH[OF Suc.prems(1), of "i + 1"] Suc.prems(2) by (simp add: is_recv_def num_recv_Suc)
  next
    case True
    then have n: "num_recv wcs i (Suc k) = Suc (num_recv wcs (i + 1) k)" by (simp add: num_recv_Suc)
    then obtain x xs where xs: "wq_list q = x # xs" using Suc.prems(2) by (cases "wq_list q") auto
    obtain q1 where q1: "wr_queue_pop q = (x, q1)" "wq_list q1 = xs"
      using pop_list[of q] xs by (cases "wr_queue_pop q") auto
    let ?l = "(set_poll_queue cq q1 l)\<lparr>app_mem := deliver x (app_mem l)\<rparr>"
    have "poll_queue cq ?l = Ret q1" using poll_queue_set[OF Suc.prems(1)] by simp
    from Suc.IH[OF this, of "i + 1"] q1(2) n xs Suc.prems(2) obtain l' q' where
      "take_completions k (i + 1) wcs cq ?l = Ret l'" "poll_queue cq l' = Ret q'"
      "wq_list q' = drop (num_recv wcs (i + 1) k) xs"
      "app_mem l' = fold deliver (take (num_recv wcs (i + 1) k) xs) (deliver x (app_mem l))" by auto
    then show ?thesis using True Suc.prems(1) q1(1) n xs by (simp add: is_recv_def)
  qed
qed


theorem polled_receives_delivered_witness:
  "\<exists>l'. take_completions 1 0 (put_u32 (\<lambda>_. 0) 12 128) 7 demo_lib = Ret l' \<and>
     app_mem l' 0x1003 = app_mem demo_lib 0x11003"
proof -
  have q: "poll_queue 7 demo_lib = Ret demo_full_queue"
    by (simp add: poll_queue_def queue_of_def demo_lib_def MAP_SIZE_def)
  have w: "wq_list demo_full_queue = [[demo_record 0x1000]]" by (simp add: wq_list_def demo_full_queue_def)
  have n: "num_recv (put_u32 (\<lambda>_. 0) 12 128) 0 1 = 1"
    by (simp add: num_recv_def is_recv_def layout IBV_WC_RECV_def)
  have "num_recv (put_u32 (\<lambda>_. 0) 12 128) 0 1 \<le> length (wq_list demo_full_queue)" by (simp only: n w) simp
  from polled_receives_delivered[OF q this] obtain l' where
    l': "take_completions 1 0 (put_u32 (\<lambda>_. 0) 12 128) 7 demo_lib = Ret l'"
    "app_mem l' = fold deliver (take (num_recv (put_u32 (\<lambda>_. 0) 12 128) 0 1) (wq_list demo_full_queue)) (app_mem demo_lib)"
    by blast
  from l'(2) have "app_mem l' = deliver [demo_record 0x1000] (app_mem demo_lib)" unfolding n w by simp
  with l'(1) show ?thesis by (intro exI[of _ l']) (simp add: deliver_def demo_record_def app_copy_def)
qed

end
