(* ===== verification/FF_EndToEnd.thy ===== *)
theory FF_EndToEnd
  imports FF_WrQueue
begin

text \<open>
  A send from the application to the verbs library of the router: what the client's loops leave in the
  control piece and in shared memory, as functions of the application's work requests, and the
  composition with the router's side.
\<close>

section \<open>The application's request\<close>

text \<open>\<open>ps\<close> are the work requests that the links starting at \<open>p\<close> go through.\<close>

fun wr_list :: "(u64 \<Rightarrow> u8) \<Rightarrow> u64 \<Rightarrow> u64 list \<Rightarrow> bool" where
  "wr_list M p [] = (p = NULL)"
| "wr_list M p (x # xs) = (p = x \<and> x \<noteq> NULL \<and> wr_list M (get_u64 (app_at M x) 8) xs)"

definition wr_nsge :: "(u64 \<Rightarrow> u8) \<Rightarrow> u64 \<Rightarrow> int" where
  "wr_nsge M p = get_int (app_at M p) 24"

definition wr_sgl :: "(u64 \<Rightarrow> u8) \<Rightarrow> u64 \<Rightarrow> mem" where
  "wr_sgl M p = app_at M (get_u64 (app_at M p) 16)"

text \<open>Entry \<open>j\<close> of the work request at \<open>p\<close>, and all entries in order.\<close>

definition entries :: "(u64 \<Rightarrow> u8) \<Rightarrow> u64 list \<Rightarrow> (u64 \<times> nat) list" where
  "entries M ps = concat (map (\<lambda>p. map (Pair p) [0..<nat (wr_nsge M p)]) ps)"

definition e_addr :: "(u64 \<Rightarrow> u8) \<Rightarrow> u64 \<times> nat \<Rightarrow> u64" where
  "e_addr M e = get_u64 (wr_sgl M (fst e)) (snd e * 16)"

definition e_len :: "(u64 \<Rightarrow> u8) \<Rightarrow> u64 \<times> nat \<Rightarrow> u32" where
  "e_len M e = get_u32 (wr_sgl M (fst e)) (snd e * 16 + 8)"

definition e_key :: "(u64 \<Rightarrow> u8) \<Rightarrow> u64 \<times> nat \<Rightarrow> u32" where
  "e_key M e = get_u32 (wr_sgl M (fst e)) (snd e * 16 + 12)"

text \<open>The memory the work requests and their lists of entries are in.\<close>

definition wr_area :: "(u64 \<Rightarrow> u8) \<Rightarrow> u64 list \<Rightarrow> u64 set" where
  "wr_area M ps = {a. \<exists>p\<in>set ps. unat (a - p) < 128 \<or> unat (a - get_u64 (app_at M p) 16) < nat (wr_nsge M p) * 16}"

section \<open>Regions and copies\<close>

definition known_key :: "'w lib \<Rightarrow> u32 \<Rightarrow> bool" where
  "known_key l key = (\<exists>ptr. m_map (map_lkey_to_mrshm l) key = Some ptr \<and> ptr \<noteq> 0)"

definition region :: "'w lib \<Rightarrow> u32 \<Rightarrow> mr_shm" where
  "region l key = mrshm_data l (the (m_map (map_lkey_to_mrshm l) key))"

text \<open>Destination, source and length of the copy of an entry into shared memory.\<close>

definition copy_of :: "(u32 \<Rightarrow> mr_shm) \<Rightarrow> u64 \<Rightarrow> u32 \<Rightarrow> u32 \<Rightarrow> u64 \<times> u64 \<times> nat" where
  "copy_of rg addr len key = (mrs_shm (rg key) + (addr - mrs_mr (rg key)), addr, unat len)"

definition e_copy :: "(u32 \<Rightarrow> mr_shm) \<Rightarrow> (u64 \<Rightarrow> u8) \<Rightarrow> u64 \<times> nat \<Rightarrow> u64 \<times> u64 \<times> nat" where
  "e_copy rg M e = copy_of rg (e_addr M e) (e_len M e) (e_key M e)"

definition run_copies :: "(u64 \<times> u64 \<times> nat) list \<Rightarrow> (u64 \<Rightarrow> u8) \<Rightarrow> (u64 \<Rightarrow> u8)" where
  "run_copies cs M = fold (\<lambda>(d, a, n) M. if d \<noteq> a then app_copy d a n M else M) cs M"

definition covers :: "u64 \<times> u64 \<times> nat \<Rightarrow> u64 \<Rightarrow> bool" where
  "covers c a = (unat (a - fst c) < snd (snd c))"

lemma run_copies_outside:
  "\<forall>c\<in>set cs. fst c \<noteq> fst (snd c) \<longrightarrow> \<not> covers c x \<Longrightarrow> run_copies cs M x = M x"
  by (induction cs arbitrary: M) (auto simp: run_copies_def covers_def app_copy_def)

lemma run_copies_append: "run_copies (cs @ ds) M = run_copies ds (run_copies cs M)"
  by (simp add: run_copies_def)

lemma run_copies_snoc:
  "run_copies (cs @ [(d, a, n)]) M x =
     (if d \<noteq> a \<and> unat (x - d) < n then run_copies cs M (a + (x - d)) else run_copies cs M x)"
  by (simp add: run_copies_def app_copy_def)

text \<open>
  When no copy writes where an entry is read, and two copies that write the same place read the same
  place, every entry's place in shared memory holds what its source held at the start.
\<close>

definition copies_ok :: "(u64 \<times> u64 \<times> nat) list \<Rightarrow> bool" where
  "copies_ok cs =
     (\<forall>c\<in>set cs. \<forall>c'\<in>set cs. \<forall>x.
        (unat (x - fst (snd c)) < snd (snd c) \<longrightarrow> fst c' \<noteq> fst (snd c') \<longrightarrow> \<not> covers c' x) \<and>
        (covers c x \<longrightarrow> covers c' x \<longrightarrow> fst (snd c) - fst c = fst (snd c') - fst c'))"

lemma copies_ok_mono: "copies_ok cs \<Longrightarrow> set ds \<subseteq> set cs \<Longrightarrow> copies_ok ds"
  unfolding copies_ok_def by blast

lemma run_copies_inside:
  assumes "copies_ok cs" "c \<in> set cs" "covers c x"
  shows "run_copies cs M x = M (fst (snd c) + (x - fst c))"
  using assms
proof (induction cs arbitrary: c rule: rev_induct)
  case (snoc y ys)
  obtain d a n where y: "y = (d, a, n)" by (cases y)
  have src: "run_copies ys M z = M z" if "e \<in> set (ys @ [y])" "unat (z - fst (snd e)) < snd (snd e)" for e z
    using snoc.prems(1) that by (intro run_copies_outside) (auto simp: copies_ok_def)
  show ?case
  proof (cases "d \<noteq> a \<and> covers y x")
    case True
    then have "fst (snd y) - fst y = fst (snd c) - fst c"
      using snoc.prems unfolding copies_ok_def by (metis in_set_conv_decomp)
    then have "a - d = fst (snd c) - fst c" by (simp add: y)
    then have "x + (a - d) = x + (fst (snd c) - fst c)" by simp
    then have same: "a + (x - d) = fst (snd c) + (x - fst c)" by (simp add: algebra_simps)
    have "run_copies ys M (a + (x - d)) = M (a + (x - d))"
      using True y by (intro src[of y]) (auto simp: covers_def)
    then have "run_copies (ys @ [y]) M x = M (a + (x - d))" using True unfolding y by (simp add: run_copies_snoc covers_def)
    then show ?thesis unfolding same .
  next
    case False
    then have eq: "run_copies (ys @ [y]) M x = run_copies ys M x"
      unfolding y by (auto simp: run_copies_snoc covers_def)
    show ?thesis
    proof (cases "c \<in> set ys")
      case True
      have "copies_ok ys" using snoc.prems(1) by (rule copies_ok_mono) auto
      then show ?thesis unfolding eq using True snoc.prems(3) by (rule snoc.IH)
    next
      case c: False
      then have "c = y" using snoc.prems(2) by simp
      then have "d = a" using False snoc.prems(3) y by auto
      then have "run_copies ys M x = M x" "fst (snd c) + (x - fst c) = x"
        using snoc.prems(3) y \<open>c = y\<close> by (auto simp: covers_def intro!: src[of y x])
      then show ?thesis by (simp only: eq)
    qed
  qed
qed simp

section \<open>The loop over entries\<close>

lemma upt_Suc_map: "[0..<Suc k] = 0 # map Suc [0..<k]"
  by (simp add: map_Suc_upt upt_conv_Cons del: upt_Suc)

lemma region_app_mem [simp]: "region (l\<lparr>app_mem := M\<rparr>) = region l" "known_key (l\<lparr>app_mem := M\<rparr>) = known_key l"
  by (simp_all add: region_def known_key_def fun_eq_iff)

lemma mempool_get_known:
  "known_key l key \<Longrightarrow> \<exists>ptr. mempool_get key (map_lkey_to_mrshm l) = (ptr, map_lkey_to_mrshm l) \<and> ptr \<noteq> 0 \<and>
     mrshm_data l ptr = region l key"
  by (auto simp: known_key_def region_def mempool_get_def map_at_def)

text \<open>The loop computes what \<open>fix_sges\<close> does with the negated bases, and the copies in order.\<close>

lemma send_entries_eq:
  assumes "\<forall>j < k. known_key l (get_u32 req (s + j * 16 + 12))"
  shows "send_entries k s l req =
    Ret (l\<lparr>app_mem := run_copies (map (\<lambda>j. copy_of (region l) (get_u64 req (s + j * 16)) (get_u32 req (s + j * 16 + 8))
             (get_u32 req (s + j * 16 + 12))) [0..<k]) (app_mem l)\<rparr>,
         fix_sges (\<lambda>key. - mrs_mr (region l key)) k s req)"
  using assms
proof (induction k arbitrary: s l req)
  case 0
  then show ?case by (simp add: run_copies_def)
next
  case (Suc k)
  let ?key = "get_u32 req (s + 12)" and ?addr = "get_u64 req s"
  let ?rg = "region l ?key"
  let ?dst = "mrs_shm ?rg + (?addr - mrs_mr ?rg)"
  let ?M = "if ?dst \<noteq> ?addr then app_copy ?dst ?addr (unat (get_u32 req (s + 8))) (app_mem l) else app_mem l"
  let ?l = "l\<lparr>app_mem := ?M\<rparr>" and ?req = "put_u64 req s (?addr - mrs_mr ?rg)"
  obtain ptr where p: "mempool_get ?key (map_lkey_to_mrshm l) = (ptr, map_lkey_to_mrshm l)" "ptr \<noteq> 0"
    "mrshm_data l ptr = ?rg"
    using mempool_get_known[of l ?key] Suc.prems by force
  have step: "send_entries (Suc k) s l req = send_entries k (s + 16) ?l ?req"
    using p by (simp add: layout Let_def)
  have shift: "s + 16 + j * 16 = s + Suc j * 16" for j by simp
  have "\<forall>j < k. known_key ?l (get_u32 ?req (s + 16 + j * 16 + 12))" using Suc.prems by (auto simp: add.assoc)
  from Suc.IH[OF this] show ?case
    unfolding step upt_Suc_map
    by (simp add: run_copies_def copy_of_def comp_def add.assoc algebra_simps)
qed

section \<open>The loop over work requests\<close>

fun fill :: "(u32 \<Rightarrow> mr_shm) \<Rightarrow> (u64 \<Rightarrow> u8) \<Rightarrow> u64 list \<Rightarrow> nat \<Rightarrow> nat \<Rightarrow> mem \<Rightarrow> mem" where
  "fill rg M [] q s req = req"
| "fill rg M (p # ps) q s req =
     (let k = nat (wr_nsge M p);
          req = put_bytes (put_bytes req q (get_bytes (app_at M p) 0 128)) s (get_bytes (wr_sgl M p) 0 (k * 16))
      in fill rg M ps (q + 128) (s + k * 16) (fix_sges (\<lambda>key. - mrs_mr (rg key)) k s req))"

lemma entries_Cons: "entries M (p # ps) = map (Pair p) [0..<nat (wr_nsge M p)] @ entries M ps"
  by (simp add: entries_def)

lemma app_at_stable:
  assumes "\<forall>a\<in>A. N a = M a" "\<And>i. i < n \<Longrightarrow> p + word_of_nat i \<in> A"
  shows "get_bytes (app_at N p) 0 n = get_bytes (app_at M p) 0 n"
  using assms by (intro get_bytes_cong) (simp add: app_at_def)

lemma unat_small: "i < n \<Longrightarrow> n \<le> 2 ^ 64 \<Longrightarrow> unat (word_of_nat i :: u64) = i"
  by (simp add: unsigned_of_nat take_bit_nat_eq_self)

lemma wr_in_area: "p \<in> set ps \<Longrightarrow> i < 128 \<Longrightarrow> p + word_of_nat i \<in> wr_area M ps"
  unfolding wr_area_def by (intro CollectI bexI[of _ p] disjI1) (simp_all add: unat_small[of _ 128])

lemma sgl_in_area:
  "p \<in> set ps \<Longrightarrow> i < nat (wr_nsge M p) * 16 \<Longrightarrow> get_u64 (app_at M p) 16 + word_of_nat i \<in> wr_area M ps"
proof -
  assume *: "p \<in> set ps" "i < nat (wr_nsge M p) * 16"
  have "nat (wr_nsge M p) * 16 \<le> 2 ^ 64"
    using sint_lt[of "get_u32 (app_at M p) 24"] by (simp add: wr_nsge_def get_int_def)
  with * show ?thesis
    unfolding wr_area_def by (intro CollectI bexI[of _ p] disjI2) (simp_all add: unat_small)
qed

lemma wr_stable:
  assumes "\<forall>a\<in>wr_area M ps. N a = M a" "p \<in> set ps"
  shows "get_bytes (app_at N p) 0 128 = get_bytes (app_at M p) 0 128"
  using assms by (intro app_at_stable[of "wr_area M ps"]) (auto intro: wr_in_area)

lemma get_from_bytes:
  "get_bytes m 0 n = get_bytes m' 0 n \<Longrightarrow> x + 8 \<le> n \<Longrightarrow> get_u64 m x = get_u64 m' x"
  "get_bytes m 0 n = get_bytes m' 0 n \<Longrightarrow> x + 4 \<le> n \<Longrightarrow> get_u32 m x = get_u32 m' x"
  "get_bytes m 0 n = get_bytes m' 0 n \<Longrightarrow> x + 4 \<le> n \<Longrightarrow> get_int m x = get_int m' x"
proof -
  assume *: "get_bytes m 0 n = get_bytes m' 0 n"
  have b: "m b = m' b" if "b < n" for b using arg_cong[OF *, of "\<lambda>xs. xs ! b"] that by simp
  show "x + 8 \<le> n \<Longrightarrow> get_u64 m x = get_u64 m' x" by (rule get_u64_cong) (simp add: b)
  show "x + 4 \<le> n \<Longrightarrow> get_u32 m x = get_u32 m' x" by (rule get_u32_cong) (simp add: b)
  show "x + 4 \<le> n \<Longrightarrow> get_int m x = get_int m' x" by (rule get_int_cong) (simp add: b)
qed

lemma sgl_stable:
  assumes "\<forall>a\<in>wr_area M ps. N a = M a" "p \<in> set ps"
  shows "get_bytes (app_at N (get_u64 (app_at M p) 16)) 0 (nat (wr_nsge M p) * 16) = get_bytes (wr_sgl M p) 0 (nat (wr_nsge M p) * 16)"
  unfolding wr_sgl_def using assms
  by (intro app_at_stable[of "wr_area M ps"]) (auto intro: sgl_in_area)

lemma entry_fields:
  assumes "j < k"
  shows "get_u64 (put_bytes m s (get_bytes g 0 (k * 16))) (s + j * 16) = get_u64 g (j * 16)"
    "get_u32 (put_bytes m s (get_bytes g 0 (k * 16))) (s + j * 16 + 8) = get_u32 g (j * 16 + 8)"
    "get_u32 (put_bytes m s (get_bytes g 0 (k * 16))) (s + j * 16 + 12) = get_u32 g (j * 16 + 12)"
    "get_bytes (put_bytes m s (get_bytes g 0 (k * 16))) (s + j * 16 + 8) 8 = get_bytes g (j * 16 + 8) 8"
proof -
  have j: "j * 16 + 16 \<le> k * 16" using assms by (metis Suc_leI mult_Suc mult_le_mono1 add.commute)
  have "get_bytes (put_bytes m s (get_bytes g 0 (k * 16))) (s + x) n = get_bytes g x n" if "x + n \<le> k * 16" for x n
    using that by (subst get_put_bytes_sub) (auto simp: take_drop_get_bytes)
  from this[of "j * 16" 8] this[of "j * 16 + 8" 4] this[of "j * 16 + 12" 4] this[of "j * 16 + 8" 8] j
  show "get_u64 (put_bytes m s (get_bytes g 0 (k * 16))) (s + j * 16) = get_u64 g (j * 16)"
    "get_u32 (put_bytes m s (get_bytes g 0 (k * 16))) (s + j * 16 + 8) = get_u32 g (j * 16 + 8)"
    "get_u32 (put_bytes m s (get_bytes g 0 (k * 16))) (s + j * 16 + 12) = get_u32 g (j * 16 + 12)"
    "get_bytes (put_bytes m s (get_bytes g 0 (k * 16))) (s + j * 16 + 8) 8 = get_bytes g (j * 16 + 8) 8"
    by (simp_all add: get_u64_def get_u32_def add.assoc)
qed

lemma copied_fields:
  assumes "x + 4 \<le> n"
  shows "get_u32 (put_bytes m q (get_bytes g 0 n)) (q + x) = get_u32 g x"
    "get_int (put_bytes m q (get_bytes g 0 n)) (q + x) = get_int g x"
  using assms by (simp_all add: get_int_def get_u32_def get_put_bytes_sub take_drop_get_bytes)

lemma wr_area_Cons: "wr_area M (x # xs) \<subseteq> A \<Longrightarrow> wr_area M xs \<subseteq> A"
  by (auto simp: wr_area_def)

text \<open>What one work request adds to the piece and to shared memory.\<close>

lemma send_request_step:
  assumes p: "p \<noteq> NULL" and area: "wr_area M (p # ps) \<subseteq> A" and same: "\<forall>a\<in>A. app_mem l a = M a"
    and keys: "\<forall>j < k. known_key l (e_key M (p, j))"
    and k: "wr_nsge M p = int k" and room: "q + 128 \<le> s" "s + k * 16 \<le> CTRL_REQ_SIZE"
    and l': "l' = l\<lparr>app_mem := run_copies (map (e_copy (region l) M) (map (Pair p) [0..<k])) (app_mem l)\<rparr>"
  shows "send_requests (Suc fuel) False p q s a l req =
    send_requests fuel False (get_u64 (app_at (app_mem l') p) 8) (q + 128) (s + k * 16) a l'
      (fix_sges (\<lambda>key. - mrs_mr (region l key)) k s
        (put_bytes (put_bytes req q (get_bytes (app_at M p) 0 128)) s (get_bytes (wr_sgl M p) 0 (k * 16))))"
proof -
  have on: "\<forall>a\<in>wr_area M (p # ps). app_mem l a = M a" using area same by blast
  note wr = wr_stable[OF on, of p, simplified]
  have ptr: "get_u64 (app_at (app_mem l) p) 16 = get_u64 (app_at M p) 16"
    using get_from_bytes(1)[OF wr, of 16] by simp
  let ?r1 = "put_bytes req q (get_bytes (app_at M p) 0 128)"
  let ?r2 = "put_bytes ?r1 s (get_bytes (wr_sgl M p) 0 (k * 16))"
  have n: "get_int ?r1 (q + 24) = int k" using k by (simp add: copied_fields wr_nsge_def)
  have sg: "get_bytes (app_at (app_mem l) (get_u64 (app_at M p) 16)) 0 (k * 16) = get_bytes (wr_sgl M p) 0 (k * 16)"
    using sgl_stable[OF on, of p] k by simp
  have e: "get_u64 ?r2 (s + j * 16) = e_addr M (p, j)" "get_u32 ?r2 (s + j * 16 + 8) = e_len M (p, j)"
    "get_u32 ?r2 (s + j * 16 + 12) = e_key M (p, j)" if "j < k" for j
    using entry_fields(1-3)[OF that, of ?r1 s "wr_sgl M p"] by (simp_all add: e_addr_def e_len_def e_key_def)
  have m: "map (\<lambda>j. copy_of (region l) (get_u64 ?r2 (s + j * 16)) (get_u32 ?r2 (s + j * 16 + 8)) (get_u32 ?r2 (s + j * 16 + 12))) [0..<k]
      = map (e_copy (region l) M) (map (Pair p) [0..<k])"
    by (simp add: e_copy_def e)
  have "send_entries k s l ?r2 = Ret (l', fix_sges (\<lambda>key. - mrs_mr (region l key)) k s ?r2)"
    using send_entries_eq[of k l ?r2 s] keys unfolding m l' by (simp add: e)
  then show ?thesis
    using p room by (simp add: layout Let_def wr ptr n sg)
qed

lemma send_requests_eq:
  assumes "wr_list M p ps" "wr_area M ps \<subseteq> A" "\<forall>a\<in>A. app_mem l a = M a"
    and "\<forall>e\<in>set (entries M ps). known_key l (e_key M e) \<and>
      (\<forall>a\<in>A. fst (e_copy (region l) M e) \<noteq> fst (snd (e_copy (region l) M e)) \<longrightarrow> \<not> covers (e_copy (region l) M e) a)"
    and "\<forall>p\<in>set ps. 0 \<le> wr_nsge M p"
    and "q + 128 * length ps \<le> s" "s + 16 * length (entries M ps) \<le> CTRL_REQ_SIZE" "length ps \<le> fuel"
  shows "send_requests fuel False p q s a l req =
    Ret (l\<lparr>app_mem := run_copies (map (e_copy (region l) M) (entries M ps)) (app_mem l)\<rparr>, fill (region l) M ps q s req)"
  using assms
proof (induction ps arbitrary: fuel p q s l req)
  case Nil
  then show ?case by (cases fuel) (simp_all add: entries_def run_copies_def)
next
  case (Cons x xs)
  obtain f where f: "fuel = Suc f" using Cons.prems(8) by (cases fuel) auto
  define k where "k = nat (wr_nsge M x)"
  have k: "wr_nsge M x = int k" using Cons.prems(5) by (simp add: k_def)
  have ent: "entries M (x # xs) = map (Pair x) [0..<k] @ entries M xs" by (simp add: entries_Cons k_def)
  define cs where "cs = map (e_copy (region l) M) (map (Pair x) [0..<k])"
  define l' where "l' = l\<lparr>app_mem := run_copies cs (app_mem l)\<rparr>"
  have same': "\<forall>a\<in>A. app_mem l' a = M a"
  proof
    fix a
    assume a: "a \<in> A"
    have "\<forall>c\<in>set cs. fst c \<noteq> fst (snd c) \<longrightarrow> \<not> covers c a"
    proof
      fix c
      assume "c \<in> set cs"
      then obtain e where "e \<in> set (entries M (x # xs))" "c = e_copy (region l) M e" by (auto simp: cs_def ent)
      then show "fst c \<noteq> fst (snd c) \<longrightarrow> \<not> covers c a" using Cons.prems(4) a by blast
    qed
    then have "run_copies cs (app_mem l) a = app_mem l a" by (rule run_copies_outside)
    then show "app_mem l' a = M a" using Cons.prems(3) a by (simp add: l'_def)
  qed
  have x: "p = x" "x \<noteq> NULL" "wr_list M (get_u64 (app_at M x) 8) xs" using Cons.prems(1) by auto
  have on: "\<forall>a\<in>wr_area M (x # xs). app_mem l' a = M a" using Cons.prems(2) same' by blast
  have nx: "get_u64 (app_at (app_mem l') x) 8 = get_u64 (app_at M x) 8"
    using get_from_bytes(1)[OF wr_stable[OF on, of x], of 8] by simp
  have rg: "region l' = region l" "known_key l' = known_key l" by (simp_all add: l'_def)
  have step: "send_requests fuel False p q s a l req =
      send_requests f False (get_u64 (app_at M x) 8) (q + 128) (s + k * 16) a l'
        (fix_sges (\<lambda>key. - mrs_mr (region l key)) k s
          (put_bytes (put_bytes req q (get_bytes (app_at M x) 0 128)) s (get_bytes (wr_sgl M x) 0 (k * 16))))"
    unfolding f x(1) nx[symmetric]
    by (rule send_request_step[where A = A and ps = xs]) (use Cons.prems x k in \<open>auto simp: ent l'_def cs_def\<close>)
  have "send_requests f False (get_u64 (app_at M x) 8) (q + 128) (s + k * 16) a l' r =
      Ret (l'\<lparr>app_mem := run_copies (map (e_copy (region l') M) (entries M xs)) (app_mem l')\<rparr>, fill (region l') M xs (q + 128) (s + k * 16) r)" for r
    using Cons.prems x(3) same' wr_area_Cons[OF Cons.prems(2)]
    by (intro Cons.IH) (auto simp: ent rg f)
  then show ?case
    by (simp add: step rg ent k_def l'_def cs_def run_copies_append Let_def)
qed

section \<open>What the piece holds\<close>

lemma fill_outside:
  assumes "q + 128 * length ps \<le> s" "b < q \<or> q + 128 * length ps \<le> b \<and> b < s \<or> s + 16 * length (entries M ps) \<le> b"
  shows "fill rg M ps q s req b = req b"
  using assms
proof (induction ps arbitrary: q s req)
  case (Cons p ps)
  define k where "k = nat (wr_nsge M p)"
  have len: "length (entries M (p # ps)) = k + length (entries M ps)" by (simp add: entries_Cons k_def)
  have b: "b < q + 128 \<or> q + 128 + 128 * length ps \<le> b \<and> b < s + k * 16 \<or> s + k * 16 + 16 * length (entries M ps) \<le> b"
    "b < q \<or> q + 128 \<le> b" "b < s \<or> s + k * 16 \<le> b"
    using Cons.prems unfolding len by auto
  have "fill rg M (p # ps) q s req b =
      fix_sges (\<lambda>key. - mrs_mr (rg key)) k s
        (put_bytes (put_bytes req q (get_bytes (app_at M p) 0 128)) s (get_bytes (wr_sgl M p) 0 (k * 16))) b"
    using Cons.IH[of "q + 128" "s + k * 16"] Cons.prems(1) b(1) by (simp add: Let_def k_def)
  also have "\<dots> = req b" using b(2,3) by (simp add: fix_sges_outside put_bytes_outside)
  finally show ?case .
qed simp

lemma fill_wr:
  assumes "q + 128 * length ps \<le> s" "i < length ps"
  shows "get_bytes (fill rg M ps q s req) (q + i * 128) 128 = get_bytes (app_at M (ps ! i)) 0 128"
  using assms
proof (induction ps arbitrary: q s req i)
  case (Cons p ps)
  define k where "k = nat (wr_nsge M p)"
  let ?r1 = "put_bytes req q (get_bytes (app_at M p) 0 128)"
  let ?r = "fix_sges (\<lambda>key. - mrs_mr (rg key)) k s (put_bytes ?r1 s (get_bytes (wr_sgl M p) 0 (k * 16)))"
  have step: "fill rg M (p # ps) q s req = fill rg M ps (q + 128) (s + k * 16) ?r" by (simp add: Let_def k_def)
  show ?case
  proof (cases i)
    case 0
    have "get_bytes (fill rg M ps (q + 128) (s + k * 16) ?r) q 128 = get_bytes ?r1 q 128"
      using Cons.prems by (intro get_bytes_cong) (simp add: fill_outside fix_sges_outside put_bytes_outside)
    then show ?thesis unfolding step 0 by simp
  next
    case (Suc i')
    then have "q + i * 128 = q + 128 + i' * 128" by simp
    then show ?thesis unfolding step using Cons.IH[of "q + 128" "s + k * 16" i'] Cons.prems Suc by (simp add: add.assoc)
  qed
qed simp

lemma fill_sge:
  assumes "q + 128 * length ps \<le> s" "j < length (entries M ps)" "e = entries M ps ! j"
  shows "get_u64 (fill rg M ps q s req) (s + j * 16) = e_addr M e - mrs_mr (rg (e_key M e)) \<and>
    get_bytes (fill rg M ps q s req) (s + j * 16 + 8) 8 = get_bytes (wr_sgl M (fst e)) (snd e * 16 + 8) 8"
  using assms
proof (induction ps arbitrary: q s req j)
  case Nil
  then show ?case by (simp add: entries_def)
next
  case (Cons p ps)
  define k where "k = nat (wr_nsge M p)"
  have ent: "entries M (p # ps) = map (Pair p) [0..<k] @ entries M ps" by (simp add: entries_Cons k_def)
  let ?r1 = "put_bytes req q (get_bytes (app_at M p) 0 128)"
  let ?r2 = "put_bytes ?r1 s (get_bytes (wr_sgl M p) 0 (k * 16))"
  let ?r = "fix_sges (\<lambda>key. - mrs_mr (rg key)) k s ?r2"
  have step: "fill rg M (p # ps) q s req = fill rg M ps (q + 128) (s + k * 16) ?r" by (simp add: Let_def k_def)
  show ?case
  proof (cases "j < k")
    case True
    then have e: "e = (p, j)" using Cons.prems(3) by (simp add: ent nth_append)
    have room: "j * 16 + 16 \<le> k * 16" using True by (metis Suc_leI mult_Suc mult_le_mono1 add.commute)
    have out: "fill rg M ps (q + 128) (s + k * 16) ?r b = ?r b" if "s + j * 16 \<le> b" "b < s + j * 16 + 16" for b
      using that Cons.prems(1) room by (intro fill_outside) auto
    have "get_u64 (fill rg M ps (q + 128) (s + k * 16) ?r) (s + j * 16) = get_u64 ?r (s + j * 16)"
      by (rule get_u64_cong) (simp add: out)
    also have "\<dots> = e_addr M e - mrs_mr (rg (e_key M e))"
      using fix_sges_addr[OF True] entry_fields[OF True, of ?r1 s "wr_sgl M p"] by (simp add: e e_addr_def e_key_def)
    finally have "get_u64 (fill rg M ps (q + 128) (s + k * 16) ?r) (s + j * 16) = e_addr M e - mrs_mr (rg (e_key M e))" .
    moreover have "get_bytes (fill rg M ps (q + 128) (s + k * 16) ?r) (s + j * 16 + 8) 8 = get_bytes ?r2 (s + j * 16 + 8) 8"
      by (rule get_bytes_cong) (simp add: out fix_sges_tail[OF True])
    ultimately show ?thesis
      unfolding step using entry_fields(4)[OF True, of ?r1 s "wr_sgl M p"] by (simp add: e)
  next
    case False
    then have j: "j - k < length (entries M ps)" "e = entries M ps ! (j - k)" "s + j * 16 = s + k * 16 + (j - k) * 16"
      using Cons.prems by (auto simp: ent nth_append algebra_simps)
    show ?thesis unfolding step j(3) using Cons.IH[of "q + 128" "s + k * 16" "j - k"] j(1,2) Cons.prems(1) by simp
  qed
qed

section \<open>A send, end to end\<close>

text \<open>
  A list of work requests that can be sent: its numbers of entries make sense, all keys belong to regions
  of this process, everything fits into a control piece, and the shared memory the data is copied to is
  apart from the work requests and from the data itself.
\<close>

definition sendable :: "'w lib \<Rightarrow> u64 \<Rightarrow> u64 list \<Rightarrow> bool" where
  "sendable l wr ps =
     (let M = app_mem l; cs = map (e_copy (region l) M) (entries M ps)
      in wr_list M wr ps \<and> ps \<noteq> [] \<and> (\<forall>p\<in>set ps. 0 \<le> wr_nsge M p) \<and>
         (\<forall>e\<in>set (entries M ps). known_key l (e_key M e)) \<and>
         (\<forall>c\<in>set cs. \<forall>a\<in>wr_area M ps. fst c \<noteq> fst (snd c) \<longrightarrow> \<not> covers c a) \<and> copies_ok cs \<and>
         44 + 128 * length ps + 16 * length (entries M ps) \<le> CTRL_REQ_SIZE)"

lemma count_wrs_eq:
  "wr_list M p ps \<Longrightarrow> length ps \<le> fuel \<Longrightarrow> \<exists>sc. count_wrs fuel M p w s = Ret (w + word_of_nat (length ps), sc)"
proof (induction ps arbitrary: fuel p w s)
  case Nil
  then show ?case by (cases fuel) simp_all
next
  case (Cons x xs)
  then obtain f where f: "fuel = Suc f" by (cases fuel) auto
  with Cons show ?case by (simp add: layout add.assoc[symmetric])
qed

lemma post_header_fields:
  "get_u32 (post_header cid code bs h wc sc req) 28 = h" "get_u32 (post_header cid code bs h wc sc req) 32 = wc"
  "get_u32 (post_header cid code bs h wc sc req) 4 = code"
  by (simp_all add: post_header_def Let_def layout)

text \<open>The piece and the shared memory after the client has written the request.\<close>

lemma marshal_send_eq:
  assumes "sendable l wr ps" "length ps \<le> fuel" "cqp_type qp \<noteq> IBV_QPT_UD"
  shows "\<exists>bs sc. marshal_send fuel qp wr csp l =
    Ret (l\<lparr>app_mem := run_copies (map (e_copy (region l) (app_mem l)) (entries (app_mem l) ps)) (app_mem l),
           lib_ctrl := (lib_ctrl l)(csp := (lib_ctrl l csp)\<lparr>cs_req :=
             fill (region l) (app_mem l) ps 44 (44 + 128 * length ps)
               (post_header (ffr_client_id l) (lib_code IBV_POST_SEND) bs (cqp_handle qp) (word_of_nat (length ps)) sc
                 (cs_req (lib_ctrl l csp)))\<rparr>)\<rparr>)"
proof -
  let ?M = "app_mem l"
  have s: "wr_list ?M wr ps" "\<forall>p\<in>set ps. 0 \<le> wr_nsge ?M p" "44 + 128 * length ps + 16 * length (entries ?M ps) \<le> CTRL_REQ_SIZE"
    "\<forall>e\<in>set (entries ?M ps). known_key l (e_key ?M e) \<and>
      (\<forall>a\<in>wr_area ?M ps. fst (e_copy (region l) ?M e) \<noteq> fst (snd (e_copy (region l) ?M e)) \<longrightarrow> \<not> covers (e_copy (region l) ?M e) a)"
    using assms(1) by (auto simp: sendable_def Let_def)
  have "length ps < 2 ^ 32" using s(3) by (simp add: CTRL_REQ_SIZE_def)
  then have n: "unat (word_of_nat (length ps) :: u32) = length ps" by (simp add: unsigned_of_nat take_bit_nat_eq_self)
  obtain sc where c: "count_wrs fuel ?M wr 0 0 = Ret (word_of_nat (length ps), sc)"
    using count_wrs_eq[OF s(1) assms(2), of 0 0] by auto
  have "send_requests fuel False wr 44 (44 + 128 * length ps) a l req =
      Ret (l\<lparr>app_mem := run_copies (map (e_copy (region l) ?M) (entries ?M ps)) ?M\<rparr>,
        fill (region l) ?M ps 44 (44 + 128 * length ps) req)" for a req
    using s assms(2) by (intro send_requests_eq[where A = "wr_area ?M ps"]) auto
  then show ?thesis
    using assms(3) c n by (simp add: marshal_send_def Let_def layout algebra_simps) blast
qed

text \<open>
  What the verbs library of the router must find in the buffer \<open>m'\<close> for the work requests \<open>ps\<close> of the
  client: the same list, each request with its fields, its entries in order, the entries at the
  router's address of the same bytes, and remote addresses translated for one-sided requests.
\<close>

definition remote_of :: "(u32 \<Rightarrow> MR_SHM option) \<Rightarrow> mem \<Rightarrow> u64" where
  "remote_of rkeys w =
     (if one_sided (get_u32 w 28)
      then case rkeys (get_u32 w 48) of None \<Rightarrow> get_u64 w 40 | Some k \<Rightarrow> shm_ptr k + get_u64 w 40 - mr_ptr k
      else get_u64 w 40)"

definition library_gets ::
  "(u32 \<Rightarrow> MR_SHM option) \<Rightarrow> (u32 \<Rightarrow> u64) \<Rightarrow> (u32 \<Rightarrow> mr_shm) \<Rightarrow> (u64 \<Rightarrow> u8) \<Rightarrow> u64 list \<Rightarrow> u64 \<Rightarrow> mem \<Rightarrow> bool" where
  "library_gets rkeys L rg M ps base m' =
     (let n = length ps; s = 32 + n * 128
      in follow_links n base m' (addr_of base 32) = Some (map (\<lambda>i. addr_of base (32 + i * 128)) [0..<n]) \<and>
         (\<forall>i < n. let q = 32 + i * 128; w = app_at M (ps ! i)
            in get_bytes m' q 8 = get_bytes w 0 8 \<and>
               get_u64 m' (q + 16) = (if 0 < wr_nsge M (ps ! i) then addr_of base (s + 16 * length (entries M (take i ps))) else NULL) \<and>
               get_bytes m' (q + 24) 16 = get_bytes w 24 16 \<and>
               get_u64 m' (q + 40) = remote_of rkeys w \<and>
               get_bytes m' (q + 48) 80 = get_bytes w 48 80) \<and>
         (\<forall>j < length (entries M ps). let e = entries M ps ! j; key = e_key M e
            in get_u64 m' (s + j * 16) = L key + (e_addr M e - mrs_mr (rg key)) \<and>
               get_u32 m' (s + j * 16 + 8) = e_len M e \<and> get_u32 m' (s + j * 16 + 12) = key))"

lemma get_bytes_shift: "get_bytes (\<lambda>i. f (k + i)) p n = get_bytes f (k + p) n"
  by (simp add: get_bytes_def add.assoc)

lemma get_bytesD: "get_bytes m p n = get_bytes m' p' n \<Longrightarrow> i < n \<Longrightarrow> m (p + i) = m' (p' + i)"
  by (metis nth_get_bytes)

lemma get_bytes_part: "get_bytes m p n = get_bytes m' p' n \<Longrightarrow> x + k \<le> n \<Longrightarrow> get_bytes m (p + x) k = get_bytes m' (p' + x) k"
  by (metis take_drop_get_bytes)

lemma length_entries: "length (entries M ps) = (\<Sum>p\<leftarrow>ps. nat (wr_nsge M p))"
  by (simp add: entries_def length_concat comp_def)

lemma length_entries_take:
  "i \<le> length ps \<Longrightarrow> length (entries M (take i ps)) = (\<Sum>x = 0..<i. nat (wr_nsge M (ps ! x)))"
  by (simp add: length_entries sum_list_sum_nth atLeast0LessThan)

lemma remote_of_fix:
  assumes "get_bytes m q 128 = get_bytes w 0 128"
  shows "get_u64 (fix_remote_of rkeys q m) (q + 40) = remote_of rkeys w"
proof -
  have "get_u32 m (q + 28) = get_u32 w 28" "get_u32 m (q + 48) = get_u32 w 48" "get_u64 m (q + 40) = get_u64 w 40"
    using get_bytes_part[OF assms, of 28 4] get_bytes_part[OF assms, of 48 4] get_bytes_part[OF assms, of 40 8]
    by (simp_all add: get_u32_def get_u64_def)
  then show ?thesis by (simp add: fix_remote_of_def fix_remote_def remote_of_def layout split: option.splits)
qed

text \<open>From what the library sees of a buffer to what it gets of the client's requests, when the buffer holds them.\<close>

lemma library_sees_gets:
  assumes sees: "library_sees (fix_remote_of rkeys) L base 32 128 (length ps) m m'"
    and wr: "\<And>i. i < length ps \<Longrightarrow> get_bytes m (32 + i * 128) 128 = get_bytes (app_at M (ps ! i)) 0 128"
    and sge: "\<And>j. j < length (entries M ps) \<Longrightarrow> get_u64 m (32 + length ps * 128 + j * 16) =
        e_addr M (entries M ps ! j) - mrs_mr (rg (e_key M (entries M ps ! j))) \<and>
      get_bytes m (32 + length ps * 128 + j * 16 + 8) 8 =
        get_bytes (wr_sgl M (fst (entries M ps ! j))) (snd (entries M ps ! j) * 16 + 8) 8"
  shows "library_gets rkeys L rg M ps base m'"
proof -
  let ?n = "length ps" and ?s = "32 + length ps * 128"
  have num: "num_sges 32 128 m i = nat (wr_nsge M (ps ! i))" if "i < ?n" for i
    using get_bytes_part[OF wr[OF that], of 24 4] by (simp add: num_sges_def wr_nsge_def get_int_def get_u32_def)
  have tot: "(\<Sum>x = 0..<i. num_sges 32 128 m x) = length (entries M (take i ps))" if "i \<le> ?n" for i
    using that by (simp add: length_entries_take num)
  have lib: "follow_links ?n base m' (addr_of base 32) = Some (map (\<lambda>l. addr_of base (32 + l * 128)) [0..<?n])"
    "\<And>i. i < ?n \<Longrightarrow> get_u64 m' (32 + i * 128 + 16) = (if 0 < num_sges 32 128 m i then addr_of base (?s + (\<Sum>x = 0..<i. num_sges 32 128 m x) * 16) else NULL)"
    "\<And>i. i < ?n \<Longrightarrow> get_bytes m' (32 + i * 128) 8 = get_bytes m (32 + i * 128) 8"
    "\<And>i. i < ?n \<Longrightarrow> get_bytes m' (32 + i * 128 + 24) 104 = get_bytes (fix_remote_of rkeys (32 + i * 128) m) (32 + i * 128 + 24) 104"
    "\<And>j. j < length (entries M ps) \<Longrightarrow> get_u64 m' (?s + j * 16) = L (get_u32 m (?s + j * 16 + 12)) + get_u64 m (?s + j * 16)"
    "\<And>j. j < length (entries M ps) \<Longrightarrow> get_bytes m' (?s + j * 16 + 8) 8 = get_bytes m (?s + j * 16 + 8) 8"
    using sees tot[of ?n] unfolding library_sees_def Let_def by auto
  show ?thesis
    unfolding library_gets_def Let_def
  proof (intro conjI allI impI)
    show "follow_links ?n base m' (addr_of base 32) = Some (map (\<lambda>i. addr_of base (32 + i * 128)) [0..<?n])" by (rule lib)
  next
    fix i
    assume i: "i < ?n"
    let ?q = "32 + i * 128" and ?w = "app_at M (ps ! i)"
    note w = wr[OF i] and t = lib(4)[OF i]
    show "get_bytes m' ?q 8 = get_bytes ?w 0 8" using lib(3)[OF i] get_bytes_part[OF w, of 0 8] by simp
    show "get_u64 m' (?q + 16) = (if 0 < wr_nsge M (ps ! i) then addr_of base (?s + 16 * length (entries M (take i ps))) else NULL)"
      using lib(2)[OF i] tot[of i] num[OF i] i by (simp add: mult.commute)
    have out: "get_bytes (fix_remote_of rkeys ?q m) (?q + x) k = get_bytes ?w x k" if "x + k \<le> 40 \<or> 48 \<le> x \<and> x + k \<le> 128" for x k
    proof -
      have "get_bytes (fix_remote_of rkeys ?q m) (?q + x) k = get_bytes m (?q + x) k"
        using that by (intro get_bytes_cong fix_remote_of_outside) auto
      then show ?thesis using get_bytes_part[OF w, of x k] that by auto
    qed
    show "get_bytes m' (?q + 24) 16 = get_bytes ?w 24 16" using get_bytes_part[OF t, of 0 16] out[of 24 16] by simp
    show "get_u64 m' (?q + 40) = remote_of rkeys ?w"
      using get_bytes_part[OF t, of 16 8] remote_of_fix[OF w] by (simp add: get_u64_def)
    show "get_bytes m' (?q + 48) 80 = get_bytes ?w 48 80" using get_bytes_part[OF t, of 24 80] out[of 48 80] by simp
  next
    fix j
    assume j: "j < length (entries M ps)"
    let ?e = "entries M ps ! j"
    note b = sge[OF j, THEN conjunct2] lib(6)[OF j]
    have key: "get_u32 m (?s + j * 16 + 12) = e_key M ?e"
      using get_bytes_part[OF b(1), of 4 4] by (simp add: e_key_def get_u32_def add.assoc)
    show "get_u64 m' (?s + j * 16) = L (e_key M ?e) + (e_addr M ?e - mrs_mr (rg (e_key M ?e)))"
      using lib(5)[OF j] sge[OF j] key by simp
    show "get_u32 m' (?s + j * 16 + 8) = e_len M ?e"
      using get_bytes_part[OF b(1), of 0 4] get_bytes_part[OF b(2), of 0 4] by (simp add: e_len_def get_u32_def)
    show "get_u32 m' (?s + j * 16 + 12) = e_key M ?e"
      using key get_bytes_part[OF b(2), of 4 4] by (simp add: get_u32_def add.assoc)
  qed
qed

lemma piece_view_req:
  "cs_req (ctrl (c_ffr c) p) = f \<Longrightarrow> req_body (piece_view p c) = (\<lambda>i. f (12 + i))"
  by (simp add: piece_view_def Let_def layout)

text \<open>A router that finds the marshalled request in a piece serves it.\<close>

lemma piece_gets:
  assumes req: "cs_req (ctrl (c_ffr c) p) = fill rg M ps 44 (44 + 128 * length ps)
      (post_header cid code bs h (word_of_nat (length ps)) sc old)"
    and ps: "ps \<noteq> []" and fits: "44 + 128 * length ps + 16 * length (entries M ps) \<le> CTRL_REQ_SIZE"
    and h: "unat h < MAP_SIZE" "qp_map (c_ffr c) (unat h) \<noteq> NULL"
      "qp_type_of V (c_world c) (qp_map (c_ffr c) (unat h)) \<noteq> IBV_QPT_UD"
    and base: "unat (req_addr (piece_view p c)) + CTRL_REQ_SIZE < 2 ^ 64"
  shows "\<exists>m' c'. fast_post_send (\<lambda>_. rkeys) V p c = Ok c' \<and>
    c_world c' = snd (snd (v_post_send V (qp_map (c_ffr c) (unat h)) m' (addr_of (req_addr (piece_view p c)) 32) (c_world c))) \<and>
    library_gets rkeys (lkey_base (c_ffr c)) rg M ps (req_addr (piece_view p c)) m'"
proof -
  let ?n = "length ps" and ?hdr = "post_header cid code bs h (word_of_nat (length ps)) sc old"
  let ?f = "fill rg M ps 44 (44 + 128 * ?n) ?hdr" and ?m = "req_body (piece_view p c)"
  have m: "?m = (\<lambda>i. ?f (12 + i))" using piece_view_req[OF req] .
  have hd: "get_u32 ?m x = get_u32 ?hdr (12 + x)" if "x + 4 \<le> 32" for x
  proof -
    have "get_bytes ?f (12 + x) 4 = get_bytes ?hdr (12 + x) 4" using that by (intro get_bytes_cong fill_outside) auto
    then show ?thesis unfolding m by (simp add: get_u32_def get_bytes_shift)
  qed
  have "?n < 2 ^ 32" using fits by (simp add: CTRL_REQ_SIZE_def)
  then have n: "unat (get_u32 ?m 20) = ?n"
    using hd[of 20] by (simp add: post_header_fields unsigned_of_nat take_bit_nat_eq_self)
  have h16: "get_u32 ?m 16 = h" using hd[of 16] by (simp add: post_header_fields)
  have wr: "get_bytes ?m (32 + i * 128) 128 = get_bytes (app_at M (ps ! i)) 0 128" if "i < ?n" for i
    using fill_wr[of 44 ps "44 + 128 * ?n" i rg M ?hdr] that unfolding m get_bytes_shift by (simp add: add.assoc[symmetric])
  have sge: "get_u64 ?m (32 + ?n * 128 + j * 16) = e_addr M (entries M ps ! j) - mrs_mr (rg (e_key M (entries M ps ! j))) \<and>
      get_bytes ?m (32 + ?n * 128 + j * 16 + 8) 8 = get_bytes (wr_sgl M (fst (entries M ps ! j))) (snd (entries M ps ! j) * 16 + 8) 8"
    if "j < length (entries M ps)" for j
    using fill_sge[of 44 ps "44 + 128 * ?n" j M "entries M ps ! j" rg ?hdr] that
    unfolding m get_bytes_shift get_u64_def by (simp add: add.assoc[symmetric] mult.commute)
  have num: "num_sges 32 128 ?m i = nat (wr_nsge M (ps ! i))" if "i < ?n" for i
    using get_bytes_part[OF wr[OF that], of 24 4] by (simp add: num_sges_def wr_nsge_def get_int_def get_u32_def)
  have tot: "(\<Sum>x = 0..<?n. num_sges 32 128 ?m x) = length (entries M ps)"
    using length_entries_take[of ?n ps M] by (simp add: num)
  have "32 + ?n * 128 + (\<Sum>x = 0..<?n. num_sges 32 128 ?m x) * 16 \<le> CTRL_REQ_SIZE - 12" using fits unfolding tot by simp
  note fit = this
  have "\<exists>m' c'. library_sees (fix_remote_of rkeys) (lkey_base (c_ffr c)) (req_addr (piece_view p c)) 32 128 ?n ?m m' \<and>
      fast_post_send (\<lambda>_. rkeys) V p c = Ok c' \<and>
      (case v_post_send V (qp_map (c_ffr c) (unat h)) m' (addr_of (req_addr (piece_view p c)) 32) (c_world c) of
         (ret, bad_wr, w) \<Rightarrow> c_world c' = w)"
    using fast_post_send_sees[OF refl n[symmetric] _ refl fit base, of "qp_map (c_ffr c) (unat h)" V rkeys] h h16 ps
    by (fastforce split: prod.splits)
  then obtain m' c' where
    sees: "library_sees (fix_remote_of rkeys) (lkey_base (c_ffr c)) (req_addr (piece_view p c)) 32 128 ?n ?m m'"
    and run: "fast_post_send (\<lambda>_. rkeys) V p c = Ok c'"
    and w: "c_world c' = snd (snd (v_post_send V (qp_map (c_ffr c) (unat h)) m' (addr_of (req_addr (piece_view p c)) 32) (c_world c)))"
    by (force split: prod.splits)
  from library_sees_gets[OF sees wr sge] run w show ?thesis by blast
qed

text \<open>
  C1: a send from the application to the verbs library of the router. For work requests that can be sent,
  on a queue pair that is not of datagram type, the client's loops come to an end; the shared memory of
  every entry holds the application's data; and for every router that finds the request in its
  piece and knows the queue pair, the service of the piece calls the library on a buffer with exactly
  these work requests, every entry at the router's address of the same bytes.
\<close>

theorem client_sends_reach_library:
  assumes "sendable l wr ps" "length ps \<le> fuel" "cqp_type qp \<noteq> IBV_QPT_UD"
  shows "\<exists>l1. marshal_send fuel qp wr csp l = Ret l1 \<and>
    (\<forall>e\<in>set (entries (app_mem l) ps). \<forall>x. covers (e_copy (region l) (app_mem l) e) x \<longrightarrow>
       app_mem l1 x = app_mem l (e_addr (app_mem l) e + (x - fst (e_copy (region l) (app_mem l) e)))) \<and>
    (\<forall>c p. cs_req (ctrl (c_ffr c) p) = cs_req (lib_ctrl l1 csp) \<and> unat (cqp_handle qp) < MAP_SIZE \<and>
       qp_map (c_ffr c) (unat (cqp_handle qp)) \<noteq> NULL \<and>
       qp_type_of V (c_world c) (qp_map (c_ffr c) (unat (cqp_handle qp))) \<noteq> IBV_QPT_UD \<and>
       unat (req_addr (piece_view p c)) + CTRL_REQ_SIZE < 2 ^ 64 \<longrightarrow>
       (\<exists>m' c'. fast_post_send (\<lambda>_. rkeys) V p c = Ok c' \<and>
          c_world c' = snd (snd (v_post_send V (qp_map (c_ffr c) (unat (cqp_handle qp))) m'
            (addr_of (req_addr (piece_view p c)) 32) (c_world c))) \<and>
          library_gets rkeys (lkey_base (c_ffr c)) (region l) (app_mem l) ps (req_addr (piece_view p c)) m'))"
proof -
  let ?M = "app_mem l" and ?n = "length ps"
  let ?cs = "map (e_copy (region l) ?M) (entries ?M ps)"
  have s: "ps \<noteq> []" "copies_ok ?cs" "44 + 128 * ?n + 16 * length (entries ?M ps) \<le> CTRL_REQ_SIZE"
    using assms(1) by (auto simp: sendable_def Let_def)
  obtain l1 bs sc where run: "marshal_send fuel qp wr csp l = Ret l1" and mem: "app_mem l1 = run_copies ?cs ?M"
    and req: "cs_req (lib_ctrl l1 csp) = fill (region l) ?M ps 44 (44 + 128 * ?n)
      (post_header (ffr_client_id l) (lib_code IBV_POST_SEND) bs (cqp_handle qp) (word_of_nat ?n) sc (cs_req (lib_ctrl l csp)))"
    using marshal_send_eq[OF assms, of csp] by auto
  have data: "app_mem l1 x = ?M (e_addr ?M e + (x - fst (e_copy (region l) ?M e)))"
    if "e \<in> set (entries ?M ps)" "covers (e_copy (region l) ?M e) x" for e x
    unfolding mem using run_copies_inside[OF s(2), of "e_copy (region l) ?M e" x ?M] that
    by (simp add: e_copy_def copy_of_def)
  have gets: "\<exists>m' c'. fast_post_send (\<lambda>_. rkeys) V p c = Ok c' \<and>
      c_world c' = snd (snd (v_post_send V (qp_map (c_ffr c) (unat (cqp_handle qp))) m'
        (addr_of (req_addr (piece_view p c)) 32) (c_world c))) \<and>
      library_gets rkeys (lkey_base (c_ffr c)) (region l) ?M ps (req_addr (piece_view p c)) m'"
    if c: "cs_req (ctrl (c_ffr c) p) = cs_req (lib_ctrl l1 csp)" "unat (cqp_handle qp) < MAP_SIZE"
      "qp_map (c_ffr c) (unat (cqp_handle qp)) \<noteq> NULL"
      "qp_type_of V (c_world c) (qp_map (c_ffr c) (unat (cqp_handle qp))) \<noteq> IBV_QPT_UD"
      "unat (req_addr (piece_view p c)) + CTRL_REQ_SIZE < 2 ^ 64" for c p
    using piece_gets[OF _ s(1,3) c(2-5), of "region l" "ffr_client_id l" "lib_code IBV_POST_SEND" bs sc "cs_req (lib_ctrl l csp)" rkeys]
      c(1) req by simp
  show ?thesis using run data gets by blast
qed

text \<open>
  A process with one region, key 11, of which 8 bytes at \<open>0x1010\<close> are to be sent: the work request is at
  \<open>0x2000\<close>, its entry at \<open>0x3000\<close>, the shared memory at \<open>0x11000\<close>.
\<close>

definition demo_app :: mem where
  "demo_app = put_u32 (put_u32 (put_u64 (put_u32 (put_u64 (\<lambda>i. if i < 0x2000 then word_of_nat i else 0)
     0x2010 0x3000) 0x2018 1) 0x3000 0x1010) 0x3008 8) 0x300c 11"

definition demo_send_lib :: "bytes lib" where
  "demo_send_lib = demo_lib\<lparr>app_mem := (\<lambda>a. demo_app (unat a)),
     map_lkey_to_mrshm := mempool_create\<lparr>m_map := [11 \<mapsto> 0x500]\<rparr>\<rparr>"

lemma app_at_low:
  assumes "unat p + x + n < 2 ^ 64"
  shows "get_bytes (app_at (\<lambda>a. f (unat a)) p) x n = get_bytes f (unat p + x) n"
proof (rule nth_equalityI)
  fix i
  assume "i < length (get_bytes (app_at (\<lambda>a. f (unat a)) p) x n)"
  then have "i < n" by simp
  with assms show "get_bytes (app_at (\<lambda>a. f (unat a)) p) x n ! i = get_bytes f (unat p + x) n ! i"
    by (simp add: app_at_def unat_word_ariths unsigned_of_nat take_bit_eq_mod add.assoc)
qed simp

lemma demo_app_fields:
  "get_u64 (app_at (app_mem demo_send_lib) 0x2000) 8 = 0" "get_u64 (app_at (app_mem demo_send_lib) 0x2000) 16 = 0x3000"
  "get_int (app_at (app_mem demo_send_lib) 0x2000) 24 = 1" "get_u64 (app_at (app_mem demo_send_lib) 0x3000) 0 = 0x1010"
  "get_u32 (app_at (app_mem demo_send_lib) 0x3000) 8 = 8" "get_u32 (app_at (app_mem demo_send_lib) 0x3000) 12 = 11"
proof -
  have "get_u64 (\<lambda>i. if i < 0x2000 then word_of_nat i else 0) 0x2008 = get_u64 (\<lambda>_. 0) 0x2008" by (rule get_u64_cong) simp
  then have "get_u64 (\<lambda>i. if i < 0x2000 then word_of_nat i else 0) 0x2008 = 0" by simp
  moreover have "get_u64 (app_at (app_mem demo_send_lib) p) x = get_u64 demo_app (unat p + x)"
    "get_u32 (app_at (app_mem demo_send_lib) p) x = get_u32 demo_app (unat p + x)"
    "get_int (app_at (app_mem demo_send_lib) p) x = get_int demo_app (unat p + x)" if "unat p + x + 8 < 2 ^ 64" for p x
    using that app_at_low[of p x 8 demo_app] app_at_low[of p x 4 demo_app]
    by (simp_all add: demo_send_lib_def get_u64_def get_int_def get_u32_def)
  ultimately show "get_u64 (app_at (app_mem demo_send_lib) 0x2000) 8 = 0" "get_u64 (app_at (app_mem demo_send_lib) 0x2000) 16 = 0x3000"
    "get_int (app_at (app_mem demo_send_lib) 0x2000) 24 = 1" "get_u64 (app_at (app_mem demo_send_lib) 0x3000) 0 = 0x1010"
    "get_u32 (app_at (app_mem demo_send_lib) 0x3000) 8 = 8" "get_u32 (app_at (app_mem demo_send_lib) 0x3000) 12 = 11"
    by (simp_all add: demo_app_def get_int_def)
qed

lemma demo_entries: "entries (app_mem demo_send_lib) [0x2000] = [(0x2000, 0)]"
  by (simp add: entries_def wr_nsge_def demo_app_fields)

lemma demo_copy: "e_copy (region demo_send_lib) (app_mem demo_send_lib) (0x2000, 0) = (0x11010, 0x1010, 8)"
proof -
  have "region demo_send_lib 11 = \<lparr>mrs_mr = 0x1000, mrs_shm = 0x11000\<rparr>"
    by (simp add: region_def demo_send_lib_def demo_lib_def)
  then show ?thesis
    by (simp add: e_copy_def copy_of_def e_addr_def e_len_def e_key_def wr_sgl_def demo_app_fields)
qed

lemma demo_sendable: "sendable demo_send_lib 0x2000 [0x2000]"
proof -
  have key: "known_key demo_send_lib 11" by (simp add: known_key_def demo_send_lib_def mempool_create_def)
  have area: "\<not> covers (0x11010, 0x1010, 8) a" if "a \<in> wr_area (app_mem demo_send_lib) [0x2000]" for a
    using that by (auto simp: wr_area_def covers_def demo_app_fields wr_nsge_def unat_sub_if' split: if_splits)
  have ok: "copies_ok [(0x11010, 0x1010, 8)]"
    by (auto simp: copies_ok_def covers_def unat_sub_if' split: if_splits)
  show ?thesis
    unfolding sendable_def Let_def demo_entries list.map demo_copy
    using key area ok by (simp add: wr_nsge_def demo_app_fields e_key_def wr_sgl_def NULL_def CTRL_REQ_SIZE_def)
qed

theorem client_sends_reach_library_witness:
  "\<exists>l1. marshal_send 1 \<lparr>cqp_handle = 7, cqp_type = 2, cqp_recv_cq = 7\<rparr> 0x2000 0x9000 demo_send_lib = Ret l1 \<and>
     app_mem l1 0x11013 = app_mem demo_send_lib 0x1013"
proof -
  have "cqp_type \<lparr>cqp_handle = 7, cqp_type = 2, cqp_recv_cq = 7\<rparr> \<noteq> IBV_QPT_UD" by (simp add: IBV_QPT_UD_def)
  moreover have "length [0x2000 :: u64] \<le> 1" by simp
  ultimately obtain l1 where
    l1: "marshal_send 1 \<lparr>cqp_handle = 7, cqp_type = 2, cqp_recv_cq = 7\<rparr> 0x2000 0x9000 demo_send_lib = Ret l1"
    and d: "\<forall>e\<in>set (entries (app_mem demo_send_lib) [0x2000]). \<forall>x. covers (e_copy (region demo_send_lib) (app_mem demo_send_lib) e) x \<longrightarrow>
       app_mem l1 x = app_mem demo_send_lib (e_addr (app_mem demo_send_lib) e + (x - fst (e_copy (region demo_send_lib) (app_mem demo_send_lib) e)))"
    using client_sends_reach_library[OF demo_sendable, of 1 _ "0x9000" demo_verbs Map.empty] by blast
  have "app_mem l1 0x11013 = app_mem demo_send_lib 0x1013"
    using d by (simp add: demo_entries demo_copy covers_def e_addr_def wr_sgl_def demo_app_fields)
  with l1 show ?thesis by blast
qed

section \<open>The request that was rejected\<close>

lemma walk_next_list:
  "wr_list M p ps \<Longrightarrow> k < length ps \<Longrightarrow> walk_next k M p = Ret (ps ! k)"
proof (induction ps arbitrary: p k)
  case (Cons x xs)
  then show ?case by (cases k) (simp_all add: layout)
qed simp

lemma sint_low:
  assumes "unat (x :: u64) < 2 ^ 63"
  shows "sint x = int (unat x)"
proof -
  have "int (unat x) < int (2 ^ 63)" using assms by (simp only: of_nat_less_iff)
  then have "uint x < 2 ^ (LENGTH(64) - Suc 0)" by simp
  moreover have "- (2 ^ (LENGTH(64) - Suc 0)) \<le> uint x" by (rule order.trans[OF _ uint_ge_0]) simp
  ultimately have "signed_take_bit (LENGTH(64) - Suc 0) (uint x) = uint x" by (intro signed_take_bit_int_eq_self)
  then show ?thesis unfolding sint_uint by simp
qed

lemma bad_index_eq:
  assumes "unat base + (f + k * w) < 2 ^ 63" "0 < w"
  shows "bad_index (addr_of base (f + k * w)) (addr_of base f) w = word_of_nat k"
proof -
  have a: "sint (addr_of base x) = int (unat base + x)" if "unat base + x < 2 ^ 63" for x
  proof -
    have "unat (addr_of base x) = unat base + x"
      using that by (simp add: addr_of_def unat_word_ariths unsigned_of_nat take_bit_eq_mod)
    then show ?thesis using that sint_low[of "addr_of base x"] by simp
  qed
  have "sint (addr_of base (f + k * w)) - sint (addr_of base f) = int k * int w"
    using assms a[of "f + k * w"] a[of f] by simp
  then show ?thesis using assms(2) by (simp add: bad_index_def)
qed

text \<open>
  C39: when the verbs library rejects the work request with index \<open>k\<close> of a list, the router answers with
  \<open>k\<close>, counted from 0; the client counts from 1, so for every \<open>k\<close> but 0 it reports the request before the
  rejected one.
\<close>

theorem rejected_request_reported_one_early:
  assumes "wr_list M wr ps" "k < length ps" "unat base + (32 + length ps * 128) < 2 ^ 63" "length ps < 2 ^ 32" "err \<noteq> 0"
  shows "bad_wr_result M wr (bad_index (addr_of base (32 + k * 128)) (addr_of base 32) 128) err = Ret (Some (ps ! (k - 1)))"
proof -
  have "bad_index (addr_of base (32 + k * 128)) (addr_of base 32) 128 = word_of_nat k"
    using assms(2,3) by (intro bad_index_eq) auto
  moreover have k: "unat (word_of_nat k :: u32) = k" using assms(2,4) by (simp add: unsigned_of_nat take_bit_nat_eq_self)
  moreover have "walk_next (k - 1) M wr = Ret (ps ! (k - 1))" using assms(1,2) by (intro walk_next_list) auto
  moreover have "wr = ps ! 0" using assms(1,2) by (cases ps) auto
  moreover have "k = 0" if "(word_of_nat k :: u32) = 0" using k unfolding that by simp
  ultimately show ?thesis using assms(5) unfolding bad_wr_result_def by (cases "k = 0") auto
qed

theorem rejected_request_reported_one_early_witness:
  "bad_wr_result (\<lambda>a. put_u64 (\<lambda>_. 0) 0x2008 0x2080 (unat a)) 0x2000
     (bad_index (addr_of 0x10000 (32 + 1 * 128)) (addr_of 0x10000 32) 128) 12 = Ret (Some 0x2000)"
proof -
  let ?f = "put_u64 (\<lambda>_. 0) 0x2008 0x2080"
  have "get_u64 (app_at (\<lambda>a. ?f (unat a)) 0x2000) 8 = 0x2080" "get_u64 (app_at (\<lambda>a. ?f (unat a)) 0x2080) 8 = 0"
    using app_at_low[of "0x2000" 8 8 ?f] app_at_low[of "0x2080" 8 8 ?f]
      get_put_u64[of "\<lambda>_. 0" "0x2008" "0x2080"] get_u64_put_u64_apart[of "0x2088" "0x2008" "\<lambda>_. 0" "0x2080"]
    by (simp_all add: get_u64_def del: get_put_u64 get_u64_put_u64_apart)
  then have "wr_list (\<lambda>a. ?f (unat a)) 0x2000 [0x2000, 0x2080]" by (simp add: NULL_def)
  from rejected_request_reported_one_early[OF this, of 1 "0x10000" 12] show ?thesis by simp
qed

end
