(* ===== verification/FF_ClientCmd.thy ===== *)
theory FF_ClientCmd
  imports FF_ClientPost
begin

text \<open>
  The control calls of the client library: the functions of \<^verbatim>\<open>libibverbs-1.2.1mlnx1/src/cmd.c\<close>,
  \<^verbatim>\<open>cmd_exp.c\<close> and \<^verbatim>\<open>verbs.c\<close> that create, query and destroy verbs objects. Each fills a request struct on the
  stack, calls \<open>request_router\<close> and takes the answer from a second struct; the creating calls also
  map the shared memory the router names, and keep it in the tables the data path uses. None of
  them looks whether the router was reached: without an answer they use what the stack held.
\<close>

section \<open>Memory of the process\<close>

text \<open>
  The calls of the client on shared memory and on the allocator. \<open>sc_mmap hint len fd\<close> maps \<open>len\<close> bytes, at
  \<open>hint\<close> if that is not null (\<^verbatim>\<open>MAP_FIXED\<close>); with the address it returns what the memory there shows from now
  on. \<open>sc_map_ctrl\<close> is the same for a control piece. \<open>sc_new_wrs\<close> is what a new array of receives holds,
  \<open>sc_new_block\<close> the address of the block a pool asks for when it has no free place.
\<close>

record 'w shmcalls =
  sc_ftruncate :: "int \<Rightarrow> u64 \<Rightarrow> 'w \<Rightarrow> int \<times> 'w"
  sc_mmap :: "u64 \<Rightarrow> u64 \<Rightarrow> int \<Rightarrow> 'w \<Rightarrow> u64 \<times> bytes \<times> 'w"
  sc_map_ctrl :: "int \<Rightarrow> 'w \<Rightarrow> u64 \<times> CtrlShm \<times> 'w"
  sc_new_wrs :: "nat \<Rightarrow> sge_record list"
  sc_new_block :: "MemPool \<Rightarrow> nat"

text \<open>A request whose answer has a fixed size; \<open>os_stack\<close> is what the two structs hold before they are filled.\<close>

definition ask :: "nat \<Rightarrow> (nat \<Rightarrow> nat) \<Rightarrow> 'w os \<Rightarrow> RDMA_FUNCTION_CALL \<Rightarrow> mem \<Rightarrow> 'w lib \<Rightarrow> (mem \<times> 'w lib) cres" where
  "ask fuel usable E req body l =
     cthen (request_router fuel usable E req body 0 (os_stack E) 0 l) (\<lambda>(m, n, l). Ret (m, l))"

text \<open>The name in a \<^verbatim>\<open>char[100]\<close> of an answer; without a zero byte a reader runs past the struct.\<close>

definition name_at :: "mem \<Rightarrow> nat \<Rightarrow> string cres" where
  "name_at m p = (if 0 \<in> set (get_bytes m p 100) then Ret (get_cstr m p 100) else Ub StackOverflow)"

section \<open>Context, device and port\<close>

definition ibv_cmd_get_context :: "nat \<Rightarrow> (nat \<Rightarrow> nat) \<Rightarrow> 'w os \<Rightarrow> 'w lib \<Rightarrow> (int \<times> int \<times> 'w lib) cres" where
  "ibv_cmd_get_context fuel usable E l =
     cthen (ask fuel usable E IBV_GET_CONTEXT (\<lambda>_. 0) l) (\<lambda>(m, l).
       Ret (get_int m (off IBV_GET_CONTEXT_RSP [''async_fd'']), get_int m (off IBV_GET_CONTEXT_RSP [''num_comp_vectors'']), l))"

text \<open>The attributes are copied to where the caller wants them.\<close>

definition ibv_cmd_query_device :: "nat \<Rightarrow> (nat \<Rightarrow> nat) \<Rightarrow> 'w os \<Rightarrow> u64 \<Rightarrow> 'w lib \<Rightarrow> 'w lib cres" where
  "ibv_cmd_query_device fuel usable E device_attr l =
     cthen (ask fuel usable E IBV_QUERY_DEV (\<lambda>_. 0) l) (\<lambda>(m, l).
       Ret (l\<lparr>app_mem := app_store device_attr
         (get_bytes m (off IBV_QUERY_DEV_RSP [''dev_attr'']) (size_of ibv_device_attr)) (app_mem l)\<rparr>))"

definition ibv_cmd_query_port :: "nat \<Rightarrow> (nat \<Rightarrow> nat) \<Rightarrow> 'w os \<Rightarrow> u8 \<Rightarrow> u64 \<Rightarrow> 'w lib \<Rightarrow> 'w lib cres" where
  "ibv_cmd_query_port fuel usable E port_num port_attr l =
     cthen (ask fuel usable E IBV_QUERY_PORT (put_u8 (os_stack E) (off IBV_QUERY_PORT_REQ [''port_num'']) port_num) l) (\<lambda>(m, l).
       Ret (l\<lparr>app_mem := app_store port_attr
         (get_bytes m (off IBV_QUERY_PORT_RSP [''port_attr'']) (size_of ibv_port_attr)) (app_mem l)\<rparr>))"

section \<open>Calls that pass a handle and return a result\<close>

text \<open>The new protection domain is its handle.\<close>

definition ibv_cmd_alloc_pd :: "nat \<Rightarrow> (nat \<Rightarrow> nat) \<Rightarrow> 'w os \<Rightarrow> 'w lib \<Rightarrow> (u32 \<times> 'w lib) cres" where
  "ibv_cmd_alloc_pd fuel usable E l =
     cthen (ask fuel usable E IBV_ALLOC_PD (\<lambda>_. 0) l) (\<lambda>(m, l). Ret (get_u32 m (off IBV_ALLOC_PD_RSP [''pd_handle'']), l))"

definition ibv_cmd_dealloc_pd :: "nat \<Rightarrow> (nat \<Rightarrow> nat) \<Rightarrow> 'w os \<Rightarrow> u32 \<Rightarrow> 'w lib \<Rightarrow> (int \<times> 'w lib) cres" where
  "ibv_cmd_dealloc_pd fuel usable E pd l =
     cthen (ask fuel usable E IBV_DEALLOC_PD (put_u32 (os_stack E) (off IBV_DEALLOC_PD_REQ [''pd_handle'']) pd) l) (\<lambda>(m, l).
       Ret (get_int m (off IBV_DEALLOC_PD_RSP [''ret'']), l))"

definition ibv_cmd_req_notify_cq :: "nat \<Rightarrow> (nat \<Rightarrow> nat) \<Rightarrow> 'w os \<Rightarrow> u32 \<Rightarrow> int \<Rightarrow> 'w lib \<Rightarrow> (int \<times> 'w lib) cres" where
  "ibv_cmd_req_notify_cq fuel usable E cq solicited_only l =
     cthen (ask fuel usable E IBV_REQ_NOTIFY_CQ
              (put_int (put_u32 (os_stack E) (off IBV_REQ_NOTIFY_CQ_REQ [''cq_handle'']) cq)
                 (off IBV_REQ_NOTIFY_CQ_REQ [''solicited_only'']) solicited_only) l) (\<lambda>(m, l).
       Ret (get_int m (off IBV_REQ_NOTIFY_CQ_RSP [''ret'']), l))"

text \<open>The tables of the library keep their entries when an object is destroyed.\<close>

definition ibv_cmd_destroy_cq :: "nat \<Rightarrow> (nat \<Rightarrow> nat) \<Rightarrow> 'w os \<Rightarrow> u32 \<Rightarrow> 'w lib \<Rightarrow> (int \<times> 'w lib) cres" where
  "ibv_cmd_destroy_cq fuel usable E cq l =
     cthen (ask fuel usable E IBV_DESTROY_CQ (put_u32 (os_stack E) (off IBV_DESTROY_CQ_REQ [''cq_handle'']) cq) l) (\<lambda>(m, l).
       Ret (get_int m (off IBV_DESTROY_CQ_RSP [''ret'']), l))"

definition ibv_cmd_destroy_srq :: "nat \<Rightarrow> (nat \<Rightarrow> nat) \<Rightarrow> 'w os \<Rightarrow> u32 \<Rightarrow> 'w lib \<Rightarrow> (int \<times> 'w lib) cres" where
  "ibv_cmd_destroy_srq fuel usable E srq l =
     cthen (ask fuel usable E IBV_DESTROY_SRQ (put_u32 (os_stack E) (off IBV_DESTROY_SRQ_REQ [''srq_handle'']) srq) l) (\<lambda>(m, l).
       Ret (get_int m (off IBV_DESTROY_SRQ_RSP [''ret'']), l))"

definition ibv_cmd_destroy_qp :: "nat \<Rightarrow> (nat \<Rightarrow> nat) \<Rightarrow> 'w os \<Rightarrow> u32 \<Rightarrow> 'w lib \<Rightarrow> (int \<times> 'w lib) cres" where
  "ibv_cmd_destroy_qp fuel usable E qp l =
     cthen (ask fuel usable E IBV_DESTROY_QP (put_u32 (os_stack E) (off IBV_DESTROY_QP_REQ [''qp_handle'']) qp) l) (\<lambda>(m, l).
       Ret (get_int m (off IBV_DESTROY_QP_RSP [''ret'']), l))"

definition ibv_cmd_modify_srq :: "nat \<Rightarrow> (nat \<Rightarrow> nat) \<Rightarrow> 'w os \<Rightarrow> u32 \<Rightarrow> u64 \<Rightarrow> int \<Rightarrow> 'w lib \<Rightarrow> (int \<times> 'w lib) cres" where
  "ibv_cmd_modify_srq fuel usable E srq srq_attr srq_attr_mask l =
     (let req = put_u32 (os_stack E) (off IBV_MODIFY_SRQ_REQ [''srq_handle'']) srq;
          req = put_bytes req (off IBV_MODIFY_SRQ_REQ [''attr'']) (get_bytes (app_at (app_mem l) srq_attr) 0 (size_of ibv_srq_attr));
          req = put_int req (off IBV_MODIFY_SRQ_REQ [''srq_attr_mask'']) srq_attr_mask
      in cthen (ask fuel usable E IBV_MODIFY_SRQ req l) (\<lambda>(m, l).
           Ret (get_int m (off IBV_MODIFY_SRQ_RSP [''ret'']), l)))"

text \<open>The handle of the new address handle, and the result.\<close>

definition ibv_cmd_create_ah :: "nat \<Rightarrow> (nat \<Rightarrow> nat) \<Rightarrow> 'w os \<Rightarrow> u32 \<Rightarrow> u64 \<Rightarrow> 'w lib \<Rightarrow> (int \<times> u32 \<times> 'w lib) cres" where
  "ibv_cmd_create_ah fuel usable E pd attr l =
     (let req = put_bytes (os_stack E) (off IBV_CREATE_AH_REQ [''ah_attr'']) (get_bytes (app_at (app_mem l) attr) 0 (size_of ibv_ah_attr));
          req = put_u32 req (off IBV_CREATE_AH_REQ [''pd_handle'']) pd
      in cthen (ask fuel usable E IBV_CREATE_AH req l) (\<lambda>(m, l).
           Ret (get_int m (off IBV_CREATE_AH_RSP [''ret'']), get_u32 m (off IBV_CREATE_AH_RSP [''ah_handle'']), l)))"

definition ibv_cmd_destroy_ah :: "nat \<Rightarrow> (nat \<Rightarrow> nat) \<Rightarrow> 'w os \<Rightarrow> u32 \<Rightarrow> 'w lib \<Rightarrow> (int \<times> 'w lib) cres" where
  "ibv_cmd_destroy_ah fuel usable E ah l =
     cthen (ask fuel usable E IBV_DESTROY_AH (put_u32 (os_stack E) (off IBV_DESTROY_AH_REQ [''ah_handle'']) ah) l) (\<lambda>(m, l).
       Ret (get_int m (off IBV_DESTROY_AH_RSP [''ret'']), l))"

section \<open>Memory regions\<close>

record client_mr =
  cmr_addr :: u64
  cmr_length :: u64
  cmr_handle :: u32
  cmr_lkey :: u32
  cmr_rkey :: u32
  cmr_shm_name :: string
  cmr_shm_ptr :: u64
  cmr_shm_fd :: int

definition reg_mr_req :: "'w os \<Rightarrow> u32 \<Rightarrow> u64 \<Rightarrow> int \<Rightarrow> string \<Rightarrow> mem" where
  "reg_mr_req E pd len access shm_name =
     (let req = put_u32 (os_stack E) (off IBV_REG_MR_REQ [''pd_handle'']) pd;
          req = put_u32 req (off IBV_REG_MR_REQ [''mem_size'']) (ucast len);
          req = put_int req (off IBV_REG_MR_REQ [''access_flags'']) access
      in put_cstr req (off IBV_REG_MR_REQ [''shm_name'']) shm_name)"

text \<open>The mapping is announced to the router, which tells the other routers; its result is not used.\<close>

definition announce :: "nat \<Rightarrow> (nat \<Rightarrow> nat) \<Rightarrow> 'w os \<Rightarrow> u32 \<Rightarrow> u64 \<Rightarrow> u64 \<Rightarrow> 'w lib \<Rightarrow> 'w lib cres" where
  "announce fuel usable E key mr shm l =
     (let req = put_u32 (os_stack E) (off IBV_REG_MR_MAPPING_REQ [''key'']) key;
          req = put_u64 req (off IBV_REG_MR_MAPPING_REQ [''mr_ptr'']) mr;
          req = put_u64 req (off IBV_REG_MR_MAPPING_REQ [''shm_ptr'']) shm
      in cthen (ask fuel usable E IBV_REG_MR_MAPPING req l) (\<lambda>(m, l). Ret l))"

text \<open>The key of a region is entered with where the region is and where it is mapped.\<close>

definition enter_key :: "'w shmcalls \<Rightarrow> u32 \<Rightarrow> u64 \<Rightarrow> u64 \<Rightarrow> 'w lib \<Rightarrow> 'w lib" where
  "enter_key S key mr shm l =
     (let (p, pool) = mempool_insert (sc_new_block S (map_lkey_to_mrshm l)) key (map_lkey_to_mrshm l)
      in l\<lparr>map_lkey_to_mrshm := pool, mrshm_data := (mrshm_data l)(p := \<lparr>mrs_mr = mr, mrs_shm = shm\<rparr>)\<rparr>)"

text \<open>
  The first half of both registrations: the request, and the shared memory under the name in the
  answer. \<open>hint\<close> is where it is to be mapped, null for anywhere. The Boolean says whether \<^verbatim>\<open>ftruncate\<close> returned a
  positive number, which it never does: its failure is not noticed.
\<close>

definition reg_mr_map ::
  "nat \<Rightarrow> (nat \<Rightarrow> nat) \<Rightarrow> 'w os \<Rightarrow> 'w shmcalls \<Rightarrow> u32 \<Rightarrow> u64 \<Rightarrow> u64 \<Rightarrow> u64 \<Rightarrow> int \<Rightarrow> string \<Rightarrow> 'w lib
     \<Rightarrow> (client_mr \<times> bool \<times> 'w lib) cres" where
  "reg_mr_map fuel usable E S pd hint addr len access shm_name l =
     cthen (ask fuel usable E IBV_REG_MR (reg_mr_req E pd len access shm_name) l) (\<lambda>(m, l).
     cthen (name_at m (off IBV_REG_MR_RSP [''shm_name''])) (\<lambda>name.
       let (fd, w) = os_shm_open E name (lib_world l);
           (ret, w) = sc_ftruncate S fd len w;
           (ptr, bs, w) = sc_mmap S hint len fd w;
           M = (if ptr = MAP_FAILED then app_mem l else app_store ptr bs (app_mem l))
       in Ret (\<lparr>cmr_addr = addr, cmr_length = len, cmr_handle = get_u32 m (off IBV_REG_MR_RSP [''handle'']),
                cmr_lkey = get_u32 m (off IBV_REG_MR_RSP [''lkey'']), cmr_rkey = get_u32 m (off IBV_REG_MR_RSP [''rkey'']),
                cmr_shm_name = name, cmr_shm_ptr = ptr, cmr_shm_fd = fd\<rparr>, 0 < ret, l\<lparr>lib_world := w, app_mem := M\<rparr>)))"

text \<open>
  \<^verbatim>\<open>ibv_cmd_reg_mr\<close>: an aligned region is replaced by the shared memory at the same address, another one gets the
  shared memory elsewhere; in both cases its contents are saved before and copied there after.
\<close>

definition ibv_cmd_reg_mr ::
  "nat \<Rightarrow> (nat \<Rightarrow> nat) \<Rightarrow> 'w os \<Rightarrow> 'w shmcalls \<Rightarrow> u32 \<Rightarrow> u64 \<Rightarrow> u64 \<Rightarrow> int \<Rightarrow> 'w lib \<Rightarrow> (client_mr \<times> 'w lib) cres" where
  "ibv_cmd_reg_mr fuel usable E S pd addr len access l =
     (let membuff = get_bytes (app_at (app_mem l) addr) 0 (unat len);
          hint = (if unat addr mod (4 * 1024) = 0 then addr else 0)
      in cthen (reg_mr_map fuel usable E S pd hint addr len access [] l) (\<lambda>(mr, bad, l).
           if cmr_shm_ptr mr = MAP_FAILED \<or> bad then Ret (mr, l)
           else cthen (announce fuel usable E (cmr_lkey mr) addr (cmr_shm_ptr mr)
                         (l\<lparr>app_mem := app_store (cmr_shm_ptr mr) membuff (app_mem l)\<rparr>)) (\<lambda>l.
                  Ret (mr, enter_key S (cmr_lkey mr) addr (cmr_shm_ptr mr) l))))"

text \<open>
  \<^verbatim>\<open>ibv_cmd_reg_mr_ff\<close>: the region moves to the shared memory, and the caller's pointer with it; without a
  region yet (a null pointer) there is nothing to copy.
\<close>

definition ibv_cmd_reg_mr_ff ::
  "nat \<Rightarrow> (nat \<Rightarrow> nat) \<Rightarrow> 'w os \<Rightarrow> 'w shmcalls \<Rightarrow> u32 \<Rightarrow> u64 \<Rightarrow> u64 \<Rightarrow> int \<Rightarrow> string option \<Rightarrow> 'w lib
     \<Rightarrow> (client_mr \<times> 'w lib) cres" where
  "ibv_cmd_reg_mr_ff fuel usable E S pd addr len access shm_name l =
     (let name = (case shm_name of None \<Rightarrow> [] | Some n \<Rightarrow> n)
      in if 100 \<le> length name then Ub StackOverflow
         else cthen (reg_mr_map fuel usable E S pd 0 addr len access name l) (\<lambda>(mr, bad, l).
           if cmr_shm_ptr mr = MAP_FAILED \<or> bad then Ret (mr, l)
           else cthen (announce fuel usable E (cmr_lkey mr) (cmr_shm_ptr mr) (cmr_shm_ptr mr) l) (\<lambda>l.
                  let membuff = get_bytes (app_at (app_mem l) addr) 0 (unat len);
                      l = (if addr = NULL then l else l\<lparr>app_mem := app_store (cmr_shm_ptr mr) membuff (app_mem l)\<rparr>)
                  in Ret (mr\<lparr>cmr_addr := cmr_shm_ptr mr\<rparr>, enter_key S (cmr_lkey mr) (cmr_shm_ptr mr) (cmr_shm_ptr mr) l))))"

definition ibv_cmd_dereg_mr :: "nat \<Rightarrow> (nat \<Rightarrow> nat) \<Rightarrow> 'w os \<Rightarrow> client_mr \<Rightarrow> 'w lib \<Rightarrow> (int \<times> 'w lib) cres" where
  "ibv_cmd_dereg_mr fuel usable E mr l =
     cthen (ask fuel usable E IBV_DEREG_MR (put_u32 (os_stack E) (off IBV_DEREG_MR_REQ [''handle'']) (cmr_handle mr)) l) (\<lambda>(m, l).
       Ret (get_int m (off IBV_DEREG_MR_RSP [''ret'']),
            l\<lparr>lib_world := snd (os_shm_unlink E (cmr_shm_name mr) (lib_world l)),
              map_lkey_to_mrshm := mempool_del (cmr_lkey mr) (map_lkey_to_mrshm l)\<rparr>))"

section \<open>Queues\<close>

text \<open>The control piece of a new queue; only \<^verbatim>\<open>ibv_cmd_create_qp\<close> looks at the address, and compares it with null.\<close>

definition map_piece :: "'w os \<Rightarrow> 'w shmcalls \<Rightarrow> string \<Rightarrow> 'w lib \<Rightarrow> u64 \<times> 'w lib" where
  "map_piece E S name l =
     (let (fd, w) = os_shm_open E name (lib_world l);
          (_, w) = sc_ftruncate S fd (word_of_nat (size_of CtrlShmPiece)) w;
          (p, cs, w) = sc_map_ctrl S fd w
      in (p, l\<lparr>lib_world := w, lib_ctrl := (if p = MAP_FAILED then lib_ctrl l else (lib_ctrl l)(p := cs))\<rparr>))"

definition new_wr_queue :: "'w shmcalls \<Rightarrow> wr_queue" where
  "new_wr_queue S = \<lparr>wq_queue = sc_new_wrs S, wq_head = 0, wq_tail = 0, wq_tail_locked = False\<rparr>"

text \<open>\<^verbatim>\<open>comp_channel_map[channel->fd]\<close>, without a test of the index.\<close>

definition channel_fd :: "int \<Rightarrow> 'w lib \<Rightarrow> int cres" where
  "channel_fd fd l = (if fd < 0 \<or> int MAP_SIZE \<le> fd then Ub OobIndex else Ret (comp_channel_map l (nat fd)))"

text \<open>
  \<^verbatim>\<open>ibv_cmd_create_cq\<close>: \<open>channel\<close> is the descriptor of the completion channel, if there is one. Which shared receive
  queue a queue with the same handle had before stays in \<^verbatim>\<open>map_cq_to_srq\<close>. The result is the handle and the size.
\<close>

definition ibv_cmd_create_cq ::
  "nat \<Rightarrow> (nat \<Rightarrow> nat) \<Rightarrow> 'w os \<Rightarrow> 'w shmcalls \<Rightarrow> int \<Rightarrow> int option \<Rightarrow> int \<Rightarrow> 'w lib \<Rightarrow> (u32 \<times> int \<times> 'w lib) cres" where
  "ibv_cmd_create_cq fuel usable E S cqe channel comp_vector l =
     cthen (case channel of None \<Rightarrow> Ret (- 1) | Some fd \<Rightarrow> channel_fd fd l) (\<lambda>fd.
       let req = put_int (os_stack E) (off IBV_CREATE_CQ_REQ [''channel_fd'']) fd;
           req = put_int req (off IBV_CREATE_CQ_REQ [''comp_vector'']) comp_vector;
           req = put_int req (off IBV_CREATE_CQ_REQ [''cqe'']) cqe
       in cthen (ask fuel usable E IBV_CREATE_CQ req l) (\<lambda>(m, l).
          cthen (name_at m (off IBV_CREATE_CQ_RSP [''shm_name''])) (\<lambda>name.
            let h = get_u32 m (off IBV_CREATE_CQ_RSP [''handle'']); (p, l) = map_piece E S name l
            in if MAP_SIZE \<le> unat h then Ub OobIndex
               else Ret (h, get_int m (off IBV_CREATE_CQ_RSP [''cqe'']),
                      l\<lparr>lib_cq_shm := (lib_cq_shm l)(unat h := p),
                        map_cq_to_wr_queue := (map_cq_to_wr_queue l)(unat h := Some (new_wr_queue S))\<rparr>))))"

definition ibv_cmd_create_srq ::
  "nat \<Rightarrow> (nat \<Rightarrow> nat) \<Rightarrow> 'w os \<Rightarrow> 'w shmcalls \<Rightarrow> u32 \<Rightarrow> u64 \<Rightarrow> 'w lib \<Rightarrow> (u32 \<times> 'w lib) cres" where
  "ibv_cmd_create_srq fuel usable E S pd attr l =
     (let req = put_u32 (os_stack E) (off IBV_CREATE_SRQ_REQ [''pd_handle'']) pd;
          req = put_bytes req (off IBV_CREATE_SRQ_REQ [''attr''])
                  (get_bytes (app_at (app_mem l) attr) 0 (size_of ibv_srq_init_attr))
      in cthen (ask fuel usable E IBV_CREATE_SRQ req l) (\<lambda>(m, l).
         cthen (name_at m (off IBV_CREATE_SRQ_RSP [''shm_name''])) (\<lambda>name.
           let h = get_u32 m (off IBV_CREATE_SRQ_RSP [''srq_handle'']); (p, l) = map_piece E S name l
           in if MAP_SIZE \<le> unat h then Ub OobIndex
              else Ret (h, l\<lparr>lib_srq_shm := (lib_srq_shm l)(unat h := p),
                             map_srq_to_wr_queue := (map_srq_to_wr_queue l)(unat h := Some (new_wr_queue S))\<rparr>))))"

section \<open>Queue pairs\<close>

text \<open>What the caller asks for: handles of the other objects, and the capacities in the order of \<open>qp_cap_fields\<close>.\<close>

record qp_init =
  qi_pd :: u32
  qi_type :: u32
  qi_sig_all :: int
  qi_send_cq :: u32
  qi_recv_cq :: u32
  qi_srq :: "u32 option"
  qi_caps :: "u32 list"

definition create_qp_req :: "'w os \<Rightarrow> qp_init \<Rightarrow> mem" where
  "create_qp_req E a =
     (let req = put_u32 (os_stack E) (off IBV_CREATE_QP_REQ [''pd_handle'']) (qi_pd a);
          req = put_u32 req (off IBV_CREATE_QP_REQ [''qp_type'']) (qi_type a);
          req = put_int req (off IBV_CREATE_QP_REQ [''sq_sig_all'']) (qi_sig_all a);
          req = put_u32 req (off IBV_CREATE_QP_REQ [''send_cq_handle'']) (qi_send_cq a);
          req = put_u32 req (off IBV_CREATE_QP_REQ [''recv_cq_handle'']) (qi_recv_cq a);
          req = put_u32 req (off IBV_CREATE_QP_REQ [''srq_handle'']) (case qi_srq a of None \<Rightarrow> 0 | Some h \<Rightarrow> h)
      in fold (\<lambda>(x, v) m. put_u32 m (off IBV_CREATE_QP_REQ [''cap'', x]) v) (zip qp_cap_fields (qi_caps a)) req)"

text \<open>\<open>abi_ver\<close> is the version of the device interface; old versions do not report the capacities.\<close>

definition rsp_caps :: "int \<Rightarrow> mem \<Rightarrow> u32 list \<Rightarrow> u32 list" where
  "rsp_caps abi_ver m caps =
     (if 3 < abi_ver then map (\<lambda>x. get_u32 m (off IBV_CREATE_QP_RSP [''cap'', x])) qp_cap_fields else caps)"

text \<open>The end of both functions: the control piece of the new queue pair.\<close>

definition keep_qp_piece :: "'w os \<Rightarrow> 'w shmcalls \<Rightarrow> mem \<Rightarrow> u32 list \<Rightarrow> 'w lib \<Rightarrow> (u32 \<times> u32 \<times> u32 list \<times> 'w lib) cres" where
  "keep_qp_piece E S m caps l =
     cthen (name_at m (off IBV_CREATE_QP_RSP [''shm_name''])) (\<lambda>name.
       let h = get_u32 m (off IBV_CREATE_QP_RSP [''handle'']); (p, l) = map_piece E S name l
       in if MAP_SIZE \<le> unat h then Ub OobIndex
          else Ret (h, get_u32 m (off IBV_CREATE_QP_RSP [''qp_num'']), caps, l\<lparr>lib_qp_shm := (lib_qp_shm l)(unat h := p)\<rparr>))"

text \<open>
  \<^verbatim>\<open>ibv_cmd_create_qp\<close> looks for the receive completion queue and the shared receive queue in the new object, not
  in what the caller asked for: \<open>qp_recv_cq\<close> and \<open>qp_srq\<close> are what that object holds when it is called. The
  results are handle, number and capacities.
\<close>

definition ibv_cmd_create_qp ::
  "nat \<Rightarrow> (nat \<Rightarrow> nat) \<Rightarrow> 'w os \<Rightarrow> 'w shmcalls \<Rightarrow> int \<Rightarrow> u32 option \<Rightarrow> u32 option \<Rightarrow> qp_init \<Rightarrow> 'w lib
     \<Rightarrow> (u32 \<times> u32 \<times> u32 list \<times> 'w lib) cres" where
  "ibv_cmd_create_qp fuel usable E S abi_ver qp_recv_cq qp_srq a l =
     cthen (ask fuel usable E IBV_CREATE_QP (create_qp_req E a) l) (\<lambda>(m, l).
       let caps = (rsp_caps abi_ver m (qi_caps a))[4 := 0]
       in case qp_recv_cq of
            None \<Rightarrow> Ub NullDeref
          | Some cq \<Rightarrow>
              if MAP_SIZE \<le> unat cq then Ub OobIndex
              else let srq = (case qp_srq of Some h \<Rightarrow> h | None \<Rightarrow> word_of_nat (MAP_SIZE + 1))
                   in keep_qp_piece E S m caps (l\<lparr>map_cq_to_srq := (map_cq_to_srq l)(unat cq := srq)\<rparr>))"

text \<open>
  \<^verbatim>\<open>ibv_exp_cmd_create_qp\<close>, the one the driver of the container calls. A completion queue that had a shared receive
  queue keeps it when the new queue pair has none.
\<close>

definition ibv_exp_cmd_create_qp ::
  "nat \<Rightarrow> (nat \<Rightarrow> nat) \<Rightarrow> 'w os \<Rightarrow> 'w shmcalls \<Rightarrow> int \<Rightarrow> qp_init \<Rightarrow> 'w lib \<Rightarrow> (u32 \<times> u32 \<times> u32 list \<times> 'w lib) cres" where
  "ibv_exp_cmd_create_qp fuel usable E S abi_ver a l =
     cthen (ask fuel usable E IBV_CREATE_QP (create_qp_req E a) l) (\<lambda>(m, l).
       let caps = rsp_caps abi_ver m (qi_caps a)
       in case qi_srq a of
            None \<Rightarrow> keep_qp_piece E S m caps l
          | Some srq \<Rightarrow>
              if MAP_SIZE \<le> unat (qi_recv_cq a) then Ub OobIndex
              else keep_qp_piece E S m caps (l\<lparr>map_cq_to_srq := (map_cq_to_srq l)(unat (qi_recv_cq a) := srq)\<rparr>))"

definition IBV_QP_STATE :: u32 where
  "IBV_QP_STATE = 1"

text \<open>
  The state of the caller's object follows the request, whatever the router answers; \<open>None\<close> leaves it as it
  was. A result other than 0 is also stored in \<^verbatim>\<open>errno\<close>.
\<close>

definition ibv_cmd_modify_qp ::
  "nat \<Rightarrow> (nat \<Rightarrow> nat) \<Rightarrow> 'w os \<Rightarrow> u32 \<Rightarrow> u64 \<Rightarrow> u32 \<Rightarrow> 'w lib \<Rightarrow> (int \<times> u32 option \<times> 'w lib) cres" where
  "ibv_cmd_modify_qp fuel usable E qp attr attr_mask l =
     (let req = put_bytes (os_stack E) (off IBV_MODIFY_QP_REQ [''attr''])
                  (get_bytes (app_at (app_mem l) attr) 0 (size_of ibv_qp_attr));
          req = put_u32 req (off IBV_MODIFY_QP_REQ [''attr_mask'']) attr_mask;
          req = put_u32 req (off IBV_MODIFY_QP_REQ [''handle'']) qp
      in cthen (ask fuel usable E IBV_MODIFY_QP req l) (\<lambda>(m, l).
           Ret (get_int m (off IBV_MODIFY_QP_RSP [''ret'']),
                if attr_mask AND IBV_QP_STATE \<noteq> 0
                then Some (get_u32 (app_at (app_mem l) attr) (off ibv_qp_attr [''qp_state''])) else None, l)))"

section \<open>Querying a queue pair\<close>

definition ibv_qp_init_attr :: cty where [layout_defs]:
  "ibv_qp_init_attr = Struct
    [(''qp_context'', Ptr), (''send_cq'', Ptr), (''recv_cq'', Ptr), (''srq'', Ptr), (''cap'', ibv_qp_cap),
     (''qp_type'', Enum), (''sq_sig_all'', I32), (''xrc_domain'', Ptr)]"

text \<open>
  Which field of the answer goes to which field of the caller's attributes, with the widths of both; an
  assignment between different widths extends with zeros.
\<close>

definition ah_fields :: "string \<Rightarrow> string \<Rightarrow> (string list \<times> nat \<times> string list \<times> nat) list" where
  "ah_fields ah dest =
     [([ah, ''grh'', ''dgid''], 16, [dest, ''dgid''], 16), ([ah, ''grh'', ''flow_label''], 4, [dest, ''flow_label''], 4),
      ([ah, ''dlid''], 2, [dest, ''dlid''], 2), ([ah, ''grh'', ''sgid_index''], 1, [dest, ''sgid_index''], 1),
      ([ah, ''grh'', ''hop_limit''], 1, [dest, ''hop_limit''], 1),
      ([ah, ''grh'', ''traffic_class''], 1, [dest, ''traffic_class''], 1), ([ah, ''sl''], 1, [dest, ''sl''], 1),
      ([ah, ''src_path_bits''], 1, [dest, ''src_path_bits''], 1), ([ah, ''static_rate''], 1, [dest, ''static_rate''], 1),
      ([ah, ''is_global''], 1, [dest, ''is_global''], 1), ([ah, ''port_num''], 1, [dest, ''port_num''], 1)]"

definition query_qp_fields :: "(string list \<times> nat \<times> string list \<times> nat) list" where
  "query_qp_fields =
     map (\<lambda>x. ([x], 4, [x], 4)) [''qkey'', ''rq_psn'', ''sq_psn'', ''dest_qp_num'', ''qp_access_flags''] @
     map (\<lambda>x. ([x], 2, [x], 2)) [''pkey_index'', ''alt_pkey_index''] @
     map (\<lambda>x. ([x], 4, [x], 1)) [''qp_state'', ''cur_qp_state'', ''path_mtu'', ''path_mig_state''] @
     map (\<lambda>x. ([x], 1, [x], 1)) [''sq_draining'', ''max_rd_atomic'', ''max_dest_rd_atomic'', ''min_rnr_timer'',
       ''port_num'', ''timeout'', ''retry_cnt'', ''rnr_retry'', ''alt_port_num'', ''alt_timeout''] @
     map (\<lambda>x. ([''cap'', x], 4, [x], 4)) qp_cap_fields @ ah_fields ''ah_attr'' ''dest'' @ ah_fields ''alt_ah_attr'' ''alt_dest''"

definition query_qp_init_fields :: "(string list \<times> nat \<times> string list \<times> nat) list" where
  "query_qp_init_fields = map (\<lambda>x. ([''cap'', x], 4, [x], 4)) qp_cap_fields @ [([''sq_sig_all''], 4, [''sq_sig_all''], 1)]"

definition take_field :: "cty \<Rightarrow> u64 \<Rightarrow> mem \<Rightarrow> string list \<times> nat \<times> string list \<times> nat \<Rightarrow> (u64 \<Rightarrow> u8) \<Rightarrow> (u64 \<Rightarrow> u8)" where
  "take_field T p resp = (\<lambda>(dst, wd, src, ws) M.
     app_store (addr_of p (off T dst)) (le_bytes wd (le_val (get_bytes resp (off ibv_query_qp_resp src) ws))) M)"

text \<open>The caller's object: where its parts are, and its type.\<close>

record qp_object =
  qo_handle :: u32
  qo_context :: u64
  qo_send_cq :: u64
  qo_recv_cq :: u64
  qo_srq :: u64
  qo_type :: u32

text \<open>
  \<^verbatim>\<open>ibv_cmd_query_qp\<close> (27 is the code of the command before version 3): \<open>cmd\<close> is what the caller's command holds, of \<open>cmd_size\<close> bytes, which are copied into
  100. The result of the router's command is not looked at. The last result is the new state of the object.
\<close>

definition ibv_cmd_query_qp ::
  "nat \<Rightarrow> (nat \<Rightarrow> nat) \<Rightarrow> 'w os \<Rightarrow> int \<Rightarrow> qp_object \<Rightarrow> u64 \<Rightarrow> u32 \<Rightarrow> u64 \<Rightarrow> mem \<Rightarrow> nat \<Rightarrow> 'w lib \<Rightarrow> (u32 \<times> 'w lib) cres" where
  "ibv_cmd_query_qp fuel usable E abi_ver qp attr attr_mask init_attr cmd cmd_size l =
     (let T = ibv_query_qp;
          cmd = put_u32 cmd (off T [''command'']) (if 2 < abi_ver then IB_USER_VERBS_CMD_QUERY_QP else 27);
          cmd = put_u16 cmd (off T [''in_words'']) (word_of_nat (cmd_size div 4));
          cmd = put_u16 cmd (off T [''out_words'']) (word_of_nat (size_of ibv_query_qp_resp div 4));
          cmd = put_u64 cmd (off T [''response'']) (os_resp_addr E);
          cmd = put_u32 cmd (off T [''qp_handle'']) (qo_handle qp);
          cmd = put_u32 cmd (off T [''attr_mask'']) attr_mask
      in if 100 < cmd_size then Ub StackOverflow
         else let req = put_bytes (os_stack E) (off IBV_QUERY_QP_REQ [''cmd'']) (replicate 100 0);
                  req = put_bytes req (off IBV_QUERY_QP_REQ [''cmd'']) (get_bytes cmd 0 cmd_size);
                  req = put_int req (off IBV_QUERY_QP_REQ [''cmd_size'']) (int cmd_size)
              in cthen (ask fuel usable E IBV_QUERY_QP req l) (\<lambda>(m, l).
                   let resp = (\<lambda>i. m (off IBV_QUERY_QP_RSP [''resp''] + i));
                       M = fold (take_field ibv_qp_attr attr resp) query_qp_fields (app_mem l);
                       put = (\<lambda>x bs. app_store (addr_of init_attr (off ibv_qp_init_attr [x])) bs);
                       M = put ''qp_context'' (le_bytes 8 (unat (qo_context qp))) M;
                       M = put ''send_cq'' (le_bytes 8 (unat (qo_send_cq qp))) M;
                       M = put ''recv_cq'' (le_bytes 8 (unat (qo_recv_cq qp))) M;
                       M = put ''srq'' (le_bytes 8 (unat (qo_srq qp))) M;
                       M = put ''qp_type'' (le_bytes 4 (unat (qo_type qp))) M;
                       M = fold (take_field ibv_qp_init_attr init_attr resp) query_qp_init_fields M
                   in Ret (get_u32 (app_at M attr) (off ibv_qp_attr [''cur_qp_state'']), l\<lparr>app_mem := M\<rparr>)))"

section \<open>Flows\<close>

text \<open>\<^verbatim>\<open>cmd_destroy_flow\<close>, which both destroying functions call before they free the flow.\<close>

definition cmd_destroy_flow :: "nat \<Rightarrow> (nat \<Rightarrow> nat) \<Rightarrow> 'w os \<Rightarrow> int \<Rightarrow> u32 \<Rightarrow> 'w lib \<Rightarrow> (int \<times> 'w lib) cres" where
  "cmd_destroy_flow fuel usable E abi_ver handle l =
     (let n = int (size_of ibv_destroy_flow);
          cmd = IBV_INIT_CMD_RESP_EX_V (if 2 < abi_ver then IB_USER_VERBS_CMD_DESTROY_FLOW else - 1) n n NULL 0 0 (\<lambda>_. 0);
          cmd = put_u32 cmd (off ibv_destroy_flow [''flow_handle'']) handle;
          req = put_bytes (os_stack E) (off IBV_DESTROY_FLOW_REQ [''cmd'']) (get_bytes cmd 0 (size_of ibv_destroy_flow))
      in cthen (ask fuel usable E IBV_DESTROY_FLOW req l) (\<lambda>(m, l).
           Ret (get_int m (off IBV_DESTROY_FLOW_RSP [''ret_errno'']), l)))"

section \<open>Completion channels and events\<close>

text \<open>The descriptor of a new channel; \<open>exchange\<close> has received it, and has noted the router's number for it.\<close>

definition ibv_create_comp_channel :: "nat \<Rightarrow> (nat \<Rightarrow> nat) \<Rightarrow> 'w os \<Rightarrow> 'w lib \<Rightarrow> (int \<times> 'w lib) cres" where
  "ibv_create_comp_channel fuel usable E l =
     cthen (ask fuel usable E IBV_CREATE_COMP_CHANNEL (\<lambda>_. 0) l) (\<lambda>(m, l).
       Ret (get_int m (off IBV_CREATE_COMP_CHANNEL_RSP [''fd'']), l))"

definition ibv_destroy_comp_channel :: "nat \<Rightarrow> (nat \<Rightarrow> nat) \<Rightarrow> 'w os \<Rightarrow> int \<Rightarrow> 'w lib \<Rightarrow> (int \<times> 'w lib) cres" where
  "ibv_destroy_comp_channel fuel usable E channel l =
     cthen (channel_fd channel l) (\<lambda>fd.
     cthen (ask fuel usable E IBV_DESTROY_COMP_CHANNEL (put_int (os_stack E) (off IBV_DESTROY_COMP_CHANNEL_REQ [''fd'']) fd) l)
       (\<lambda>(m, l). Ret (get_int m (off IBV_DESTROY_COMP_CHANNEL_RSP [''ret'']), l)))"

text \<open>
  The completion queues the application has, by handle, with their counters of events (\<^verbatim>\<open>cq_map\<close> of
  \<^verbatim>\<open>verbs.c\<close>). The handle in the answer is used as an index without a test. The driver's hook on an event, which
  counts it for its own queue memory, is not part of the model.
\<close>

record cq_object =
  co_comp_events :: u32
  co_async_events :: u32
  co_context :: u64

definition ibv_get_cq_event ::
  "nat \<Rightarrow> (nat \<Rightarrow> nat) \<Rightarrow> 'w os \<Rightarrow> int \<Rightarrow> (nat \<Rightarrow> cq_object option) \<Rightarrow> 'w lib
     \<Rightarrow> (u32 \<times> u64 \<times> (nat \<Rightarrow> cq_object option) \<times> 'w lib) cres" where
  "ibv_get_cq_event fuel usable E channel cqs l =
     cthen (channel_fd channel l) (\<lambda>fd.
     cthen (ask fuel usable E IBV_GET_CQ_EVENT (put_int (os_stack E) (off IBV_GET_CQ_EVENT_REQ [''fd'']) fd) l) (\<lambda>(m, l).
       let h = get_u32 m (off IBV_GET_CQ_EVENT_RSP [''cq_handle''])
       in if MAP_SIZE \<le> unat h then Ub OobIndex
          else case cqs (unat h) of
                 None \<Rightarrow> Ub NullDeref
               | Some cq \<Rightarrow>
                   let cq = cq\<lparr>co_comp_events := get_u32 m (off IBV_GET_CQ_EVENT_RSP [''comp_events_completed'']),
                               co_async_events := get_u32 m (off IBV_GET_CQ_EVENT_RSP [''async_events_completed''])\<rparr>
                   in Ret (h, co_context cq, cqs(unat h := Some cq), l)))"

definition ibv_ack_cq_events ::
  "nat \<Rightarrow> (nat \<Rightarrow> nat) \<Rightarrow> 'w os \<Rightarrow> u32 \<Rightarrow> u32 \<Rightarrow> cq_object \<Rightarrow> 'w lib \<Rightarrow> (cq_object \<times> 'w lib) cres" where
  "ibv_ack_cq_events fuel usable E handle nevents cq l =
     (let req = put_u32 (os_stack E) (off IBV_ACK_CQ_EVENT_REQ [''cq_handle'']) handle;
          req = put_u32 req (off IBV_ACK_CQ_EVENT_REQ [''nevents'']) nevents
      in cthen (ask fuel usable E IBV_ACK_CQ_EVENT req l) (\<lambda>(m, l).
           Ret (cq\<lparr>co_comp_events := get_u32 m (off IBV_ACK_CQ_EVENT_RSP [''comp_events_completed''])\<rparr>, l)))"

end
