(* ===== verification/FF_Indexer.thy ===== *)
theory FF_Indexer
  imports FF_Prelude
begin

text \<open>
  \<^verbatim>\<open>indexer.c\<close> of the connection-manager libraries: a table that hands out small integers for pointers. The
  upper bits of an index select a block of 1024 entries, the lower bits an entry; the free entries are
  linked through the blocks. An entry is a union: the eight bytes hold an item, or a link in
  their first four.
\<close>

unbundle bit_operations_syntax

section \<open>Entries and indices\<close>

definition IDX_ENTRY_BITS :: nat where
  "IDX_ENTRY_BITS = 10"

definition IDX_ENTRY_SIZE :: nat where
  "IDX_ENTRY_SIZE = 2 ^ IDX_ENTRY_BITS"

definition IDX_ARRAY_SIZE :: nat where
  "IDX_ARRAY_SIZE = 2 ^ (16 - IDX_ENTRY_BITS)"

definition IDX_MAX_INDEX :: int where
  "IDX_MAX_INDEX = 2 ^ 16 - 1"

definition idx_array_index :: "int \<Rightarrow> int" where
  "idx_array_index index = drop_bit IDX_ENTRY_BITS index"

definition idx_entry_index :: "int \<Rightarrow> nat" where
  "idx_entry_index index = nat (index AND (int IDX_ENTRY_SIZE - 1))"

type_synonym idx_entry = u64
type_synonym idx_block = "nat \<Rightarrow> idx_entry"

definition entry_next :: "idx_entry \<Rightarrow> int" where
  "entry_next e = sint (ucast e :: u32)"

definition set_next :: "int \<Rightarrow> idx_entry \<Rightarrow> idx_entry" where
  "set_next n e = (e AND NOT (mask 32)) OR ucast (word_of_int n :: u32)"

lemma idx_array_index_div: "idx_array_index i = i div 1024"
  by (simp add: idx_array_index_def IDX_ENTRY_BITS_def drop_bit_eq_div)

lemma idx_entry_index_mod: "idx_entry_index i = nat (i mod 1024)"
proof -
  have "i AND 1023 = take_bit 10 i" by (simp add: take_bit_eq_mask mask_eq_exp_minus_1)
  then show ?thesis by (simp add: idx_entry_index_def IDX_ENTRY_SIZE_def IDX_ENTRY_BITS_def take_bit_eq_mod)
qed

lemma entry_next_set_next:
  assumes "- (2 ^ 31) \<le> n" "n < 2 ^ 31"
  shows "entry_next (set_next n e) = n"
proof -
  have "(ucast ((e AND NOT (mask 32)) OR ucast (word_of_int n :: u32)) :: u32) = word_of_int n"
    by (rule bit_word_eqI) (simp add: bit_simps)
  then show ?thesis using assms
    by (simp add: entry_next_def set_next_def signed_of_int signed_take_bit_int_eq_self)
qed

section \<open>The indexer\<close>

record indexer =
  idx_array :: "nat \<Rightarrow> idx_block option"
  idx_free_list :: int
  idx_size :: nat

text \<open>The block of an index: outside the array, or never allocated, the access is undefined.\<close>

definition block_at :: "(nat \<Rightarrow> 'b option) \<Rightarrow> int \<Rightarrow> ub + 'b" where
  "block_at array index =
     (let j = idx_array_index index
      in if 0 \<le> j \<and> j < int IDX_ARRAY_SIZE
         then case array (nat j) of None \<Rightarrow> Inl NullDeref | Some e \<Rightarrow> Inr e
         else Inl OobIndex)"

definition link_entries :: "int \<Rightarrow> idx_block \<Rightarrow> idx_block" where
  "link_entries start entry =
     fold (\<lambda>i entry. entry(i := set_next (start + int i + 1) (entry i))) (rev [0..<IDX_ENTRY_SIZE - 1]) entry"

text \<open>\<open>mem\<close> tells whether \<^verbatim>\<open>calloc\<close> succeeds.\<close>

definition idx_grow :: "bool \<Rightarrow> indexer \<Rightarrow> int \<times> indexer" where
  "idx_grow mem idx =
     (if IDX_ARRAY_SIZE \<le> idx_size idx then (- 1, idx)
      else if \<not> mem then (- 1, idx\<lparr>idx_array := (idx_array idx)(idx_size idx := None)\<rparr>)
      else let start_index = push_bit IDX_ENTRY_BITS (int (idx_size idx));
               entry = (\<lambda>_. 0)(IDX_ENTRY_SIZE - 1 := set_next (idx_free_list idx) 0);
               entry = link_entries start_index entry;
               start_index = (if start_index = 0 then start_index + 1 else start_index)
           in (start_index,
               idx\<lparr>idx_array := (idx_array idx)(idx_size idx \<mapsto> entry), idx_free_list := start_index,
                   idx_size := idx_size idx + 1\<rparr>))"

definition set_entry :: "int \<Rightarrow> idx_block \<Rightarrow> idx_entry \<Rightarrow> indexer \<Rightarrow> indexer" where
  "set_entry index entry v idx =
     idx\<lparr>idx_array := (idx_array idx)(nat (idx_array_index index) \<mapsto> entry(idx_entry_index index := v))\<rparr>"

text \<open>The first free entry leaves the list and takes the item.\<close>

definition idx_take :: "int \<Rightarrow> u64 \<Rightarrow> indexer \<Rightarrow> ub + int \<times> indexer" where
  "idx_take index item idx =
     (case block_at (idx_array idx) index of
        Inl u \<Rightarrow> Inl u
      | Inr entry \<Rightarrow>
          let idx = idx\<lparr>idx_free_list := entry_next (entry (idx_entry_index index))\<rparr>
          in Inr (index, set_entry index entry item idx))"

definition idx_insert :: "bool \<Rightarrow> u64 \<Rightarrow> indexer \<Rightarrow> ub + int \<times> indexer" where
  "idx_insert mem item idx =
     (let index = idx_free_list idx
      in if index = 0
         then let (index, idx) = idx_grow mem idx
              in if index \<le> 0 then Inr (index, idx) else idx_take index item idx
         else idx_take index item idx)"

definition idx_remove :: "int \<Rightarrow> indexer \<Rightarrow> ub + u64 \<times> indexer" where
  "idx_remove index idx =
     (case block_at (idx_array idx) index of
        Inl u \<Rightarrow> Inl u
      | Inr entry \<Rightarrow>
          let item = entry (idx_entry_index index);
              idx = set_entry index entry (set_next (idx_free_list idx) item) idx
          in Inr (item, idx\<lparr>idx_free_list := index\<rparr>))"

definition idx_replace :: "int \<Rightarrow> u64 \<Rightarrow> indexer \<Rightarrow> ub + indexer" where
  "idx_replace index item idx =
     (case block_at (idx_array idx) index of
        Inl u \<Rightarrow> Inl u
      | Inr entry \<Rightarrow> Inr (set_entry index entry item idx))"

definition idx_at :: "int \<Rightarrow> indexer \<Rightarrow> ub + u64" where
  "idx_at index idx =
     (case block_at (idx_array idx) index of Inl u \<Rightarrow> Inl u | Inr entry \<Rightarrow> Inr (entry (idx_entry_index index)))"

section \<open>The index map\<close>

type_synonym index_map = "nat \<Rightarrow> idx_block option"

definition idm_grow :: "bool \<Rightarrow> int \<Rightarrow> index_map \<Rightarrow> int \<times> index_map" where
  "idm_grow mem index idm =
     (let j = nat (idx_array_index index)
      in if \<not> mem then (- 1, idm(j := None)) else (index, idm(j \<mapsto> (\<lambda>_. NULL))))"

definition idm_set :: "bool \<Rightarrow> int \<Rightarrow> u64 \<Rightarrow> index_map \<Rightarrow> ub + int \<times> index_map" where
  "idm_set mem index item idm =
     (if IDX_MAX_INDEX < index then Inr (- 1, idm)
      else if idx_array_index index < 0 then Inl OobIndex
      else let j = nat (idx_array_index index);
               (ret, idm) = (if idm j = None then idm_grow mem index idm else (index, idm))
           in if ret < 0 then Inr (- 1, idm)
              else case idm j of
                     None \<Rightarrow> Inl NullDeref
                   | Some entry \<Rightarrow> Inr (index, idm(j \<mapsto> entry(idx_entry_index index := item))))"

definition idm_at :: "int \<Rightarrow> index_map \<Rightarrow> ub + u64" where
  "idm_at index idm =
     (case block_at idm index of Inl u \<Rightarrow> Inl u | Inr entry \<Rightarrow> Inr (entry (idx_entry_index index)))"

definition idm_clear :: "int \<Rightarrow> index_map \<Rightarrow> ub + u64 \<times> index_map" where
  "idm_clear index idm =
     (case block_at idm index of
        Inl u \<Rightarrow> Inl u
      | Inr entry \<Rightarrow>
          Inr (entry (idx_entry_index index),
               idm(nat (idx_array_index index) \<mapsto> entry(idx_entry_index index := NULL))))"

definition idm_lookup :: "int \<Rightarrow> index_map \<Rightarrow> ub + u64" where
  "idm_lookup index idm =
     (if IDX_MAX_INDEX < index then Inr NULL
      else if idx_array_index index < 0 then Inl OobIndex
      else if idm (nat (idx_array_index index)) = None then Inr NULL
      else idm_at index idm)"

section \<open>Single entries\<close>

definition raw :: "indexer \<Rightarrow> int \<Rightarrow> idx_entry option" where
  "raw idx i = map_option (\<lambda>e. e (nat (i mod 1024))) (idx_array idx (nat (i div 1024)))"

lemmas idx_arith = idx_array_index_div idx_entry_index_mod

lemma block_at_raw:
  assumes "0 \<le> i" "i \<le> IDX_MAX_INDEX" "raw idx i = Some v"
  shows "\<exists>e. block_at (idx_array idx) i = Inr e \<and> idx_array idx (nat (i div 1024)) = Some e \<and> e (idx_entry_index i) = v"
proof -
  have "i div 1024 < 64" "0 \<le> i div 1024" using assms(1,2) by (simp_all add: IDX_MAX_INDEX_def)
  then show ?thesis using assms(3) by (auto simp: block_at_def raw_def idx_arith IDX_ARRAY_SIZE_def IDX_ENTRY_BITS_def Let_def)
qed

lemma raw_upd [simp]:
  "raw (idx\<lparr>idx_free_list := f\<rparr>) = raw idx" "raw (idx\<lparr>idx_size := n\<rparr>) = raw idx"
  by (simp_all add: raw_def fun_eq_iff)

lemma div_mod_1024: "0 \<le> i \<Longrightarrow> 0 \<le> k \<Longrightarrow> nat (k div 1024) = nat (i div 1024) \<Longrightarrow> nat (k mod 1024) = nat (i mod 1024) \<Longrightarrow> k = (i :: int)"
  by (metis div_mult_mod_eq eq_nat_nat_iff pos_imp_zdiv_nonneg_iff pos_mod_sign zero_less_numeral)

lemma raw_set_entry:
  assumes "0 \<le> i" "0 \<le> k" "idx_array idx (nat (i div 1024)) = Some e"
  shows "raw (set_entry i e v idx) k = (if k = i then Some v else raw idx k)"
  using assms div_mod_1024[of i k] by (auto simp: raw_def set_entry_def idx_arith)

lemma set_entry_frame [simp]:
  "idx_free_list (set_entry i e v idx) = idx_free_list idx" "idx_size (set_entry i e v idx) = idx_size idx"
  by (simp_all add: set_entry_def)

lemma idx_array_set_entry:
  "idx_array (set_entry i e v idx) j = None \<longleftrightarrow> j \<noteq> nat (i div 1024) \<and> idx_array idx j = None"
  by (simp add: set_entry_def idx_arith)

section \<open>The free list\<close>

fun chain :: "indexer \<Rightarrow> int \<Rightarrow> int list \<Rightarrow> bool" where
  "chain idx p [] = (p = 0)"
| "chain idx p (f # fs) = (p = f \<and> f \<noteq> 0 \<and> (\<exists>e. raw idx f = Some e \<and> chain idx (entry_next e) fs))"

lemma chain_cong: "(\<And>k. k \<in> set fs \<Longrightarrow> raw idx' k = raw idx k) \<Longrightarrow> chain idx' p fs = chain idx p fs"
  by (induction fs arbitrary: p) auto

lemma chain_run:
  assumes "0 < a" "a \<le> b" "\<And>k. a \<le> k \<Longrightarrow> k \<le> b \<Longrightarrow> \<exists>e. raw idx k = Some e \<and> entry_next e = (if k < b then k + 1 else 0)"
  shows "chain idx a [a..b]"
  using assms
proof (induction a b rule: upto.induct)
  case (1 a b)
  from "1.prems"(3)[of a] "1.prems"(2) obtain e where e: "raw idx a = Some e" "entry_next e = (if a < b then a + 1 else 0)" by auto
  show ?case
  proof (cases "a < b")
    case True
    then have "chain idx (a + 1) [a + 1..b]" using "1.prems" by (intro "1.IH") auto
    then show ?thesis using e True "1.prems" by (simp add: upto_rec1)
  next
    case False
    then have "b = a" using "1.prems" by simp
    then show ?thesis using e "1.prems" by simp
  qed
qed

lemma fold_entries:
  "distinct xs \<Longrightarrow> fold (\<lambda>i e. e(i := f i (e i))) xs e = (\<lambda>i. if i \<in> set xs then f i (e i) else e i)"
  by (induction xs arbitrary: e) auto

lemma link_entries_at: "link_entries start e i = (if i < 1023 then set_next (start + int i + 1) (e i) else e i)"
  unfolding link_entries_def by (subst fold_entries) (auto simp: IDX_ENTRY_SIZE_def IDX_ENTRY_BITS_def)

section \<open>The indexer as a map\<close>

text \<open>
  \<open>idx_rep idx m\<close>: the indexer holds the items of the finite map \<open>m\<close>. Every index of the allocated blocks
  but 0 is either live or in the free list, which is linked through the free entries and ends at 0.
\<close>

definition idx_rep :: "indexer \<Rightarrow> (int \<Rightarrow> u64 option) \<Rightarrow> bool" where
  "idx_rep idx m =
     (idx_size idx \<le> IDX_ARRAY_SIZE \<and>
      (\<forall>j < idx_size idx. idx_array idx j \<noteq> None) \<and>
      (\<forall>i x. m i = Some x \<longrightarrow> raw idx i = Some x) \<and>
      (\<exists>fs. chain idx (idx_free_list idx) fs \<and> distinct fs \<and> set fs \<inter> dom m = {} \<and>
        set fs \<union> dom m = {1..<1024 * int (idx_size idx)}))"

definition idx_empty :: indexer where
  "idx_empty = \<lparr>idx_array = (\<lambda>_. None), idx_free_list = 0, idx_size = 0\<rparr>"

lemma idx_rep_empty: "idx_rep idx_empty Map.empty"
  by (auto simp: idx_rep_def idx_empty_def)

lemma idx_rep_range:
  assumes "idx_rep idx m" "m i = Some x"
  shows "0 < i" "i \<le> IDX_MAX_INDEX"
proof -
  have "i \<in> {1..<1024 * int (idx_size idx)}" "idx_size idx \<le> 64"
    using assms by (auto simp: idx_rep_def IDX_ARRAY_SIZE_def IDX_ENTRY_BITS_def)
  then show "0 < i" "i \<le> IDX_MAX_INDEX" by (auto simp: IDX_MAX_INDEX_def)
qed

lemma idx_rep_block:
  assumes "idx_rep idx m" "m i = Some x"
  shows "\<exists>e. block_at (idx_array idx) i = Inr e \<and> idx_array idx (nat (i div 1024)) = Some e \<and> e (idx_entry_index i) = x"
  using assms idx_rep_range[OF assms] by (intro block_at_raw) (auto simp: idx_rep_def)

lemma idx_at_rep: "idx_rep idx m \<Longrightarrow> m i = Some x \<Longrightarrow> idx_at i idx = Inr x"
  using idx_rep_block[of idx m i x] by (auto simp: idx_at_def)

lemma idx_replace_rep:
  assumes "idx_rep idx m" "m i = Some x"
  shows "\<exists>idx'. idx_replace i y idx = Inr idx' \<and> idx_rep idx' (m(i \<mapsto> y))"
proof -
  obtain e where e: "block_at (idx_array idx) i = Inr e" "idx_array idx (nat (i div 1024)) = Some e"
    using idx_rep_block[OF assms] by auto
  obtain fs where fs: "chain idx (idx_free_list idx) fs" "distinct fs" "set fs \<inter> dom m = {}"
    "set fs \<union> dom m = {1..<1024 * int (idx_size idx)}" using assms(1) by (auto simp: idx_rep_def)
  let ?idx = "set_entry i e y idx"
  have raw: "raw ?idx k = (if k = i then Some y else raw idx k)" if "0 \<le> k" for k
    using that idx_rep_range[OF assms] e(2) by (intro raw_set_entry) auto
  have pos: "0 \<le> k" if "k \<in> set fs \<union> dom m" for k using that fs(4) by auto
  have "chain ?idx (idx_free_list idx) fs"
    using fs(1) by (subst chain_cong[of _ _ idx]) (use fs(3) assms(2) pos raw in auto)
  moreover have "raw ?idx k = Some z" if "(m(i \<mapsto> y)) k = Some z" for k z
    using that assms pos[of k] raw[of k] by (auto simp: idx_rep_def split: if_splits)
  moreover have "dom (m(i \<mapsto> y)) = dom m" using assms(2) by auto
  ultimately have "idx_rep ?idx (m(i \<mapsto> y))"
    unfolding idx_rep_def using assms(1) fs(2-4)
    by (auto simp: idx_array_set_entry idx_rep_def simp del: fun_upd_apply intro!: exI[of _ fs])
  then show ?thesis using e by (simp add: idx_replace_def)
qed

lemma idx_rep_obtain:
  assumes "idx_rep idx m"
  obtains fs where "chain idx (idx_free_list idx) fs" "distinct fs" "set fs \<inter> dom m = {}"
    "set fs \<union> dom m = {1..<1024 * int (idx_size idx)}" "\<forall>k \<in> set fs \<union> dom m. 0 < k \<and> k \<le> IDX_MAX_INDEX"
proof -
  have "idx_size idx \<le> 64" using assms by (simp add: idx_rep_def IDX_ARRAY_SIZE_def IDX_ENTRY_BITS_def)
  then have "0 < k \<and> k \<le> IDX_MAX_INDEX" if "k \<in> {1..<1024 * int (idx_size idx)}" for k
    using that by (auto simp: IDX_MAX_INDEX_def)
  then show ?thesis using assms that by (fastforce simp: idx_rep_def)
qed

lemma idx_remove_rep:
  assumes "idx_rep idx m" "m i = Some x"
  shows "\<exists>idx'. idx_remove i idx = Inr (x, idx') \<and> idx_rep idx' (m(i := None))"
proof -
  obtain e where e: "block_at (idx_array idx) i = Inr e" "idx_array idx (nat (i div 1024)) = Some e" "e (idx_entry_index i) = x"
    using idx_rep_block[OF assms] by auto
  from assms(1) obtain fs where fs: "chain idx (idx_free_list idx) fs" "distinct fs" "set fs \<inter> dom m = {}"
    "set fs \<union> dom m = {1..<1024 * int (idx_size idx)}" "\<forall>k \<in> set fs \<union> dom m. 0 < k \<and> k \<le> IDX_MAX_INDEX"
    by (rule idx_rep_obtain)
  let ?v = "set_next (idx_free_list idx) x"
  let ?idx = "(set_entry i e ?v idx)\<lparr>idx_free_list := i\<rparr>"
  have raw: "raw ?idx k = (if k = i then Some ?v else raw idx k)" if "0 \<le> k" for k
    using that idx_rep_range[OF assms] e(2) by (simp add: raw_set_entry)
  have "idx_free_list idx = 0 \<or> idx_free_list idx \<in> set fs" using fs(1) by (cases fs) auto
  then have "0 \<le> idx_free_list idx \<and> idx_free_list idx \<le> 65535"
    using bspec[OF fs(5), of "idx_free_list idx"] by (auto simp: IDX_MAX_INDEX_def)
  then have link: "entry_next ?v = idx_free_list idx" by (simp add: entry_next_set_next)
  have "raw ?idx k = raw idx k" if "k \<in> set fs" for k using raw[of k] bspec[OF fs(5), of k] fs(3) assms(2) that by auto
  then have "chain ?idx (idx_free_list idx) fs" using fs(1) by (simp only: chain_cong[of fs ?idx idx])
  then have "chain ?idx i (i # fs)" using raw[of i] idx_rep_range[OF assms] link by simp
  moreover have "raw ?idx k = Some z" if "(m(i := None)) k = Some z" for k z
    using that assms idx_rep_range[of idx m k z] raw[of k] by (auto simp: idx_rep_def split: if_splits)
  moreover have "distinct (i # fs)" "set (i # fs) \<inter> dom (m(i := None)) = {}"
    "set (i # fs) \<union> dom (m(i := None)) = set fs \<union> dom m" using fs(2,3) assms(2) by auto
  ultimately have "idx_rep ?idx (m(i := None))"
    unfolding idx_rep_def using assms(1) fs(4)
    by (auto simp: idx_array_set_entry idx_rep_def simp del: fun_upd_apply chain.simps set_simps distinct.simps
        intro!: exI[of _ "i # fs"])
  then show ?thesis using e by (simp add: idx_remove_def)
qed

lemma idx_take_rep:
  assumes "idx_rep idx m" "idx_free_list idx \<noteq> 0"
  shows "\<exists>idx'. idx_take (idx_free_list idx) x idx = Inr (idx_free_list idx, idx') \<and>
    0 < idx_free_list idx \<and> idx_free_list idx \<le> IDX_MAX_INDEX \<and> m (idx_free_list idx) = None \<and>
    idx_rep idx' (m(idx_free_list idx \<mapsto> x))"
proof -
  let ?i = "idx_free_list idx"
  from assms(1) obtain fs where fs: "chain idx ?i fs" "distinct fs" "set fs \<inter> dom m = {}"
    "set fs \<union> dom m = {1..<1024 * int (idx_size idx)}" "\<forall>k \<in> set fs \<union> dom m. 0 < k \<and> k \<le> IDX_MAX_INDEX"
    by (rule idx_rep_obtain)
  obtain gs where gs: "fs = ?i # gs" using fs(1) assms(2) by (cases fs) auto
  obtain v where v: "raw idx ?i = Some v" "chain idx (entry_next v) gs" using fs(1) gs by (metis chain.simps(2))
  have i: "0 < ?i" "?i \<le> IDX_MAX_INDEX" "m ?i = None" using fs(3,5) unfolding gs by auto
  obtain e where e: "block_at (idx_array idx) ?i = Inr e" "idx_array idx (nat (?i div 1024)) = Some e" "e (idx_entry_index ?i) = v"
    using block_at_raw[of ?i idx v] i v by auto
  let ?idx = "set_entry ?i e x (idx\<lparr>idx_free_list := entry_next v\<rparr>)"
  have raw: "raw ?idx k = (if k = ?i then Some x else raw idx k)" if "0 \<le> k" for k
    using that i e(2) by (simp add: raw_set_entry)
  have ni: "?i \<notin> set gs" and pos: "\<forall>k \<in> set gs. 0 < k" using fs(2,5) unfolding gs by auto
  have "raw ?idx k = raw idx k" if "k \<in> set gs" for k using raw[of k] ni bspec[OF pos that] that by auto
  then have "chain ?idx (entry_next v) gs" using v(2) by (simp only: chain_cong[of gs ?idx idx])
  moreover have "raw ?idx k = Some z" if "(m(?i \<mapsto> x)) k = Some z" for k z
    using that assms idx_rep_range[of idx m k z] raw[of k] i(1) by (auto simp: idx_rep_def split: if_splits)
  moreover have "distinct gs" "set gs \<inter> dom (m(?i \<mapsto> x)) = {}" "set gs \<union> dom (m(?i \<mapsto> x)) = set fs \<union> dom m"
    using fs(2,3) unfolding gs by auto
  ultimately have "idx_rep ?idx (m(?i \<mapsto> x))"
    unfolding idx_rep_def using assms(1) fs(4)
    by (auto simp: idx_array_set_entry idx_rep_def simp del: fun_upd_apply intro!: exI[of _ gs])
  then show ?thesis using e i by (simp add: idx_take_def)
qed

lemma chain_empty: "chain idx 0 fs \<Longrightarrow> fs = []"
  by (cases fs) auto

lemma idx_rep_full:
  assumes "idx_rep idx m" "idx_free_list idx = 0"
  shows "dom m = {1..<1024 * int (idx_size idx)}"
  using assms(1)
proof (rule idx_rep_obtain)
  fix fs
  assume "chain idx (idx_free_list idx) fs" "set fs \<union> dom m = {1..<1024 * int (idx_size idx)}"
  then show ?thesis using chain_empty assms(2) by fastforce
qed

text \<open>A change of the block behind the allocated ones leaves their entries alone.\<close>

lemma raw_next_block:
  assumes "1 \<le> i" "i < 1024 * int n"
  shows "raw (idx\<lparr>idx_array := (idx_array idx)(n := b)\<rparr>) i = raw idx i"
proof -
  have "nat (i div 1024) \<noteq> n" using assms by linarith
  then show ?thesis by (simp add: raw_def)
qed

lemma raw_new_block:
  assumes "1024 * int n \<le> k" "k < 1024 * int n + 1024"
  shows "raw (idx\<lparr>idx_array := (idx_array idx)(n \<mapsto> e)\<rparr>) k = Some (e (nat (k - 1024 * int n)))"
proof -
  have "k div 1024 = int n" using assms by linarith
  moreover from this have "k mod 1024 = k - 1024 * int n" by (simp flip: minus_mult_div_eq_mod)
  ultimately show ?thesis by (simp add: raw_def)
qed

lemma idx_grow_fails:
  assumes "idx_rep idx m" "idx_free_list idx = 0" "\<not> (mem \<and> idx_size idx < IDX_ARRAY_SIZE)"
  shows "\<exists>idx'. idx_grow mem idx = (- 1, idx') \<and> idx_rep idx' m"
proof (cases "IDX_ARRAY_SIZE \<le> idx_size idx")
  case True
  then show ?thesis using assms(1) by (simp add: idx_grow_def)
next
  case False
  let ?idx = "idx\<lparr>idx_array := (idx_array idx)(idx_size idx := None)\<rparr>"
  have dom: "dom m = {1..<1024 * int (idx_size idx)}"
    using idx_rep_full[OF assms(1,2)] .
  then have "raw ?idx i = Some x" if "m i = Some x" for i x
    using that assms(1) domI[of m i x] raw_next_block[of i "idx_size idx" idx None] by (auto simp: idx_rep_def)
  then have "idx_rep ?idx m" using assms(1,2) dom unfolding idx_rep_def by (auto intro!: exI[of _ "[]"])
  then show ?thesis using False assms(3) by (auto simp: idx_grow_def)
qed

lemma idx_grow_adds:
  assumes "idx_rep idx m" "idx_free_list idx = 0" "mem" "idx_size idx < IDX_ARRAY_SIZE"
  shows "\<exists>i idx'. idx_grow mem idx = (i, idx') \<and> 0 < i \<and> idx_free_list idx' = i \<and> idx_rep idx' m"
proof -
  let ?n = "idx_size idx" and ?s = "1024 * int (idx_size idx)"
  let ?i = "if ?s = 0 then 1 else ?s" and ?l = "?s + 1023"
  let ?e = "link_entries ?s ((\<lambda>_. 0)(1023 := set_next 0 0))"
  let ?b = "idx\<lparr>idx_array := (idx_array idx)(?n \<mapsto> ?e)\<rparr>"
  let ?idx = "?b\<lparr>idx_free_list := ?i, idx_size := ?n + 1\<rparr>"
  have grow: "idx_grow mem idx = (?i, ?idx)"
    using assms(2-4) by (auto simp: idx_grow_def Let_def IDX_ENTRY_SIZE_def IDX_ENTRY_BITS_def push_bit_eq_mult mult.commute)
  have small: "?s \<le> 64512" using assms(4) by (simp add: IDX_ARRAY_SIZE_def IDX_ENTRY_BITS_def)
  have "\<exists>v. raw ?idx k = Some v \<and> entry_next v = (if k < ?l then k + 1 else 0)" if "?i \<le> k" "k \<le> ?l" for k
  proof -
    have k: "?s \<le> k" "k < ?s + 1024" using that by (auto split: if_splits)
    then have "nat (k - ?s) < 1023 \<longleftrightarrow> k < ?l" "k < ?l \<or> nat (k - ?s) = 1023" by auto
    then show ?thesis using k small by (auto simp: raw_new_block[OF k] link_entries_at entry_next_set_next)
  qed
  then have "chain ?idx ?i [?i..?l]" by (intro chain_run) auto
  moreover have dom: "dom m = {1..<?s}" using idx_rep_full[OF assms(1,2)] .
  moreover have "set [?i..?l] \<union> {1..<?s} = {1..<1024 * int (?n + 1)}" by auto
  moreover have "set [?i..?l] \<inter> {1..<?s} = {}" by auto
  moreover have "raw ?idx i = Some x" if "m i = Some x" for i x
    using that assms(1) dom domI[of m i x] raw_next_block[of i ?n idx "Some ?e"] by (auto simp: idx_rep_def)
  ultimately have "idx_rep ?idx m"
    unfolding idx_rep_def using assms(1,4)
    by (auto simp: idx_rep_def less_Suc_eq simp del: set_upto intro!: exI[of _ "[?i..?l]"])
  then show ?thesis unfolding grow by auto
qed

section \<open>The index map as a map\<close>

lemma idm_lookup_in:
  assumes "0 \<le> i" "i \<le> IDX_MAX_INDEX"
  shows "idm_lookup i idm = Inr (case idm (nat (i div 1024)) of None \<Rightarrow> NULL | Some e \<Rightarrow> e (nat (i mod 1024)))"
proof -
  have "\<not> i div 1024 < 0" "i div 1024 < 64" using assms by (simp_all add: IDX_MAX_INDEX_def)
  then show ?thesis using assms(2)
    by (cases "idm (nat (i div 1024))")
       (simp_all add: idm_lookup_def idm_at_def block_at_def idx_arith IDX_ARRAY_SIZE_def IDX_ENTRY_BITS_def Let_def)
qed

lemma idm_set_cases:
  assumes "idm_set mem i x idm = Inr (i, idm')" "0 \<le> i"
  shows "\<exists>e. idm' = idm(nat (i div 1024) \<mapsto> e(nat (i mod 1024) := x)) \<and>
    e = (case idm (nat (i div 1024)) of None \<Rightarrow> (\<lambda>_. NULL) | Some e \<Rightarrow> e)"
  using assms
  by (cases "idm (nat (i div 1024))") (auto simp: idm_set_def idm_grow_def idx_arith Let_def split: if_splits)

lemma idm_lookup_set:
  assumes "0 \<le> i" "idm_set mem i x idm = Inr (i, idm')" "0 \<le> k" "k \<le> IDX_MAX_INDEX"
  shows "idm_lookup k idm' = (if k = i then Inr x else idm_lookup k idm)"
proof -
  obtain e where e: "idm' = idm(nat (i div 1024) \<mapsto> e(nat (i mod 1024) := x))"
    "e = (case idm (nat (i div 1024)) of None \<Rightarrow> (\<lambda>_. NULL) | Some e \<Rightarrow> e)"
    using idm_set_cases[OF assms(2,1)] by blast
  show ?thesis
  proof (cases "nat (k div 1024) = nat (i div 1024)")
    case True
    then have "k = i \<longleftrightarrow> nat (k mod 1024) = nat (i mod 1024)" using div_mod_1024[OF assms(1,3)] by auto
    then show ?thesis using True by (simp add: idm_lookup_in[OF assms(3,4)] e split: option.split)
  next
    case False
    then have "k \<noteq> i" by auto
    then show ?thesis using False by (simp add: idm_lookup_in[OF assms(3,4)] e)
  qed
qed

section \<open>The interface of a table of indices\<close>

text \<open>
  The states of a table in use, with the items the caller has been promised: an insertion that does not
  report \<open>-1\<close> promises its item under the index it returns, only promised indices are removed or replaced.
\<close>

inductive table_run ::
  "(bool \<Rightarrow> 'v \<Rightarrow> 's \<Rightarrow> ub + int \<times> 's) \<Rightarrow> (int \<Rightarrow> 's \<Rightarrow> ub + 'v \<times> 's) \<Rightarrow> (int \<Rightarrow> 'v \<Rightarrow> 's \<Rightarrow> ub + 's) \<Rightarrow> 's \<Rightarrow>
   's \<Rightarrow> (int \<Rightarrow> 'v option) \<Rightarrow> bool"
  for insert remove replace empty where
  run_empty: "table_run insert remove replace empty empty Map.empty"
| run_insert: "table_run insert remove replace empty s m \<Longrightarrow> insert mem x s = Inr (i, s') \<Longrightarrow>
    table_run insert remove replace empty s' (if i = - 1 then m else m(i \<mapsto> x))"
| run_remove: "table_run insert remove replace empty s m \<Longrightarrow> m i \<noteq> None \<Longrightarrow> remove i s = Inr (x, s') \<Longrightarrow>
    table_run insert remove replace empty s' (m(i := None))"
| run_replace: "table_run insert remove replace empty s m \<Longrightarrow> m i \<noteq> None \<Longrightarrow> replace i x s = Inr s' \<Longrightarrow>
    table_run insert remove replace empty s' (m(i \<mapsto> x))"

locale index_table =
  fixes insert :: "bool \<Rightarrow> 'v \<Rightarrow> 's \<Rightarrow> ub + int \<times> 's" and remove :: "int \<Rightarrow> 's \<Rightarrow> ub + 'v \<times> 's"
    and replace :: "int \<Rightarrow> 'v \<Rightarrow> 's \<Rightarrow> ub + 's" and look :: "int \<Rightarrow> 's \<Rightarrow> ub + 'v" and empty :: 's
    and capacity :: nat and rep :: "'s \<Rightarrow> (int \<Rightarrow> 'v option) \<Rightarrow> bool"
  assumes rep_empty: "rep empty Map.empty"
    and rep_insert: "rep s m \<Longrightarrow> \<exists>i s'. insert mem x s = Inr (i, s') \<and>
      (i = - 1 \<and> rep s' m \<and> (mem \<longrightarrow> card (dom m) = capacity) \<or> 0 < i \<and> m i = None \<and> rep s' (m(i \<mapsto> x)))"
    and rep_remove: "rep s m \<Longrightarrow> m i = Some x \<Longrightarrow> \<exists>s'. remove i s = Inr (x, s') \<and> rep s' (m(i := None))"
    and rep_replace: "rep s m \<Longrightarrow> m i = Some x \<Longrightarrow> \<exists>s'. replace i y s = Inr s' \<and> rep s' (m(i \<mapsto> y))"
    and rep_look: "rep s m \<Longrightarrow> m i = Some x \<Longrightarrow> look i s = Inr x"
begin

lemma run_rep: "table_run insert remove replace empty s m \<Longrightarrow> rep s m"
proof (induction rule: table_run.induct)
  case (run_insert s m mem x i s')
  then show ?case using rep_insert[of s m mem x] by auto
next
  case (run_remove s m i x s')
  then obtain y where "m i = Some y" by auto
  then show ?case using rep_remove[of s m i y] run_remove by (auto simp del: fun_upd_apply)
next
  case (run_replace s m i x s')
  then obtain y where "m i = Some y" by auto
  then show ?case using rep_replace[of s m i y x] run_replace by (auto simp del: fun_upd_apply)
qed (rule rep_empty)

lemma run_promises:
  assumes "table_run insert remove replace empty s m"
  shows "(m i = Some x \<longrightarrow> look i s = Inr x \<and> (\<exists>s'. remove i s = Inr (x, s')) \<and> (\<exists>s'. replace i y s = Inr s')) \<and>
    (\<exists>i s'. insert mem y s = Inr (i, s') \<and>
       (i = - 1 \<and> (mem \<longrightarrow> card (dom m) = capacity) \<or> 0 < i \<and> m i = None))"
  using run_rep[OF assms] rep_look rep_remove rep_replace rep_insert[of s m mem y] by blast

end

lemma idx_insert_rep:
  assumes "idx_rep idx m"
  shows "\<exists>i idx'. idx_insert mem x idx = Inr (i, idx') \<and>
    (i = - 1 \<and> idx_rep idx' m \<and> (mem \<longrightarrow> card (dom m) = 65535) \<or> 0 < i \<and> m i = None \<and> idx_rep idx' (m(i \<mapsto> x)))"
proof (cases "idx_free_list idx = 0")
  case False
  then show ?thesis using idx_take_rep[OF assms False, of x] by (auto simp: idx_insert_def)
next
  case True
  show ?thesis
  proof (cases "mem \<and> idx_size idx < IDX_ARRAY_SIZE")
    case grown: True
    then obtain i idx' where g: "idx_grow mem idx = (i, idx')" "0 < i" "idx_free_list idx' = i" "idx_rep idx' m"
      using idx_grow_adds[OF assms True, of mem] by auto
    then show ?thesis using idx_take_rep[OF g(4), of x] True by (auto simp: idx_insert_def)
  next
    case False
    then have "card (dom m) = 65535" if mem
      using that assms idx_rep_full[OF assms True] by (auto simp: idx_rep_def IDX_ARRAY_SIZE_def IDX_ENTRY_BITS_def)
    then show ?thesis using idx_grow_fails[OF assms True False] True by (auto simp: idx_insert_def)
  qed
qed

interpretation ix: index_table idx_insert idx_remove idx_replace idx_at idx_empty 65535 idx_rep
  by unfold_locales (rule idx_rep_empty idx_insert_rep idx_remove_rep idx_replace_rep idx_at_rep; assumption)+

section \<open>Properties\<close>

text \<open>
  C25: the indexer keeps its promises over any sequence of insertions, removals and replacements: an index
  it has returned and not removed yields the item last stored under it, can be removed and replaced
  without undefined behaviour, and is not handed out a second time. An insertion is refused only without
  memory, or when all 65535 indices are in use.
\<close>

theorem indexer_keeps_its_promises:
  assumes "table_run idx_insert idx_remove idx_replace idx_empty idx m"
  shows "(m i = Some x \<longrightarrow> idx_at i idx = Inr x \<and> (\<exists>idx'. idx_remove i idx = Inr (x, idx')) \<and> (\<exists>idx'. idx_replace i y idx = Inr idx')) \<and>
    (\<exists>i idx'. idx_insert mem y idx = Inr (i, idx') \<and>
       (i = - 1 \<and> (mem \<longrightarrow> card (dom m) = 65535) \<or> 0 < i \<and> m i = None))"
  by (rule ix.run_promises[OF assms])

theorem indexer_keeps_its_promises_witness:
  "\<exists>i idx. idx_insert True 0xabcd idx_empty = Inr (i, idx) \<and> 0 < i \<and> idx_at i idx = Inr 0xabcd"
proof -
  have run: "table_run idx_insert idx_remove idx_replace idx_empty idx_empty Map.empty" by (rule run_empty)
  obtain i idx where i: "idx_insert True 0xabcd idx_empty = Inr (i, idx)" "i = - 1 \<and> card (dom (Map.empty :: int \<Rightarrow> u64 option)) = 65535 \<or> 0 < i"
    using conjunct2[OF indexer_keeps_its_promises[OF run, where mem = True and y = "0xabcd"]] by auto
  then have pos: "0 < i" by simp
  have "table_run idx_insert idx_remove idx_replace idx_empty idx [i \<mapsto> 0xabcd]"
    using run_insert[OF run i(1)] pos by (auto split: if_splits)
  from conjunct1[OF indexer_keeps_its_promises[OF this, where i = i and x = "0xabcd"]] show ?thesis using i(1) pos by auto
qed

end
