(* ===== verification/FF_RSocket.thy ===== *)
theory FF_RSocket
  imports FF_Indexer
begin

text \<open>
  The stream sockets of \<^verbatim>\<open>rsocket.c\<close> in the client's connection-manager library: the buffers of a
  connection, the exchange of connection data, sending, receiving, credits and the handling of
  completions. A peer writes data straight into the receive buffer by RDMA writes with an immediate
  value; the immediate value carries the length, or, in the other direction, the credit for further
  messages. The verbs calls are a parameter \<open>D\<close> over a world \<open>'w\<close>; the send and receive buffers are byte
  memories indexed from the start of the buffer, and addresses are 64-bit words, as in the work
  requests. The locks of the source are not state: a step of the model is what one holder does.
\<close>

section \<open>Network order\<close>

definition htonl :: "u32 \<Rightarrow> u32" where
  "htonl w = word_of_nat (le_val (rev (le_bytes 4 (unat w))))"

definition htons :: "u16 \<Rightarrow> u16" where
  "htons w = word_of_nat (le_val (rev (le_bytes 2 (unat w))))"

definition htonll :: "u64 \<Rightarrow> u64" where
  "htonll w = word_of_nat (le_val (rev (le_bytes 8 (unat w))))"

lemma le_bytes_le_val: "length bs = k \<Longrightarrow> le_bytes k (le_val bs) = bs"
proof (induction bs arbitrary: k)
  case (Cons b bs)
  have "unat b < 256" using unsigned_less[of b, where ?'a = nat] by simp
  then show ?case using Cons by auto
qed simp

lemma swap_twice:
  assumes "256 ^ k = (2 :: nat) ^ LENGTH('a :: len)"
  shows "(word_of_nat (le_val (rev (le_bytes k (unat (word_of_nat (le_val (rev (le_bytes k (unat w)))) :: 'a word))))) :: 'a word) = w"
proof -
  have "le_val (rev (le_bytes k (unat w))) < 2 ^ LENGTH('a)"
    using le_val_bound[of "rev (le_bytes k (unat w))"] assms by simp
  then have "unat (word_of_nat (le_val (rev (le_bytes k (unat w)))) :: 'a word) = le_val (rev (le_bytes k (unat w)))"
    by (simp add: unsigned_of_nat take_bit_nat_eq_self)
  then have "rev (le_bytes k (unat (word_of_nat (le_val (rev (le_bytes k (unat w)))) :: 'a word))) = le_bytes k (unat w)"
    by (simp add: le_bytes_le_val)
  moreover have "unat w mod 256 ^ k = unat w" using unsigned_less[of w, where ?'a = nat] assms by simp
  ultimately show ?thesis by simp
qed

lemma hton_twice [simp]: "htonl (htonl w) = w" "htons (htons v) = v" "htonll (htonll u) = u"
  unfolding htonl_def htons_def htonll_def by (rule swap_twice, simp)+

section \<open>Immediate values and work-request identifiers\<close>

definition RS_OP_DATA :: u32 where
  "RS_OP_DATA = 0"

definition RS_OP_WRITE :: u32 where
  "RS_OP_WRITE = 2"

definition RS_OP_SGL :: u32 where
  "RS_OP_SGL = 4"

definition RS_OP_IOMAP_SGL :: u32 where
  "RS_OP_IOMAP_SGL = 6"

definition RS_OP_CTRL :: u32 where
  "RS_OP_CTRL = 7"

definition RS_CTRL_DISCONNECT :: u32 where
  "RS_CTRL_DISCONNECT = 0"

definition RS_CTRL_SHUTDOWN :: u32 where
  "RS_CTRL_SHUTDOWN = 2"

definition rs_msg_set :: "u32 \<Rightarrow> u32 \<Rightarrow> u32" where
  "rs_msg_set op data = push_bit 29 op OR data"

definition rs_msg_op :: "u32 \<Rightarrow> u32" where
  "rs_msg_op imm_data = drop_bit 29 imm_data"

definition rs_msg_data :: "u32 \<Rightarrow> u32" where
  "rs_msg_data imm_data = imm_data AND 0x1FFFFFFF"

definition RS_MSG_SIZE :: nat where
  "RS_MSG_SIZE = 4"

definition rs_send_wr_id :: "u32 \<Rightarrow> u64" where
  "rs_send_wr_id data = ucast data"

definition rs_recv_wr_id :: "u32 \<Rightarrow> u64" where
  "rs_recv_wr_id data = push_bit 63 1 OR ucast data"

definition rs_wr_is_recv :: "u64 \<Rightarrow> bool" where
  "rs_wr_is_recv wr_id = bit wr_id 63"

definition RS_WR_ID_FLAG_MSG_SEND :: u64 where
  "RS_WR_ID_FLAG_MSG_SEND = push_bit 62 1"

definition rs_wr_is_msg_send :: "u64 \<Rightarrow> bool" where
  "rs_wr_is_msg_send wr_id = bit wr_id 62"

definition rs_wr_data :: "u64 \<Rightarrow> u32" where
  "rs_wr_data wr_id = ucast wr_id"

section \<open>The socket\<close>

record rs_sge =
  rsge_addr :: u64
  rsge_key :: u32
  rsge_len :: u32

record rs_iomap =
  iom_offset :: u64
  iom_sge :: rs_sge

text \<open>A mapping the socket offers to its peer: the registered region and its place in the peer's table.\<close>

record rs_iomap_mr =
  iomr_offset :: u64
  iomr_addr :: u64
  iomr_len :: u64
  iomr_rkey :: u32
  iomr_index :: int

record rs_msg =
  rm_op :: u32
  rm_data :: u32

record isge =
  is_addr :: u64
  is_len :: u32
  is_lkey :: u32

datatype wr_opcode = RDMA_WRITE | RDMA_WRITE_WITH_IMM | WR_SEND

record rs_wr =
  wr_id :: u64
  wr_sgl :: "isge list"
  wr_op :: wr_opcode
  wr_inline :: bool
  wr_imm :: u32
  wr_raddr :: u64
  wr_rkey :: u32

text \<open>The bits of the state and the options, in the order of the source.\<close>

definition rs_connected :: u32 where
  "rs_connected = 0x100"

definition rs_writable :: u32 where
  "rs_writable = 0x200"

definition rs_readable :: u32 where
  "rs_readable = 0x400"

definition rs_connect_rdwr :: u32 where
  "rs_connect_rdwr = rs_connected OR rs_readable OR rs_writable"

definition rs_disconnected :: u32 where
  "rs_disconnected = 0x1000"

definition rs_error :: u32 where
  "rs_error = 0x2000"

definition RS_OPT_SWAP_SGL :: u32 where
  "RS_OPT_SWAP_SGL = 1"

definition RS_OPT_MSG_SEND :: u32 where
  "RS_OPT_MSG_SEND = 2"

definition RS_OPT_SVC_ACTIVE :: u32 where
  "RS_OPT_SVC_ACTIVE = 4"

definition RS_SGL_SIZE :: nat where
  "RS_SGL_SIZE = 2"

definition RS_QP_CTRL_SIZE :: u32 where
  "RS_QP_CTRL_SIZE = 4"

definition RS_QP_MIN_SIZE :: u16 where
  "RS_QP_MIN_SIZE = 16"

definition RS_QP_MAX_SIZE :: u32 where
  "RS_QP_MAX_SIZE = 0xFFFE"

definition RS_SNDLOWAT :: u32 where
  "RS_SNDLOWAT = 2048"

definition RS_OLAP_START_SIZE :: u32 where
  "RS_OLAP_START_SIZE = 2048"

definition RS_MAX_TRANSFER :: u32 where
  "RS_MAX_TRANSFER = 65536"

definition RS_MAX_CTRL_MSG :: nat where
  "RS_MAX_CTRL_MSG = 16"

definition has :: "u32 \<Rightarrow> u32 \<Rightarrow> bool" where
  "has flags b = (flags AND b \<noteq> 0)"

text \<open>
  The fields of \<^verbatim>\<open>struct rsocket\<close> for a data stream. \<open>rs_ssgl0\<close> and \<open>rs_ssgl1\<close> are the two entries of \<^verbatim>\<open>ssgl\<close>;
  \<open>rs_smem\<close> and \<open>rs_rmem\<close> are the contents of the registered buffers at \<open>rs_sbuf\<close> and \<open>rs_rbuf\<close>, and \<open>rs_tsgl\<close> those of
  the array at \<open>rs_tsgl_addr\<close>, which the peer writes, \<open>rs_tiomap\<close> those of the table of mappings behind it. Of \<^verbatim>\<open>fd_flags\<close> only
  \<^verbatim>\<open>O_NONBLOCK\<close> is kept, as \<open>rs_nonblock\<close>.
\<close>

record rsocket =
  rs_opts :: u32
  rs_state :: u32
  rs_err :: int
  rs_ctrl_seqno :: u32
  rs_ctrl_max_seqno :: u32
  rs_sseq_no :: u16
  rs_sseq_comp :: u16
  rs_rseq_no :: u16
  rs_rseq_comp :: u16
  rs_remote_sge :: nat
  rs_remote_sgl :: rs_sge
  rs_remote_iomap :: rs_sge
  rs_target_sge :: nat
  rs_target_iomap_size :: int
  rs_tsgl_addr :: u64
  rs_tsgl_key :: u32
  rs_tsgl :: "nat \<Rightarrow> rs_sge"
  rs_rbuf_msg_index :: nat
  rs_rbuf_bytes_avail :: int
  rs_rbuf_free_offset :: int
  rs_rbuf_offset :: int
  rs_rbuf :: u64
  rs_rmr_lkey :: u32
  rs_rmr_rkey :: u32
  rs_rmem :: mem
  rs_sbuf_bytes_avail :: int
  rs_sbuf :: u64
  rs_smr_lkey :: u32
  rs_smem :: mem
  rs_ssgl0 :: isge
  rs_ssgl1 :: isge
  rs_sqe_avail :: int
  rs_sbuf_size :: u32
  rs_sq_size :: u16
  rs_sq_inline :: u16
  rs_rbuf_size :: u32
  rs_rq_size :: u16
  rs_rmsg_head :: nat
  rs_rmsg_tail :: nat
  rs_rmsg :: "nat \<Rightarrow> rs_msg"
  rs_cq_armed :: bool
  rs_unack_cqe :: int
  rs_nonblock :: bool
  rs_retries :: nat
  rs_optval :: "bytes option"
  rs_iomap_list :: "rs_iomap_mr list"
  rs_iomap_queue :: "rs_iomap_mr list"
  rs_iomap_pending :: bool
  rs_tiomap :: "nat \<Rightarrow> rs_iomap"

record rs_wc =
  wc_id :: u64
  wc_success :: bool
  wc_imm :: "u32 option"

text \<open>The device: what the socket calls on its queue pair and completion queue, with \<^verbatim>\<open>errno\<close> in the world.\<close>

record 'w rdev =
  dv_post_send :: "rs_wr \<Rightarrow> 'w \<Rightarrow> int \<times> 'w"
  dv_post_recv :: "u64 \<Rightarrow> isge list \<Rightarrow> 'w \<Rightarrow> int \<times> 'w"
  dv_poll_cq :: "'w \<Rightarrow> int \<times> rs_wc \<times> 'w"
  dv_get_cq_event :: "'w \<Rightarrow> int \<times> 'w"
  dv_req_notify :: "'w \<Rightarrow> 'w"
  dv_ack_events :: "int \<Rightarrow> 'w \<Rightarrow> 'w"
  dv_set_errno :: "int \<Rightarrow> 'w \<Rightarrow> 'w"
  dv_errno :: "'w \<Rightarrow> int"
  dv_usec :: "'w \<Rightarrow> u64 \<times> 'w"
  dv_has_cq :: "'w \<Rightarrow> bool"
  dv_fcntl_cq :: "bool \<Rightarrow> 'w \<Rightarrow> int \<times> 'w"
  dv_fcntl_cm :: "bool \<Rightarrow> 'w \<Rightarrow> int \<times> 'w"
  dv_shutdown :: "'w \<Rightarrow> 'w"
  dv_notify_svc :: "'w \<Rightarrow> 'w"

definition rdma_seterrno :: "'w rdev \<Rightarrow> int \<times> 'w \<Rightarrow> int \<times> 'w" where
  "rdma_seterrno D res = (case res of (ret, w) \<Rightarrow> if ret \<noteq> 0 then (- 1, dv_set_errno D ret w) else (ret, w))"

definition ERR :: "'w rdev \<Rightarrow> int \<Rightarrow> 'w \<Rightarrow> int \<times> 'w" where
  "ERR D e w = (- 1, dv_set_errno D e w)"

section \<open>Sizes\<close>

definition rs_value_to_scale :: "int \<Rightarrow> nat \<Rightarrow> int" where
  "rs_value_to_scale v bits = (if v \<le> push_bit (bits - 1) 1 then v else push_bit (bits - 1) 1 OR drop_bit bits v)"

definition rs_scale_to_value :: "int \<Rightarrow> nat \<Rightarrow> int" where
  "rs_scale_to_value v bits =
     (if v \<le> push_bit (bits - 1) 1 then v else push_bit bits (v AND NOT (push_bit (bits - 1) 1)))"

text \<open>\<open>max_qp\<close> is what \<^verbatim>\<open>ucma_max_qpsize\<close> reports of the device.\<close>

definition rs_set_qp_size :: "u32 \<Rightarrow> rsocket \<Rightarrow> rsocket" where
  "rs_set_qp_size max_qp rs =
     (let max_size = ucast (min max_qp RS_QP_MAX_SIZE) :: u16;
          clamp = (\<lambda>n. if max_size < n then max_size else if n < RS_QP_MIN_SIZE then RS_QP_MIN_SIZE else n)
      in rs\<lparr>rs_sq_size := clamp (rs_sq_size rs), rs_rq_size := clamp (rs_rq_size rs)\<rparr>)"

text \<open>
  The buffers: the results of the registration calls are addresses and keys of memory that is shared with
  the router. The iWARP receive slots are always part of the receive buffer, the control buffers always
  part of the send buffer. A failed registration of the list of targets is not noticed, and the list is cleared
  through a null pointer. \<open>rg_calloc\<close>: whether the ring of messages can be allocated.
\<close>

record rs_mr =
  mr_base :: u64
  mr_lkey :: u32
  mr_rkey :: u32

record 'w rreg =
  rg_calloc :: "nat \<Rightarrow> 'w \<Rightarrow> bool \<times> 'w"
  rg_msgs :: "u32 \<Rightarrow> 'w \<Rightarrow> rs_mr option \<times> 'w"
  rg_write :: "nat \<Rightarrow> 'w \<Rightarrow> rs_mr option \<times> 'w"

definition ENOMEM :: int where
  "ENOMEM = 12"

definition rs_init_bufs :: "'w rdev \<Rightarrow> 'w rreg \<Rightarrow> rsocket \<Rightarrow> 'w \<Rightarrow> ub + int \<times> rsocket \<times> 'w" where
  "rs_init_bufs D G rs w =
     (let (ok, w) = rg_calloc G (unat (rs_rq_size rs) + 1) w
      in if \<not> ok then let (ret, w) = ERR D ENOMEM w in Inr (ret, rs, w)
         else let rs = rs\<lparr>rs_rmsg := (\<lambda>_. \<lparr>rm_op = 0, rm_data = 0\<rparr>)\<rparr>;
                  total_sbuf_size = rs_sbuf_size rs + word_of_nat RS_MAX_CTRL_MSG * RS_QP_CTRL_SIZE;
                  (smr, w) = rg_msgs G total_sbuf_size w
              in case smr of
                   None \<Rightarrow> Inr (- 1, rs, w)
                 | Some smr \<Rightarrow>
                     let rs = rs\<lparr>rs_sbuf := mr_base smr, rs_smr_lkey := mr_lkey smr\<rparr>;
                         len = 16 * RS_SGL_SIZE + 24 * nat (rs_target_iomap_size rs);
                         (tmr, w) = rg_write G len w
                     in case tmr of
                          None \<Rightarrow> Inl NullDeref
                        | Some tmr \<Rightarrow>
                            let rs = rs\<lparr>rs_tsgl_addr := mr_base tmr, rs_tsgl_key := mr_rkey tmr,
                                        rs_tsgl := (\<lambda>_. \<lparr>rsge_addr = 0, rsge_key = 0, rsge_len = 0\<rparr>),
                                        rs_tiomap := (\<lambda>_. \<lparr>iom_offset = 0, iom_sge = \<lparr>rsge_addr = 0, rsge_key = 0, rsge_len = 0\<rparr>\<rparr>)\<rparr>;
                                total_rbuf_size = rs_rbuf_size rs + ucast (rs_rq_size rs) * word_of_nat RS_MSG_SIZE;
                                (rmr, w) = rg_write G (unat total_rbuf_size) w
                            in case rmr of
                                 None \<Rightarrow> Inr (- 1, rs, w)
                               | Some rmr \<Rightarrow>
                                   Inr (0, rs\<lparr>rs_rbuf := mr_base rmr, rs_rmr_lkey := mr_lkey rmr, rs_rmr_rkey := mr_rkey rmr,
                                              rs_ssgl0 := (rs_ssgl0 rs)\<lparr>is_addr := rs_sbuf rs, is_lkey := rs_smr_lkey rs\<rparr>,
                                              rs_ssgl1 := (rs_ssgl1 rs)\<lparr>is_addr := rs_sbuf rs, is_lkey := rs_smr_lkey rs\<rparr>,
                                              rs_sbuf_bytes_avail := sint (rs_sbuf_size rs),
                                              rs_rbuf_free_offset := sint (drop_bit 1 (rs_rbuf_size rs)),
                                              rs_rbuf_bytes_avail := sint (drop_bit 1 (rs_rbuf_size rs)),
                                              rs_sqe_avail := sint (ucast (rs_sq_size rs) - rs_ctrl_max_seqno rs),
                                              rs_rseq_comp := drop_bit 1 (rs_rq_size rs)\<rparr>, w))"

text \<open>A new socket with the given defaults, or with those of the listening socket it comes from.\<close>

definition rs_blank :: rsocket where
  "rs_blank =
     \<lparr>rs_opts = 0, rs_state = 0, rs_err = 0, rs_ctrl_seqno = 0, rs_ctrl_max_seqno = 0, rs_sseq_no = 0, rs_sseq_comp = 0,
      rs_rseq_no = 0, rs_rseq_comp = 0, rs_remote_sge = 0,
      rs_remote_sgl = \<lparr>rsge_addr = 0, rsge_key = 0, rsge_len = 0\<rparr>,
      rs_remote_iomap = \<lparr>rsge_addr = 0, rsge_key = 0, rsge_len = 0\<rparr>, rs_target_sge = 0, rs_target_iomap_size = 0,
      rs_tsgl_addr = 0, rs_tsgl_key = 0, rs_tsgl = (\<lambda>_. \<lparr>rsge_addr = 0, rsge_key = 0, rsge_len = 0\<rparr>),
      rs_rbuf_msg_index = 0, rs_rbuf_bytes_avail = 0, rs_rbuf_free_offset = 0, rs_rbuf_offset = 0, rs_rbuf = 0,
      rs_rmr_lkey = 0, rs_rmr_rkey = 0, rs_rmem = (\<lambda>_. 0), rs_sbuf_bytes_avail = 0, rs_sbuf = 0, rs_smr_lkey = 0,
      rs_smem = (\<lambda>_. 0), rs_ssgl0 = \<lparr>is_addr = 0, is_len = 0, is_lkey = 0\<rparr>,
      rs_ssgl1 = \<lparr>is_addr = 0, is_len = 0, is_lkey = 0\<rparr>, rs_sqe_avail = 0, rs_sbuf_size = 0, rs_sq_size = 0,
      rs_sq_inline = 0, rs_rbuf_size = 0, rs_rq_size = 0, rs_rmsg_head = 0, rs_rmsg_tail = 0,
      rs_rmsg = (\<lambda>_. \<lparr>rm_op = 0, rm_data = 0\<rparr>), rs_cq_armed = False, rs_unack_cqe = 0,
      rs_nonblock = False, rs_retries = 0, rs_optval = None, rs_iomap_list = [], rs_iomap_queue = [],
      rs_iomap_pending = False,
      rs_tiomap = (\<lambda>_. \<lparr>iom_offset = 0, iom_sge = \<lparr>rsge_addr = 0, rsge_key = 0, rsge_len = 0\<rparr>\<rparr>)\<rparr>"

record rs_defaults =
  def_iomap_size :: u16
  def_inline :: u16
  def_sqsize :: u16
  def_rqsize :: u16
  def_mem :: u32
  def_wmem :: u32

definition rs_alloc :: "rs_defaults \<Rightarrow> rsocket option \<Rightarrow> rsocket" where
  "rs_alloc defs inherited_rs =
     (case inherited_rs of
        Some i \<Rightarrow>
          rs_blank\<lparr>rs_sbuf_size := rs_sbuf_size i, rs_rbuf_size := rs_rbuf_size i, rs_sq_inline := 0,
                   rs_sq_size := rs_sq_size i, rs_rq_size := rs_rq_size i,
                   rs_ctrl_max_seqno := rs_ctrl_max_seqno i, rs_target_iomap_size := rs_target_iomap_size i\<rparr>
      | None \<Rightarrow>
          rs_blank\<lparr>rs_sbuf_size := def_wmem defs, rs_rbuf_size := def_mem defs, rs_sq_inline := def_inline defs,
                   rs_sq_size := def_sqsize defs, rs_rq_size := def_rqsize defs,
                   rs_ctrl_max_seqno := RS_QP_CTRL_SIZE, rs_target_iomap_size := int (unat (def_iomap_size defs))\<rparr>)"

section \<open>Connection data\<close>

record rs_conn_data =
  cd_version :: u8
  cd_flags :: u8
  cd_credits :: u16
  cd_target_iomap_size :: u8
  cd_target_sgl :: rs_sge
  cd_data_buf :: rs_sge

definition RS_CONN_FLAG_NET :: u8 where
  "RS_CONN_FLAG_NET = 1"

definition RS_CONN_FLAG_IOMAP :: u8 where
  "RS_CONN_FLAG_IOMAP = 2"

definition rs_host_is_net :: bool where
  "rs_host_is_net = (htonl 1 = 1)"

definition rs_format_conn_data :: "rsocket \<Rightarrow> rs_conn_data" where
  "rs_format_conn_data rs =
     \<lparr>cd_version = 1, cd_flags = RS_CONN_FLAG_IOMAP OR (if rs_host_is_net then RS_CONN_FLAG_NET else 0),
      cd_credits = htons (rs_rq_size rs),
      cd_target_iomap_size = word_of_int (rs_value_to_scale (rs_target_iomap_size rs) 8),
      cd_target_sgl = \<lparr>rsge_addr = htonll (rs_tsgl_addr rs), rsge_key = htonl (rs_tsgl_key rs),
                       rsge_len = htonl (word_of_nat RS_SGL_SIZE)\<rparr>,
      cd_data_buf = \<lparr>rsge_addr = htonll (rs_rbuf rs), rsge_key = htonl (rs_rmr_rkey rs),
                     rsge_len = htonl (drop_bit 1 (rs_rbuf_size rs))\<rparr>\<rparr>"

text \<open>A peer of the other byte order sets the options to the one flag, whatever they were.\<close>

definition rs_save_conn_data :: "rs_conn_data \<Rightarrow> rsocket \<Rightarrow> rsocket" where
  "rs_save_conn_data conn rs =
     (let sgl = \<lparr>rsge_addr = htonll (rsge_addr (cd_target_sgl conn)), rsge_key = htonl (rsge_key (cd_target_sgl conn)),
                 rsge_len = htonl (rsge_len (cd_target_sgl conn))\<rparr>;
          rs = rs\<lparr>rs_remote_sgl := sgl, rs_remote_sge := 1\<rparr>;
          rs = (if rs_host_is_net \<noteq> (cd_flags conn AND RS_CONN_FLAG_NET \<noteq> 0) then rs\<lparr>rs_opts := RS_OPT_SWAP_SGL\<rparr> else rs);
          rs = (if cd_flags conn AND RS_CONN_FLAG_IOMAP \<noteq> 0
                then rs\<lparr>rs_remote_iomap :=
                          \<lparr>rsge_addr = rsge_addr sgl + 16 * ucast (rsge_len sgl), rsge_key = rsge_key sgl,
                           rsge_len = word_of_int (rs_scale_to_value (int (unat (cd_target_iomap_size conn))) 8)\<rparr>\<rparr>
                else rs);
          first = \<lparr>rsge_addr = htonll (rsge_addr (cd_data_buf conn)), rsge_key = htonl (rsge_key (cd_data_buf conn)),
                   rsge_len = htonl (rsge_len (cd_data_buf conn))\<rparr>
      in rs\<lparr>rs_tsgl := (rs_tsgl rs)(0 := first), rs_sseq_comp := htons (cd_credits conn)\<rparr>)"

section \<open>Work requests\<close>

definition rs_post_recv :: "'w rdev \<Rightarrow> rsocket \<Rightarrow> 'w \<Rightarrow> int \<times> rsocket \<times> 'w" where
  "rs_post_recv D rs w =
     (if \<not> has (rs_opts rs) RS_OPT_MSG_SEND
      then let (ret, w) = rdma_seterrno D (dv_post_recv D (rs_recv_wr_id 0) [] w) in (ret, rs, w)
      else let i = rs_rbuf_msg_index rs;
               sge = \<lparr>is_addr = rs_rbuf rs + ucast (rs_rbuf_size rs) + word_of_nat (i * RS_MSG_SIZE),
                      is_len = word_of_nat RS_MSG_SIZE, is_lkey = rs_rmr_lkey rs\<rparr>;
               rs = rs\<lparr>rs_rbuf_msg_index := (if i + 1 = unat (rs_rq_size rs) then 0 else i + 1)\<rparr>;
               (ret, w) = rdma_seterrno D (dv_post_recv D (rs_recv_wr_id (word_of_nat i)) [sge] w)
           in (ret, rs, w))"

text \<open>The second message of the iWARP path is sent inline from the stack: its list entry is not modelled, its data is \<open>wr_imm\<close>.\<close>

definition rs_post_msg :: "'w rdev \<Rightarrow> rsocket \<Rightarrow> u32 \<Rightarrow> 'w \<Rightarrow> int \<times> 'w" where
  "rs_post_msg D rs msg w =
     rdma_seterrno D (dv_post_send D
       (if \<not> has (rs_opts rs) RS_OPT_MSG_SEND
        then \<lparr>wr_id = rs_send_wr_id msg, wr_sgl = [], wr_op = RDMA_WRITE_WITH_IMM, wr_inline = False,
              wr_imm = htonl msg, wr_raddr = 0, wr_rkey = 0\<rparr>
        else \<lparr>wr_id = rs_send_wr_id msg, wr_sgl = [], wr_op = WR_SEND, wr_inline = True,
              wr_imm = msg, wr_raddr = 0, wr_rkey = 0\<rparr>) w)"

definition rs_post_write :: "'w rdev \<Rightarrow> isge list \<Rightarrow> u32 \<Rightarrow> bool \<Rightarrow> u64 \<Rightarrow> u32 \<Rightarrow> 'w \<Rightarrow> int \<times> 'w" where
  "rs_post_write D sgl wr_data inline addr rkey w =
     rdma_seterrno D (dv_post_send D
       \<lparr>wr_id = rs_send_wr_id wr_data, wr_sgl = sgl, wr_op = RDMA_WRITE, wr_inline = inline, wr_imm = 0,
        wr_raddr = addr, wr_rkey = rkey\<rparr> w)"

definition rs_post_write_msg ::
  "'w rdev \<Rightarrow> rsocket \<Rightarrow> isge list \<Rightarrow> u32 \<Rightarrow> bool \<Rightarrow> u64 \<Rightarrow> u32 \<Rightarrow> 'w \<Rightarrow> int \<times> 'w" where
  "rs_post_write_msg D rs sgl msg inline addr rkey w =
     (if \<not> has (rs_opts rs) RS_OPT_MSG_SEND
      then rdma_seterrno D (dv_post_send D
             \<lparr>wr_id = rs_send_wr_id msg, wr_sgl = sgl, wr_op = RDMA_WRITE_WITH_IMM, wr_inline = inline,
              wr_imm = htonl msg, wr_raddr = addr, wr_rkey = rkey\<rparr> w)
      else let (ret, w) = rs_post_write D sgl msg inline addr rkey w
           in if ret \<noteq> 0 then (ret, w)
              else rdma_seterrno D (dv_post_send D
                     \<lparr>wr_id = rs_send_wr_id (rs_msg_set (rs_msg_op msg) 0) OR RS_WR_ID_FLAG_MSG_SEND, wr_sgl = [],
                      wr_op = WR_SEND, wr_inline = True, wr_imm = msg, wr_raddr = 0, wr_rkey = 0\<rparr> w))"

section \<open>Sending\<close>

definition rs_sbuf_left :: "rsocket \<Rightarrow> u32" where
  "rs_sbuf_left rs = ucast ((rs_sbuf rs + ucast (rs_sbuf_size rs)) - is_addr (rs_ssgl0 rs))"

text \<open>The target entry is advanced before the write is posted.\<close>

definition rs_write_data ::
  "'w rdev \<Rightarrow> rsocket \<Rightarrow> isge list \<Rightarrow> u32 \<Rightarrow> bool \<Rightarrow> 'w \<Rightarrow> int \<times> rsocket \<times> 'w" where
  "rs_write_data D rs sgl len inline w =
     (let rs = rs\<lparr>rs_sseq_no := rs_sseq_no rs + 1,
                  rs_sqe_avail := rs_sqe_avail rs - (if has (rs_opts rs) RS_OPT_MSG_SEND then 2 else 1),
                  rs_sbuf_bytes_avail := rs_sbuf_bytes_avail rs - int (unat len)\<rparr>;
          i = rs_target_sge rs;
          e = rs_tsgl rs i;
          rs = rs\<lparr>rs_tsgl := (rs_tsgl rs)(i := e\<lparr>rsge_addr := rsge_addr e + ucast len, rsge_len := rsge_len e - len\<rparr>)\<rparr>;
          rs = (if rsge_len (rs_tsgl rs i) = 0
                then rs\<lparr>rs_target_sge := (if i + 1 = RS_SGL_SIZE then 0 else i + 1)\<rparr> else rs);
          (ret, w) = rs_post_write_msg D rs sgl (rs_msg_set RS_OP_DATA len) inline (rsge_addr e) (rsge_key e) w
      in (ret, rs, w))"

definition rs_can_send :: "rsocket \<Rightarrow> bool" where
  "rs_can_send rs =
     ((if \<not> has (rs_opts rs) RS_OPT_MSG_SEND then rs_sqe_avail rs \<noteq> 0 else 2 \<le> rs_sqe_avail rs) \<and>
      int (unat RS_SNDLOWAT) \<le> rs_sbuf_bytes_avail rs \<and> rs_sseq_no rs \<noteq> rs_sseq_comp rs \<and>
      rsge_len (rs_tsgl rs (rs_target_sge rs)) \<noteq> 0)"

definition rs_conn_can_send :: "rsocket \<Rightarrow> bool" where
  "rs_conn_can_send rs = (rs_can_send rs \<or> \<not> has (rs_state rs) rs_writable)"

text \<open>\<^verbatim>\<open>memcpy\<close> to an address of the send buffer.\<close>

definition sbuf_copy :: "u64 \<Rightarrow> bytes \<Rightarrow> rsocket \<Rightarrow> rsocket" where
  "sbuf_copy a bs rs = rs\<lparr>rs_smem := put_bytes (rs_smem rs) (unat (a - rs_sbuf rs)) bs\<rparr>"

text \<open>
  One turn of the loop of \<^verbatim>\<open>rsend\<close>, after the socket can send: the size of the transfer, the copy into the
  send buffer, in two parts where it wraps, and the write. The results are the return value of the
  write, the size of the transfer and the overlap size of the next turn.
\<close>

definition xfer_size :: "nat \<Rightarrow> u32 \<Rightarrow> rsocket \<Rightarrow> u32" where
  "xfer_size left olen rs =
     (let x = (if unat olen < left then olen else word_of_nat left);
          x = (if word_of_int (rs_sbuf_bytes_avail rs) < x then word_of_int (rs_sbuf_bytes_avail rs) else x);
          room = rsge_len (rs_tsgl rs (rs_target_sge rs))
      in if room < x then room else x)"

definition next_olen :: "nat \<Rightarrow> u32 \<Rightarrow> u32" where
  "next_olen left olen = (if unat olen < left \<and> olen < RS_MAX_TRANSFER then push_bit 1 olen else olen)"

definition send_chunk ::
  "'w rdev \<Rightarrow> bytes \<Rightarrow> u32 \<Rightarrow> rsocket \<Rightarrow> 'w \<Rightarrow> int \<times> nat \<times> rsocket \<times> 'w" where
  "send_chunk D buf x rs w =
     (let left = rs_sbuf_left rs; a = is_addr (rs_ssgl0 rs)
      in if x \<le> left
         then let rs = sbuf_copy a (take (unat x) buf) rs;
                  rs = rs\<lparr>rs_ssgl0 := (rs_ssgl0 rs)\<lparr>is_len := x\<rparr>\<rparr>;
                  (ret, rs, w) = rs_write_data D rs [rs_ssgl0 rs] x False w;
                  rs = rs\<lparr>rs_ssgl0 := (rs_ssgl0 rs)\<lparr>is_addr := (if x < rs_sbuf_left rs then a + ucast x else rs_sbuf rs)\<rparr>\<rparr>
              in (ret, unat x, rs, w)
         else let rs = sbuf_copy a (take (unat left) buf) (rs\<lparr>rs_ssgl0 := (rs_ssgl0 rs)\<lparr>is_len := left\<rparr>\<rparr>);
                  rs = sbuf_copy (rs_sbuf rs) (take (unat (x - left)) (drop (unat left) buf))
                         (rs\<lparr>rs_ssgl1 := (rs_ssgl1 rs)\<lparr>is_len := x - left\<rparr>\<rparr>);
                  (ret, rs, w) = rs_write_data D rs [rs_ssgl0 rs, rs_ssgl1 rs] x False w;
                  rs = rs\<lparr>rs_ssgl0 := (rs_ssgl0 rs)\<lparr>is_addr := rs_sbuf rs + ucast (x - left)\<rparr>\<rparr>
              in (ret, unat x, rs, w))"

section \<open>Credits\<close>

definition rs_get_ctrl_buf :: "rsocket \<Rightarrow> u64" where
  "rs_get_ctrl_buf rs =
     rs_sbuf rs + ucast (rs_sbuf_size rs) + word_of_nat RS_MAX_CTRL_MSG * ucast (rs_ctrl_seqno rs AND (RS_QP_CTRL_SIZE - 1))"

definition rs_ctrl_avail :: "rsocket \<Rightarrow> bool" where
  "rs_ctrl_avail rs = (rs_ctrl_seqno rs \<noteq> rs_ctrl_max_seqno rs)"

definition rs_2ctrl_avail :: "rsocket \<Rightarrow> bool" where
  "rs_2ctrl_avail rs = (sint ((rs_ctrl_seqno rs + 1) - rs_ctrl_max_seqno rs) < 0)"

text \<open>The comparison with half the buffer is one of unsigned numbers, that of the sequence numbers one of signed 16-bit numbers.\<close>

definition half_free :: "rsocket \<Rightarrow> bool" where
  "half_free rs = (drop_bit 1 (rs_rbuf_size rs) \<le> word_of_int (rs_rbuf_bytes_avail rs))"

definition rs_give_credits :: "rsocket \<Rightarrow> bool" where
  "rs_give_credits rs =
     ((half_free rs \<or> 0 \<le> sint (rs_rseq_no rs - rs_rseq_comp rs)) \<and>
      (if \<not> has (rs_opts rs) RS_OPT_MSG_SEND then rs_ctrl_avail rs else rs_2ctrl_avail rs) \<and>
      has (rs_state rs) rs_connected)"

definition sge_bytes :: "u64 \<Rightarrow> u32 \<Rightarrow> u32 \<Rightarrow> bytes" where
  "sge_bytes addr key len = le_bytes 8 (unat addr) @ le_bytes 4 (unat key) @ le_bytes 4 (unat len)"

definition rs_send_credits :: "'w rdev \<Rightarrow> rsocket \<Rightarrow> 'w \<Rightarrow> rsocket \<times> 'w" where
  "rs_send_credits D rs w =
     (let credit = rs_msg_set RS_OP_SGL (ucast (rs_rseq_no rs) + ucast (rs_rq_size rs));
          half = drop_bit 1 (rs_rbuf_size rs);
          rs = rs\<lparr>rs_ctrl_seqno := rs_ctrl_seqno rs + 1, rs_rseq_comp := rs_rseq_no rs + drop_bit 1 (rs_rq_size rs)\<rparr>
      in if half_free rs
         then let rs = (if has (rs_opts rs) RS_OPT_MSG_SEND then rs\<lparr>rs_ctrl_seqno := rs_ctrl_seqno rs + 1\<rparr> else rs);
                  addr = rs_rbuf rs + word_of_int (rs_rbuf_free_offset rs);
                  sge = (if \<not> has (rs_opts rs) RS_OPT_SWAP_SGL then sge_bytes addr (rs_rmr_rkey rs) half
                         else sge_bytes (htonll addr) (htonl (rs_rmr_rkey rs)) (htonl half));
                  buf = rs_get_ctrl_buf rs;
                  rs = sbuf_copy buf sge rs;
                  (_, w) = rs_post_write_msg D rs [\<lparr>is_addr = buf, is_len = 16, is_lkey = rs_smr_lkey rs\<rparr>] credit False
                             (rsge_addr (rs_remote_sgl rs) + 16 * word_of_nat (rs_remote_sge rs)) (rsge_key (rs_remote_sgl rs)) w;
                  free = rs_rbuf_free_offset rs + int (unat half);
                  rs = rs\<lparr>rs_rbuf_bytes_avail := rs_rbuf_bytes_avail rs - int (unat half),
                          rs_rbuf_free_offset := (if rs_rbuf_size rs \<le> word_of_int free then 0 else free),
                          rs_remote_sge := (if rs_remote_sge rs + 1 = unat (rsge_len (rs_remote_sgl rs)) then 0
                                            else rs_remote_sge rs + 1)\<rparr>
              in (rs, w)
         else let (_, w) = rs_post_msg D rs credit w in (rs, w))"

definition rs_update_credits :: "'w rdev \<Rightarrow> rsocket \<Rightarrow> 'w \<Rightarrow> rsocket \<times> 'w" where
  "rs_update_credits D rs w = (if rs_give_credits rs then rs_send_credits D rs w else (rs, w))"

section \<open>Completions\<close>

definition ring_next :: "rsocket \<Rightarrow> nat \<Rightarrow> nat" where
  "ring_next rs i = (if i + 1 = unat (rs_rq_size rs) + 1 then 0 else i + 1)"

text \<open>
  The completion of a receive. The second result is \<open>True\<close> where the function returns at once.
\<close>

definition poll_recv :: "rs_wc \<Rightarrow> rsocket \<Rightarrow> rsocket \<times> bool" where
  "poll_recv wc rs =
     (let msg = (case wc_imm wc of
                   Some i \<Rightarrow> htonl i
                 | None \<Rightarrow> get_u32 (rs_rmem rs) (unat (rs_rbuf_size rs) + RS_MSG_SIZE * unat (rs_wr_data (wc_id wc))));
          op = rs_msg_op msg; data = rs_msg_data msg
      in if op = RS_OP_SGL then (rs\<lparr>rs_sseq_comp := ucast data\<rparr>, False)
         else if op = RS_OP_IOMAP_SGL then (rs, False)
         else if op = RS_OP_CTRL
         then if data = RS_CTRL_DISCONNECT then (rs\<lparr>rs_state := rs_disconnected\<rparr>, True)
              else if data = RS_CTRL_SHUTDOWN
              then if has (rs_state rs) rs_writable then (rs\<lparr>rs_state := rs_state rs AND NOT rs_readable\<rparr>, False)
                   else (rs\<lparr>rs_state := rs_disconnected\<rparr>, True)
              else (rs, False)
         else if op = RS_OP_WRITE then (rs, False)
         else (rs\<lparr>rs_rmsg := (rs_rmsg rs)(rs_rmsg_tail rs := \<lparr>rm_op = op, rm_data = data\<rparr>),
                  rs_rmsg_tail := ring_next rs (rs_rmsg_tail rs)\<rparr>, False))"

definition SIZEOF_RS_IOMAP :: int where
  "SIZEOF_RS_IOMAP = 24"

definition EIO :: int where
  "EIO = 5"

definition poll_send :: "rs_wc \<Rightarrow> rsocket \<Rightarrow> rsocket" where
  "poll_send wc rs =
     (let data = rs_wr_data (wc_id wc); op = rs_msg_op data;
          rs = (if op = RS_OP_SGL then rs\<lparr>rs_ctrl_max_seqno := rs_ctrl_max_seqno rs + 1\<rparr>
                else if op = RS_OP_CTRL
                then let rs = rs\<lparr>rs_ctrl_max_seqno := rs_ctrl_max_seqno rs + 1\<rparr>
                     in if rs_msg_data data = RS_CTRL_DISCONNECT then rs\<lparr>rs_state := rs_disconnected\<rparr> else rs
                else if op = RS_OP_IOMAP_SGL
                then let rs = rs\<lparr>rs_sqe_avail := rs_sqe_avail rs + 1\<rparr>
                     in if rs_wr_is_msg_send (wc_id wc) then rs
                        else rs\<lparr>rs_sbuf_bytes_avail := rs_sbuf_bytes_avail rs + SIZEOF_RS_IOMAP\<rparr>
                else rs\<lparr>rs_sqe_avail := rs_sqe_avail rs + 1,
                        rs_sbuf_bytes_avail := rs_sbuf_bytes_avail rs + int (unat (rs_msg_data data))\<rparr>)
      in if \<not> wc_success wc \<and> has (rs_state rs) rs_connected then rs\<lparr>rs_state := rs_error, rs_err := EIO\<rparr> else rs)"

text \<open>The receives are posted again; the first failure ends it.\<close>

fun repost :: "'w rdev \<Rightarrow> nat \<Rightarrow> rsocket \<Rightarrow> 'w \<Rightarrow> int \<times> rsocket \<times> 'w" where
  "repost D 0 rs w = (0, rs, w)"
| "repost D (Suc n) rs w =
     (let (ret, rs, w) = rs_post_recv D rs w in if ret \<noteq> 0 then (ret, rs, w) else repost D n rs w)"

text \<open>The loop over the completions, for at most \<open>fuel\<close> of them; \<open>None\<close> when there are more.\<close>

fun rs_poll_cq :: "nat \<Rightarrow> 'w rdev \<Rightarrow> nat \<Rightarrow> rsocket \<Rightarrow> 'w \<Rightarrow> (int \<times> rsocket \<times> 'w) option" where
  "rs_poll_cq 0 D rcnt rs w = None"
| "rs_poll_cq (Suc fuel) D rcnt rs w =
     (let (ret, wc, w) = dv_poll_cq D w
      in if 0 < ret
         then if rs_wr_is_recv (wc_id wc)
              then if \<not> wc_success wc then rs_poll_cq fuel D rcnt rs w
                   else let (rs, now) = poll_recv wc rs
                        in if now then Some (0, rs, w) else rs_poll_cq fuel D (rcnt + 1) rs w
              else rs_poll_cq fuel D rcnt (poll_send wc rs) w
         else Some
           (if has (rs_state rs) rs_connected
            then let (ret, rs, w) = (if ret = 0 then repost D rcnt rs w else (ret, rs, w))
                 in if ret \<noteq> 0 then (ret, rs\<lparr>rs_state := rs_error, rs_err := dv_errno D w\<rparr>, w) else (ret, rs, w)
            else (ret, rs, w)))"

definition EAGAIN :: int where
  "EAGAIN = 11"

definition EINTR :: int where
  "EINTR = 4"

definition rs_get_cq_event :: "'w rdev \<Rightarrow> rsocket \<Rightarrow> 'w \<Rightarrow> int \<times> rsocket \<times> 'w" where
  "rs_get_cq_event D rs w =
     (if \<not> rs_cq_armed rs then (0, rs, w)
      else let (ret, w) = dv_get_cq_event D w
           in if ret = 0
              then let n = rs_unack_cqe rs + 1
                   in if int (unat (rs_sq_size rs)) + int (unat (rs_rq_size rs)) \<le> n
                      then (ret, rs\<lparr>rs_unack_cqe := 0, rs_cq_armed := False\<rparr>, dv_ack_events D n w)
                      else (ret, rs\<lparr>rs_unack_cqe := n, rs_cq_armed := False\<rparr>, w)
              else if dv_errno D w = EAGAIN \<or> dv_errno D w = EINTR then (ret, rs, w)
              else (ret, rs\<lparr>rs_state := rs_error\<rparr>, w))"

text \<open>
  The loop that waits for a condition; \<open>fuel\<close> bounds its turns and the completions of each. \<^verbatim>\<open>EWOULDBLOCK\<close>
  is \<^verbatim>\<open>EAGAIN\<close> on this platform.
\<close>

fun process_turns ::
  "nat \<Rightarrow> 'w rdev \<Rightarrow> bool \<Rightarrow> (rsocket \<Rightarrow> bool) \<Rightarrow> rsocket \<Rightarrow> 'w \<Rightarrow> (int \<times> rsocket \<times> 'w) option" where
  "process_turns 0 D nonblock test rs w = None"
| "process_turns (Suc fuel) D nonblock test rs w =
     (let (rs, w) = rs_update_credits D rs w
      in case rs_poll_cq fuel D 0 rs w of
           None \<Rightarrow> None
         | Some (ret, rs, w) \<Rightarrow>
             if test rs then Some (0, rs, w)
             else if ret \<noteq> 0 then Some (ret, rs, w)
             else if nonblock then let (ret, w) = ERR D EAGAIN w in Some (ret, rs, w)
             else if \<not> rs_cq_armed rs then process_turns fuel D nonblock test (rs\<lparr>rs_cq_armed := True\<rparr>) (dv_req_notify D w)
             else let (rs, w) = rs_update_credits D rs w; (ret, rs, w) = rs_get_cq_event D rs w
                  in if ret \<noteq> 0 then Some (ret, rs, w) else process_turns fuel D nonblock test rs w)"

definition rs_process_cq ::
  "nat \<Rightarrow> 'w rdev \<Rightarrow> bool \<Rightarrow> (rsocket \<Rightarrow> bool) \<Rightarrow> rsocket \<Rightarrow> 'w \<Rightarrow> (int \<times> rsocket \<times> 'w) option" where
  "rs_process_cq fuel D nonblock test rs w =
     map_option (\<lambda>(ret, rs, w). let (rs, w) = rs_update_credits D rs w in (ret, rs, w))
       (process_turns fuel D nonblock test rs w)"

text \<open>
  Polling for a while before blocking: \<open>s\<close> is the time of the first look at the clock. The difference
  is computed in 32 bits.
\<close>

fun comp_turns ::
  "nat \<Rightarrow> 'w rdev \<Rightarrow> u32 \<Rightarrow> u64 option \<Rightarrow> bool \<Rightarrow> (rsocket \<Rightarrow> bool) \<Rightarrow> rsocket \<Rightarrow> 'w \<Rightarrow> (int \<times> rsocket \<times> 'w) option" where
  "comp_turns 0 D polling_time s nonblock test rs w = None"
| "comp_turns (Suc fuel) D polling_time s nonblock test rs w =
     (case rs_process_cq fuel D True test rs w of
        None \<Rightarrow> None
      | Some (ret, rs, w) \<Rightarrow>
          if ret = 0 \<or> nonblock \<or> dv_errno D w \<noteq> EAGAIN then Some (ret, rs, w)
          else let (s, w) = (case s of Some s \<Rightarrow> (s, w) | None \<Rightarrow> dv_usec D w);
                   (e, w) = dv_usec D w;
                   poll_time = ucast (e - s) + 1 :: u32
               in if poll_time \<le> polling_time then comp_turns fuel D polling_time (if poll_time = 0 then None else Some s) nonblock test rs w
                  else rs_process_cq fuel D False test rs w)"

definition rs_get_comp ::
  "nat \<Rightarrow> 'w rdev \<Rightarrow> u32 \<Rightarrow> bool \<Rightarrow> (rsocket \<Rightarrow> bool) \<Rightarrow> rsocket \<Rightarrow> 'w \<Rightarrow> (int \<times> rsocket \<times> 'w) option" where
  "rs_get_comp fuel D polling_time nonblock test rs w = comp_turns fuel D polling_time None nonblock test rs w"

section \<open>rsend\<close>

definition ECONNRESET :: int where
  "ECONNRESET = 104"

text \<open>Waiting until the socket can send, with the check that the peer still listens.\<close>

definition await_send :: "nat \<Rightarrow> 'w rdev \<Rightarrow> u32 \<Rightarrow> bool \<Rightarrow> rsocket \<Rightarrow> 'w \<Rightarrow> (int \<times> rsocket \<times> 'w) option" where
  "await_send fuel D pt nonblock rs w =
     (if rs_can_send rs then Some (0, rs, w)
      else case rs_get_comp fuel D pt nonblock rs_conn_can_send rs w of
             None \<Rightarrow> None
           | Some (ret, rs, w) \<Rightarrow>
               if ret \<noteq> 0 then Some (ret, rs, w)
               else if \<not> has (rs_state rs) rs_writable then let (ret, w) = ERR D ECONNRESET w in Some (ret, rs, w)
               else Some (0, rs, w))"

text \<open>
  The loop of \<^verbatim>\<open>rsend\<close>: \<open>buf\<close> is what is left of the data. The result is the last return value, the data left and
  the socket; \<open>None\<close> when the fuel, which bounds the turns and the waiting in each, does not suffice.
\<close>

fun send_turns ::
  "nat \<Rightarrow> 'w rdev \<Rightarrow> u32 \<Rightarrow> bool \<Rightarrow> bytes \<Rightarrow> u32 \<Rightarrow> rsocket \<Rightarrow> 'w \<Rightarrow> (int \<times> bytes \<times> rsocket \<times> 'w) option" where
  "send_turns 0 D pt nonblock buf olen rs w = None"
| "send_turns (Suc fuel) D pt nonblock buf olen rs w =
     (if buf = [] then Some (0, buf, rs, w)
      else case await_send fuel D pt nonblock rs w of
             None \<Rightarrow> None
           | Some (ret, rs, w) \<Rightarrow>
               if ret \<noteq> 0 then Some (ret, buf, rs, w)
               else let x = xfer_size (length buf) olen rs;
                        (ret, n, rs, w) = send_chunk D buf x rs w
                    in if ret \<noteq> 0 then Some (ret, buf, rs, w)
                       else send_turns fuel D pt nonblock (drop n buf) (next_olen (length buf) olen) rs w)"

section \<open>rrecv\<close>

definition rs_have_rdata :: "rsocket \<Rightarrow> bool" where
  "rs_have_rdata rs = (rs_rmsg_head rs \<noteq> rs_rmsg_tail rs)"

definition rs_conn_have_rdata :: "rsocket \<Rightarrow> bool" where
  "rs_conn_have_rdata rs = (rs_have_rdata rs \<or> \<not> has (rs_state rs) rs_readable)"

text \<open>
  The bytes of one message, or of the part of it that fits, from offset \<open>off\<close> of the receive buffer: in two
  parts if they reach over its end. The second result is the offset behind them.
\<close>

definition rbuf_read :: "rsocket \<Rightarrow> int \<Rightarrow> u32 \<Rightarrow> bytes \<times> int" where
  "rbuf_read rs p rsize =
     (let end_size = rs_rbuf_size rs - word_of_int p
      in if end_size < rsize
         then (get_bytes (rs_rmem rs) (nat p) (unat end_size) @ get_bytes (rs_rmem rs) 0 (unat (rsize - end_size)),
               int (unat (rsize - end_size)))
         else (get_bytes (rs_rmem rs) (nat p) (unat rsize), p + int (unat rsize)))"

definition recv_chunk :: "nat \<Rightarrow> rsocket \<Rightarrow> bytes \<times> rsocket" where
  "recv_chunk left rs =
     (let h = rs_rmsg_head rs; m = rs_rmsg rs h;
          (rsize, rs) = (if left < unat (rm_data m)
                         then (word_of_nat left, rs\<lparr>rs_rmsg := (rs_rmsg rs)(h := m\<lparr>rm_data := rm_data m - word_of_nat left\<rparr>)\<rparr>)
                         else (rm_data m, rs\<lparr>rs_rseq_no := rs_rseq_no rs + 1, rs_rmsg_head := ring_next rs h\<rparr>));
          (bs, p) = rbuf_read rs (rs_rbuf_offset rs) rsize
      in (bs, rs\<lparr>rs_rbuf_offset := p, rs_rbuf_bytes_avail := rs_rbuf_bytes_avail rs + int (length bs)\<rparr>))"

text \<open>The inner loop; a socket has at most as many messages as its ring has places, so that much fuel is enough.\<close>

fun recv_turns :: "nat \<Rightarrow> nat \<Rightarrow> rsocket \<Rightarrow> bytes \<times> rsocket" where
  "recv_turns 0 left rs = ([], rs)"
| "recv_turns (Suc fuel) left rs =
     (if left = 0 \<or> \<not> rs_have_rdata rs then ([], rs)
      else let (bs, rs) = recv_chunk left rs; (rest, rs) = recv_turns fuel (left - length bs) rs in (bs @ rest, rs))"

definition recv_all :: "nat \<Rightarrow> rsocket \<Rightarrow> bytes \<times> rsocket" where
  "recv_all left rs = recv_turns (unat (rs_rq_size rs) + 2) left rs"

text \<open>Looking without taking: the position in the ring and in the buffer are local.\<close>

fun peek_turns :: "nat \<Rightarrow> nat \<Rightarrow> nat \<Rightarrow> int \<Rightarrow> rsocket \<Rightarrow> bytes" where
  "peek_turns 0 left h p rs = []"
| "peek_turns (Suc fuel) left h p rs =
     (if left = 0 \<or> h = rs_rmsg_tail rs then []
      else let m = rs_rmsg rs h;
               (rsize, h) = (if left < unat (rm_data m) then (word_of_nat left, h) else (rm_data m, ring_next rs h));
               (bs, p) = rbuf_read rs p rsize
           in bs @ peek_turns fuel (left - length bs) h p rs)"

definition rs_peek :: "nat \<Rightarrow> rsocket \<Rightarrow> bytes" where
  "rs_peek len rs = peek_turns (unat (rs_rq_size rs) + 2) len (rs_rmsg_head rs) (rs_rbuf_offset rs) rs"

record recv_flags =
  rf_dontwait :: bool
  rf_peek :: bool
  rf_waitall :: bool

fun rrecv_turns ::
  "nat \<Rightarrow> 'w rdev \<Rightarrow> u32 \<Rightarrow> recv_flags \<Rightarrow> nat \<Rightarrow> rsocket \<Rightarrow> 'w \<Rightarrow> (int \<times> bytes \<times> rsocket \<times> 'w) option" where
  "rrecv_turns 0 D pt fl left rs w = None"
| "rrecv_turns (Suc fuel) D pt fl left rs w =
     (case (if rs_have_rdata rs then Some (0, rs, w)
            else rs_get_comp fuel D pt (rf_dontwait fl) rs_conn_have_rdata rs w) of
        None \<Rightarrow> None
      | Some (ret, rs, w) \<Rightarrow>
          if ret \<noteq> 0 then Some (ret, [], rs, w)
          else if rf_peek fl then Some (ret, rs_peek left rs, rs, w)
          else let (bs, rs) = recv_all left rs; left = left - length bs
               in if left \<noteq> 0 \<and> rf_waitall fl \<and> has (rs_state rs) rs_readable
                  then map_option (\<lambda>(ret, rest, s). (ret, bs @ rest, s)) (rrecv_turns fuel D pt fl left rs w)
                  else Some (ret, bs, rs, w))"

section \<open>Shutting down\<close>

definition rs_conn_can_send_ctrl :: "rsocket \<Rightarrow> bool" where
  "rs_conn_can_send_ctrl rs = (rs_ctrl_avail rs \<or> \<not> has (rs_state rs) rs_connected)"

definition rs_conn_all_sends_done :: "rsocket \<Rightarrow> bool" where
  "rs_conn_all_sends_done rs =
     (sint (rs_ctrl_max_seqno rs) - sint (rs_ctrl_seqno rs) + rs_sqe_avail rs = int (unat (rs_sq_size rs)) \<or>
      \<not> has (rs_state rs) rs_connected)"

text \<open>The notice of a socket that shuts down its sending side, or both.\<close>

definition post_ctrl :: "'w rdev \<Rightarrow> u32 \<Rightarrow> rsocket \<Rightarrow> 'w \<Rightarrow> int \<times> rsocket \<times> 'w" where
  "post_ctrl D ctrl rs w =
     (if has (rs_state rs) rs_connected \<and> rs_ctrl_avail rs
      then let rs = rs\<lparr>rs_ctrl_seqno := rs_ctrl_seqno rs + 1\<rparr>;
               (ret, w) = rs_post_msg D rs (rs_msg_set RS_OP_CTRL ctrl) w
           in (ret, rs, w)
      else (0, rs, w))"

datatype shut = SHUT_RD | SHUT_WR | SHUT_RDWR

text \<open>The new state and the notice; \<open>None\<close> where the socket stays open in the other direction without one.\<close>

definition shutdown_ctrl :: "shut \<Rightarrow> u32 \<Rightarrow> u32 \<times> u32 option" where
  "shutdown_ctrl how st =
     (case how of
        SHUT_RDWR \<Rightarrow> (st AND NOT (rs_readable OR rs_writable), Some RS_CTRL_DISCONNECT)
      | SHUT_WR \<Rightarrow>
          let st = st AND NOT rs_writable
          in (st, Some (if has st rs_readable then RS_CTRL_SHUTDOWN else RS_CTRL_DISCONNECT))
      | SHUT_RD \<Rightarrow>
          let st = st AND NOT rs_readable in (st, if has st rs_writable then None else Some RS_CTRL_DISCONNECT))"

end
