(* ===== verification/FF_RSockApi.thy ===== *)
theory FF_RSockApi
  imports FF_RSocket
begin

text \<open>
  The calls of \<^verbatim>\<open>rsocket.c\<close> on a stream socket: establishing a connection, sending, receiving, direct writes into the
  peer's mapped memory, shutting down and looking for events. The connection manager is a parameter \<open>C\<close>; the registration of memory a
  parameter \<open>G\<close>. A call works on the socket that the table of sockets holds for the descriptor.
\<close>

section \<open>Establishing a connection\<close>

definition rs_bound :: u32 where
  "rs_bound = 0x1"

definition rs_listening :: u32 where
  "rs_listening = 0x2"

definition rs_opening :: u32 where
  "rs_opening = 0x4"

definition rs_resolving_addr :: u32 where
  "rs_resolving_addr = rs_opening OR 0x10"

definition rs_resolving_route :: u32 where
  "rs_resolving_route = rs_opening OR 0x20"

definition rs_connecting :: u32 where
  "rs_connecting = rs_opening OR 0x40"

definition rs_accepting :: u32 where
  "rs_accepting = rs_opening OR 0x80"

definition rs_connect_error :: u32 where
  "rs_connect_error = 0x800"

definition RS_CONN_RETRIES :: nat where
  "RS_CONN_RETRIES = 6"

definition ENOTSUP :: int where
  "ENOTSUP = 95"

definition EINPROGRESS :: int where
  "EINPROGRESS = 115"

definition ETIMEDOUT :: int where
  "ETIMEDOUT = 110"

definition EINVAL :: int where
  "EINVAL = 22"

record 'w rcm =
  rc_iwarp :: bool
  rc_max_qp :: u32
  rc_create_channel :: "'w \<Rightarrow> bool \<times> 'w"
  rc_create_cq :: "int \<Rightarrow> 'w \<Rightarrow> bool \<times> 'w"
  rc_destroy_cq :: "'w \<Rightarrow> 'w"
  rc_destroy_channel :: "'w \<Rightarrow> 'w"
  rc_create_qp :: "u16 \<Rightarrow> u16 \<Rightarrow> u16 \<Rightarrow> 'w \<Rightarrow> int \<times> 'w"
  rc_bind_addr :: "'w \<Rightarrow> int \<times> 'w"
  rc_listen :: "int \<Rightarrow> 'w \<Rightarrow> int \<times> 'w"
  rc_resolve_addr :: "int \<Rightarrow> 'w \<Rightarrow> int \<times> 'w"
  rc_resolve_route :: "int \<Rightarrow> 'w \<Rightarrow> int \<times> 'w"
  rc_set_path :: "bytes \<Rightarrow> 'w \<Rightarrow> int \<times> 'w"
  rc_complete :: "'w \<Rightarrow> int \<times> 'w"
  rc_connect :: "rs_conn_data \<Rightarrow> bool \<Rightarrow> 'w \<Rightarrow> int \<times> 'w"
  rc_accept :: "rs_conn_data \<Rightarrow> 'w \<Rightarrow> int \<times> 'w"
  rc_event :: "'w \<Rightarrow> rs_conn_data"

definition rs_create_cq :: "'w rdev \<Rightarrow> 'w rcm \<Rightarrow> rsocket \<Rightarrow> 'w \<Rightarrow> int \<times> 'w" where
  "rs_create_cq D C rs w =
     (let (ok, w) = rc_create_channel C w
      in if \<not> ok then (- 1, w)
         else let (ok, w) = rc_create_cq C (int (unat (rs_sq_size rs)) + int (unat (rs_rq_size rs))) w
              in if \<not> ok then (- 1, rc_destroy_channel C w)
                 else let (ret, w) = (if rs_nonblock rs then dv_fcntl_cq D True w else (0, w))
                      in if ret \<noteq> 0 then (- 1, rc_destroy_channel C (rc_destroy_cq C w))
                         else (0, dv_req_notify D w))"

definition rs_create_ep :: "'w rdev \<Rightarrow> 'w rreg \<Rightarrow> 'w rcm \<Rightarrow> rsocket \<Rightarrow> 'w \<Rightarrow> ub + int \<times> rsocket \<times> 'w" where
  "rs_create_ep D G C rs w =
     (let rs = rs_set_qp_size (rc_max_qp C) rs;
          rs = (if rc_iwarp C then rs\<lparr>rs_opts := rs_opts rs OR RS_OPT_MSG_SEND\<rparr> else rs);
          (ret, w) = rs_create_cq D C rs w
      in if ret \<noteq> 0 then Inr (ret, rs, w)
         else let (ret, w) = rc_create_qp C (rs_sq_size rs) (rs_rq_size rs) (rs_sq_inline rs) w
              in if ret \<noteq> 0 then Inr (ret, rs, w)
                 else let rs = rs\<lparr>rs_sq_inline := 0\<rparr>
                      in if has (rs_opts rs) RS_OPT_MSG_SEND \<and> unat (rs_sq_inline rs) < RS_MSG_SIZE
                         then let (ret, w) = ERR D ENOTSUP w in Inr (ret, rs, w)
                         else case rs_init_bufs D G rs w of
                                Inl u \<Rightarrow> Inl u
                              | Inr (ret, rs, w) \<Rightarrow>
                                  if ret \<noteq> 0 then Inr (ret, rs, w) else Inr (repost D (unat (rs_rq_size rs)) rs w))"

text \<open>
  The labels of \<^verbatim>\<open>rs_do_connect\<close>, last to first. The path of \<^verbatim>\<open>setsockopt\<close> is used once, so that
  \<open>resolve_route_plain\<close> is what a second arrival at the label \<^verbatim>\<open>resolve_route\<close> does.
\<close>

definition would_block :: "'w rdev \<Rightarrow> 'w \<Rightarrow> bool" where
  "would_block D w = (dv_errno D w = EAGAIN)"

definition do_connected :: "'w rdev \<Rightarrow> 'w rcm \<Rightarrow> rsocket \<Rightarrow> 'w \<Rightarrow> int \<times> rsocket \<times> 'w" where
  "do_connected D C rs w =
     (let cresp = rc_event C w
      in if cd_version cresp \<noteq> 1 then let (ret, w) = ERR D ENOTSUP w in (ret, rs, w)
         else (0, (rs_save_conn_data cresp rs)\<lparr>rs_state := rs_connect_rdwr\<rparr>, w))"

definition do_connect :: "'w rdev \<Rightarrow> 'w rreg \<Rightarrow> 'w rcm \<Rightarrow> rsocket \<Rightarrow> 'w \<Rightarrow> ub + int \<times> rsocket \<times> 'w" where
  "do_connect D G C rs w =
     (case rs_create_ep D G C rs w of
        Inl u \<Rightarrow> Inl u
      | Inr (ret, rs, w) \<Rightarrow>
          if ret \<noteq> 0 then Inr (ret, rs, w)
          else let rs = rs\<lparr>rs_retries := 0\<rparr>;
                   (ret, w) = rc_connect C (rs_format_conn_data rs) (has (rs_opts rs) RS_OPT_MSG_SEND) w
               in Inr (if ret = 0 then do_connected D C rs w
                       else (ret, if would_block D w then rs\<lparr>rs_state := rs_connecting\<rparr> else rs, w)))"

definition retry_timeout :: "rsocket \<Rightarrow> int" where
  "retry_timeout rs = push_bit (rs_retries rs) 1000"

definition timed_out :: "'w rdev \<Rightarrow> rsocket \<Rightarrow> 'w \<Rightarrow> bool" where
  "timed_out D rs w = (dv_errno D w = ETIMEDOUT \<and> rs_retries rs \<le> RS_CONN_RETRIES)"

definition resolve_route_plain :: "'w rdev \<Rightarrow> 'w rreg \<Rightarrow> 'w rcm \<Rightarrow> rsocket \<Rightarrow> 'w \<Rightarrow> ub + int \<times> rsocket \<times> 'w" where
  "resolve_route_plain D G C rs w =
     (let to = retry_timeout rs; rs = rs\<lparr>rs_retries := rs_retries rs + 1\<rparr>; (ret, w) = rc_resolve_route C to w
      in if ret = 0 then do_connect D G C rs w
         else Inr (ret, if would_block D w then rs\<lparr>rs_state := rs_resolving_route\<rparr> else rs, w))"

definition resolve_route :: "'w rdev \<Rightarrow> 'w rreg \<Rightarrow> 'w rcm \<Rightarrow> rsocket \<Rightarrow> 'w \<Rightarrow> ub + int \<times> rsocket \<times> 'w" where
  "resolve_route D G C rs w =
     (case rs_optval rs of
        None \<Rightarrow> resolve_route_plain D G C rs w
      | Some path \<Rightarrow>
          let rs = rs\<lparr>rs_retries := rs_retries rs + 1, rs_optval := None\<rparr>; (ret, w) = rc_set_path C path w
          in if ret \<noteq> 0 then Inr (ret, if would_block D w then rs\<lparr>rs_state := rs_resolving_route\<rparr> else rs, w)
             else let rs = rs\<lparr>rs_state := rs_resolving_route\<rparr>; (ret, w) = rc_complete C w
                  in if ret = 0 then do_connect D G C rs w
                     else if timed_out D rs w then resolve_route_plain D G C rs w
                     else Inr (ret, rs, w))"

definition resolving_route :: "'w rdev \<Rightarrow> 'w rreg \<Rightarrow> 'w rcm \<Rightarrow> rsocket \<Rightarrow> 'w \<Rightarrow> ub + int \<times> rsocket \<times> 'w" where
  "resolving_route D G C rs w =
     (let (ret, w) = rc_complete C w
      in if ret = 0 then do_connect D G C rs w
         else if timed_out D rs w then resolve_route D G C rs w
         else Inr (ret, rs, w))"

definition resolve_addr :: "'w rdev \<Rightarrow> 'w rreg \<Rightarrow> 'w rcm \<Rightarrow> rsocket \<Rightarrow> 'w \<Rightarrow> ub + int \<times> rsocket \<times> 'w" where
  "resolve_addr D G C rs w =
     (let to = retry_timeout rs; rs = rs\<lparr>rs_retries := rs_retries rs + 1\<rparr>; (ret, w) = rc_resolve_addr C to w
      in if ret = 0 then resolve_route D G C rs w
         else Inr (ret, if would_block D w then rs\<lparr>rs_state := rs_resolving_addr\<rparr> else rs, w))"

definition rs_do_connect :: "'w rdev \<Rightarrow> 'w rreg \<Rightarrow> 'w rcm \<Rightarrow> rsocket \<Rightarrow> 'w \<Rightarrow> ub + int \<times> rsocket \<times> 'w" where
  "rs_do_connect D G C rs w =
     (case (if rs_state rs = 0 \<or> rs_state rs = rs_bound then resolve_addr D G C rs w
            else if rs_state rs = rs_resolving_addr
            then let (ret, w) = rc_complete C w
                 in if ret = 0 then resolve_route D G C (rs\<lparr>rs_retries := 0\<rparr>) w
                    else if timed_out D rs w then resolve_addr D G C rs w
                    else Inr (ret, rs, w)
            else if rs_state rs = rs_resolving_route then resolving_route D G C rs w
            else if rs_state rs = rs_connecting
            then let (ret, w) = rc_complete C w in Inr (if ret = 0 then do_connected D C rs w else (ret, rs, w))
            else if rs_state rs = rs_accepting
            then let w = (if rs_nonblock rs then w else snd (dv_fcntl_cm D False w)); (ret, w) = rc_complete C w
                 in Inr (ret, if ret = 0 then rs\<lparr>rs_state := rs_connect_rdwr\<rparr> else rs, w)
            else let (ret, w) = ERR D EINVAL w in Inr (ret, rs, w)) of
        Inl u \<Rightarrow> Inl u
      | Inr (ret, rs, w) \<Rightarrow>
          if ret = 0 then Inr (ret, rs, w)
          else if would_block D w then Inr (ret, rs, dv_set_errno D EINPROGRESS w)
          else Inr (ret, rs\<lparr>rs_state := rs_connect_error, rs_err := dv_errno D w\<rparr>, w))"

text \<open>Binding and listening; accepting goes on with the socket of the request, whose calls are \<open>D\<close> and \<open>C\<close>.\<close>

definition rbind :: "'w rcm \<Rightarrow> rsocket \<Rightarrow> 'w \<Rightarrow> int \<times> rsocket \<times> 'w" where
  "rbind C rs w = (let (ret, w) = rc_bind_addr C w in (ret, if ret = 0 then rs\<lparr>rs_state := rs_bound\<rparr> else rs, w))"

definition rlisten :: "'w rcm \<Rightarrow> int \<Rightarrow> rsocket \<Rightarrow> 'w \<Rightarrow> int \<times> rsocket \<times> 'w" where
  "rlisten C backlog rs w =
     (if rs_state rs = rs_listening then (0, rs, w)
      else let (ret, w) = rc_listen C backlog w in (ret, if ret = 0 then rs\<lparr>rs_state := rs_listening\<rparr> else rs, w))"

definition accept_new ::
  "'w rdev \<Rightarrow> 'w rreg \<Rightarrow> 'w rcm \<Rightarrow> rs_defaults \<Rightarrow> rsocket \<Rightarrow> 'w \<Rightarrow> ub + int \<times> rsocket \<times> 'w" where
  "accept_new D G C defs rs w =
     (let new_rs = rs_alloc defs (Some rs); creq = rc_event C w
      in if cd_version creq \<noteq> 1 then let (ret, w) = ERR D ENOTSUP w in Inr (ret, new_rs, w)
         else let w = (if rs_nonblock rs then snd (dv_fcntl_cm D True w) else w)
              in case rs_create_ep D G C new_rs w of
                   Inl u \<Rightarrow> Inl u
                 | Inr (ret, new_rs, w) \<Rightarrow>
                     if ret \<noteq> 0 then Inr (ret, new_rs, w)
                     else let new_rs = rs_save_conn_data creq new_rs;
                              (ret, w) = rc_accept C (rs_format_conn_data new_rs) w
                          in if ret = 0 then Inr (0, new_rs\<lparr>rs_state := rs_connect_rdwr\<rparr>, w)
                             else if would_block D w then Inr (0, new_rs\<lparr>rs_state := rs_accepting\<rparr>, w)
                             else Inr (ret, new_rs, w))"

definition open_first :: "'w rdev \<Rightarrow> 'w rreg \<Rightarrow> 'w rcm \<Rightarrow> rsocket \<Rightarrow> 'w \<Rightarrow> ub + int \<times> rsocket \<times> 'w" where
  "open_first D G C rs w =
     (if has (rs_state rs) rs_opening
      then case rs_do_connect D G C rs w of
             Inl u \<Rightarrow> Inl u
           | Inr (ret, rs, w) \<Rightarrow> Inr (ret, rs, if ret \<noteq> 0 \<and> dv_errno D w = EINPROGRESS then dv_set_errno D EAGAIN w else w)
      else Inr (0, rs, w))"

section \<open>Mapped memory\<close>

definition iom_bytes :: "bool \<Rightarrow> rs_iomap_mr \<Rightarrow> bytes" where
  "iom_bytes swap iomr =
     (if \<not> swap
      then le_bytes 8 (unat (iomr_offset iomr)) @ sge_bytes (iomr_addr iomr) (iomr_rkey iomr) (ucast (iomr_len iomr))
      else le_bytes 8 (unat (htonll (iomr_offset iomr))) @
           sge_bytes (htonll (iomr_addr iomr)) (htonl (iomr_rkey iomr)) (htonl (ucast (iomr_len iomr))))"

definition rs_write_iomap :: "'w rdev \<Rightarrow> rsocket \<Rightarrow> rs_iomap_mr \<Rightarrow> isge list \<Rightarrow> bool \<Rightarrow> 'w \<Rightarrow> int \<times> rsocket \<times> 'w" where
  "rs_write_iomap D rs iomr sgl inline w =
     (let rs = rs\<lparr>rs_sseq_no := rs_sseq_no rs + 1,
                  rs_sqe_avail := rs_sqe_avail rs - (if has (rs_opts rs) RS_OPT_MSG_SEND then 2 else 1),
                  rs_sbuf_bytes_avail := rs_sbuf_bytes_avail rs - SIZEOF_RS_IOMAP\<rparr>;
          addr = rsge_addr (rs_remote_iomap rs) + word_of_int (iomr_index iomr * SIZEOF_RS_IOMAP);
          (ret, w) = rs_post_write_msg D rs sgl (rs_msg_set RS_OP_IOMAP_SGL (word_of_int (iomr_index iomr))) inline addr
                       (rsge_key (rs_remote_iomap rs)) w
      in (ret, rs, w))"

text \<open>With \<^verbatim>\<open>sq_inline\<close> zero the entry is always copied into the send buffer; the inline case keeps no entry there.\<close>

definition send_iomap :: "'w rdev \<Rightarrow> rs_iomap_mr \<Rightarrow> rsocket \<Rightarrow> 'w \<Rightarrow> int \<times> rsocket \<times> 'w" where
  "send_iomap D iomr rs w =
     (let iom = iom_bytes (has (rs_opts rs) RS_OPT_SWAP_SGL) iomr; left = rs_sbuf_left rs; a = is_addr (rs_ssgl0 rs)
      in if 24 \<le> rs_sq_inline rs then rs_write_iomap D rs iomr [] True w
         else if 24 \<le> left
         then let rs = sbuf_copy a iom (rs\<lparr>rs_ssgl0 := (rs_ssgl0 rs)\<lparr>is_len := 24\<rparr>\<rparr>);
                  (ret, rs, w) = rs_write_iomap D rs iomr [rs_ssgl0 rs] False w
              in (ret, rs\<lparr>rs_ssgl0 := (rs_ssgl0 rs)\<lparr>is_addr := (if 24 < left then a + 24 else rs_sbuf rs)\<rparr>\<rparr>, w)
         else let rs = sbuf_copy a (take (unat left) iom) (rs\<lparr>rs_ssgl0 := (rs_ssgl0 rs)\<lparr>is_len := left\<rparr>\<rparr>);
                  rs = sbuf_copy (rs_sbuf rs) (drop (unat left) iom) (rs\<lparr>rs_ssgl1 := (rs_ssgl1 rs)\<lparr>is_len := 24 - left\<rparr>\<rparr>);
                  (ret, rs, w) = rs_write_iomap D rs iomr [rs_ssgl0 rs, rs_ssgl1 rs] False w
              in (ret, rs\<lparr>rs_ssgl0 := (rs_ssgl0 rs)\<lparr>is_addr := rs_sbuf rs + ucast (24 - left)\<rparr>\<rparr>, w))"

text \<open>The loop over the queue of mappings; \<open>ret\<close> is the result of the turn before, which the source leaves unset at first.\<close>

fun iomap_turns :: "nat \<Rightarrow> 'w rdev \<Rightarrow> u32 \<Rightarrow> bool \<Rightarrow> int \<Rightarrow> rsocket \<Rightarrow> 'w \<Rightarrow> (int \<times> rsocket \<times> 'w) option" where
  "iomap_turns 0 D pt nonblock ret rs w = None"
| "iomap_turns (Suc fuel) D pt nonblock ret rs w =
     (case rs_iomap_queue rs of
        [] \<Rightarrow> Some (ret, rs, w)
      | iomr # queue \<Rightarrow>
          (case await_send fuel D pt nonblock rs w of
             None \<Rightarrow> None
           | Some (ret, rs, w) \<Rightarrow>
               if ret \<noteq> 0 then Some (ret, rs, w)
               else let (ret, rs, w) = send_iomap D iomr rs w;
                        rs = rs\<lparr>rs_iomap_queue := queue, rs_iomap_list := rs_iomap_list rs @ [iomr]\<rparr>
                    in if ret \<noteq> 0 then Some (ret, rs, w) else iomap_turns fuel D pt nonblock ret rs w))"

definition rs_send_iomaps :: "nat \<Rightarrow> 'w rdev \<Rightarrow> u32 \<Rightarrow> bool \<Rightarrow> rsocket \<Rightarrow> 'w \<Rightarrow> (int \<times> rsocket \<times> 'w) option" where
  "rs_send_iomaps fuel D pt nonblock rs w =
     map_option (\<lambda>(ret, rs, w). (ret, rs\<lparr>rs_iomap_pending := (rs_iomap_queue rs \<noteq> [])\<rparr>, w))
       (iomap_turns fuel D pt nonblock 0 rs w)"

definition iomaps_first :: "nat \<Rightarrow> 'w rdev \<Rightarrow> u32 \<Rightarrow> bool \<Rightarrow> rsocket \<Rightarrow> 'w \<Rightarrow> (int \<times> rsocket \<times> 'w) option" where
  "iomaps_first fuel D pt nonblock rs w =
     (if rs_iomap_pending rs then rs_send_iomaps fuel D pt nonblock rs w else Some (0, rs, w))"

fun find_iomap :: "nat \<Rightarrow> nat \<Rightarrow> (nat \<Rightarrow> rs_iomap) \<Rightarrow> u64 \<Rightarrow> nat option" where
  "find_iomap 0 i tab p = None"
| "find_iomap (Suc n) i tab p =
     (if iom_offset (tab i) \<le> p \<and> p < iom_offset (tab i) + ucast (rsge_len (iom_sge (tab i))) then Some i
      else find_iomap n (Suc i) tab p)"

definition rs_find_iomap :: "rsocket \<Rightarrow> u64 \<Rightarrow> nat option" where
  "rs_find_iomap rs p = find_iomap (nat (rs_target_iomap_size rs)) 0 (rs_tiomap rs) p"

definition rs_write_direct ::
  "'w rdev \<Rightarrow> rsocket \<Rightarrow> rs_iomap \<Rightarrow> u64 \<Rightarrow> isge list \<Rightarrow> u32 \<Rightarrow> bool \<Rightarrow> 'w \<Rightarrow> int \<times> rsocket \<times> 'w" where
  "rs_write_direct D rs iom p sgl len inline w =
     (let rs = rs\<lparr>rs_sqe_avail := rs_sqe_avail rs - 1, rs_sbuf_bytes_avail := rs_sbuf_bytes_avail rs - int (unat len)\<rparr>;
          (ret, w) = rs_post_write D sgl (rs_msg_set RS_OP_WRITE len) inline
                       (rsge_addr (iom_sge iom) + p - iom_offset iom) (rsge_key (iom_sge iom)) w
      in (ret, rs, w))"

definition direct_size :: "nat \<Rightarrow> u32 \<Rightarrow> rs_iomap \<Rightarrow> u64 \<Rightarrow> rsocket \<Rightarrow> u32" where
  "direct_size left olen iom p rs =
     (let x = (if unat olen < left then olen else word_of_nat left);
          x = (if word_of_int (rs_sbuf_bytes_avail rs) < x then word_of_int (rs_sbuf_bytes_avail rs) else x);
          room = iom_offset iom + ucast (rsge_len (iom_sge iom)) - p
      in if room < ucast x then ucast room else x)"

definition direct_chunk :: "'w rdev \<Rightarrow> rs_iomap \<Rightarrow> u64 \<Rightarrow> bytes \<Rightarrow> u32 \<Rightarrow> rsocket \<Rightarrow> 'w \<Rightarrow> int \<times> rsocket \<times> 'w" where
  "direct_chunk D iom p buf x rs w =
     (let left = rs_sbuf_left rs; a = is_addr (rs_ssgl0 rs)
      in if x \<le> ucast (rs_sq_inline rs) then rs_write_direct D rs iom p [] x True w
         else if x \<le> left
         then let rs = sbuf_copy a (take (unat x) buf) (rs\<lparr>rs_ssgl0 := (rs_ssgl0 rs)\<lparr>is_len := x\<rparr>\<rparr>);
                  (ret, rs, w) = rs_write_direct D rs iom p [rs_ssgl0 rs] x False w
              in (ret, rs\<lparr>rs_ssgl0 := (rs_ssgl0 rs)\<lparr>is_addr := (if x < left then a + ucast x else rs_sbuf rs)\<rparr>\<rparr>, w)
         else let rs = sbuf_copy a (take (unat left) buf) (rs\<lparr>rs_ssgl0 := (rs_ssgl0 rs)\<lparr>is_len := left\<rparr>\<rparr>);
                  rs = sbuf_copy (rs_sbuf rs) (take (unat (x - left)) (drop (unat left) buf))
                         (rs\<lparr>rs_ssgl1 := (rs_ssgl1 rs)\<lparr>is_len := x - left\<rparr>\<rparr>);
                  (ret, rs, w) = rs_write_direct D rs iom p [rs_ssgl0 rs, rs_ssgl1 rs] x False w
              in (ret, rs\<lparr>rs_ssgl0 := (rs_ssgl0 rs)\<lparr>is_addr := rs_sbuf rs + ucast (x - left)\<rparr>\<rparr>, w))"

text \<open>The loop of \<^verbatim>\<open>riowrite\<close>: \<open>cur\<close> is the mapping in use, which is kept up to and including the position behind its end.\<close>

fun direct_turns ::
  "nat \<Rightarrow> 'w rdev \<Rightarrow> u32 \<Rightarrow> bool \<Rightarrow> bytes \<Rightarrow> u64 \<Rightarrow> nat option \<Rightarrow> u32 \<Rightarrow> rsocket \<Rightarrow> 'w \<Rightarrow> (int \<times> bytes \<times> rsocket \<times> 'w) option" where
  "direct_turns 0 D pt nonblock buf p cur olen rs w = None"
| "direct_turns (Suc fuel) D pt nonblock buf p cur olen rs w =
     (if buf = [] then Some (0, buf, rs, w)
      else case (case cur of
                   Some i \<Rightarrow> if iom_offset (rs_tiomap rs i) + ucast (rsge_len (iom_sge (rs_tiomap rs i))) < p
                             then rs_find_iomap rs p else Some i
                 | None \<Rightarrow> rs_find_iomap rs p) of
             None \<Rightarrow> Some (0, buf, rs, w)
           | Some i \<Rightarrow>
               (case await_send fuel D pt nonblock rs w of
                  None \<Rightarrow> None
                | Some (ret, rs, w) \<Rightarrow>
                    if ret \<noteq> 0 then Some (ret, buf, rs, w)
                    else let x = direct_size (length buf) olen (rs_tiomap rs i) p rs;
                             (ret, rs, w) = direct_chunk D (rs_tiomap rs i) p buf x rs w
                         in if ret \<noteq> 0 then Some (ret, buf, rs, w)
                            else direct_turns fuel D pt nonblock (drop (unat x) buf) (p + ucast x) (Some i)
                                   (next_olen (length buf) olen) rs w))"

definition riowrite :: "nat \<Rightarrow> 'w rdev \<Rightarrow> u32 \<Rightarrow> bool \<Rightarrow> bytes \<Rightarrow> u64 \<Rightarrow> rsocket \<Rightarrow> 'w \<Rightarrow> (int \<times> rsocket \<times> 'w) option" where
  "riowrite fuel D pt dontwait buf p rs w =
     (case iomaps_first fuel D pt (rs_nonblock rs \<or> dontwait) rs w of
        None \<Rightarrow> None
      | Some (ret, rs, w) \<Rightarrow>
          if ret \<noteq> 0 then Some (ret, rs, w)
          else map_option (\<lambda>(ret, left, rs, w).
                             (if ret \<noteq> 0 \<and> length left = length buf then ret else int (length buf - length left), rs, w))
                 (direct_turns fuel D pt (rs_nonblock rs \<or> dontwait) buf p None RS_OLAP_START_SIZE rs w))"

section \<open>Sending and receiving\<close>

definition sent_bytes :: "bytes \<Rightarrow> int \<times> bytes \<times> rsocket \<times> 'w \<Rightarrow> int \<times> rsocket \<times> 'w" where
  "sent_bytes buf = (\<lambda>(ret, left, rs, w). (if ret \<noteq> 0 \<and> length left = length buf then ret else int (length buf - length left), rs, w))"

definition rsend ::
  "nat \<Rightarrow> 'w rdev \<Rightarrow> 'w rreg \<Rightarrow> 'w rcm \<Rightarrow> u32 \<Rightarrow> bool \<Rightarrow> bytes \<Rightarrow> rsocket \<Rightarrow> 'w \<Rightarrow> (ub + int \<times> rsocket \<times> 'w) option" where
  "rsend fuel D G C pt dontwait buf rs w =
     (case open_first D G C rs w of
        Inl u \<Rightarrow> Some (Inl u)
      | Inr (ret, rs, w) \<Rightarrow>
          if ret \<noteq> 0 then Some (Inr (ret, rs, w))
          else case iomaps_first fuel D pt (rs_nonblock rs \<or> dontwait) rs w of
                 None \<Rightarrow> None
               | Some (ret, rs, w) \<Rightarrow>
                   if ret \<noteq> 0 then Some (Inr (ret, rs, w))
                   else map_option (\<lambda>res. Inr (sent_bytes buf res))
                          (send_turns fuel D pt (rs_nonblock rs \<or> dontwait) buf RS_OLAP_START_SIZE rs w))"

text \<open>
  The vectored calls: \<open>iov\<close> are the buffers from the current one on, \<open>p\<close> the position in it. Copying past the last buffer, which
  the sum of the lengths excludes, ends the copy here.
\<close>

fun rs_copy_iov :: "nat \<Rightarrow> bytes list \<Rightarrow> nat \<Rightarrow> bytes \<times> bytes list \<times> nat" where
  "rs_copy_iov len [] p = ([], [], p)"
| "rs_copy_iov len (b # iov) p =
     (if len = 0 then ([], b # iov, p)
      else let size = length b - p
           in if len < size then (take len (drop p b), b # iov, p + len)
              else let (bs, iov, q) = rs_copy_iov (len - size) iov 0 in (drop p b @ bs, iov, q))"

definition sendv_chunk ::
  "'w rdev \<Rightarrow> bytes list \<Rightarrow> nat \<Rightarrow> u32 \<Rightarrow> rsocket \<Rightarrow> 'w \<Rightarrow> int \<times> bytes list \<times> nat \<times> rsocket \<times> 'w" where
  "sendv_chunk D iov p x rs w =
     (let left = rs_sbuf_left rs; a = is_addr (rs_ssgl0 rs); inline = x \<le> ucast (rs_sq_inline rs)
      in if x \<le> left
         then let (bs, iov, p) = rs_copy_iov (unat x) iov p;
                  rs = sbuf_copy a bs rs;
                  rs = rs\<lparr>rs_ssgl0 := (rs_ssgl0 rs)\<lparr>is_len := x\<rparr>\<rparr>;
                  (ret, rs, w) = rs_write_data D rs [rs_ssgl0 rs] x inline w;
                  rs = rs\<lparr>rs_ssgl0 := (rs_ssgl0 rs)\<lparr>is_addr := (if x < rs_sbuf_left rs then a + ucast x else rs_sbuf rs)\<rparr>\<rparr>
              in (ret, iov, p, rs, w)
         else let (bs, iov, p) = rs_copy_iov (unat left) iov p;
                  rs = sbuf_copy a bs (rs\<lparr>rs_ssgl0 := (rs_ssgl0 rs)\<lparr>is_len := left\<rparr>\<rparr>);
                  (bs, iov, p) = rs_copy_iov (unat (x - left)) iov p;
                  rs = sbuf_copy (rs_sbuf rs) bs (rs\<lparr>rs_ssgl1 := (rs_ssgl1 rs)\<lparr>is_len := x - left\<rparr>\<rparr>);
                  (ret, rs, w) = rs_write_data D rs [rs_ssgl0 rs, rs_ssgl1 rs] x inline w;
                  rs = rs\<lparr>rs_ssgl0 := (rs_ssgl0 rs)\<lparr>is_addr := rs_sbuf rs + ucast (x - left)\<rparr>\<rparr>
              in (ret, iov, p, rs, w))"

fun sendv_turns ::
  "nat \<Rightarrow> 'w rdev \<Rightarrow> u32 \<Rightarrow> bool \<Rightarrow> bytes list \<Rightarrow> nat \<Rightarrow> nat \<Rightarrow> u32 \<Rightarrow> rsocket \<Rightarrow> 'w \<Rightarrow> (int \<times> nat \<times> rsocket \<times> 'w) option" where
  "sendv_turns 0 D pt nonblock iov p left olen rs w = None"
| "sendv_turns (Suc fuel) D pt nonblock iov p left olen rs w =
     (if left = 0 then Some (0, left, rs, w)
      else case await_send fuel D pt nonblock rs w of
             None \<Rightarrow> None
           | Some (ret, rs, w) \<Rightarrow>
               if ret \<noteq> 0 then Some (ret, left, rs, w)
               else let x = xfer_size left olen rs;
                        (ret, iov, p, rs, w) = sendv_chunk D iov p x rs w
                    in if ret \<noteq> 0 then Some (ret, left, rs, w)
                       else sendv_turns fuel D pt nonblock iov p (left - unat x) (next_olen left olen) rs w)"

definition rsendv ::
  "nat \<Rightarrow> 'w rdev \<Rightarrow> 'w rreg \<Rightarrow> 'w rcm \<Rightarrow> u32 \<Rightarrow> bool \<Rightarrow> bytes list \<Rightarrow> rsocket \<Rightarrow> 'w \<Rightarrow> (ub + int \<times> rsocket \<times> 'w) option" where
  "rsendv fuel D G C pt dontwait iov rs w =
     (case open_first D G C rs w of
        Inl u \<Rightarrow> Some (Inl u)
      | Inr (ret, rs, w) \<Rightarrow>
          if ret \<noteq> 0 then Some (Inr (ret, rs, w))
          else let len = sum_list (map length iov)
               in case iomaps_first fuel D pt (rs_nonblock rs \<or> dontwait) rs w of
                    None \<Rightarrow> None
                  | Some (ret, rs, w) \<Rightarrow>
                      if ret \<noteq> 0 then Some (Inr (ret, rs, w))
                      else map_option (\<lambda>(ret, left, rs, w). Inr (if ret \<noteq> 0 \<and> left = len then ret else int (len - left), rs, w))
                             (sendv_turns fuel D pt (rs_nonblock rs \<or> dontwait) iov 0 len RS_OLAP_START_SIZE rs w))"

definition rrecv ::
  "nat \<Rightarrow> 'w rdev \<Rightarrow> 'w rreg \<Rightarrow> 'w rcm \<Rightarrow> u32 \<Rightarrow> recv_flags \<Rightarrow> nat \<Rightarrow> rsocket \<Rightarrow> 'w \<Rightarrow> (ub + int \<times> bytes \<times> rsocket \<times> 'w) option" where
  "rrecv fuel D G C pt fl len rs w =
     (case open_first D G C rs w of
        Inl u \<Rightarrow> Some (Inl u)
      | Inr (ret, rs, w) \<Rightarrow>
          if ret \<noteq> 0 then Some (Inr (ret, [], rs, w))
          else map_option (\<lambda>(ret, bs, rs, w). Inr (if ret \<noteq> 0 \<and> bs = [] then ret else int (length bs), bs, rs, w))
                 (rrecv_turns fuel D pt (fl\<lparr>rf_dontwait := rs_nonblock rs \<or> rf_dontwait fl\<rparr>) len rs w))"

section \<open>Shutting down and looking for events\<close>

definition rs_set_nonblocking :: "'w rdev \<Rightarrow> bool \<Rightarrow> rsocket \<Rightarrow> 'w \<Rightarrow> int \<times> 'w" where
  "rs_set_nonblocking D arg rs w =
     (let (ret, w) = (if dv_has_cq D w then dv_fcntl_cq D arg w else (0, w))
      in if ret = 0 \<and> rs_state rs < rs_connected then dv_fcntl_cm D arg w else (ret, w))"

definition rfcntl_setfl :: "'w rdev \<Rightarrow> bool \<Rightarrow> rsocket \<Rightarrow> 'w \<Rightarrow> int \<times> rsocket \<times> 'w" where
  "rfcntl_setfl D param rs w =
     (let (ret, w) = (if rs_nonblock rs \<noteq> param then rs_set_nonblocking D param rs w else (0, w))
      in (ret, if ret = 0 then rs\<lparr>rs_nonblock := param\<rparr> else rs, w))"

text \<open>The part of \<^verbatim>\<open>rshutdown\<close> before the label \<^verbatim>\<open>out\<close>, and the whole.\<close>

definition shutdown_connected :: "nat \<Rightarrow> 'w rdev \<Rightarrow> shut \<Rightarrow> rsocket \<Rightarrow> 'w \<Rightarrow> (int \<times> rsocket \<times> 'w) option" where
  "shutdown_connected fuel D how rs w =
     (if \<not> has (rs_state rs) rs_connected then Some (0, rs, w)
      else let (st, ctrl) = shutdown_ctrl how (rs_state rs); rs = rs\<lparr>rs_state := st\<rparr>
           in case ctrl of
                None \<Rightarrow> Some (0, rs, w)
              | Some ctrl \<Rightarrow>
                  (case (if rs_ctrl_avail rs then Some (0, rs, w)
                         else rs_process_cq fuel D False rs_conn_can_send_ctrl rs w) of
                     None \<Rightarrow> None
                   | Some (ret, rs, w) \<Rightarrow>
                       if ret \<noteq> 0 then Some (ret, rs, w)
                       else let (ret, rs, w) = post_ctrl D ctrl rs w
                            in if has (rs_state rs) rs_connected
                               then map_option (\<lambda>(_, rs, w). (ret, rs, w)) (rs_process_cq fuel D False rs_conn_all_sends_done rs w)
                               else Some (ret, rs, w)))"

definition rshutdown :: "nat \<Rightarrow> 'w rdev \<Rightarrow> shut \<Rightarrow> rsocket \<Rightarrow> 'w \<Rightarrow> (int \<times> rsocket \<times> 'w) option" where
  "rshutdown fuel D how rs w =
     (let w = (if has (rs_opts rs) RS_OPT_SVC_ACTIVE then dv_notify_svc D w else w);
          w = (if rs_nonblock rs then snd (rs_set_nonblocking D False rs w) else w)
      in map_option (\<lambda>(ret, rs, w).
           let w = (if rs_nonblock rs \<and> has (rs_state rs) rs_connected then snd (rs_set_nonblocking D True rs w) else w)
           in (ret, rs, if has (rs_state rs) rs_disconnected then dv_shutdown D (dv_req_notify D w) else w))
           (shutdown_connected fuel D how rs w))"

definition POLLIN :: u16 where
  "POLLIN = 1"

definition POLLOUT :: u16 where
  "POLLOUT = 4"

definition POLLERR :: u16 where
  "POLLERR = 8"

definition POLLHUP :: u16 where
  "POLLHUP = 16"

definition stream_revents :: "u16 \<Rightarrow> rsocket \<Rightarrow> u16" where
  "stream_revents events rs =
     (if events AND POLLIN \<noteq> 0 \<and> rs_conn_have_rdata rs then POLLIN else 0) OR
     (if events AND POLLOUT \<noteq> 0 \<and> rs_can_send rs then POLLOUT else 0) OR
     (if has (rs_state rs) rs_connected then 0 else if rs_state rs = rs_disconnected then POLLHUP else POLLERR)"

text \<open>
  \<open>poll_listen\<close> is the result of the system's \<^verbatim>\<open>poll\<close> on the channel of a listening socket. The jump back to
  the first test after connecting is a call with less fuel.
\<close>

fun rs_poll_rs ::
  "nat \<Rightarrow> 'w rdev \<Rightarrow> 'w rreg \<Rightarrow> 'w rcm \<Rightarrow> (u16 \<Rightarrow> 'w \<Rightarrow> u16 \<times> 'w) \<Rightarrow> u16 \<Rightarrow> bool \<Rightarrow> (rsocket \<Rightarrow> bool) \<Rightarrow> rsocket \<Rightarrow> 'w \<Rightarrow>
   (ub + u16 \<times> rsocket \<times> 'w) option" where
  "rs_poll_rs 0 D G C poll_listen events nonblock test rs w = None"
| "rs_poll_rs (Suc fuel) D G C poll_listen events nonblock test rs w =
     (if has (rs_state rs) rs_connected \<or> rs_state rs = rs_disconnected \<or> has (rs_state rs) rs_error
      then map_option (\<lambda>(_, rs, w). Inr (stream_revents events rs, rs, w)) (rs_process_cq fuel D nonblock test rs w)
      else if rs_state rs = rs_listening then let (revents, w) = poll_listen events w in Some (Inr (revents, rs, w))
      else case (if has (rs_state rs) rs_opening
                 then case rs_do_connect D G C rs w of
                        Inl u \<Rightarrow> Inl u
                      | Inr (ret, rs, w) \<Rightarrow>
                          if ret \<noteq> 0 \<and> dv_errno D w = EINPROGRESS then Inr (False, rs, dv_set_errno D 0 w)
                          else Inr (True, rs, w)
                 else Inr (False, rs, w)) of
             Inl u \<Rightarrow> Some (Inl u)
           | Inr (again, rs, w) \<Rightarrow>
               if again then rs_poll_rs fuel D G C poll_listen events nonblock test rs w
               else Some (Inr (if rs_state rs = rs_connect_error then (events AND (POLLOUT OR POLLIN)) OR POLLERR else 0, rs, w)))"

end
