(* ===== verification/FF_Ring.thy ===== *)
theory FF_Ring
  imports FF_Prelude
begin

text \<open>
  Bytes in a circular buffer of \<open>M\<close> places: position \<open>p\<close> of a stream is place \<open>p mod M\<close>. What is put at a window of
  at most \<open>M\<close> positions is what is read there, in at most two parts, and other positions of the window
  keep their bytes.
\<close>

section \<open>Circular buffers\<close>

definition ring_bytes :: "mem \<Rightarrow> nat \<Rightarrow> nat \<Rightarrow> nat \<Rightarrow> bytes" where
  "ring_bytes m M p n = map (\<lambda>j. m ((p + j) mod M)) [0..<n]"

definition ring_put :: "mem \<Rightarrow> nat \<Rightarrow> nat \<Rightarrow> bytes \<Rightarrow> mem" where
  "ring_put m M p bs =
     (let k = M - p mod M
      in if length bs \<le> k then put_bytes m (p mod M) bs
         else put_bytes (put_bytes m (p mod M) (take k bs)) 0 (drop k bs))"

lemma add_mod_ring: "j < M \<Longrightarrow> (p + j) mod M = (if p mod M + j < M then p mod M + j else p mod M + j - (M :: nat))"
proof -
  assume j: "j < M"
  have small: "(q + j) mod M = (if q + j < M then q + j else q + j - M)" if "q < M" for q
    using that j le_mod_geq[of M "q + j"] by auto
  show ?thesis using small[of "p mod M"] j by (simp only: mod_add_left_eq) simp
qed

text \<open>Positions of a window of at most \<open>M\<close> bytes are different places of the ring.\<close>

lemma ring_apart:
  assumes "i < j" "j < i + M"
  shows "i mod M \<noteq> j mod (M :: nat)"
proof
  assume "i mod M = j mod M"
  then have "M dvd j - i" using assms(1) mod_eq_dvd_iff_nat[of i j M] by simp
  then show False using assms by (auto dest: dvd_imp_le)
qed

lemma ring_put_at:
  assumes "j < length bs" "length bs \<le> M"
  shows "ring_put m M p bs ((p + j) mod M) = bs ! j"
proof -
  define q where "q = p mod M"
  have j: "j < M" "q < M" using assms by (auto simp: q_def)
  show ?thesis using assms j
    unfolding add_mod_ring[OF j(1)] ring_put_def Let_def q_def[symmetric] put_bytes_def by auto
qed

lemma ring_put_other:
  assumes "i < p" "p + length bs \<le> i + M"
  shows "ring_put m M p bs (i mod M) = m (i mod M)"
proof (cases "bs = []")
  case True
  then show ?thesis by (simp add: ring_put_def Let_def)
next
  case False
  then have "0 < length bs" by simp
  then have M: "0 < M" using assms by linarith
  have ne: "i mod M \<noteq> (p + j) mod M" if "j < length bs" for j
    using that assms by (intro ring_apart) auto
  define q i' where "q = p mod M" and "i' = i mod M"
  have q: "q < M" "i' < M" using M by (simp_all add: q_def i'_def)
  have at: "length bs \<le> j" if "j < M" "i' = (if q + j < M then q + j else q + j - M)" for j
  proof (rule ccontr)
    assume "\<not> length bs \<le> j"
    then have "i' \<noteq> (p + j) mod M" using ne[of j] unfolding i'_def by simp
    then show False using that(2) unfolding add_mod_ring[OF that(1)] q_def by contradiction
  qed
  have "i' < q \<Longrightarrow> length bs \<le> M - q + i'" "q \<le> i' \<Longrightarrow> length bs \<le> i' - q"
    using q by (auto intro!: at)
  then show ?thesis using q unfolding ring_put_def Let_def q_def[symmetric] i'_def[symmetric]
    by (cases "i' < q") (auto simp: put_bytes_def)
qed

lemma ring_put_beyond: "M \<le> i \<Longrightarrow> 0 < M \<Longrightarrow> length bs \<le> M \<Longrightarrow> ring_put m M p bs i = m i"
proof -
  assume a: "M \<le> i" "0 < M" "length bs \<le> M"
  define q where "q = p mod M"
  have "q < M" using a by (simp add: q_def)
  then show ?thesis using a unfolding ring_put_def Let_def q_def[symmetric] by (auto simp: put_bytes_outside)
qed

lemma ring_bytes_nth [simp]: "j < n \<Longrightarrow> ring_bytes m M p n ! j = m ((p + j) mod M)"
  by (simp add: ring_bytes_def)

lemma length_ring_bytes [simp]: "length (ring_bytes m M p n) = n"
  by (simp add: ring_bytes_def)

lemma ring_bytes_mod: "ring_bytes m M (p mod M) n = ring_bytes m M p n"
  by (simp add: ring_bytes_def mod_add_left_eq)

lemma ring_bytes_straight: "p mod M + n \<le> M \<Longrightarrow> ring_bytes m M p n = get_bytes m (p mod M) n"
proof (intro nth_equalityI)
  fix j
  assume "p mod M + n \<le> M" "j < length (ring_bytes m M p n)"
  then show "ring_bytes m M p n ! j = get_bytes m (p mod M) n ! j" by (simp add: add_mod_ring)
qed simp

lemma ring_bytes_split:
  assumes "M - p mod M \<le> n" "n \<le> M" "0 < M"
  shows "ring_bytes m M p n = get_bytes m (p mod M) (M - p mod M) @ get_bytes m 0 (n - (M - p mod M))"
proof -
  define q where "q = p mod M"
  have q: "q < M" using assms by (simp add: q_def)
  show ?thesis unfolding q_def[symmetric]
  proof (intro nth_equalityI)
    fix j
    assume "j < length (ring_bytes m M p n)"
    then have j: "j < n" "j < M" using assms by simp_all
    show "ring_bytes m M p n ! j = (get_bytes m q (M - q) @ get_bytes m 0 (n - (M - q))) ! j"
      using j q assms add_mod_ring[OF j(2), of p, folded q_def] by (auto simp: nth_append add.commute[of j q])
  qed (use q assms in \<open>auto simp: q_def\<close>)
qed

end
