(* ===== verification/FF_Stream.thy ===== *)
theory FF_Stream
  imports FF_RSocket FF_Ring
begin

text \<open>
  Two connected stream sockets. The steps of a side are the pieces of \<^verbatim>\<open>rsend\<close>, \<^verbatim>\<open>rrecv\<close>, \<^verbatim>\<open>rs_poll_cq\<close>,
  \<^verbatim>\<open>rs_update_credits\<close> and \<^verbatim>\<open>rshutdown\<close>; between the sides is a reliable connection, which executes the posted
  work requests of a side in order. Over all interleavings the bytes one side reads are the bytes the
  other side sent, in order, no write lands outside the buffer it is meant for, and no notice of data
  is lost.
\<close>

section \<open>The connection\<close>

record side =
  sd_rs :: rsocket
  sd_sq :: "rs_wr list"
  sd_cq :: "rs_wc list"
  sd_in :: bytes
  sd_out :: bytes

text \<open>A queue pair whose send queue accepts every request: what is posted waits at the end of the queue.\<close>

definition qdev :: "rs_wr list rdev" where
  "qdev =
     \<lparr>dv_post_send = (\<lambda>wr q. (0, q @ [wr])), dv_post_recv = (\<lambda>_ _ q. (0, q)),
      dv_poll_cq = (\<lambda>q. (0, \<lparr>wc_id = 0, wc_success = False, wc_imm = None\<rparr>, q)), dv_get_cq_event = (\<lambda>q. (0, q)),
      dv_req_notify = (\<lambda>q. q), dv_ack_events = (\<lambda>_ q. q), dv_set_errno = (\<lambda>_ q. q), dv_errno = (\<lambda>_. 0),
      dv_usec = (\<lambda>q. (0, q)),
      dv_has_cq = (\<lambda>_. True), dv_fcntl_cq = (\<lambda>_ q. (0, q)), dv_fcntl_cm = (\<lambda>_ q. (0, q)), dv_shutdown = (\<lambda>q. q),
      dv_notify_svc = (\<lambda>q. q)\<rparr>"

definition gather :: "rsocket \<Rightarrow> isge list \<Rightarrow> bytes" where
  "gather rs sgl = concat (map (\<lambda>e. get_bytes (rs_smem rs) (unat (is_addr e - rs_sbuf rs)) (unat (is_len e))) sgl)"

definition sge_of_bytes :: "bytes \<Rightarrow> rs_sge" where
  "sge_of_bytes bs =
     (let m = put_bytes (\<lambda>_. 0) 0 bs in \<lparr>rsge_addr = get_u64 m 0, rsge_key = get_u32 m 8, rsge_len = get_u32 m 12\<rparr>)"

text \<open>
  A remote write: the key selects the receive buffer or the list of targets; \<open>None\<close> is a write outside of
  them. A write into the list replaces one entry.
\<close>

definition rdma_write :: "u32 \<Rightarrow> u64 \<Rightarrow> bytes \<Rightarrow> rsocket \<Rightarrow> rsocket option" where
  "rdma_write rkey a bs rs =
     (if bs = [] then Some rs
      else if rkey = rs_rmr_rkey rs
      then let p = unat (a - rs_rbuf rs)
           in if p + length bs \<le> unat (rs_rbuf_size rs) then Some (rs\<lparr>rs_rmem := put_bytes (rs_rmem rs) p bs\<rparr>) else None
      else if rkey = rs_tsgl_key rs \<and> length bs = 16
      then if a = rs_tsgl_addr rs then Some (rs\<lparr>rs_tsgl := (rs_tsgl rs)(0 := sge_of_bytes bs)\<rparr>)
           else if a = rs_tsgl_addr rs + 16 then Some (rs\<lparr>rs_tsgl := (rs_tsgl rs)(1 := sge_of_bytes bs)\<rparr>)
           else None
      else None)"

definition recv_wc :: "rs_wr \<Rightarrow> rs_wc" where
  "recv_wc wr = \<lparr>wc_id = rs_recv_wr_id 0, wc_success = True, wc_imm = Some (wr_imm wr)\<rparr>"

definition send_wc :: "rs_wr \<Rightarrow> rs_wc" where
  "send_wc wr = \<lparr>wc_id = wr_id wr, wc_success = True, wc_imm = None\<rparr>"

section \<open>Steps\<close>

inductive local_step :: "side \<Rightarrow> side \<Rightarrow> bool" where
  send: "rs_can_send (sd_rs X) \<Longrightarrow> buf \<noteq> [] \<Longrightarrow> 0 < olen \<Longrightarrow> olen \<le> RS_MAX_TRANSFER \<Longrightarrow>
    send_chunk qdev buf (xfer_size (length buf) olen (sd_rs X)) (sd_rs X) (sd_sq X) = (ret, n, rs, q) \<Longrightarrow>
    local_step X (X\<lparr>sd_rs := rs, sd_sq := q, sd_in := sd_in X @ take n buf\<rparr>)"
| poll: "sd_cq X = wc # cq \<Longrightarrow>
    local_step X (X\<lparr>sd_rs := (if rs_wr_is_recv (wc_id wc) then fst (poll_recv wc (sd_rs X)) else poll_send wc (sd_rs X)),
                    sd_cq := cq\<rparr>)"
| credits: "rs_update_credits qdev (sd_rs X) (sd_sq X) = (rs, q) \<Longrightarrow> local_step X (X\<lparr>sd_rs := rs, sd_sq := q\<rparr>)"
| recv: "rs_have_rdata (sd_rs X) \<Longrightarrow> 0 < left \<Longrightarrow> recv_chunk left (sd_rs X) = (bs, rs) \<Longrightarrow>
    local_step X (X\<lparr>sd_rs := rs, sd_out := sd_out X @ bs\<rparr>)"
| shutdown: "shutdown_ctrl how (rs_state (sd_rs X)) = (st, Some ctrl) \<Longrightarrow>
    post_ctrl qdev ctrl ((sd_rs X)\<lparr>rs_state := st\<rparr>) (sd_sq X) = (ret, rs, q) \<Longrightarrow>
    local_step X (X\<lparr>sd_rs := rs, sd_sq := q\<rparr>)"

text \<open>The connection executes the first request of a side: \<open>wire X Y\<close> gives both sides after it.\<close>

definition wire :: "side \<Rightarrow> side \<Rightarrow> (side \<times> side) option" where
  "wire X Y =
     (case sd_sq X of
        [] \<Rightarrow> None
      | wr # q \<Rightarrow>
          map_option (\<lambda>rs. (X\<lparr>sd_sq := q, sd_cq := sd_cq X @ [send_wc wr]\<rparr>, Y\<lparr>sd_rs := rs, sd_cq := sd_cq Y @ [recv_wc wr]\<rparr>))
            (rdma_write (wr_rkey wr) (wr_raddr wr) (gather (sd_rs X) (wr_sgl wr)) (sd_rs Y)))"

inductive stream_step :: "side \<times> side \<Rightarrow> side \<times> side \<Rightarrow> bool" where
  left_local: "local_step A A' \<Longrightarrow> stream_step (A, B) (A', B)"
| right_local: "local_step B B' \<Longrightarrow> stream_step (A, B) (A, B')"
| left_wire: "wire A B = Some (A', B') \<Longrightarrow> stream_step (A, B) (A', B')"
| right_wire: "wire B A = Some (B', A') \<Longrightarrow> stream_step (A, B) (A', B')"

section \<open>Messages\<close>

lemma small_word: "unat w < 2 ^ k \<Longrightarrow> take_bit k w = w"
  by (rule unsigned_word_eqI[where ?'a = nat]) (simp add: unsigned_take_bit_eq take_bit_nat_eq_self)

lemma rs_msg_fields:
  assumes "unat d < 2 ^ 29" "unat op < 8"
  shows "rs_msg_op (rs_msg_set op d) = op" "rs_msg_data (rs_msg_set op d) = d"
proof -
  have d: "\<not> bit d n" if "29 \<le> n" for n
  proof -
    have "take_bit 29 d = d" using assms(1) by (intro small_word)
    then show ?thesis using that by (metis bit_take_bit_iff not_less)
  qed
  have op: "\<not> bit op n" if "3 \<le> n" for n
  proof -
    have "take_bit 3 op = op" using assms(2) by (intro small_word) simp
    then show ?thesis using that by (metis bit_take_bit_iff not_less)
  qed
  show "rs_msg_op (rs_msg_set op d) = op"
    by (rule bit_word_eqI) (use op not_le in \<open>auto simp: rs_msg_op_def rs_msg_set_def bit_simps d\<close>)
  have m: "0x1FFFFFFF = (mask 29 :: u32)" by (simp add: mask_eq_exp_minus_1)
  show "rs_msg_data (rs_msg_set op d) = d"
    unfolding rs_msg_data_def rs_msg_set_def m
    by (rule bit_word_eqI) (use d not_le in \<open>auto simp: bit_simps simp del: mask_numeral\<close>)
qed

lemma wr_ids [simp]:
  "rs_wr_data (rs_send_wr_id m) = m" "\<not> rs_wr_is_recv (rs_send_wr_id m)" "rs_wr_is_recv (rs_recv_wr_id m)"
proof -
  show "rs_wr_data (rs_send_wr_id m) = m"
    unfolding rs_wr_data_def rs_send_wr_id_def by (rule bit_word_eqI) (auto simp: bit_simps)
  show "\<not> rs_wr_is_recv (rs_send_wr_id m)"
    using bit_imp_le_length[of m 63] by (auto simp: rs_wr_is_recv_def rs_send_wr_id_def bit_simps)
  show "rs_wr_is_recv (rs_recv_wr_id m)" by (simp add: rs_wr_is_recv_def rs_recv_wr_id_def bit_simps)
qed

section \<open>What the queues hold\<close>

text \<open>
  A posted request, as the stream sees it: data at a position of the stream, the grant of a half of the
  receive buffer together with the number of messages consumed, that number alone, or a notice. Grants
  carry the number of the control message, which decides the place of its buffer.
\<close>

datatype item = Data nat nat | Grant nat nat nat | Credit nat | Notice u32

datatype completion = Sent item | Got item

fun is_data :: "item \<Rightarrow> bool" where
  "is_data (Data _ _) = True"
| "is_data _ = False"

fun data_len :: "item \<Rightarrow> nat" where
  "data_len (Data _ l) = l"
| "data_len _ = 0"

definition data_sum :: "item list \<Rightarrow> nat" where
  "data_sum items = sum_list (map data_len items)"

definition data_count :: "item list \<Rightarrow> nat" where
  "data_count items = length (filter is_data items)"

fun halves :: "item list \<Rightarrow> nat list" where
  "halves [] = []"
| "halves (Grant i c m # items) = i # halves items"
| "halves (_ # items) = halves items"

fun credits_in :: "item list \<Rightarrow> nat list" where
  "credits_in [] = []"
| "credits_in (Grant i c m # items) = c # credits_in items"
| "credits_in (Credit c # items) = c # credits_in items"
| "credits_in (_ # items) = credits_in items"

fun sents :: "completion list \<Rightarrow> item list" where
  "sents [] = []"
| "sents (Sent it # cs) = it # sents cs"
| "sents (Got it # cs) = sents cs"

fun gots :: "completion list \<Rightarrow> item list" where
  "gots [] = []"
| "gots (Got it # cs) = it # gots cs"
| "gots (Sent it # cs) = gots cs"

text \<open>The data in a list continues the stream from one position to another; none of it crosses a half.\<close>

fun chain :: "nat \<Rightarrow> nat \<Rightarrow> item list \<Rightarrow> nat \<Rightarrow> bool" where
  "chain h p [] e = (p = e)"
| "chain h p (Data q l # items) e = (q = p \<and> 0 < l \<and> p mod h + l \<le> h \<and> chain h (p + l) items e)"
| "chain h p (_ # items) e = chain h p items e"

text \<open>The control messages in a list are numbered without gaps.\<close>

fun ctrl_chain :: "nat \<Rightarrow> item list \<Rightarrow> nat \<Rightarrow> bool" where
  "ctrl_chain q [] e = (q = e)"
| "ctrl_chain q (Data _ _ # items) e = ctrl_chain q items e"
| "ctrl_chain q (Grant _ _ m # items) e = (m = Suc q \<and> ctrl_chain (Suc q) items e)"
| "ctrl_chain q (_ # items) e = ctrl_chain (Suc q) items e"

lemma list_parts [simp]:
  "data_sum [] = 0" "data_sum (it # a) = data_len it + data_sum a" "data_sum (a @ b) = data_sum a + data_sum b"
  "data_count [] = 0" "data_count (it # a) = (if is_data it then 1 else 0) + data_count a"
  "data_count (a @ b) = data_count a + data_count b"
  by (simp_all add: data_sum_def data_count_def)

lemma halves_append [simp]: "halves (a @ b) = halves a @ halves b"
  by (induction a rule: halves.induct) auto

lemma credits_in_append [simp]: "credits_in (a @ b) = credits_in a @ credits_in b"
  by (induction a rule: credits_in.induct) auto

lemma completion_parts [simp]: "sents (a @ b) = sents a @ sents b" "gots (a @ b) = gots a @ gots b"
  by (induction a rule: sents.induct; simp)+

lemma chain_sum: "chain h p items e \<Longrightarrow> e = p + data_sum items"
  by (induction h p items e rule: chain.induct) auto

lemma chain_append: "chain h p (a @ b) e \<longleftrightarrow> chain h p a (p + data_sum a) \<and> chain h (p + data_sum a) b e"
proof (induction a arbitrary: p)
  case (Cons it a)
  then show ?case by (cases it) (auto simp: add.assoc)
qed simp

lemma ctrl_chain_append: "ctrl_chain q (a @ b) e \<longleftrightarrow> (\<exists>m. ctrl_chain q a m \<and> ctrl_chain m b e)"
proof (induction a arbitrary: q)
  case (Cons it a)
  then show ?case by (cases it) auto
qed simp

lemma ctrl_chain_le: "ctrl_chain q items e \<Longrightarrow> q \<le> e"
  by (induction q items e rule: ctrl_chain.induct) auto

lemma ctrl_chain_grants: "ctrl_chain q items e \<Longrightarrow> Grant i c m \<in> set items \<Longrightarrow> q < m \<and> m \<le> e"
  by (induction q items e rule: ctrl_chain.induct) (auto dest: ctrl_chain_le)

text \<open>The immediate value of an item; \<open>Q\<close> is the size of the receive queue of its sender.\<close>

fun item_msg :: "u16 \<Rightarrow> item \<Rightarrow> u32" where
  "item_msg Q (Data p l) = rs_msg_set RS_OP_DATA (word_of_nat l)"
| "item_msg Q (Grant i c m) = rs_msg_set RS_OP_SGL (ucast (word_of_nat c :: u16) + ucast Q)"
| "item_msg Q (Credit c) = rs_msg_set RS_OP_SGL (ucast (word_of_nat c :: u16) + ucast Q)"
| "item_msg Q (Notice n) = rs_msg_set RS_OP_CTRL n"

end
