(* ===== verification/FF_StreamParts.thy ===== *)
theory FF_StreamParts
  imports FF_Stream
begin

text \<open>
  The parts of the invariant of a stream, each a predicate over the few fields it is about, and how the steps change
  them: the order of the bytes, the numbers of messages, the halves of the receive buffer, the send buffer, the
  receive buffer, the ring of messages and the control buffers.
\<close>

section \<open>The order of the bytes\<close>

text \<open>What was read is a prefix of what was sent; the ring \<open>R\<close> and then the items hold the rest.\<close>

definition flow :: "nat \<Rightarrow> bytes \<Rightarrow> bytes \<Rightarrow> nat list \<Rightarrow> item list \<Rightarrow> bool" where
  "flow h S out R items = (out = take (length out) S \<and> 0 \<notin> set R \<and> chain h (length out + sum_list R) items (length S))"

lemma flow_sum: "flow h S out R items \<Longrightarrow> length S = length out + sum_list R + data_sum items"
  by (auto simp: flow_def dest: chain_sum)

lemma chain_other: "\<not> is_data it \<Longrightarrow> chain h p (it # items) e = chain h p items e"
  by (cases it) auto

lemma flow_other [simp]:
  "\<not> is_data it \<Longrightarrow> flow h S out R (a @ it # b) = flow h S out R (a @ b)"
  "\<not> is_data it \<Longrightarrow> flow h S out R (it # b) = flow h S out R b"
  by (simp_all add: flow_def chain_append chain_other)

lemma flow_send:
  assumes "flow h S out R items" "0 < length bs" "length S mod h + length bs \<le> h"
  shows "flow h (S @ bs) out R (items @ [Data (length S) (length bs)])"
proof -
  have "length out \<le> length S" using flow_sum[OF assms(1)] by simp
  moreover have "length S = length out + sum_list R + data_sum items" by (rule flow_sum[OF assms(1)])
  ultimately show ?thesis using assms by (auto simp: flow_def chain_append)
qed

lemma flow_got: "flow h S out R (Data p l # items) \<Longrightarrow> flow h S out (R @ [l]) items"
  by (simp add: flow_def add.assoc)

lemma flow_read:
  assumes "flow h S out (l # R) items" "0 < x" "x \<le> l"
  shows "flow h S (out @ take x (drop (length out) S)) (if x < l then (l - x) # R else R) items"
proof -
  have "length out + l \<le> length S" using flow_sum[OF assms(1)] by simp
  then have x: "length (take x (drop (length out) S)) = x" using assms by simp
  have "out @ take x (drop (length out) S) = take (length out + x) S"
    using assms(1) by (simp add: flow_def take_add)
  then show ?thesis using assms x by (auto simp: flow_def algebra_simps)
qed

section \<open>The numbers of messages\<close>

text \<open>
  \<open>n\<close> messages were sent, \<open>c\<close> consumed; the sender knows a credit of \<open>k\<close>, further ones are under way. The sequence numbers
  of the code are these numbers modulo \<open>2 ^ 16\<close>.
\<close>

definition credit_ok ::
  "nat \<Rightarrow> u16 \<Rightarrow> u16 \<Rightarrow> u16 \<Rightarrow> u16 \<Rightarrow> nat \<Rightarrow> nat list \<Rightarrow> bool" where
  "credit_ok Q sseq_no sseq_comp rseq_no rseq_comp flying cs =
     (\<exists>n c k. sseq_no = word_of_nat n \<and> rseq_no = word_of_nat c \<and> sseq_comp = word_of_nat (k + Q) \<and>
              rseq_comp = word_of_nat (last (k # cs) + Q div 2) \<and> n = c + flying \<and> n \<le> k + Q \<and> sorted (k # cs @ [c]))"

lemma credit_ok_bound: "credit_ok Q sn sc rn rc flying cs \<Longrightarrow> flying \<le> Q"
  by (auto simp: credit_ok_def)

lemma credit_ok_send:
  assumes "credit_ok Q sn sc rn rc flying cs" "sn \<noteq> sc"
  shows "credit_ok Q (sn + 1) sc rn rc (flying + 1) cs"
proof -
  from assms obtain n c k where w: "sn = word_of_nat n" "rn = word_of_nat c" "sc = word_of_nat (k + Q)"
      "rc = word_of_nat (last (k # cs) + Q div 2)" "n = c + flying" "n \<le> k + Q" "sorted (k # cs @ [c])"
    unfolding credit_ok_def by blast
  have "n \<noteq> k + Q"
  proof
    assume "n = k + Q"
    then show False using w(1,3) assms(2) by simp
  qed
  then show ?thesis unfolding credit_ok_def
    using w by (intro exI[of _ "n + 1"] exI[of _ c] exI[of _ k]) (simp add: add.commute)
qed

lemma credit_ok_known: "credit_ok Q sn sc rn rc flying (c' # cs) \<Longrightarrow> credit_ok Q sn (word_of_nat (c' + Q)) rn rc flying cs"
  unfolding credit_ok_def by (elim exE conjE) (rule_tac x = n in exI, rule_tac x = c in exI, rule_tac x = c' in exI, auto)

lemma credit_ok_consume:
  assumes "credit_ok Q sn sc rn rc (flying + 1) cs"
  shows "credit_ok Q sn sc (rn + 1) rc flying cs"
proof -
  from assms obtain n c k where w: "sn = word_of_nat n" "rn = word_of_nat c" "sc = word_of_nat (k + Q)"
      "rc = word_of_nat (last (k # cs) + Q div 2)" "n = c + (flying + 1)" "n \<le> k + Q" "sorted (k # cs @ [c])"
    unfolding credit_ok_def by blast
  then show ?thesis unfolding credit_ok_def
    by (intro exI[of _ n] exI[of _ "c + 1"] exI[of _ k]) (auto simp: add.commute sorted_append)
qed

lemma credit_ok_grant:
  assumes "credit_ok Q sn sc rn rc flying cs"
  obtains c where "rn = word_of_nat c" "credit_ok Q sn sc rn (rn + word_of_nat (Q div 2)) flying (cs @ [c])"
proof -
  from assms obtain n c k where w: "sn = word_of_nat n" "rn = word_of_nat c" "sc = word_of_nat (k + Q)"
      "rc = word_of_nat (last (k # cs) + Q div 2)" "n = c + flying" "n \<le> k + Q" "sorted (k # cs @ [c])"
    unfolding credit_ok_def by blast
  have "sorted (k # (cs @ [c]) @ [c])" using w(7) by (auto simp: sorted_append)
  then have "credit_ok Q sn sc rn (rn + word_of_nat (Q div 2)) flying (cs @ [c])" unfolding credit_ok_def
    using w by (intro exI[of _ n] exI[of _ c] exI[of _ k]) simp
  then show ?thesis using that w by blast
qed

section \<open>The halves of the receive buffer\<close>

text \<open>
  The list of targets of a sender that has sent \<open>s\<close> bytes and received the grants of the halves below \<open>d\<close>: the entry of the
  current half has what is left of it, the other one a whole half or nothing.
\<close>

definition slots :: "(nat \<Rightarrow> rs_sge) \<Rightarrow> nat \<Rightarrow> u64 \<Rightarrow> u32 \<Rightarrow> nat \<Rightarrow> nat \<Rightarrow> nat \<Rightarrow> bool" where
  "slots tsgl t base key h s d =
     (t = s div h mod 2 \<and> s \<le> d * h \<and>
      (if s div h < d
       then tsgl t = \<lparr>rsge_addr = base + word_of_nat (s mod (2 * h)), rsge_key = key, rsge_len = word_of_nat (h - s mod h)\<rparr>
       else rsge_len (tsgl t) = 0) \<and>
      (if s div h + 1 < d
       then tsgl (1 - t) = \<lparr>rsge_addr = base + word_of_nat ((1 - t) * h), rsge_key = key, rsge_len = word_of_nat h\<rparr>
       else rsge_len (tsgl (1 - t)) = 0))"

lemma slotsI:
  assumes "t = s div h mod 2" "s \<le> d * h"
    "s div h < d \<Longrightarrow>
     tsgl t = \<lparr>rsge_addr = base + word_of_nat (s mod (2 * h)), rsge_key = key, rsge_len = word_of_nat (h - s mod h)\<rparr>"
    "d \<le> s div h \<Longrightarrow> rsge_len (tsgl t) = 0"
    "s div h + 1 < d \<Longrightarrow> tsgl (1 - t) = \<lparr>rsge_addr = base + word_of_nat ((1 - t) * h), rsge_key = key, rsge_len = word_of_nat h\<rparr>"
    "d \<le> s div h + 1 \<Longrightarrow> rsge_len (tsgl (1 - t)) = 0"
  shows "slots tsgl t base key h s d"
  using assms unfolding slots_def by (metis not_le)

lemma slotsD:
  assumes "slots tsgl t base key h s d"
  shows "t = s div h mod 2" "s \<le> d * h"
    "s div h < d \<Longrightarrow>
     tsgl t = \<lparr>rsge_addr = base + word_of_nat (s mod (2 * h)), rsge_key = key, rsge_len = word_of_nat (h - s mod h)\<rparr>"
    "d \<le> s div h \<Longrightarrow> rsge_len (tsgl t) = 0"
    "s div h + 1 < d \<Longrightarrow> tsgl (1 - t) = \<lparr>rsge_addr = base + word_of_nat ((1 - t) * h), rsge_key = key, rsge_len = word_of_nat h\<rparr>"
    "d \<le> s div h + 1 \<Longrightarrow> rsge_len (tsgl (1 - t)) = 0"
  using assms unfolding slots_def by (metis not_le)+

lemma half_place: "0 < h \<Longrightarrow> s mod (2 * h) = s div h mod 2 * h + s mod (h :: nat)"
  by (metis add.commute mod_mult2_eq mult.commute)

lemma slots_grant:
  assumes "slots tsgl t base key h s d" "d < s div h + 2" "0 < h"
  shows "slots (tsgl(d mod 2 := \<lparr>rsge_addr = base + word_of_nat (d mod 2 * h), rsge_key = key, rsge_len = word_of_nat h\<rparr>))
           t base key h s (d + 1)"
proof -
  have t: "t = s div h mod 2" "s \<le> d * h" using assms by (simp_all add: slots_def)
  have t1: "1 - t \<noteq> t" using t(1) by (cases "s div h mod 2 = 0") auto
  have "s div h \<le> d" using div_le_mono[OF t(2), of h] assms(3) by simp
  then consider "d = s div h" | "d = s div h + 1" using assms(2) by linarith
  then show ?thesis
  proof cases
    case 1
    then have "s = s div h * h" using t(2) by (metis div_times_less_eq_dividend le_antisym)
    then have m: "s mod h = 0" by (metis mod_mult_self2_is_0)
    moreover have "s mod (2 * h) = t * h" using half_place[OF assms(3), of s] m t(1) by simp
    ultimately show ?thesis using assms 1 t t1 by (auto simp: slots_def)
  next
    case 2
    have "d mod 2 = 1 - t" using 2 t(1) by (auto simp: mod_Suc)
    then show ?thesis using assms 2 t t1 by (auto simp: slots_def)
  qed
qed

text \<open>The entry after a write of \<open>x\<close> bytes, and the index, which moves on where nothing is left.\<close>

definition advance :: "(nat \<Rightarrow> rs_sge) \<Rightarrow> nat \<Rightarrow> u32 \<Rightarrow> (nat \<Rightarrow> rs_sge)" where
  "advance tsgl t x = tsgl(t := (tsgl t)\<lparr>rsge_addr := rsge_addr (tsgl t) + ucast x, rsge_len := rsge_len (tsgl t) - x\<rparr>)"

definition advance_index :: "(nat \<Rightarrow> rs_sge) \<Rightarrow> nat \<Rightarrow> nat" where
  "advance_index tsgl t = (if rsge_len (tsgl t) = 0 then (if t + 1 = RS_SGL_SIZE then 0 else t + 1) else t)"

lemma ucast_of_nat: "n < 2 ^ LENGTH('a) \<Longrightarrow> ucast (word_of_nat n :: 'a :: len word) = word_of_nat n"
  by (rule unsigned_word_eqI[where ?'a = nat]) (simp add: unsigned_ucast_eq unsigned_of_nat take_bit_nat_eq_self)

lemma word_of_nat_diff: "m \<le> n \<Longrightarrow> (word_of_nat (n - m) :: 'a :: len word) = word_of_nat n - word_of_nat m"
  by (simp add: of_nat_diff)

lemma word_of_nat_0: "n < 2 ^ LENGTH('a) \<Longrightarrow> ((word_of_nat n :: 'a :: len word) = 0) = (n = 0)"
  by (simp add: word_of_nat_eq_0_iff dvd_imp_le) (metis dvd_0_right dvd_imp_le not_gr0 not_less)

lemma add_in_half:
  assumes "s mod h + x < (h :: nat)"
  shows "(s + x) div h = s div h" "(s + x) mod h = s mod h + x"
proof -
  note s = mult_div_mod_eq[of h s]
  have "h * (s div h) \<le> s + x" "s + x < h * (s div h) + h" using s assms by linarith+
  then show d: "(s + x) div h = s div h" by (intro div_nat_eqI) (simp_all only: mult_Suc_right add.commute)
  show "(s + x) mod h = s mod h + x" using mult_div_mod_eq[of h "s + x"] s unfolding d by linarith
qed

lemma below_next_half: "s mod h + x \<le> (h :: nat) \<Longrightarrow> s div h < d \<Longrightarrow> s + x \<le> d * h"
proof -
  assume a: "s mod h + x \<le> h" "s div h < d"
  have "Suc (s div h) * h \<le> d * h" using a(2) by (intro mult_le_mono1) simp
  then show ?thesis using a(1) div_mult_mod_eq[of s h] unfolding mult_Suc by linarith
qed

lemma slots_send:
  assumes "slots tsgl t base key h s d" "s div h < d" "d \<le> s div h + 2" "0 < x" "x \<le> h - s mod h" "h < 2 ^ 31"
  shows "slots (advance tsgl t (word_of_nat x)) (advance_index (advance tsgl t (word_of_nat x)) t) base key h (s + x) d"
proof -
  have h: "0 < h" using assms by (cases h) auto
  note t = slotsD(1,2)[OF assms(1)] and cur = slotsD(3)[OF assms(1,2)]
  have t1: "1 - t \<noteq> t" "t < 2" using t(1) by (cases "s div h mod 2 = 0"; simp)+
  have ux: "ucast (word_of_nat x :: u32) = (word_of_nat x :: u64)" using assms by (intro ucast_of_nat) simp
  have len: "rsge_len (advance tsgl t (word_of_nat x) t) = word_of_nat (h - s mod h - x)"
    unfolding word_of_nat_diff[OF assms(5)] by (simp add: advance_def cur)
  have sx: "s + x = s div h * h + (s mod h + x)" by simp
  show ?thesis
  proof (cases "x = h - s mod h")
    case True
    then have e: "s + x = (s div h + 1) * h" using sx h by (simp add: mod_less_divisor less_imp_le)
    then have d1: "(s + x) div h = s div h + 1" "(s + x) mod h = 0" using h by simp_all
    have i: "advance_index (advance tsgl t (word_of_nat x)) t = 1 - t"
      using len True t1 by (auto simp: advance_index_def RS_SGL_SIZE_def)
    have m: "(s div h + 1) mod 2 = 1 - t" using t(1) by (auto simp: mod_Suc)
    have "s + x \<le> d * h" using assms(2) e by (metis Suc_eq_plus1 Suc_leI mult_le_mono1)
    moreover have "(s + x) mod (2 * h) = (1 - t) * h" using half_place[OF h, of "s + x"] d1 m by simp
    moreover have "1 - (1 - t) = t" "advance tsgl t (word_of_nat x) (1 - t) = tsgl (1 - t)"
      using t1 by (simp_all add: advance_def)
    ultimately show ?thesis unfolding i
      using slotsD(5,6)[OF assms(1)] assms(3) len True m d1 by (intro slotsI) (simp_all del: of_nat_mult)
  next
    case False
    then have lt: "s mod h + x < h" using assms(5) by linarith
    note d1 = add_in_half[OF this]
    have "h - s mod h - x < 2 ^ 32" "h - s mod h - x \<noteq> 0" using assms(6) lt by simp_all
    then have "rsge_len (advance tsgl t (word_of_nat x) t) \<noteq> 0" 
      using word_of_nat_0[of "h - s mod h - x", where ?'a = 32] unfolding len by simp
    then have i: "advance_index (advance tsgl t (word_of_nat x)) t = t" by (simp add: advance_index_def)
    have m: "(s + x) mod (2 * h) = s mod (2 * h) + x" using half_place[OF h, of "s + x"] half_place[OF h, of s] d1 by simp
    have "s + x \<le> d * h" using lt assms(2) by (intro below_next_half) simp_all
    moreover have "advance tsgl t (word_of_nat x) (1 - t) = tsgl (1 - t)" using t1 by (simp add: advance_def)
    moreover have "advance tsgl t (word_of_nat x) t =
        \<lparr>rsge_addr = base + word_of_nat ((s + x) mod (2 * h)), rsge_key = key, rsge_len = word_of_nat (h - (s + x) mod h)\<rparr>"
      using len unfolding m d1 by (simp add: advance_def cur ux)
    ultimately show ?thesis unfolding i
      using slotsD(5,6)[OF assms(1)] assms(2) t(1) by (intro slotsI) (simp_all add: d1)
  qed
qed

text \<open>
  The receiver has granted the halves below \<open>g\<close>; the sender has those below \<open>d\<close>, the others are on the way. A half is granted
  again only when the bytes of its last use have been read.
\<close>

definition grants_ok ::
  "nat \<Rightarrow> nat \<Rightarrow> nat \<Rightarrow> nat list \<Rightarrow> nat \<Rightarrow> int \<Rightarrow> int \<Rightarrow> (nat \<Rightarrow> rs_sge) \<Rightarrow> nat \<Rightarrow> u64 \<Rightarrow> u32 \<Rightarrow> bool" where
  "grants_ok h r s hs remote_sge free avail tsgl t base key =
     (\<exists>g d. hs = [d..<g] \<and> d \<le> g \<and> g * h \<le> r + 2 * h \<and> remote_sge = g mod 2 \<and> free = int (g mod 2 * h) \<and>
            avail = int (r + 2 * h) - int (g * h) \<and> slots tsgl t base key h s d)"

lemma grants_okE:
  assumes "grants_ok h r s hs remote_sge free avail tsgl t base key" "r \<le> s" "0 < h"
  obtains g d where "hs = [d..<g]" "d \<le> g" "g * h \<le> r + 2 * h" "remote_sge = g mod 2" "free = int (g mod 2 * h)"
    "avail = int (r + 2 * h) - int (g * h)" "slots tsgl t base key h s d" "g \<le> s div h + 2" "s \<le> g * h"
proof -
  from assms(1) obtain g d where g: "hs = [d..<g]" "d \<le> g" "g * h \<le> r + 2 * h" "remote_sge = g mod 2"
      "free = int (g mod 2 * h)" "avail = int (r + 2 * h) - int (g * h)" "slots tsgl t base key h s d"
    unfolding grants_ok_def by blast
  have "g * h \<le> s + 2 * h" using g(3) assms(2) by simp
  then have "g * h div h \<le> (s + 2 * h) div h" by (rule div_le_mono)
  then have "g \<le> s div h + 2" using assms(3) by simp
  moreover have "s \<le> g * h" using slotsD(2)[OF g(7)] g(2) by (meson le_trans mult_le_mono1)
  ultimately show ?thesis using that g by blast
qed

lemma grants_ok_send:
  assumes "grants_ok h r s hs rs fr av tsgl t base key" "r \<le> s" "rsge_len (tsgl t) \<noteq> 0" "0 < x"
    "word_of_nat x \<le> rsge_len (tsgl t)" "0 < h" "h < 2 ^ 31" "x < 2 ^ 31"
  shows "grants_ok h r (s + x) hs rs fr av (advance tsgl t (word_of_nat x)) (advance_index (advance tsgl t (word_of_nat x)) t) base key"
    "s mod h + x \<le> h" "rsge_addr (tsgl t) = base + word_of_nat (s mod (2 * h))" "rsge_key (tsgl t) = key" "s + x \<le> r + 2 * h"
proof -
  obtain g d where g: "hs = [d..<g]" "d \<le> g" "g * h \<le> r + 2 * h" "rs = g mod 2" "fr = int (g mod 2 * h)"
    "av = int (r + 2 * h) - int (g * h)" "slots tsgl t base key h s d" "g \<le> s div h + 2" "s \<le> g * h"
    using grants_okE[OF assms(1,2,6)] .
  have d: "s div h < d" using slotsD(4)[OF g(7)] assms(3) by (metis not_le)
  note cur = slotsD(3)[OF g(7) d]
  have "(word_of_nat x :: u32) \<le> word_of_nat (h - s mod h)" using assms(5) cur by simp
  then have x: "x \<le> h - s mod h"
    using assms(7,8) by (simp add: word_of_nat_less_eq_iff take_bit_nat_eq_self)
  have "slots (advance tsgl t (word_of_nat x)) (advance_index (advance tsgl t (word_of_nat x)) t) base key h (s + x) d"
    using g(2,8) by (intro slots_send[OF g(7) d _ assms(4) x assms(7)]) simp
  then show "grants_ok h r (s + x) hs rs fr av (advance tsgl t (word_of_nat x)) (advance_index (advance tsgl t (word_of_nat x)) t) base key"
    unfolding grants_ok_def using g by blast
  show "s mod h + x \<le> h" using x assms(4) by linarith
  show "rsge_addr (tsgl t) = base + word_of_nat (s mod (2 * h))" "rsge_key (tsgl t) = key" by (simp_all add: cur)
  have "s + x \<le> d * h" using x d assms(4) by (intro below_next_half) linarith+
  then show "s + x \<le> r + 2 * h" using g(2,3) by (meson le_trans mult_le_mono1)
qed

text \<open>The grant at the head of the receiver's queue reaches the list of targets.\<close>

lemma grants_ok_deliver:
  assumes "grants_ok h r s (i # hs) rs fr av tsgl t base key" "r \<le> s" "0 < h"
  shows "grants_ok h r s hs rs fr av
    (tsgl(i mod 2 := \<lparr>rsge_addr = base + word_of_nat (i mod 2 * h), rsge_key = key, rsge_len = word_of_nat h\<rparr>)) t base key"
proof -
  obtain g d where g: "i # hs = [d..<g]" "d \<le> g" "g * h \<le> r + 2 * h" "rs = g mod 2" "fr = int (g mod 2 * h)"
    "av = int (r + 2 * h) - int (g * h)" "slots tsgl t base key h s d" "g \<le> s div h + 2" "s \<le> g * h"
    using grants_okE[OF assms] .
  have "d < g" using g(1,2) by (cases "d = g") auto
  then have i: "i = d" "hs = [d + 1..<g]" using g(1) by (simp_all add: upt_conv_Cons)
  have "slots (tsgl(i mod 2 := \<lparr>rsge_addr = base + word_of_nat (i mod 2 * h), rsge_key = key, rsge_len = word_of_nat h\<rparr>))
      t base key h s (d + 1)"
    unfolding i(1) using \<open>d < g\<close> g(8) by (intro slots_grant[OF g(7) _ assms(3)]) simp
  then show ?thesis unfolding grants_ok_def using g i \<open>d < g\<close> by (intro exI[of _ g] exI[of _ "d + 1"]) simp
qed

lemma grants_ok_post:
  assumes "grants_ok h r s hs rs fr av tsgl t base key" "int h \<le> av"
  obtains i where "rs = i mod 2" "fr = int (i mod 2 * h)"
    "grants_ok h r s (hs @ [i]) ((i + 1) mod 2) (int ((i + 1) mod 2 * h)) (av - int h) tsgl t base key"
proof -
  from assms(1) obtain g d where g: "hs = [d..<g]" "d \<le> g" "g * h \<le> r + 2 * h" "rs = g mod 2"
      "fr = int (g mod 2 * h)" "av = int (r + 2 * h) - int (g * h)" "slots tsgl t base key h s d"
    unfolding grants_ok_def by blast
  have "int ((g + 1) * h) \<le> int (r + 2 * h)" using assms(2) g(6) by simp
  then have "(g + 1) * h \<le> r + 2 * h" by linarith
  then have "grants_ok h r s (hs @ [g]) ((g + 1) mod 2) (int ((g + 1) mod 2 * h)) (av - int h) tsgl t base key"
    unfolding grants_ok_def using g by (intro exI[of _ "g + 1"] exI[of _ d]) simp
  then show ?thesis using that g(4,5) by blast
qed

lemma grants_ok_read:
  assumes "grants_ok h r s hs rs fr av tsgl t base key"
  shows "grants_ok h (r + x) s hs rs fr (av + int x) tsgl t base key"
proof -
  from assms obtain g d where g: "hs = [d..<g]" "d \<le> g" "g * h \<le> r + 2 * h" "rs = g mod 2"
      "fr = int (g mod 2 * h)" "av = int (r + 2 * h) - int (g * h)" "slots tsgl t base key h s d"
    unfolding grants_ok_def by blast
  then show ?thesis unfolding grants_ok_def by (intro exI[of _ g] exI[of _ d]) simp
qed

lemma grants_ok_avail:
  assumes "grants_ok h r s hs rs fr av tsgl t base key" "r \<le> s"
  shows "0 \<le> av" "s = r \<Longrightarrow> hs = [] \<Longrightarrow> 0 < h \<Longrightarrow> h < 2 ^ 31 \<Longrightarrow> av < int h \<Longrightarrow> rsge_len (tsgl t) \<noteq> 0"
proof -
  from assms(1) obtain g d where g: "hs = [d..<g]" "d \<le> g" "g * h \<le> r + 2 * h" "rs = g mod 2"
      "fr = int (g mod 2 * h)" "av = int (r + 2 * h) - int (g * h)" "slots tsgl t base key h s d"
    unfolding grants_ok_def by blast
  show "0 \<le> av" using g(3,6) by linarith
  assume a: "s = r" "hs = []" "0 < h" "h < 2 ^ 31" "av < int h"
  have "r + h < g * h" using a(5) g(6) by linarith
  moreover have "g = d" using g(1)[symmetric] g(2) a(2) by auto
  ultimately have "r < d * h" by simp
  then have "s div h < d" using a(1,3) by (simp add: div_less_iff_less_mult)
  moreover have "h - s mod h < 2 ^ 32" "h - s mod h \<noteq> 0" using a(3,4) mod_less_divisor[OF a(3), of s] by simp_all
  ultimately show "rsge_len (tsgl t) \<noteq> 0"
    using slotsD(3)[OF g(7)] word_of_nat_0[of "h - s mod h", where ?'a = 32] by simp
qed

section \<open>The send buffer\<close>

text \<open>
  Of the \<open>M\<close> bytes \<open>u + v\<close> are in use: \<open>u\<close> wait for their write, which reads them from the ring at the end of the stream \<open>S\<close>; the
  writes of \<open>v\<close> are done, but the socket has not yet seen it.
\<close>

definition sbuf_ok :: "nat \<Rightarrow> u64 \<Rightarrow> u64 \<Rightarrow> u64 \<Rightarrow> int \<Rightarrow> mem \<Rightarrow> bytes \<Rightarrow> nat \<Rightarrow> nat \<Rightarrow> bool" where
  "sbuf_ok M sbuf a0 a1 avail smem S u v =
     (a0 = sbuf + word_of_nat (length S mod M) \<and> a1 = sbuf \<and> avail = int M - int (u + v) \<and> u + v \<le> M \<and>
      u \<le> length S \<and> (\<forall>j < length S. length S - u \<le> j \<longrightarrow> smem (j mod M) = S ! j))"

lemma sbuf_ok_send:
  assumes "sbuf_ok M sbuf a0 a1 avail smem S u v" "int (length bs) \<le> avail"
  shows "sbuf_ok M sbuf (sbuf + word_of_nat ((length S + length bs) mod M)) a1 (avail - int (length bs))
           (ring_put smem M (length S) bs) (S @ bs) (u + length bs) v"
proof -
  have le: "u + v + length bs \<le> M" using assms by (simp add: sbuf_ok_def)
  have "ring_put smem M (length S) bs (j mod M) = (S @ bs) ! j"
    if "j < length (S @ bs)" "length (S @ bs) - (u + length bs) \<le> j" for j
  proof (cases "j < length S")
    case True
    then have "ring_put smem M (length S) bs (j mod M) = smem (j mod M)"
      using that le by (intro ring_put_other) auto
    then show ?thesis using True that assms(1) by (simp add: sbuf_ok_def nth_append)
  next
    case False
    then show ?thesis using that le ring_put_at[of "j - length S" bs M smem "length S"] by (simp add: nth_append)
  qed
  then show ?thesis using assms le by (simp add: sbuf_ok_def)
qed

lemma sbuf_ok_wire: "sbuf_ok M sbuf a0 a1 avail smem S (l + u) v \<Longrightarrow> sbuf_ok M sbuf a0 a1 avail smem S u (l + v)"
  by (auto simp: sbuf_ok_def)

lemma sbuf_ok_done: "sbuf_ok M sbuf a0 a1 avail smem S u (l + v) \<Longrightarrow> sbuf_ok M sbuf a0 a1 (avail + int l) smem S u v"
  by (auto simp: sbuf_ok_def)

text \<open>The control buffers lie behind the data.\<close>

lemma sbuf_ok_ctrl:
  assumes "sbuf_ok M sbuf a0 a1 avail smem S u v" "M \<le> p" "0 < M"
  shows "sbuf_ok M sbuf a0 a1 avail (put_bytes smem p bs) S u v"
proof -
  have "put_bytes smem p bs (j mod M) = smem (j mod M)" for j
    using assms(2) mod_less_divisor[OF assms(3), of j] by (intro put_bytes_outside) simp
  then show ?thesis using assms(1) by (simp add: sbuf_ok_def)
qed

lemma sbuf_ok_bytes:
  assumes "sbuf_ok M sbuf a0 a1 avail smem S (l + u) v"
  shows "ring_bytes smem M (length S - (l + u)) l = take l (drop (length S - (l + u)) S)"
  using assms by (intro nth_equalityI) (auto simp: sbuf_ok_def)

section \<open>The receive buffer\<close>

definition rbuf_ok :: "nat \<Rightarrow> mem \<Rightarrow> int \<Rightarrow> bytes \<Rightarrow> nat \<Rightarrow> nat \<Rightarrow> bool" where
  "rbuf_ok N rmem p S r v =
     ((\<forall>j < r + v. r \<le> j \<longrightarrow> rmem (j mod N) = S ! j) \<and> r + v \<le> length S \<and>
      (p = int (r mod N) \<or> p = int N \<and> r mod N = 0))"

lemma rbuf_ok_more: "rbuf_ok N rmem p S r v \<Longrightarrow> rbuf_ok N rmem p (S @ bs) r v"
  by (auto simp: rbuf_ok_def nth_append)

lemma rbuf_ok_write:
  assumes "rbuf_ok N rmem p S r v" "r + v + l \<le> r + N" "r + v + l \<le> length S" "(r + v) mod N + l \<le> N"
  shows "rbuf_ok N (put_bytes rmem ((r + v) mod N) (take l (drop (r + v) S))) p S r (v + l)"
proof -
  let ?bs = "take l (drop (r + v) S)"
  have len: "length ?bs = l" using assms(3) by simp
  then have put: "put_bytes rmem ((r + v) mod N) ?bs = ring_put rmem N (r + v) ?bs" using assms(4) by (simp add: ring_put_def Let_def)
  have "ring_put rmem N (r + v) ?bs (j mod N) = S ! j" if "r \<le> j" "j < r + (v + l)" for j
  proof (cases "j < r + v")
    case True
    then have "ring_put rmem N (r + v) ?bs (j mod N) = rmem (j mod N)" using that len assms(2) by (intro ring_put_other) auto
    then show ?thesis using True that assms(1) by (simp add: rbuf_ok_def)
  next
    case False
    then show ?thesis
      using that len assms(2,3) ring_put_at[of "j - (r + v)" ?bs N rmem "r + v"] by simp
  qed
  then show ?thesis using assms unfolding put by (simp add: rbuf_ok_def)
qed

lemma rbuf_ok_bytes: "rbuf_ok N rmem p S r v \<Longrightarrow> x \<le> v \<Longrightarrow> ring_bytes rmem N r x = take x (drop r S)"
  by (intro nth_equalityI) (auto simp: rbuf_ok_def)

text \<open>Reading gives the next bytes of the ring, in one part or two, and the offset behind them.\<close>

lemma room_behind:
  assumes "n \<le> unat B"
  shows "unat (B - word_of_int (int n) :: u32) = unat B - n"
proof -
  have "n < 2 ^ 32" using assms unsigned_less[of B, where ?'a = nat] by simp
  then have "unat (word_of_int (int n) :: u32) = n" by (simp add: unsigned_of_nat take_bit_nat_eq_self)
  then show ?thesis using assms by (simp add: unat_sub word_le_nat_alt)
qed

lemma rbuf_read_inside:
  assumes "N = unat (rs_rbuf_size rs)" "0 < N" "unat x \<le> N" "q = r mod N"
  shows "fst (rbuf_read rs (int q) x) = ring_bytes (rs_rmem rs) N r (unat x)"
    "snd (rbuf_read rs (int q) x) = int ((r + unat x) mod N) \<or>
     snd (rbuf_read rs (int q) x) = int N \<and> (r + unat x) mod N = 0"
proof -
  have q: "q < N" using assms by simp
  define E where "E = rs_rbuf_size rs - word_of_int (int q)"
  have e: "unat E = N - q"
    unfolding E_def using room_behind[of q "rs_rbuf_size rs"] q assms(1) by simp
  have read: "rbuf_read rs (int q) x =
      (if E < x then (get_bytes (rs_rmem rs) q (unat E) @ get_bytes (rs_rmem rs) 0 (unat (x - E)), int (unat (x - E)))
       else (get_bytes (rs_rmem rs) q (unat x), int q + int (unat x)))"
    unfolding rbuf_read_def E_def[symmetric] Let_def by simp
  have md: "(r + unat x) mod N = (q + unat x) mod N" by (simp add: assms(4) mod_add_left_eq)
  have "fst (rbuf_read rs (int q) x) = ring_bytes (rs_rmem rs) N r (unat x) \<and>
    (snd (rbuf_read rs (int q) x) = int ((r + unat x) mod N) \<or>
     snd (rbuf_read rs (int q) x) = int N \<and> (r + unat x) mod N = 0)"
  proof (cases "N - q < unat x")
    case True
    then have less: "E < x" by (simp add: word_less_nat_alt e)
    have d: "unat (x - E) = unat x - (N - q)"
      using unat_sub[OF less_imp_le[OF less]] unfolding e .
    have "q + unat x - N < N" "N \<le> q + unat x" using q assms(3) True by linarith+
    then have "(q + unat x) mod N = unat x - (N - q)" using le_mod_geq[of N "q + unat x"] q by simp
    moreover have "ring_bytes (rs_rmem rs) N r (unat x) =
        get_bytes (rs_rmem rs) q (N - q) @ get_bytes (rs_rmem rs) 0 (unat x - (N - q))"
      using ring_bytes_split[of N r "unat x" "rs_rmem rs"] True assms(2,3) unfolding assms(4)[symmetric] by simp
    ultimately show ?thesis unfolding read md using less by (simp add: e d)
  next
    case False
    then have "\<not> E < x" by (simp add: word_less_nat_alt e)
    moreover have le: "q + unat x \<le> N" using False q by linarith
    moreover have "(q + unat x) mod N = (if q + unat x = N then 0 else q + unat x)" using le by simp
    moreover have "ring_bytes (rs_rmem rs) N r (unat x) = get_bytes (rs_rmem rs) q (unat x)"
      using ring_bytes_straight[of r N "unat x" "rs_rmem rs"] le unfolding assms(4)[symmetric] by simp
    ultimately show ?thesis unfolding read md by auto
  qed
  then show "fst (rbuf_read rs (int q) x) = ring_bytes (rs_rmem rs) N r (unat x)"
    "snd (rbuf_read rs (int q) x) = int ((r + unat x) mod N) \<or>
     snd (rbuf_read rs (int q) x) = int N \<and> (r + unat x) mod N = 0" by blast+
qed

text \<open>An offset at the end of the buffer stands for its start.\<close>

lemma rbuf_read_at_end:
  assumes "N = unat (rs_rbuf_size rs)" "0 < unat x"
  shows "rbuf_read rs (int N) x = (get_bytes (rs_rmem rs) 0 (unat x), int (unat x))"
proof -
  have "rs_rbuf_size rs - word_of_int (int N) = 0"
    using room_behind[of N "rs_rbuf_size rs"] assms(1) by (simp add: unat_eq_zero)
  then show ?thesis using assms(2) by (simp add: rbuf_read_def word_less_nat_alt get_bytes_def)
qed

lemma rbuf_read_ok:
  assumes "rbuf_ok N (rs_rmem rs) p S r v" "N = unat (rs_rbuf_size rs)" "0 < N" "unat x \<le> v" "0 < unat x" "unat x \<le> N"
  shows "fst (rbuf_read rs p x) = take (unat x) (drop r S)"
    "rbuf_ok N (rs_rmem rs) (snd (rbuf_read rs p x)) S (r + unat x) (v - unat x)"
proof -
  have bytes: "ring_bytes (rs_rmem rs) N r (unat x) = take (unat x) (drop r S)" using assms by (intro rbuf_ok_bytes)
  consider (inside) "p = int (r mod N)" | (at_end) "p = int N" "r mod N = 0" using assms(1) by (auto simp: rbuf_ok_def)
  then have "fst (rbuf_read rs p x) = take (unat x) (drop r S) \<and>
      (snd (rbuf_read rs p x) = int ((r + unat x) mod N) \<or> snd (rbuf_read rs p x) = int N \<and> (r + unat x) mod N = 0)"
  proof cases
    case inside
    then show ?thesis using rbuf_read_inside[OF assms(2,3,6) refl, of r] bytes by simp
  next
    case at_end
    have "ring_bytes (rs_rmem rs) N r (unat x) = get_bytes (rs_rmem rs) 0 (unat x)"
      using ring_bytes_straight[of r N "unat x" "rs_rmem rs"] at_end(2) assms(6) by simp
    moreover have "(r + unat x) mod N = (if unat x = N then 0 else unat x)"
      using at_end(2) assms(6) by (simp flip: mod_add_left_eq[of r])
    ultimately show ?thesis using bytes rbuf_read_at_end[OF assms(2,5)] at_end(1) by auto
  qed
  then show "fst (rbuf_read rs p x) = take (unat x) (drop r S)"
    "rbuf_ok N (rs_rmem rs) (snd (rbuf_read rs p x)) S (r + unat x) (v - unat x)"
    using assms(1,4) by (auto simp: rbuf_ok_def)
qed

section \<open>The ring of messages\<close>

text \<open>The lengths \<open>R\<close> of the messages, from the head of the ring to its tail; one place of the \<open>Q + 1\<close> stays free.\<close>

definition ring_ok :: "nat \<Rightarrow> (nat \<Rightarrow> rs_msg) \<Rightarrow> nat \<Rightarrow> nat \<Rightarrow> nat list \<Rightarrow> bool" where
  "ring_ok Q rmsg front back R =
     (front \<le> Q \<and> length R \<le> Q \<and> back = (front + length R) mod (Q + 1) \<and>
      (\<forall>i < length R. rm_data (rmsg ((front + i) mod (Q + 1))) = word_of_nat (R ! i)) \<and> (\<forall>l \<in> set R. l \<le> 65536))"

lemma ring_next_mod: "i \<le> unat (rs_rq_size rs) \<Longrightarrow> ring_next rs i = (i + 1) mod (unat (rs_rq_size rs) + 1)"
  by (simp add: ring_next_def)

lemma ring_ok_empty:
  assumes "ring_ok Q rmsg front back R"
  shows "front \<noteq> back \<longleftrightarrow> R \<noteq> []"
proof (cases R)
  case Nil
  then show ?thesis using assms by (simp add: ring_ok_def)
next
  case (Cons l R')
  have "front mod (Q + 1) \<noteq> (front + length R) mod (Q + 1)" using assms Cons by (intro ring_apart) (auto simp: ring_ok_def)
  then show ?thesis using assms Cons by (simp add: ring_ok_def)
qed

lemma ring_ok_push:
  assumes "ring_ok Q rmsg front back R" "length R < Q" "l \<le> 65536" "rm_data m = word_of_nat l"
  shows "ring_ok Q (rmsg(back := m)) front ((back + 1) mod (Q + 1)) (R @ [l])"
proof -
  have "(front + i) mod (Q + 1) \<noteq> back" if "i < length R" for i
    using ring_apart[of "front + i" "front + length R" "Q + 1"] that assms(1) by (simp add: ring_ok_def)
  moreover have "back = (front + length R) mod (Q + 1)" using assms(1) by (simp add: ring_ok_def)
  ultimately show ?thesis using assms
    by (auto simp: ring_ok_def nth_append less_Suc_eq mod_Suc_eq)
qed

lemma ring_ok_pop: "ring_ok Q rmsg front back (l # R) \<Longrightarrow> ring_ok Q rmsg ((front + 1) mod (Q + 1)) back R"
proof -
  assume a: "ring_ok Q rmsg front back (l # R)"
  have "rm_data (rmsg ((front + 1 + i) mod (Q + 1))) = word_of_nat (R ! i)" if "i < length R" for i
    using a that unfolding ring_ok_def by (elim conjE allE[of _ "Suc i"]) simp
  then show ?thesis using a by (simp add: ring_ok_def mod_Suc_eq mod_add_left_eq)
qed

lemma ring_ok_shrink:
  assumes "ring_ok Q rmsg front back (l # R)" "x < l"
  shows "ring_ok Q (rmsg(front := (rmsg front)\<lparr>rm_data := rm_data (rmsg front) - word_of_nat x\<rparr>)) front back ((l - x) # R)"
proof -
  have f: "front mod (Q + 1) = front" using assms(1) by (simp add: ring_ok_def)
  have ne: "(front + i) mod (Q + 1) \<noteq> front" if "0 < i" "i < length (l # R)" for i
    using ring_apart[of front "front + i" "Q + 1"] that assms(1) f by (simp add: ring_ok_def)
  have "rm_data (rmsg front) = word_of_nat l" using assms(1) f unfolding ring_ok_def by (elim conjE allE[of _ 0]) simp
  then have first: "rm_data (rmsg front) - word_of_nat x = word_of_nat (l - x)" using assms(2) by (simp add: word_of_nat_diff)
  have "rm_data ((rmsg(front := (rmsg front)\<lparr>rm_data := rm_data (rmsg front) - word_of_nat x\<rparr>)) ((front + i) mod (Q + 1))) =
      word_of_nat (((l - x) # R) ! i)" if "i < length ((l - x) # R)" for i
  proof (cases i)
    case 0
    then show ?thesis using f first by simp
  next
    case (Suc j)
    then have "rm_data (rmsg ((front + i) mod (Q + 1))) = word_of_nat ((l # R) ! i)"
      using assms(1) that unfolding ring_ok_def by (elim conjE allE[of _ i]) simp
    then show ?thesis using ne[of i] that Suc by simp
  qed
  then show ?thesis using assms by (simp add: ring_ok_def) (metis One_nat_def diff_le_self le_trans)
qed

lemma ring_ok_front: "ring_ok Q rmsg front back (l # R) \<Longrightarrow> unat (rm_data (rmsg front)) = l"
proof -
  assume a: "ring_ok Q rmsg front back (l # R)"
  then have "rm_data (rmsg (front mod (Q + 1))) = word_of_nat l" unfolding ring_ok_def by (elim conjE allE[of _ 0]) simp
  then show ?thesis using a by (simp add: ring_ok_def unsigned_of_nat take_bit_nat_eq_self)
qed

section \<open>Control messages\<close>

text \<open>
  \<open>q\<close> control messages are done, those of the list are not, and the last has the number \<open>e\<close>. There are four buffers, so that
  outstanding grants do not share one.
\<close>

definition ctrl_ok :: "u32 \<Rightarrow> u32 \<Rightarrow> item list \<Rightarrow> bool" where
  "ctrl_ok seqno max_seqno items =
     (\<exists>q e. seqno = word_of_nat e \<and> max_seqno = word_of_nat (q + 4) \<and> e \<le> q + 4 \<and> ctrl_chain q items e)"

lemma ctrl_ok_data [simp]: "ctrl_ok sn mx (a @ Data p l # b) = ctrl_ok sn mx (a @ b)" "ctrl_ok sn mx (Data p l # b) = ctrl_ok sn mx b"
  by (simp_all add: ctrl_ok_def ctrl_chain_append)

lemma ctrl_ok_done: "\<not> is_data it \<Longrightarrow> ctrl_ok sn mx (it # items) \<Longrightarrow> ctrl_ok sn (mx + 1) items"
proof -
  assume a: "\<not> is_data it" "ctrl_ok sn mx (it # items)"
  then obtain q e where q: "sn = word_of_nat e" "mx = word_of_nat (q + 4)" "e \<le> q + 4" "ctrl_chain q (it # items) e"
    unfolding ctrl_ok_def by blast
  then have "ctrl_chain (Suc q) items e" using a(1) by (cases it) auto
  then show ?thesis unfolding ctrl_ok_def using q by (intro exI[of _ "Suc q"] exI[of _ e]) simp
qed

text \<open>The next message gets a number, and no outstanding grant has its buffer.\<close>

lemma ctrl_ok_post:
  assumes "ctrl_ok sn mx items" "sn \<noteq> mx"
  obtains m where "sn + 1 = word_of_nat m"
    "\<And>i c. ctrl_ok (sn + 1) mx (items @ [Grant i c m])" "\<And>c. ctrl_ok (sn + 1) mx (items @ [Credit c])"
    "\<And>c. ctrl_ok (sn + 1) mx (items @ [Notice c])"
    "\<forall>i c m'. Grant i c m' \<in> set items \<longrightarrow> m' mod 4 \<noteq> m mod 4"
proof -
  from assms(1) obtain q e where q: "sn = word_of_nat e" "mx = word_of_nat (q + 4)" "e \<le> q + 4" "ctrl_chain q items e"
    unfolding ctrl_ok_def by blast
  have "e \<noteq> q + 4"
  proof
    assume "e = q + 4"
    then show False using q(1,2) assms(2) by simp
  qed
  then have e: "Suc e \<le> q + 4" using q(3) by simp
  have w: "sn + 1 = word_of_nat (Suc e)" using q(1) by (simp add: add.commute)
  have ok: "ctrl_ok (sn + 1) mx (items @ [it])" if "ctrl_chain e [it] (Suc e)" for it
    unfolding ctrl_ok_def w using q e that by (intro exI[of _ q] exI[of _ "Suc e"]) (auto simp: ctrl_chain_append)
  have "m' mod 4 \<noteq> Suc e mod 4" if "Grant i c m' \<in> set items" for i c m'
    using ring_apart[of m' "Suc e" 4] ctrl_chain_grants[OF q(4) that] e by auto
  then show ?thesis using that[OF w] ok by simp
qed

end
