(* ===== verification/FF_StreamSteps.thy ===== *)
theory FF_StreamSteps
  imports FF_StreamParts
begin

text \<open>
  What the operations of a stream socket do to the fields of the socket and to its queue, for a socket without the options
  of other byte orders and transports: the exact result of each operation, over the stream positions.
\<close>

section \<open>Sending\<close>

lemma has_none [simp]: "\<not> has 0 b"
  by (simp add: has_def)

lemma qdev_fields [simp]:
  "dv_post_send qdev wr q = (0, q @ [wr])" "dv_set_errno qdev e q = q"
  by (simp_all add: qdev_def)

lemma rdma_seterrno_ok [simp]: "rdma_seterrno D (0, w) = (0, w)"
  by (simp add: rdma_seterrno_def)

definition data_wr :: "isge list \<Rightarrow> u32 \<Rightarrow> rs_sge \<Rightarrow> rs_wr" where
  "data_wr sgl x target =
     \<lparr>wr_id = rs_send_wr_id (rs_msg_set RS_OP_DATA x), wr_sgl = sgl, wr_op = RDMA_WRITE_WITH_IMM, wr_inline = False,
      wr_imm = htonl (rs_msg_set RS_OP_DATA x), wr_raddr = rsge_addr target, wr_rkey = rsge_key target\<rparr>"

definition write_fields :: "u32 \<Rightarrow> rsocket \<Rightarrow> rsocket" where
  "write_fields x rs =
     rs\<lparr>rs_sseq_no := rs_sseq_no rs + 1, rs_sqe_avail := rs_sqe_avail rs - 1,
        rs_sbuf_bytes_avail := rs_sbuf_bytes_avail rs - int (unat x), rs_tsgl := advance (rs_tsgl rs) (rs_target_sge rs) x,
        rs_target_sge := advance_index (advance (rs_tsgl rs) (rs_target_sge rs) x) (rs_target_sge rs)\<rparr>"

lemma rs_write_data_effect:
  assumes "rs_opts rs = 0"
  shows "rs_write_data qdev rs sgl x False q =
    (0, write_fields x rs, q @ [data_wr sgl x (rs_tsgl rs (rs_target_sge rs))])"
  using assms
  by (cases "rsge_len (advance (rs_tsgl rs) (rs_target_sge rs) x (rs_target_sge rs)) = 0")
     (simp_all add: rs_write_data_def rs_post_write_msg_def write_fields_def data_wr_def Let_def advance_def
        advance_index_def RS_SGL_SIZE_def)

text \<open>What a list of parts of the send buffer holds, whatever the contents are.\<close>

definition sgl_reads :: "u64 \<Rightarrow> nat \<Rightarrow> nat \<Rightarrow> nat \<Rightarrow> isge list \<Rightarrow> bool" where
  "sgl_reads sbuf M p l sgl =
     (\<forall>m. concat (map (\<lambda>e. get_bytes m (unat (is_addr e - sbuf)) (unat (is_len e))) sgl) = ring_bytes m M p l)"

lemma gather_reads: "sgl_reads (rs_sbuf rs) M p l sgl \<Longrightarrow> gather rs sgl = ring_bytes (rs_smem rs) M p l"
  by (simp add: sgl_reads_def gather_def)

lemma unat_of_small [simp]: "n < 2 ^ LENGTH('a) \<Longrightarrow> unat (word_of_nat n :: 'a :: len word) = n"
  by (simp add: unsigned_of_nat take_bit_nat_eq_self)

lemma sbuf_left:
  assumes "unat (rs_sbuf_size rs) = M" "M < 2 ^ 31" "k \<le> M" "is_addr (rs_ssgl0 rs) = rs_sbuf rs + word_of_nat k"
  shows "unat (rs_sbuf_left rs) = M - k" "is_addr (rs_ssgl0 rs) - rs_sbuf rs = word_of_nat k"
proof -
  have "rs_sbuf_size rs = word_of_nat M" by (simp flip: assms(1))
  then have "ucast (rs_sbuf_size rs) = (word_of_nat M :: u64)" using assms(2) by (simp add: ucast_of_nat)
  then have "rs_sbuf rs + ucast (rs_sbuf_size rs) - is_addr (rs_ssgl0 rs) = word_of_nat (M - k)"
    using assms(3,4) by (simp add: word_of_nat_diff)
  then have "rs_sbuf_left rs = ucast (word_of_nat (M - k) :: u64)" by (simp only: rs_sbuf_left_def)
  also have "\<dots> = word_of_nat (M - k)" using assms(2) by (intro ucast_of_nat) simp
  finally show "unat (rs_sbuf_left rs) = M - k" using assms(2) by simp
  show "is_addr (rs_ssgl0 rs) - rs_sbuf rs = word_of_nat k" using assms(4) by simp
qed

text \<open>The data of a chunk goes into the ring at the position of the stream, and the request reads it from there.\<close>

lemma send_chunk_straight:
  assumes "rs_opts rs = 0" "unat (rs_sbuf_size rs) = M" "M < 2 ^ 31" "k < M"
    "is_addr (rs_ssgl0 rs) = rs_sbuf rs + word_of_nat k" "0 < unat x" "unat x \<le> length buf" "unat x \<le> M - k"
  shows "\<exists>s0. is_addr s0 = rs_sbuf rs + word_of_nat ((k + unat x) mod M) \<and>
    send_chunk qdev buf x rs q =
      (0, unat x, (write_fields x rs)\<lparr>rs_smem := put_bytes (rs_smem rs) k (take (unat x) buf), rs_ssgl0 := s0\<rparr>,
       q @ [data_wr [(rs_ssgl0 rs)\<lparr>is_len := x\<rparr>] x (rs_tsgl rs (rs_target_sge rs))])"
proof -
  note left = sbuf_left[OF assms(2,3) less_imp_le[OF assms(4)] assms(5)]
  have x: "x \<le> rs_sbuf_left rs" "x < rs_sbuf_left rs \<longleftrightarrow> unat x < M - k"
    using assms(8) by (simp_all add: word_le_nat_alt word_less_nat_alt left(1))
  have k: "unat (is_addr (rs_ssgl0 rs) - rs_sbuf rs) = k" using assms(3,4) unfolding left(2) by simp
  have addr: "(if unat x < M - k then is_addr (rs_ssgl0 rs) + ucast x else rs_sbuf rs) =
      rs_sbuf rs + word_of_nat ((k + unat x) mod M)"
  proof (cases "unat x < M - k")
    case True
    then have "(k + unat x) mod M = k + unat x" by simp
    then show ?thesis using True assms(5) by simp
  next
    case False
    then have "k + unat x = M" using assms(4,8) by simp
    then show ?thesis using False by simp
  qed
  have same: "rs_sbuf_left (write_fields x (rs\<lparr>rs_smem := m, rs_ssgl0 := (rs_ssgl0 rs)\<lparr>is_len := x\<rparr>\<rparr>)) = rs_sbuf_left rs" for m
    by (simp add: rs_sbuf_left_def write_fields_def)
  define a' where "a' = (if unat x < M - k then is_addr (rs_ssgl0 rs) + ucast x else rs_sbuf rs)"
  have "send_chunk qdev buf x rs q =
      (0, unat x, (write_fields x rs)\<lparr>rs_smem := put_bytes (rs_smem rs) k (take (unat x) buf),
                                      rs_ssgl0 := (rs_ssgl0 rs)\<lparr>is_len := x, is_addr := a'\<rparr>\<rparr>,
       q @ [data_wr [(rs_ssgl0 rs)\<lparr>is_len := x\<rparr>] x (rs_tsgl rs (rs_target_sge rs))])"
    unfolding a'_def
    by (simp add: send_chunk_def x(1) sbuf_copy_def rs_write_data_effect assms(1) k same x(2) Let_def) (simp add: write_fields_def)
  then show ?thesis using addr[folded a'_def] by (intro exI[of _ "(rs_ssgl0 rs)\<lparr>is_len := x, is_addr := a'\<rparr>"]) simp
qed

lemma send_chunk_wrapped:
  assumes "rs_opts rs = 0" "unat (rs_sbuf_size rs) = M" "M < 2 ^ 31" "k < M"
    "is_addr (rs_ssgl0 rs) = rs_sbuf rs + word_of_nat k" "is_addr (rs_ssgl1 rs) = rs_sbuf rs"
    "unat x \<le> length buf" "M - k < unat x" "unat x \<le> M"
  shows "\<exists>s0 s1. is_addr s0 = rs_sbuf rs + word_of_nat ((k + unat x) mod M) \<and> is_addr s1 = rs_sbuf rs \<and>
    send_chunk qdev buf x rs q =
      (0, unat x, (write_fields x rs)\<lparr>rs_smem := put_bytes (put_bytes (rs_smem rs) k (take (M - k) buf)) 0
                                                   (take (unat x - (M - k)) (drop (M - k) buf)),
                                      rs_ssgl0 := s0, rs_ssgl1 := s1\<rparr>,
       q @ [data_wr [(rs_ssgl0 rs)\<lparr>is_len := word_of_nat (M - k)\<rparr>, (rs_ssgl1 rs)\<lparr>is_len := word_of_nat (unat x - (M - k))\<rparr>] x
              (rs_tsgl rs (rs_target_sge rs))])"
proof -
  note left = sbuf_left[OF assms(2,3) less_imp_le[OF assms(4)] assms(5)]
  have x: "\<not> x \<le> rs_sbuf_left rs" using assms(8) by (simp add: word_le_nat_alt left(1))
  then have dx: "unat (x - rs_sbuf_left rs) = unat x - (M - k)" using unat_sub[of "rs_sbuf_left rs" x] by (simp add: left(1))
  have d1: "x - rs_sbuf_left rs = word_of_nat (unat x - (M - k))" unfolding dx[symmetric] by simp
  have d2: "rs_sbuf_left rs = word_of_nat (M - k)" unfolding left(1)[symmetric] by simp
  have k: "unat (is_addr (rs_ssgl0 rs) - rs_sbuf rs) = k" using assms(3,4) unfolding left(2) by simp
  have "M \<le> k + unat x" "k + unat x - M < M" using assms(4,8,9) by linarith+
  then have m: "(k + unat x) mod M = unat x - (M - k)" using le_mod_geq[of M "k + unat x"] assms(4) by simp
  have small: "unat (word_of_nat (unat x - (M - k)) :: u32) = unat x - (M - k)" "unat (word_of_nat (M - k) :: u32) = M - k"
    using assms(3,9) by simp_all
  have u: "ucast (word_of_nat (unat x - (M - k)) :: u32) = (word_of_nat (unat x - (M - k)) :: u64)"
    using assms(3,9) by (intro ucast_of_nat) simp
  show ?thesis
    by (rule exI[of _ "(rs_ssgl0 rs)\<lparr>is_len := word_of_nat (M - k), is_addr := rs_sbuf rs + word_of_nat ((k + unat x) mod M)\<rparr>"],
        rule exI[of _ "(rs_ssgl1 rs)\<lparr>is_len := word_of_nat (unat x - (M - k))\<rparr>"])
       (simp add: send_chunk_def x sbuf_copy_def rs_write_data_effect assms(1,6) k Let_def write_fields_def d1 u m small
          del: of_nat_diff, simp add: d2 small)
qed

lemma send_chunk_effect:
  assumes "rs_opts rs = 0" "unat (rs_sbuf_size rs) = M" "M < 2 ^ 31" "0 < M"
    "is_addr (rs_ssgl0 rs) = rs_sbuf rs + word_of_nat (p mod M)" "is_addr (rs_ssgl1 rs) = rs_sbuf rs"
    "0 < unat x" "unat x \<le> length buf" "unat x \<le> M"
  obtains s0 s1 sgl where
    "send_chunk qdev buf x rs q =
      (0, unat x, (write_fields x rs)\<lparr>rs_smem := ring_put (rs_smem rs) M p (take (unat x) buf), rs_ssgl0 := s0, rs_ssgl1 := s1\<rparr>,
       q @ [data_wr sgl x (rs_tsgl rs (rs_target_sge rs))])"
    "is_addr s0 = rs_sbuf rs + word_of_nat ((p + unat x) mod M)" "is_addr s1 = rs_sbuf rs"
    "sgl_reads (rs_sbuf rs) M p (unat x) sgl"
proof -
  define k where "k = p mod M"
  have k: "k < M" "is_addr (rs_ssgl0 rs) = rs_sbuf rs + word_of_nat k" using assms(4,5) by (simp_all add: k_def)
  have km: "(k + unat x) mod M = (p + unat x) mod M" by (simp add: k_def mod_add_left_eq)
  have ka: "unat (is_addr (rs_ssgl0 rs) - rs_sbuf rs) = k" using k assms(3) by simp
  show thesis
  proof (cases "unat x \<le> M - k")
    case True
    obtain s0 where s0: "is_addr s0 = rs_sbuf rs + word_of_nat ((k + unat x) mod M)"
        "send_chunk qdev buf x rs q =
          (0, unat x, (write_fields x rs)\<lparr>rs_smem := put_bytes (rs_smem rs) k (take (unat x) buf), rs_ssgl0 := s0\<rparr>,
           q @ [data_wr [(rs_ssgl0 rs)\<lparr>is_len := x\<rparr>] x (rs_tsgl rs (rs_target_sge rs))])"
      using send_chunk_straight[OF assms(1-3) k assms(7,8) True] by blast
    have put: "put_bytes (rs_smem rs) k (take (unat x) buf) = ring_put (rs_smem rs) M p (take (unat x) buf)"
      using True assms(8) by (simp add: ring_put_def k_def)
    have same: "(write_fields x rs)\<lparr>rs_smem := m, rs_ssgl0 := s0\<rparr> =
        (write_fields x rs)\<lparr>rs_smem := m, rs_ssgl0 := s0, rs_ssgl1 := rs_ssgl1 rs\<rparr>" for m
      by (rule rsocket.equality) (simp_all add: write_fields_def)
    have "sgl_reads (rs_sbuf rs) M p (unat x) [(rs_ssgl0 rs)\<lparr>is_len := x\<rparr>]"
      using True k(1) ring_bytes_straight[of p M "unat x"] by (simp add: sgl_reads_def ka flip: k_def)
    moreover have "send_chunk qdev buf x rs q =
        (0, unat x, (write_fields x rs)\<lparr>rs_smem := ring_put (rs_smem rs) M p (take (unat x) buf), rs_ssgl0 := s0,
                                        rs_ssgl1 := rs_ssgl1 rs\<rparr>,
         q @ [data_wr [(rs_ssgl0 rs)\<lparr>is_len := x\<rparr>] x (rs_tsgl rs (rs_target_sge rs))])"
      unfolding same[symmetric] put[symmetric] by (rule s0(2))
    ultimately show thesis using s0(1) assms(6) unfolding km by (intro that)
  next
    case False
    then have wrap: "M - k < unat x" by simp
    obtain s0 s1 where s: "is_addr s0 = rs_sbuf rs + word_of_nat ((k + unat x) mod M)" "is_addr s1 = rs_sbuf rs"
        "send_chunk qdev buf x rs q =
          (0, unat x, (write_fields x rs)\<lparr>rs_smem := put_bytes (put_bytes (rs_smem rs) k (take (M - k) buf)) 0
                                                       (take (unat x - (M - k)) (drop (M - k) buf)),
                                          rs_ssgl0 := s0, rs_ssgl1 := s1\<rparr>,
           q @ [data_wr [(rs_ssgl0 rs)\<lparr>is_len := word_of_nat (M - k)\<rparr>, (rs_ssgl1 rs)\<lparr>is_len := word_of_nat (unat x - (M - k))\<rparr>] x
                  (rs_tsgl rs (rs_target_sge rs))])"
      using send_chunk_wrapped[OF assms(1-3) k assms(6,8) wrap assms(9)] by blast
    have put: "put_bytes (put_bytes (rs_smem rs) k (take (M - k) buf)) 0 (take (unat x - (M - k)) (drop (M - k) buf)) =
        ring_put (rs_smem rs) M p (take (unat x) buf)"
      using wrap assms(8) by (simp add: ring_put_def k_def drop_take min_def Let_def)
    have "unat (word_of_nat (M - k) :: u32) = M - k" "unat (word_of_nat (unat x - (M - k)) :: u32) = unat x - (M - k)"
      using assms(3,9) by simp_all
    then have "sgl_reads (rs_sbuf rs) M p (unat x)
        [(rs_ssgl0 rs)\<lparr>is_len := word_of_nat (M - k)\<rparr>, (rs_ssgl1 rs)\<lparr>is_len := word_of_nat (unat x - (M - k))\<rparr>]"
      using wrap ring_bytes_split[of M p "unat x"] assms(4,9) by (simp add: sgl_reads_def ka assms(6) flip: k_def)
    then show thesis using s(1,2) s(3)[unfolded put] unfolding km by (intro that)
  qed
qed

text \<open>The size of a transfer is positive and fits the data, the send buffer and the current target.\<close>

lemma xfer_size_bounds:
  assumes "rs_can_send rs" "0 < n" "0 < olen" "olen \<le> RS_MAX_TRANSFER" "rs_sbuf_bytes_avail rs < 2 ^ 31"
  shows "0 < unat (xfer_size n olen rs)" "unat (xfer_size n olen rs) \<le> n" "unat (xfer_size n olen rs) \<le> 65536"
    "int (unat (xfer_size n olen rs)) \<le> rs_sbuf_bytes_avail rs" "xfer_size n olen rs \<le> rsge_len (rs_tsgl rs (rs_target_sge rs))"
proof -
  define x where "x = (if unat olen < n then olen else word_of_nat n)"
  have av: "2048 \<le> rs_sbuf_bytes_avail rs" "rsge_len (rs_tsgl rs (rs_target_sge rs)) \<noteq> 0"
    using assms(1) by (simp_all add: rs_can_send_def RS_SNDLOWAT_def)
  define b where "b = nat (rs_sbuf_bytes_avail rs)"
  have b: "rs_sbuf_bytes_avail rs = int b" "2048 \<le> b" "b < 2 ^ 31" using av(1) assms(5) by (simp_all add: b_def)
  have ub: "unat (word_of_int (rs_sbuf_bytes_avail rs) :: u32) = b" unfolding b(1) using b(3) by simp
  have olen: "unat olen \<le> 65536" "0 < unat olen" using assms(3,4) by (simp_all add: RS_MAX_TRANSFER_def word_le_nat_alt word_less_nat_alt)
  have x: "0 < unat x" "unat x \<le> n" "unat x \<le> 65536" using olen assms(2) by (auto simp: x_def)
  have room: "0 < unat (rsge_len (rs_tsgl rs (rs_target_sge rs)))" using av(2) by (simp add: unat_gt_0)
  have "xfer_size n olen rs = (if rsge_len (rs_tsgl rs (rs_target_sge rs)) < (if word_of_int (rs_sbuf_bytes_avail rs) < x then word_of_int (rs_sbuf_bytes_avail rs) else x)
      then rsge_len (rs_tsgl rs (rs_target_sge rs)) else if word_of_int (rs_sbuf_bytes_avail rs) < x then word_of_int (rs_sbuf_bytes_avail rs) else x)"
    by (simp add: xfer_size_def x_def Let_def)
  then have nat: "0 < unat (xfer_size n olen rs)" "unat (xfer_size n olen rs) \<le> n" "unat (xfer_size n olen rs) \<le> 65536"
    "unat (xfer_size n olen rs) \<le> b" "xfer_size n olen rs \<le> rsge_len (rs_tsgl rs (rs_target_sge rs))"
    using x room b(2) ub by (auto simp: word_less_nat_alt word_le_nat_alt split: if_splits)
  then show "0 < unat (xfer_size n olen rs)" "unat (xfer_size n olen rs) \<le> n" "unat (xfer_size n olen rs) \<le> 65536"
    "xfer_size n olen rs \<le> rsge_len (rs_tsgl rs (rs_target_sge rs))" by blast+
  show "int (unat (xfer_size n olen rs)) \<le> rs_sbuf_bytes_avail rs" using nat(4) unfolding b(1) by (simp only: of_nat_le_iff)
qed

section \<open>Completions\<close>

text \<open>What a completion says, for the items of the queues.\<close>

fun item_small :: "item \<Rightarrow> bool" where
  "item_small (Data p l) = (l \<le> 65536)"
| "item_small (Notice c) = (c = RS_CTRL_DISCONNECT \<or> c = RS_CTRL_SHUTDOWN)"
| "item_small _ = True"

lemma op_values [simp]: "RS_OP_DATA = 0" "RS_OP_SGL = 4" "RS_OP_CTRL = 7" "RS_OP_IOMAP_SGL = 6" "RS_OP_WRITE = 2"
  by (simp_all add: RS_OP_DATA_def RS_OP_SGL_def RS_OP_CTRL_def RS_OP_IOMAP_SGL_def RS_OP_WRITE_def)

lemma u16_bound: "unat (a :: u16) < 2 ^ 16"
  using unsigned_less[of a, where ?'a = nat] by simp

lemma credit_word: "unat (ucast (a :: u16) + ucast (b :: u16) :: u32) = unat a + unat b"
  using u16_bound[of a] u16_bound[of b] by (simp add: unat_word_ariths unsigned_ucast_eq take_bit_nat_eq_self)

lemma item_msg_fields:
  "item_small (Data p l) \<Longrightarrow> rs_msg_op (item_msg Q (Data p l)) = 0 \<and> rs_msg_data (item_msg Q (Data p l)) = word_of_nat l"
  "rs_msg_op (item_msg Q (Grant i c m)) = 4 \<and> rs_msg_data (item_msg Q (Grant i c m)) = ucast (word_of_nat c :: u16) + ucast Q"
  "rs_msg_op (item_msg Q (Credit c)) = 4 \<and> rs_msg_data (item_msg Q (Credit c)) = ucast (word_of_nat c :: u16) + ucast Q"
  "item_small (Notice k) \<Longrightarrow> rs_msg_op (item_msg Q (Notice k)) = 7 \<and> rs_msg_data (item_msg Q (Notice k)) = k"
proof -
  show "rs_msg_op (item_msg Q (Data p l)) = 0 \<and> rs_msg_data (item_msg Q (Data p l)) = word_of_nat l" if "item_small (Data p l)"
    using that rs_msg_fields[of "word_of_nat l" 0] by simp
  have b: "unat (ucast (word_of_nat c :: u16) + ucast Q :: u32) < 2 ^ 29"
    using u16_bound[of "word_of_nat c"] u16_bound[of Q] unfolding credit_word by simp
  show "rs_msg_op (item_msg Q (Grant i c m)) = 4 \<and> rs_msg_data (item_msg Q (Grant i c m)) = ucast (word_of_nat c :: u16) + ucast Q"
    "rs_msg_op (item_msg Q (Credit c)) = 4 \<and> rs_msg_data (item_msg Q (Credit c)) = ucast (word_of_nat c :: u16) + ucast Q"
    using rs_msg_fields[OF b, of 4] by simp_all
  show "rs_msg_op (item_msg Q (Notice k)) = 7 \<and> rs_msg_data (item_msg Q (Notice k)) = k" if "item_small (Notice k)"
    using that rs_msg_fields[of k 7] by (auto simp: RS_CTRL_DISCONNECT_def RS_CTRL_SHUTDOWN_def)
qed

definition got_wc :: "u16 \<Rightarrow> item \<Rightarrow> rs_wc" where
  "got_wc Q it = \<lparr>wc_id = rs_recv_wr_id 0, wc_success = True, wc_imm = Some (htonl (item_msg Q it))\<rparr>"

definition sent_wc :: "u16 \<Rightarrow> item \<Rightarrow> rs_wc" where
  "sent_wc Q it = \<lparr>wc_id = rs_send_wr_id (item_msg Q it), wc_success = True, wc_imm = None\<rparr>"

lemma poll_recv_data:
  assumes "l \<le> 65536"
  shows "fst (poll_recv (got_wc Q (Data p l)) rs) =
    rs\<lparr>rs_rmsg := (rs_rmsg rs)(rs_rmsg_tail rs := \<lparr>rm_op = 0, rm_data = word_of_nat l\<rparr>), rs_rmsg_tail := ring_next rs (rs_rmsg_tail rs)\<rparr>"
  using item_msg_fields(1)[of p l Q] assms by (simp add: poll_recv_def got_wc_def del: item_msg.simps)

lemma credit_value: "ucast (ucast (word_of_nat c :: u16) + ucast (Q :: u16) :: u32) = (word_of_nat (c + unat Q) :: u16)"
proof (rule unsigned_word_eqI[where ?'a = nat])
  have "unat (ucast (ucast a + ucast Q :: u32) :: u16) = (unat a + unat Q) mod 2 ^ 16" for a :: u16
    by (simp add: unsigned_ucast_eq credit_word take_bit_eq_mod)
  from this[of "word_of_nat c"]
  have "unat (ucast (ucast (word_of_nat c :: u16) + ucast Q :: u32) :: u16) = (c mod 2 ^ 16 + unat Q) mod 2 ^ 16"
    by (simp only: unsigned_of_nat take_bit_eq_mod) simp
  also have "\<dots> = unat (word_of_nat (c + unat Q) :: u16)"
    by (simp add: unsigned_of_nat take_bit_eq_mod mod_add_left_eq del: of_nat_add)
  finally show "unat (ucast (ucast (word_of_nat c :: u16) + ucast Q :: u32) :: u16) = unat (word_of_nat (c + unat Q) :: u16)" .
qed

lemma poll_recv_credit:
  "fst (poll_recv (got_wc Q (Grant i c m)) rs) = rs\<lparr>rs_sseq_comp := word_of_nat (c + unat Q)\<rparr>"
  "fst (poll_recv (got_wc Q (Credit c)) rs) = rs\<lparr>rs_sseq_comp := word_of_nat (c + unat Q)\<rparr>"
  using item_msg_fields(2)[of Q i c m] item_msg_fields(3)[of Q c]
  by (simp_all add: poll_recv_def got_wc_def credit_value del: item_msg.simps of_nat_add)

lemma poll_recv_notice:
  assumes "item_small (Notice k)"
  shows "\<exists>st. fst (poll_recv (got_wc Q (Notice k)) rs) = rs\<lparr>rs_state := st\<rparr>"
proof -
  show ?thesis
    using item_msg_fields(4)[OF assms, of Q] assms
    by (auto simp: poll_recv_def got_wc_def Let_def simp del: item_msg.simps)
qed

lemma poll_send_data:
  assumes "l \<le> 65536"
  shows "poll_send (sent_wc Q (Data p l)) rs = rs\<lparr>rs_sqe_avail := rs_sqe_avail rs + 1, rs_sbuf_bytes_avail := rs_sbuf_bytes_avail rs + int l\<rparr>"
  using item_msg_fields(1)[of p l Q] assms by (simp add: poll_send_def sent_wc_def del: item_msg.simps)

lemma poll_send_ctrl:
  assumes "\<not> is_data it" "item_small it"
  shows "\<exists>st. poll_send (sent_wc Q it) rs = rs\<lparr>rs_ctrl_max_seqno := rs_ctrl_max_seqno rs + 1, rs_state := st\<rparr>"
proof -
  have same: "rs\<lparr>rs_ctrl_max_seqno := n\<rparr> = rs\<lparr>rs_ctrl_max_seqno := n, rs_state := rs_state rs\<rparr>" for n
    by (rule rsocket.equality) simp_all
  show ?thesis
  proof (cases it)
    case (Grant i c m)
    then show ?thesis using item_msg_fields(2)[of Q i c m] same
      by (intro exI[of _ "rs_state rs"]) (simp add: poll_send_def sent_wc_def del: item_msg.simps)
  next
    case (Credit c)
    then show ?thesis using item_msg_fields(3)[of Q c] same
      by (intro exI[of _ "rs_state rs"]) (simp add: poll_send_def sent_wc_def del: item_msg.simps)
  next
    case (Notice k)
    then show ?thesis using item_msg_fields(4)[of k Q] assms(2) same
      by (intro exI[of _ "if k = RS_CTRL_DISCONNECT then rs_disconnected else rs_state rs"])
         (auto simp: poll_send_def sent_wc_def Let_def simp del: item_msg.simps)
  qed (use assms in simp)
qed

section \<open>Credits and notices\<close>

lemma half_word:
  assumes "unat (B :: u32) = 2 * h"
  shows "drop_bit 1 B = word_of_nat h" "unat (drop_bit 1 B) = h"
proof -
  show u: "unat (drop_bit 1 B) = h" unfolding unat_drop_bit_eq assms by (simp add: drop_bit_eq_div)
  show "drop_bit 1 B = word_of_nat h" unfolding u[symmetric] by simp
qed

lemma half_free_iff:
  assumes "unat (rs_rbuf_size rs) = 2 * h" "0 \<le> rs_rbuf_bytes_avail rs" "rs_rbuf_bytes_avail rs < 2 ^ 32"
  shows "half_free rs \<longleftrightarrow> int h \<le> rs_rbuf_bytes_avail rs"
proof -
  define b where "b = nat (rs_rbuf_bytes_avail rs)"
  have b: "rs_rbuf_bytes_avail rs = int b" "b < 2 ^ 32" using assms(2,3) by (simp_all add: b_def)
  then have "unat (word_of_int (rs_rbuf_bytes_avail rs) :: u32) = b" by simp
  then show ?thesis unfolding half_free_def word_le_nat_alt half_word(2)[OF assms(1)] using b(1) by simp
qed

lemma ctrl_buf:
  assumes "rs_ctrl_seqno rs = word_of_nat m" "unat (rs_sbuf_size rs) = M" "M < 2 ^ 31"
  shows "rs_get_ctrl_buf rs = rs_sbuf rs + word_of_nat (M + 16 * (m mod 4))"
    "unat (rs_get_ctrl_buf rs - rs_sbuf rs) = M + 16 * (m mod 4)"
proof -
  have "(word_of_nat m AND 3 :: u32) = take_bit 2 (word_of_nat m)" by (simp add: take_bit_eq_mask mask_eq_exp_minus_1)
  also have "\<dots> = word_of_nat (m mod 4)" by (simp only: take_bit_of_nat) (simp add: take_bit_eq_mod)
  finally have a: "(word_of_nat m AND 3 :: u32) = word_of_nat (m mod 4)" .
  have "rs_sbuf_size rs = word_of_nat M" by (simp flip: assms(2))
  then have "ucast (rs_sbuf_size rs) = (word_of_nat M :: u64)" using assms(3) by (simp add: ucast_of_nat)
  moreover have "ucast (word_of_nat (m mod 4) :: u32) = (word_of_nat (m mod 4) :: u64)"
    by (rule ucast_of_nat) (simp add: less_trans[OF mod_less_divisor])
  ultimately show e: "rs_get_ctrl_buf rs = rs_sbuf rs + word_of_nat (M + 16 * (m mod 4))"
    by (simp add: rs_get_ctrl_buf_def RS_MAX_CTRL_MSG_def RS_QP_CTRL_SIZE_def assms(1) a)
  define r where "r = m mod 4"
  have "r < 4" by (simp add: r_def)
  then have "M + 16 * r < 2 ^ 64" using assms(3) by simp
  then show "unat (rs_get_ctrl_buf rs - rs_sbuf rs) = M + 16 * (m mod 4)"
    unfolding e r_def[symmetric] by (simp del: of_nat_add of_nat_mult)
qed

definition credit_msg :: "rsocket \<Rightarrow> u32" where
  "credit_msg rs = rs_msg_set 4 (ucast (rs_rseq_no rs) + ucast (rs_rq_size rs))"

definition plain_wr :: "u32 \<Rightarrow> rs_wr" where
  "plain_wr msg =
     \<lparr>wr_id = rs_send_wr_id msg, wr_sgl = [], wr_op = RDMA_WRITE_WITH_IMM, wr_inline = False, wr_imm = htonl msg,
      wr_raddr = 0, wr_rkey = 0\<rparr>"

definition grant_wr :: "nat \<Rightarrow> nat \<Rightarrow> nat \<Rightarrow> rsocket \<Rightarrow> rs_wr" where
  "grant_wr M i m rs =
     \<lparr>wr_id = rs_send_wr_id (credit_msg rs),
      wr_sgl = [\<lparr>is_addr = rs_sbuf rs + word_of_nat (M + 16 * (m mod 4)), is_len = 16, is_lkey = rs_smr_lkey rs\<rparr>],
      wr_op = RDMA_WRITE_WITH_IMM, wr_inline = False, wr_imm = htonl (credit_msg rs),
      wr_raddr = rsge_addr (rs_remote_sgl rs) + 16 * word_of_nat (i mod 2), wr_rkey = rsge_key (rs_remote_sgl rs)\<rparr>"

lemma next_half:
  assumes "unat (B :: u32) = 2 * h" "0 < h"
  shows "(if B \<le> word_of_int (int (i mod 2 * h) + int h) then 0 else int (i mod 2 * h) + int h) = int ((i + 1) mod 2 * h)"
proof -
  define n where "n = i mod 2 * h + h"
  have i: "i mod 2 = 0 \<or> i mod 2 = 1" by auto
  have "2 * h < 2 ^ 32" using assms(1) unsigned_less[of B, where ?'a = nat] by simp
  then have "n < 2 ^ 32" using i by (auto simp: n_def)
  then have "unat (word_of_int (int n) :: u32) = n" by simp
  then have "B \<le> word_of_int (int n) \<longleftrightarrow> 2 * h \<le> n" using assms(1) by (simp only: word_le_nat_alt)
  moreover have "int (i mod 2 * h) + int h = int n" by (simp add: n_def)
  ultimately show ?thesis using i assms(2) by (auto simp: n_def mod_Suc)
qed

lemma credits_raw:
  assumes "rs_opts rs = 0" "rs_give_credits rs" "half_free rs" "half = drop_bit 1 (rs_rbuf_size rs)"
    "buf = rs_get_ctrl_buf (rs\<lparr>rs_ctrl_seqno := rs_ctrl_seqno rs + 1\<rparr>)" "off = rs_rbuf_free_offset rs"
    "free = (if rs_rbuf_size rs \<le> word_of_int (off + int (unat half)) then 0 else off + int (unat half))"
    "sge' = (if rs_remote_sge rs + 1 = unat (rsge_len (rs_remote_sgl rs)) then 0 else rs_remote_sge rs + 1)"
  shows "rs_update_credits qdev rs q =
    (rs\<lparr>rs_ctrl_seqno := rs_ctrl_seqno rs + 1, rs_rseq_comp := rs_rseq_no rs + drop_bit 1 (rs_rq_size rs),
        rs_smem := put_bytes (rs_smem rs) (unat (buf - rs_sbuf rs)) (sge_bytes (rs_rbuf rs + word_of_int off) (rs_rmr_rkey rs) half),
        rs_rbuf_bytes_avail := rs_rbuf_bytes_avail rs - int (unat half), rs_rbuf_free_offset := free, rs_remote_sge := sge'\<rparr>,
     q @ [\<lparr>wr_id = rs_send_wr_id (credit_msg rs), wr_sgl = [\<lparr>is_addr = buf, is_len = 16, is_lkey = rs_smr_lkey rs\<rparr>],
           wr_op = RDMA_WRITE_WITH_IMM, wr_inline = False, wr_imm = htonl (credit_msg rs),
           wr_raddr = rsge_addr (rs_remote_sgl rs) + 16 * word_of_nat (rs_remote_sge rs), wr_rkey = rsge_key (rs_remote_sgl rs)\<rparr>])"
proof -
  have hf: "half_free (rs\<lparr>rs_ctrl_seqno := a, rs_rseq_comp := b\<rparr>)" for a b using assms(3) by (simp add: half_free_def)
  have bf: "rs_get_ctrl_buf (rs\<lparr>rs_ctrl_seqno := a, rs_rseq_comp := b\<rparr>) = rs_get_ctrl_buf (rs\<lparr>rs_ctrl_seqno := a\<rparr>)" for a b
    by (simp add: rs_get_ctrl_buf_def)
  show ?thesis unfolding assms(4-8)
    by (simp add: rs_update_credits_def rs_send_credits_def assms(1,2) hf bf sbuf_copy_def rs_post_write_msg_def credit_msg_def Let_def)
qed

lemma grant_effect:
  assumes "rs_opts rs = 0" "rs_give_credits rs" "half_free rs" "unat (rs_rbuf_size rs) = 2 * h" "0 < h"
    "rs_rbuf_free_offset rs = int (i mod 2 * h)" "rs_remote_sge rs = i mod 2" "rsge_len (rs_remote_sgl rs) = 2"
    "rs_ctrl_seqno rs + 1 = word_of_nat m" "unat (rs_sbuf_size rs) = M" "M < 2 ^ 31"
  shows "rs_update_credits qdev rs q =
    (rs\<lparr>rs_ctrl_seqno := rs_ctrl_seqno rs + 1, rs_rseq_comp := rs_rseq_no rs + drop_bit 1 (rs_rq_size rs),
        rs_smem := put_bytes (rs_smem rs) (M + 16 * (m mod 4))
                     (sge_bytes (rs_rbuf rs + word_of_nat (i mod 2 * h)) (rs_rmr_rkey rs) (word_of_nat h)),
        rs_rbuf_bytes_avail := rs_rbuf_bytes_avail rs - int h, rs_rbuf_free_offset := int ((i + 1) mod 2 * h),
        rs_remote_sge := (i + 1) mod 2\<rparr>,
     q @ [grant_wr M i m rs])"
proof -
  let ?rs = "rs\<lparr>rs_ctrl_seqno := rs_ctrl_seqno rs + 1\<rparr>"
  have buf: "rs_get_ctrl_buf ?rs = rs_sbuf rs + word_of_nat (M + 16 * (m mod 4))"
    "unat (rs_get_ctrl_buf ?rs - rs_sbuf rs) = M + 16 * (m mod 4)"
    using ctrl_buf[of ?rs m M] assms(9-11) by simp_all
  have sge: "(i + 1) mod 2 = (if rs_remote_sge rs + 1 = unat (rsge_len (rs_remote_sgl rs)) then 0 else rs_remote_sge rs + 1)"
    using assms(7,8) by (auto simp: mod_Suc)
  have off: "(word_of_int (int (i mod 2 * h)) :: u64) = word_of_nat (i mod 2 * h)" by (rule of_int_of_nat_eq)
  have free: "int ((i + 1) mod 2 * h) =
      (if rs_rbuf_size rs \<le> word_of_int (int (i mod 2 * h) + int (unat (drop_bit 1 (rs_rbuf_size rs)))) then 0
       else int (i mod 2 * h) + int (unat (drop_bit 1 (rs_rbuf_size rs))))"
    unfolding half_word(2)[OF assms(4)] by (rule next_half[OF assms(4,5), symmetric])
  show ?thesis
    using credits_raw[OF assms(1-3) refl refl assms(6)[symmetric] free sge, of q]
    unfolding buf(2) half_word(2)[OF assms(4)]
    unfolding buf(1) half_word(1)[OF assms(4)] off assms(7) grant_wr_def .
qed

lemma credit_effect:
  assumes "rs_opts rs = 0" "rs_give_credits rs" "\<not> half_free rs"
  shows "rs_update_credits qdev rs q =
    (rs\<lparr>rs_ctrl_seqno := rs_ctrl_seqno rs + 1, rs_rseq_comp := rs_rseq_no rs + drop_bit 1 (rs_rq_size rs)\<rparr>,
     q @ [plain_wr (credit_msg rs)])"
proof -
  have "\<not> half_free (rs\<lparr>rs_ctrl_seqno := a, rs_rseq_comp := b\<rparr>)" for a b using assms(3) by (simp add: half_free_def)
  then show ?thesis
    using assms by (simp add: rs_update_credits_def rs_send_credits_def rs_post_msg_def plain_wr_def credit_msg_def Let_def)
qed

lemma ctrl_effect:
  assumes "rs_opts rs = 0"
  shows "post_ctrl qdev ctrl rs q =
    (if has (rs_state rs) rs_connected \<and> rs_ctrl_avail rs
     then (0, rs\<lparr>rs_ctrl_seqno := rs_ctrl_seqno rs + 1\<rparr>, q @ [plain_wr (rs_msg_set 7 ctrl)]) else (0, rs, q))"
  using assms by (simp add: post_ctrl_def rs_post_msg_def plain_wr_def)

section \<open>Receiving\<close>

lemma rbuf_read_cong: "rs_rmem rs' = rs_rmem rs \<Longrightarrow> rs_rbuf_size rs' = rs_rbuf_size rs \<Longrightarrow> rbuf_read rs' = rbuf_read rs"
  by (intro ext) (simp add: rbuf_read_def Let_def)

lemma recv_part:
  assumes "unat (rm_data (rs_rmsg rs (rs_rmsg_head rs))) = l" "left < l"
  shows "recv_chunk left rs =
    (let m = rs_rmsg rs (rs_rmsg_head rs); (bs, p) = rbuf_read rs (rs_rbuf_offset rs) (word_of_nat left)
     in (bs, rs\<lparr>rs_rmsg := (rs_rmsg rs)(rs_rmsg_head rs := m\<lparr>rm_data := rm_data m - word_of_nat left\<rparr>), rs_rbuf_offset := p,
                rs_rbuf_bytes_avail := rs_rbuf_bytes_avail rs + int (length bs)\<rparr>))"
proof -
  have "rbuf_read (rs\<lparr>rs_rmsg := r\<rparr>) = rbuf_read rs" for r by (rule rbuf_read_cong) simp_all
  then show ?thesis using assms by (simp add: recv_chunk_def Let_def case_prod_unfold)
qed

lemma recv_whole:
  assumes "unat (rm_data (rs_rmsg rs (rs_rmsg_head rs))) = l" "l \<le> left"
  shows "recv_chunk left rs =
    (let (bs, p) = rbuf_read rs (rs_rbuf_offset rs) (rm_data (rs_rmsg rs (rs_rmsg_head rs)))
     in (bs, rs\<lparr>rs_rseq_no := rs_rseq_no rs + 1, rs_rmsg_head := ring_next rs (rs_rmsg_head rs), rs_rbuf_offset := p,
                rs_rbuf_bytes_avail := rs_rbuf_bytes_avail rs + int (length bs)\<rparr>))"
proof -
  have "rbuf_read (rs\<lparr>rs_rseq_no := n, rs_rmsg_head := k\<rparr>) = rbuf_read rs" for n k by (rule rbuf_read_cong) simp_all
  moreover have "\<not> left < unat (rm_data (rs_rmsg rs (rs_rmsg_head rs)))" using assms by simp
  ultimately show ?thesis by (simp add: recv_chunk_def Let_def case_prod_unfold)
qed

section \<open>Remote writes\<close>

lemma sge_roundtrip: "sge_of_bytes (sge_bytes a k l) = \<lparr>rsge_addr = a, rsge_key = k, rsge_len = l\<rparr>"
proof -
  have "unat a mod 256 ^ 8 = unat a" "unat k mod 256 ^ 4 = unat k" "unat l mod 256 ^ 4 = unat l"
    using unsigned_less[of a, where ?'a = nat] unsigned_less[of k, where ?'a = nat] unsigned_less[of l, where ?'a = nat] by simp_all
  then show ?thesis
    by (simp add: sge_of_bytes_def sge_bytes_def get_u64_def get_u32_def get_put_bytes_sub Let_def)
qed

lemma length_sge_bytes [simp]: "length (sge_bytes a k l) = 16"
  by (simp add: sge_bytes_def)

lemma write_data:
  assumes "unat (rs_rbuf_size rs) = N" "k + length bs \<le> N" "bs \<noteq> []"
  shows "rdma_write (rs_rmr_rkey rs) (rs_rbuf rs + word_of_nat k) bs rs = Some (rs\<lparr>rs_rmem := put_bytes (rs_rmem rs) k bs\<rparr>)"
proof -
  have "N < 2 ^ 32" using assms(1) unsigned_less[of "rs_rbuf_size rs", where ?'a = nat] by simp
  then have "unat (rs_rbuf rs + word_of_nat k - rs_rbuf rs) = k" using assms(2) by simp
  then show ?thesis using assms by (simp add: rdma_write_def Let_def)
qed

lemma write_grant:
  assumes "rs_rmr_rkey rs \<noteq> rs_tsgl_key rs"
  shows "rdma_write (rs_tsgl_key rs) (rs_tsgl_addr rs + 16 * word_of_nat (i mod 2)) (sge_bytes a k l) rs =
    Some (rs\<lparr>rs_tsgl := (rs_tsgl rs)(i mod 2 := \<lparr>rsge_addr = a, rsge_key = k, rsge_len = l\<rparr>)\<rparr>)"
proof -
  define j where "j = i mod 2"
  have ne: "sge_bytes a k l \<noteq> []" by (metis length_sge_bytes list.size(3) zero_neq_numeral)
  have "j = 0 \<or> j = 1" by (auto simp: j_def)
  then show ?thesis unfolding j_def[symmetric]
  proof
    assume "j = 0"
    then show "rdma_write (rs_tsgl_key rs) (rs_tsgl_addr rs + 16 * word_of_nat j) (sge_bytes a k l) rs =
        Some (rs\<lparr>rs_tsgl := (rs_tsgl rs)(j := \<lparr>rsge_addr = a, rsge_key = k, rsge_len = l\<rparr>)\<rparr>)"
      using ne not_sym[OF assms] by (simp add: rdma_write_def sge_roundtrip)
  next
    assume "j = 1"
    then show "rdma_write (rs_tsgl_key rs) (rs_tsgl_addr rs + 16 * word_of_nat j) (sge_bytes a k l) rs =
        Some (rs\<lparr>rs_tsgl := (rs_tsgl rs)(j := \<lparr>rsge_addr = a, rsge_key = k, rsge_len = l\<rparr>)\<rparr>)"
      using ne not_sym[OF assms] by (simp add: rdma_write_def sge_roundtrip)
  qed
qed

lemma write_nothing: "rdma_write key a [] rs = Some rs"
  by (simp add: rdma_write_def)

end
