(* ===== verification/FF_StreamSafe.thy ===== *)
theory FF_StreamSafe
  imports FF_StreamSteps
begin

text \<open>
  The invariant of two connected stream sockets, and that every step of either side and of the connection keeps it: what one side
  reads is what the other sent, in order; no remote write misses its buffer; the ring of messages does not overflow.
\<close>

section \<open>The invariant\<close>

definition half :: "rsocket \<Rightarrow> nat" where
  "half rs = unat (rs_rbuf_size rs) div 2"

text \<open>The fields that stay as they are once the connection exists.\<close>

definition static where
  "static rs =
     (rs_opts rs, rs_rbuf rs, rs_rbuf_size rs, rs_rmr_rkey rs, rs_tsgl_addr rs, rs_tsgl_key rs, rs_sbuf rs, rs_sbuf_size rs,
      rs_sq_size rs, rs_rq_size rs, rs_remote_sgl rs)"

definition sized :: "rsocket \<Rightarrow> bool" where
  "sized rs =
     (rs_opts rs = 0 \<and> unat (rs_rbuf_size rs) = 2 * half rs \<and> 0 < half rs \<and> half rs < 2 ^ 30 \<and> 0 < unat (rs_sbuf_size rs) \<and>
      unat (rs_sbuf_size rs) < 2 ^ 31 \<and> rs_rmr_rkey rs \<noteq> rs_tsgl_key rs \<and> rsge_len (rs_remote_sgl rs) = 2)"

definition linked :: "rsocket \<Rightarrow> rsocket \<Rightarrow> bool" where
  "linked rx ry = (rsge_addr (rs_remote_sgl ry) = rs_tsgl_addr rx \<and> rsge_key (rs_remote_sgl ry) = rs_tsgl_key rx)"

fun place_ok :: "rsocket \<Rightarrow> rsocket \<Rightarrow> item \<Rightarrow> rs_wr \<Rightarrow> bool" where
  "place_ok rx ry (Data p l) wr =
     (sgl_reads (rs_sbuf rx) (unat (rs_sbuf_size rx)) p l (wr_sgl wr) \<and>
      wr_raddr wr = rs_rbuf ry + word_of_nat (p mod (2 * half ry)) \<and> wr_rkey wr = rs_rmr_rkey ry)"
| "place_ok rx ry (Grant i c m) wr =
     ((\<exists>k. wr_sgl wr = [\<lparr>is_addr = rs_sbuf rx + word_of_nat (unat (rs_sbuf_size rx) + 16 * (m mod 4)), is_len = 16, is_lkey = k\<rparr>]) \<and>
      wr_raddr wr = rs_tsgl_addr ry + 16 * word_of_nat (i mod 2) \<and> wr_rkey wr = rs_tsgl_key ry)"
| "place_ok rx ry _ wr = (wr_sgl wr = [])"

definition wr_ok :: "rsocket \<Rightarrow> rsocket \<Rightarrow> item \<Rightarrow> rs_wr \<Rightarrow> bool" where
  "wr_ok rx ry it wr =
     (wr_id wr = rs_send_wr_id (item_msg (rs_rq_size rx) it) \<and> wr_imm wr = htonl (item_msg (rs_rq_size rx) it) \<and>
      place_ok rx ry it wr \<and> item_small it)"

fun wc_ok :: "u16 \<Rightarrow> u16 \<Rightarrow> completion \<Rightarrow> rs_wc \<Rightarrow> bool" where
  "wc_ok Qx Qy (Sent it) wc = (wc = sent_wc Qx it \<and> item_small it)"
| "wc_ok Qx Qy (Got it) wc = (wc = got_wc Qy it \<and> item_small it)"

definition grants_written :: "rsocket \<Rightarrow> item list \<Rightarrow> bool" where
  "grants_written rs items =
     (\<forall>i c m. Grant i c m \<in> set items \<longrightarrow>
        get_bytes (rs_smem rs) (unat (rs_sbuf_size rs) + 16 * (m mod 4)) 16 =
          sge_bytes (rs_rbuf rs + word_of_nat (i mod 2 * half rs)) (rs_rmr_rkey rs) (word_of_nat (half rs)))"

definition side_ok :: "side \<Rightarrow> rsocket \<Rightarrow> item list \<Rightarrow> completion list \<Rightarrow> bool" where
  "side_ok X ry IX CX =
     (list_all2 (wr_ok (sd_rs X) ry) IX (sd_sq X) \<and> list_all2 (wc_ok (rs_rq_size (sd_rs X)) (rs_rq_size ry)) CX (sd_cq X) \<and>
      ctrl_ok (rs_ctrl_seqno (sd_rs X)) (rs_ctrl_max_seqno (sd_rs X)) (sents CX @ IX) \<and> grants_written (sd_rs X) IX)"

text \<open>The stream from \<open>X\<close> to \<open>Y\<close>: \<open>R\<close> is what the ring of \<open>Y\<close> holds, \<open>IX\<close> and \<open>IY\<close> the queues, \<open>CX\<close> and \<open>CY\<close> the completions.\<close>

definition dir_ok ::
  "side \<Rightarrow> side \<Rightarrow> nat list \<Rightarrow> item list \<Rightarrow> completion list \<Rightarrow> item list \<Rightarrow> completion list \<Rightarrow> bool" where
  "dir_ok X Y R IX CX IY CY =
     (let rx = sd_rs X; ry = sd_rs Y; h = half ry; S = sd_in X; r = length (sd_out Y)
      in flow h S (sd_out Y) R (gots CY @ IX) \<and>
         credit_ok (unat (rs_rq_size ry)) (rs_sseq_no rx) (rs_sseq_comp rx) (rs_rseq_no ry) (rs_rseq_comp ry)
           (length R + data_count (gots CY @ IX)) (credits_in (gots CX @ IY)) \<and>
         grants_ok h r (length S) (halves IY) (rs_remote_sge ry) (rs_rbuf_free_offset ry) (rs_rbuf_bytes_avail ry)
           (rs_tsgl rx) (rs_target_sge rx) (rs_rbuf ry) (rs_rmr_rkey ry) \<and>
         sbuf_ok (unat (rs_sbuf_size rx)) (rs_sbuf rx) (is_addr (rs_ssgl0 rx)) (is_addr (rs_ssgl1 rx)) (rs_sbuf_bytes_avail rx)
           (rs_smem rx) S (data_sum IX) (data_sum (sents CX)) \<and>
         rbuf_ok (2 * h) (rs_rmem ry) (rs_rbuf_offset ry) S r (sum_list R + data_sum (gots CY)) \<and>
         ring_ok (unat (rs_rq_size ry)) (rs_rmsg ry) (rs_rmsg_head ry) (rs_rmsg_tail ry) R \<and>
         rs_sqe_avail rx = int (unat (rs_sq_size rx)) - 4 - int (data_count (sents CX @ IX)))"

definition inv_with where
  "inv_with A B R R' IA CA IB CB =
     (sized (sd_rs A) \<and> sized (sd_rs B) \<and> linked (sd_rs A) (sd_rs B) \<and> linked (sd_rs B) (sd_rs A) \<and>
      side_ok A (sd_rs B) IA CA \<and> side_ok B (sd_rs A) IB CB \<and> dir_ok A B R IA CA IB CB \<and> dir_ok B A R' IB CB IA CA)"

definition stream_inv :: "side \<times> side \<Rightarrow> bool" where
  "stream_inv = (\<lambda>(A, B). \<exists>R R' IA CA IB CB. inv_with A B R R' IA CA IB CB)"

lemma stream_invI: "inv_with A B R R' IA CA IB CB \<Longrightarrow> stream_inv (A, B)"
  unfolding stream_inv_def prod.case by blast

lemma stream_inv_sym: "stream_inv (A, B) \<Longrightarrow> stream_inv (B, A)"
  unfolding stream_inv_def inv_with_def by blast

lemma static_same:
  assumes "static rs' = static rs"
  shows "half rs' = half rs" "sized rs' = sized rs" "linked rs' ry = linked rs ry" "linked rx rs' = linked rx rs"
    "wr_ok rs' ry = wr_ok rs ry" "wr_ok rx rs' = wr_ok rx rs" "rs_rq_size rs' = rs_rq_size rs"
proof -
  show h: "half rs' = half rs" using assms by (simp add: static_def half_def)
  show "sized rs' = sized rs" "linked rs' ry = linked rs ry" "linked rx rs' = linked rx rs" "rs_rq_size rs' = rs_rq_size rs"
    using assms h by (simp_all add: static_def sized_def linked_def)
  have "place_ok rs' ry it wr = place_ok rs ry it wr" "place_ok rx rs' it wr = place_ok rx rs it wr" for it wr
    using assms h by (cases it; simp add: static_def)+
  then show "wr_ok rs' ry = wr_ok rs ry" "wr_ok rx rs' = wr_ok rx rs"
    using assms by (intro ext; simp add: wr_ok_def static_def)+
qed

lemmas dir_parts = dir_ok_def[unfolded Let_def]

lemma dir_okD:
  assumes "dir_ok X Y R IX CX IY CY"
  shows "flow (half (sd_rs Y)) (sd_in X) (sd_out Y) R (gots CY @ IX)"
    "credit_ok (unat (rs_rq_size (sd_rs Y))) (rs_sseq_no (sd_rs X)) (rs_sseq_comp (sd_rs X)) (rs_rseq_no (sd_rs Y))
       (rs_rseq_comp (sd_rs Y)) (length R + data_count (gots CY @ IX)) (credits_in (gots CX @ IY))"
    "grants_ok (half (sd_rs Y)) (length (sd_out Y)) (length (sd_in X)) (halves IY) (rs_remote_sge (sd_rs Y))
       (rs_rbuf_free_offset (sd_rs Y)) (rs_rbuf_bytes_avail (sd_rs Y)) (rs_tsgl (sd_rs X)) (rs_target_sge (sd_rs X))
       (rs_rbuf (sd_rs Y)) (rs_rmr_rkey (sd_rs Y))"
    "sbuf_ok (unat (rs_sbuf_size (sd_rs X))) (rs_sbuf (sd_rs X)) (is_addr (rs_ssgl0 (sd_rs X))) (is_addr (rs_ssgl1 (sd_rs X)))
       (rs_sbuf_bytes_avail (sd_rs X)) (rs_smem (sd_rs X)) (sd_in X) (data_sum IX) (data_sum (sents CX))"
    "rbuf_ok (2 * half (sd_rs Y)) (rs_rmem (sd_rs Y)) (rs_rbuf_offset (sd_rs Y)) (sd_in X) (length (sd_out Y))
       (sum_list R + data_sum (gots CY))"
    "ring_ok (unat (rs_rq_size (sd_rs Y))) (rs_rmsg (sd_rs Y)) (rs_rmsg_head (sd_rs Y)) (rs_rmsg_tail (sd_rs Y)) R"
    "rs_sqe_avail (sd_rs X) = int (unat (rs_sq_size (sd_rs X))) - 4 - int (data_count (sents CX @ IX))"
    "length (sd_out Y) \<le> length (sd_in X)"
proof -
  show f: "flow (half (sd_rs Y)) (sd_in X) (sd_out Y) R (gots CY @ IX)" using assms unfolding dir_parts by blast
  show "length (sd_out Y) \<le> length (sd_in X)" using flow_sum[OF f] by simp
qed (use assms in \<open>unfold dir_parts, blast\<close>)+

lemma dir_okI:
  assumes "flow (half (sd_rs Y)) (sd_in X) (sd_out Y) R (gots CY @ IX)"
    "credit_ok (unat (rs_rq_size (sd_rs Y))) (rs_sseq_no (sd_rs X)) (rs_sseq_comp (sd_rs X)) (rs_rseq_no (sd_rs Y))
       (rs_rseq_comp (sd_rs Y)) (length R + data_count (gots CY @ IX)) (credits_in (gots CX @ IY))"
    "grants_ok (half (sd_rs Y)) (length (sd_out Y)) (length (sd_in X)) (halves IY) (rs_remote_sge (sd_rs Y))
       (rs_rbuf_free_offset (sd_rs Y)) (rs_rbuf_bytes_avail (sd_rs Y)) (rs_tsgl (sd_rs X)) (rs_target_sge (sd_rs X))
       (rs_rbuf (sd_rs Y)) (rs_rmr_rkey (sd_rs Y))"
    "sbuf_ok (unat (rs_sbuf_size (sd_rs X))) (rs_sbuf (sd_rs X)) (is_addr (rs_ssgl0 (sd_rs X))) (is_addr (rs_ssgl1 (sd_rs X)))
       (rs_sbuf_bytes_avail (sd_rs X)) (rs_smem (sd_rs X)) (sd_in X) (data_sum IX) (data_sum (sents CX))"
    "rbuf_ok (2 * half (sd_rs Y)) (rs_rmem (sd_rs Y)) (rs_rbuf_offset (sd_rs Y)) (sd_in X) (length (sd_out Y))
       (sum_list R + data_sum (gots CY))"
    "ring_ok (unat (rs_rq_size (sd_rs Y))) (rs_rmsg (sd_rs Y)) (rs_rmsg_head (sd_rs Y)) (rs_rmsg_tail (sd_rs Y)) R"
    "rs_sqe_avail (sd_rs X) = int (unat (rs_sq_size (sd_rs X))) - 4 - int (data_count (sents CX @ IX))"
  shows "dir_ok X Y R IX CX IY CY"
  using assms unfolding dir_parts by blast

lemma inv_withD:
  assumes "inv_with A B R R' IA CA IB CB"
  shows "sized (sd_rs A)" "sized (sd_rs B)" "linked (sd_rs A) (sd_rs B)" "linked (sd_rs B) (sd_rs A)"
    "side_ok A (sd_rs B) IA CA" "side_ok B (sd_rs A) IB CB" "dir_ok A B R IA CA IB CB" "dir_ok B A R' IB CB IA CA"
  using assms unfolding inv_with_def by blast+

text \<open>The fields a direction is about, at its sender and at its receiver.\<close>

definition out_fields where
  "out_fields rs =
     (rs_sseq_no rs, rs_sseq_comp rs, rs_tsgl rs, rs_target_sge rs, rs_sbuf rs, rs_sbuf_size rs, is_addr (rs_ssgl0 rs),
      is_addr (rs_ssgl1 rs), rs_sbuf_bytes_avail rs, rs_smem rs, rs_sqe_avail rs, rs_sq_size rs)"

definition in_fields where
  "in_fields rs =
     (rs_rq_size rs, rs_rseq_no rs, rs_rseq_comp rs, rs_remote_sge rs, rs_rbuf_free_offset rs, rs_rbuf_bytes_avail rs, rs_rbuf rs,
      rs_rmr_rkey rs, rs_rmem rs, rs_rbuf_offset rs, rs_rbuf_size rs, rs_rmsg rs, rs_rmsg_head rs, rs_rmsg_tail rs)"

lemma dir_ok_same:
  assumes "dir_ok X Y R IX CX IY CY" "out_fields (sd_rs X') = out_fields (sd_rs X)" "in_fields (sd_rs Y') = in_fields (sd_rs Y)"
    "sd_in X' = sd_in X" "sd_out Y' = sd_out Y"
  shows "dir_ok X' Y' R IX CX IY CY"
proof -
  have "half (sd_rs Y') = half (sd_rs Y)" using assms(3) by (simp add: in_fields_def half_def)
  then show ?thesis using assms(1) assms(2-5)[unfolded out_fields_def in_fields_def prod.inject] unfolding dir_parts
    by (elim conjE) (simp only:)
qed

lemma snoc_data [simp]: "ctrl_ok sn mx (a @ b @ [Data p l]) = ctrl_ok sn mx (a @ b)"
  using ctrl_ok_data(1)[of sn mx "a @ b" p l "[]"] by simp

lemma snoc_other [simp]: "\<not> is_data it \<Longrightarrow> flow h S out R (a @ b @ [it]) = flow h S out R (a @ b)"
  using flow_other(1)[of it h S out R "a @ b" "[]"] by simp

lemma other_len [simp]: "\<not> is_data it \<Longrightarrow> data_len it = 0"
  by (cases it) simp_all

lemma dir_ok_lists:
  "dir_ok X Y R IX CX (IY @ [Data p l]) CY = dir_ok X Y R IX CX IY CY"
  unfolding dir_parts by simp

lemma inv_left:
  assumes "inv_with A B R R' IA CA IB CB" "static (sd_rs A') = static (sd_rs A)"
    "side_ok A' (sd_rs B) IA' CA'" "dir_ok A' B R IA' CA' IB CB" "dir_ok B A' R2 IB CB IA' CA'"
  shows "stream_inv (A', B)"
proof -
  have "side_ok B (sd_rs A') IB CB"
    using assms(1) static_same[OF assms(2)] by (simp add: inv_with_def side_ok_def)
  then have "inv_with A' B R R2 IA' CA' IB CB"
    using assms static_same[OF assms(2)] by (simp add: inv_with_def)
  then show ?thesis by (rule stream_invI)
qed

lemma grants_written_same:
  assumes "grants_written rs items" "static rs' = static rs" "\<And>i. unat (rs_sbuf_size rs) \<le> i \<Longrightarrow> rs_smem rs' i = rs_smem rs i"
    "\<forall>i c m. Grant i c m \<in> set items' \<longrightarrow> Grant i c m \<in> set items"
  shows "grants_written rs' items'"
proof -
  have s: "half rs' = half rs" "rs_sbuf_size rs' = rs_sbuf_size rs" "rs_rbuf rs' = rs_rbuf rs" "rs_rmr_rkey rs' = rs_rmr_rkey rs"
    using static_same(1)[OF assms(2)] assms(2) by (simp_all add: static_def)
  have "get_bytes (rs_smem rs') (unat (rs_sbuf_size rs) + k) n = get_bytes (rs_smem rs) (unat (rs_sbuf_size rs) + k) n" for k n
    by (rule get_bytes_cong) (simp add: assms(3))
  then show ?thesis using assms(1,4) unfolding grants_written_def s by metis
qed

lemma grants_written_frame:
  "static rs' = static rs \<Longrightarrow> rs_smem rs' = rs_smem rs \<Longrightarrow> grants_written rs' items = grants_written rs items"
  using grants_written_same[of rs items rs' items] grants_written_same[of rs' items rs items] by metis

section \<open>Sending keeps it\<close>

lemma sbuf_ok_avail: "sbuf_ok M sbuf a0 a1 avail smem S u v \<Longrightarrow> M < 2 ^ 31 \<Longrightarrow> avail < 2 ^ 31"
  by (simp add: sbuf_ok_def)

lemma sbuf_ok_fits: "sbuf_ok M sbuf a0 a1 avail smem S u v \<Longrightarrow> int n \<le> avail \<Longrightarrow> n \<le> M"
  by (simp add: sbuf_ok_def)

text \<open>The result of a chunk, with the place of the stream it stands for.\<close>

lemma send_facts:
  assumes inv: "inv_with A B R R' IA CA IB CB" and can: "rs_can_send (sd_rs A)" and buf: "buf \<noteq> []"
    and olen: "0 < olen" "olen \<le> RS_MAX_TRANSFER"
  obtains x s0 s1 sgl where
    "send_chunk qdev buf (xfer_size (length buf) olen (sd_rs A)) (sd_rs A) (sd_sq A) =
      (0, unat x, (write_fields x (sd_rs A))\<lparr>rs_smem := ring_put (rs_smem (sd_rs A)) (unat (rs_sbuf_size (sd_rs A))) (length (sd_in A)) (take (unat x) buf),
                                             rs_ssgl0 := s0, rs_ssgl1 := s1\<rparr>,
       sd_sq A @ [data_wr sgl x (rs_tsgl (sd_rs A) (rs_target_sge (sd_rs A)))])"
    "is_addr s0 = rs_sbuf (sd_rs A) + word_of_nat ((length (sd_in A) + unat x) mod unat (rs_sbuf_size (sd_rs A)))"
    "is_addr s1 = rs_sbuf (sd_rs A)" "sgl_reads (rs_sbuf (sd_rs A)) (unat (rs_sbuf_size (sd_rs A))) (length (sd_in A)) (unat x) sgl"
    "0 < unat x" "unat x \<le> length buf" "unat x \<le> 65536" "unat x \<le> unat (rs_sbuf_size (sd_rs A))"
    "int (unat x) \<le> rs_sbuf_bytes_avail (sd_rs A)" "x \<le> rsge_len (rs_tsgl (sd_rs A) (rs_target_sge (sd_rs A)))"
proof -
  define x where "x = xfer_size (length buf) olen (sd_rs A)"
  let ?M = "unat (rs_sbuf_size (sd_rs A))" and ?rs = "sd_rs A"
  have sz: "rs_opts ?rs = 0" "0 < ?M" "?M < 2 ^ 31" using inv by (simp_all add: inv_with_def sized_def)
  have sb: "sbuf_ok ?M (rs_sbuf ?rs) (is_addr (rs_ssgl0 ?rs)) (is_addr (rs_ssgl1 ?rs)) (rs_sbuf_bytes_avail ?rs) (rs_smem ?rs) (sd_in A)
      (data_sum IA) (data_sum (sents CA))" by (rule dir_okD(4)[OF inv_withD(7)[OF inv]])
  then have "rs_sbuf_bytes_avail ?rs < 2 ^ 31" using sz(3) by (rule sbuf_ok_avail)
  then have x: "0 < unat x" "unat x \<le> length buf" "unat x \<le> 65536" "int (unat x) \<le> rs_sbuf_bytes_avail ?rs"
      "x \<le> rsge_len (rs_tsgl ?rs (rs_target_sge ?rs))"
    using xfer_size_bounds[OF can _ olen, of "length buf"] buf unfolding x_def by blast+
  then have xM: "unat x \<le> ?M" using sbuf_ok_fits[OF sb] by blast
  have a: "is_addr (rs_ssgl0 ?rs) = rs_sbuf ?rs + word_of_nat (length (sd_in A) mod ?M)" "is_addr (rs_ssgl1 ?rs) = rs_sbuf ?rs"
    using sb by (simp_all add: sbuf_ok_def)
  show thesis
    by (rule send_chunk_effect[OF sz(1) refl sz(3,2) a x(1,2) xM, of "sd_sq A"])
       (rule that[folded x_def, OF _ _ _ _ x(1-3) xM x(4,5)]; assumption)
qed

lemma send_keeps:
  assumes inv: "inv_with A B R R' IA CA IB CB" and can: "rs_can_send (sd_rs A)" and buf: "buf \<noteq> []"
    and olen: "0 < olen" "olen \<le> RS_MAX_TRANSFER"
    and step: "send_chunk qdev buf (xfer_size (length buf) olen (sd_rs A)) (sd_rs A) (sd_sq A) = (ret, n, rs, q)"
  shows "stream_inv (A\<lparr>sd_rs := rs, sd_sq := q, sd_in := sd_in A @ take n buf\<rparr>, B)"
proof -
  obtain x s0 s1 sgl where e: "send_chunk qdev buf (xfer_size (length buf) olen (sd_rs A)) (sd_rs A) (sd_sq A) =
      (0, unat x, (write_fields x (sd_rs A))\<lparr>rs_smem := ring_put (rs_smem (sd_rs A)) (unat (rs_sbuf_size (sd_rs A))) (length (sd_in A)) (take (unat x) buf),
                                             rs_ssgl0 := s0, rs_ssgl1 := s1\<rparr>,
       sd_sq A @ [data_wr sgl x (rs_tsgl (sd_rs A) (rs_target_sge (sd_rs A)))])"
    and e': "is_addr s0 = rs_sbuf (sd_rs A) + word_of_nat ((length (sd_in A) + unat x) mod unat (rs_sbuf_size (sd_rs A)))"
    "is_addr s1 = rs_sbuf (sd_rs A)" "sgl_reads (rs_sbuf (sd_rs A)) (unat (rs_sbuf_size (sd_rs A))) (length (sd_in A)) (unat x) sgl"
    and x: "0 < unat x" "unat x \<le> length buf" "unat x \<le> 65536" "unat x \<le> unat (rs_sbuf_size (sd_rs A))"
    "int (unat x) \<le> rs_sbuf_bytes_avail (sd_rs A)" "x \<le> rsge_len (rs_tsgl (sd_rs A) (rs_target_sge (sd_rs A)))"
    using send_facts[OF inv can buf olen] .
  define bs where "bs = take (unat x) buf"
  have bs: "length bs = unat x" using x(2) by (simp add: bs_def)
  have ur: "take n buf = bs" "q = sd_sq A @ [data_wr sgl x (rs_tsgl (sd_rs A) (rs_target_sge (sd_rs A)))]"
    "rs = (write_fields x (sd_rs A))\<lparr>rs_smem := ring_put (rs_smem (sd_rs A)) (unat (rs_sbuf_size (sd_rs A))) (length (sd_in A)) bs,
                                    rs_ssgl0 := s0, rs_ssgl1 := s1\<rparr>"
    using step unfolding e prod.inject bs_def by blast+
  let ?A = "A\<lparr>sd_rs := rs, sd_sq := q, sd_in := sd_in A @ bs\<rparr>" and ?I = "IA @ [Data (length (sd_in A)) (unat x)]"
  note i = inv_withD[OF inv]
  note d = dir_okD[OF i(7)]
  have st: "static rs = static (sd_rs A)" by (simp add: ur static_def write_fields_def)
  have cs: "rs_sseq_no (sd_rs A) \<noteq> rs_sseq_comp (sd_rs A)" "rsge_len (rs_tsgl (sd_rs A) (rs_target_sge (sd_rs A))) \<noteq> 0"
    using can by (simp_all add: rs_can_send_def)
  have h: "0 < half (sd_rs B)" "half (sd_rs B) < 2 ^ 31" "unat x < 2 ^ 31" using i(2) x(3) by (simp_all add: sized_def)
  have x': "word_of_nat (unat x) \<le> rsge_len (rs_tsgl (sd_rs A) (rs_target_sge (sd_rs A)))" using x(6) by simp
  note gs = grants_ok_send[OF d(3,8) cs(2) x(1) x' h]
  have a1: "is_addr (rs_ssgl1 (sd_rs A)) = rs_sbuf (sd_rs A)" using d(4) by (simp add: sbuf_ok_def)
  have dd: "dir_ok ?A B R ?I CA IB CB"
  proof (rule dir_okI, goal_cases)
    case 1 show ?case using flow_send[OF d(1), of bs] gs(2) x(1) unfolding bs by simp
  next
    case 2 show ?case using credit_ok_send[OF d(2) cs(1)] by (simp add: ur(3) write_fields_def)
  next
    case 3 show ?case using gs(1) bs by (simp add: ur(3) write_fields_def)
  next
    case 4 show ?case using sbuf_ok_send[OF d(4), of bs] x(5) a1 e'(1,2) unfolding bs by (simp add: ur(3) write_fields_def)
  next
    case 5 show ?case using rbuf_ok_more[OF d(5)] by simp
  next
    case 6 show ?case using d(6) by simp
  next
    case 7 show ?case using d(7) by (simp add: ur(3) write_fields_def)
  qed
  have "list_all2 (wr_ok rs (sd_rs B)) ?I q"
    unfolding static_same(5)[OF st] using i(5) gs(3,4) e'(3) x(3)
    by (auto simp: side_ok_def wr_ok_def ur(2) data_wr_def list_all2_appendI)
  moreover have "grants_written rs ?I"
    using i(1,5) bs x(4)
    by (intro grants_written_same[OF _ st, of IA]) (auto simp: side_ok_def ur(3) ring_put_beyond sized_def)
  ultimately have side': "side_ok ?A (sd_rs B) ?I CA"
    using i(5) static_same(7)[OF st] unfolding side_ok_def by (simp add: ur(3) write_fields_def)
  have "dir_ok B ?A R' IB CB IA CA" by (rule dir_ok_same[OF i(8)]) (simp_all add: in_fields_def ur(3) write_fields_def)
  then show ?thesis
    using inv_left[OF inv _ side' dd, of R'] st by (simp add: dir_ok_lists ur(1))
qed

section \<open>Polling keeps it\<close>

lemma poll_sent_data:
  assumes inv: "inv_with A B R R' IA (Sent (Data p l) # CA) IB CB" and cq: "sd_cq A = wc # cq"
  shows "stream_inv (A\<lparr>sd_rs := poll_send wc (sd_rs A), sd_cq := cq\<rparr>, B)"
proof -
  note i = inv_withD[OF inv]
  note d = dir_okD[OF i(7)]
  have wc: "wc = sent_wc (rs_rq_size (sd_rs A)) (Data p l)" "l \<le> 65536"
    "list_all2 (wc_ok (rs_rq_size (sd_rs A)) (rs_rq_size (sd_rs B))) CA cq"
    using i(5) cq by (simp_all add: side_ok_def)
  let ?A = "A\<lparr>sd_rs := (sd_rs A)\<lparr>rs_sqe_avail := rs_sqe_avail (sd_rs A) + 1, rs_sbuf_bytes_avail := rs_sbuf_bytes_avail (sd_rs A) + int l\<rparr>,
              sd_cq := cq\<rparr>"
  have st: "static (sd_rs ?A) = static (sd_rs A)" by (simp add: static_def)
  have "side_ok ?A (sd_rs B) IA CA"
    using i(5) wc(3) static_same(5)[OF st] grants_written_frame[OF st] unfolding side_ok_def by simp
  moreover have "dir_ok ?A B R IA CA IB CB"
  proof (rule dir_okI, goal_cases)
    case 4 show ?case using sbuf_ok_done[of _ _ _ _ _ _ _ _ l "data_sum (sents CA)"] d(4) by simp
  qed (use d in simp_all)
  moreover have "dir_ok B ?A R' IB CB IA CA"
    using dir_ok_same[OF i(8), of B ?A] by (simp add: in_fields_def dir_parts)
  ultimately show ?thesis using inv_left[OF inv st] wc poll_send_data[of l _ p] by simp
qed

lemma poll_sent_ctrl:
  assumes inv: "inv_with A B R R' IA (Sent it # CA) IB CB" and cq: "sd_cq A = wc # cq" and it: "\<not> is_data it"
  shows "stream_inv (A\<lparr>sd_rs := poll_send wc (sd_rs A), sd_cq := cq\<rparr>, B)"
proof -
  note i = inv_withD[OF inv]
  have wc: "wc = sent_wc (rs_rq_size (sd_rs A)) it" "item_small it"
    "list_all2 (wc_ok (rs_rq_size (sd_rs A)) (rs_rq_size (sd_rs B))) CA cq"
    using i(5) cq by (simp_all add: side_ok_def)
  obtain st where e: "poll_send wc (sd_rs A) = (sd_rs A)\<lparr>rs_ctrl_max_seqno := rs_ctrl_max_seqno (sd_rs A) + 1, rs_state := st\<rparr>"
    using poll_send_ctrl[OF it wc(2)] wc(1) by blast
  let ?A = "A\<lparr>sd_rs := poll_send wc (sd_rs A), sd_cq := cq\<rparr>"
  have st: "static (sd_rs ?A) = static (sd_rs A)" by (simp add: static_def e)
  have "side_ok ?A (sd_rs B) IA CA"
    using i(5) wc(3) static_same(5)[OF st] grants_written_frame[OF st] ctrl_ok_done[OF it] unfolding side_ok_def by (simp add: e)
  moreover have "dir_ok ?A B R IA CA IB CB"
    using dir_ok_same[OF i(7), of ?A B] it by (simp add: out_fields_def e) (simp add: dir_parts)
  moreover have "dir_ok B ?A R' IB CB IA CA"
    using dir_ok_same[OF i(8), of B ?A] by (simp add: in_fields_def e) (simp add: dir_parts)
  ultimately show ?thesis by (rule inv_left[OF inv st])
qed

lemma poll_got_data:
  assumes inv: "inv_with A B R R' IA (Got (Data p l) # CA) IB CB" and cq: "sd_cq A = wc # cq"
  shows "stream_inv (A\<lparr>sd_rs := fst (poll_recv wc (sd_rs A)), sd_cq := cq\<rparr>, B)"
proof -
  note i = inv_withD[OF inv]
  note d = dir_okD[OF i(8)]
  have wc: "wc = got_wc (rs_rq_size (sd_rs B)) (Data p l)" "l \<le> 65536"
    "list_all2 (wc_ok (rs_rq_size (sd_rs A)) (rs_rq_size (sd_rs B))) CA cq"
    using i(5) cq by (simp_all add: side_ok_def)
  let ?A = "A\<lparr>sd_rs := fst (poll_recv wc (sd_rs A)), sd_cq := cq\<rparr>"
  have room: "length R' < unat (rs_rq_size (sd_rs A))" using credit_ok_bound[OF d(2)] by simp
  have "rs_rmsg_tail (sd_rs A) \<le> unat (rs_rq_size (sd_rs A))" using d(6) by (simp add: ring_ok_def less_Suc_eq_le[symmetric])
  then have e: "fst (poll_recv wc (sd_rs A)) =
      (sd_rs A)\<lparr>rs_rmsg := (rs_rmsg (sd_rs A))(rs_rmsg_tail (sd_rs A) := \<lparr>rm_op = 0, rm_data = word_of_nat l\<rparr>),
                rs_rmsg_tail := (rs_rmsg_tail (sd_rs A) + 1) mod (unat (rs_rq_size (sd_rs A)) + 1)\<rparr>"
    using poll_recv_data[OF wc(2)] wc(1) by (simp add: ring_next_mod)
  have st: "static (sd_rs ?A) = static (sd_rs A)" by (simp add: static_def e)
  have "side_ok ?A (sd_rs B) IA CA"
    using i(5) wc(3) static_same(5)[OF st] grants_written_frame[OF st] unfolding side_ok_def by (simp add: e)
  moreover have "dir_ok ?A B R IA CA IB CB"
    using dir_ok_same[OF i(7), of ?A B] by (simp add: out_fields_def e) (simp add: dir_parts)
  moreover have "dir_ok B ?A (R' @ [l]) IB CB IA CA"
  proof (rule dir_okI, goal_cases)
    case 1 show ?case using flow_got[of _ _ _ _ p l] d(1) static_same(1)[OF st] by simp
  next
    case 6 show ?case using ring_ok_push[OF d(6) room wc(2), of "\<lparr>rm_op = 0, rm_data = word_of_nat l\<rparr>"] by (simp add: e)
  qed (use d(2-5,7) static_same(1)[OF st] in \<open>simp_all add: e add.assoc\<close>)
  ultimately show ?thesis by (rule inv_left[OF inv st])
qed

lemma poll_got_credit:
  assumes inv: "inv_with A B R R' IA (Got it # CA) IB CB" and cq: "sd_cq A = wc # cq" and it: "it = Grant j c m \<or> it = Credit c"
  shows "stream_inv (A\<lparr>sd_rs := fst (poll_recv wc (sd_rs A)), sd_cq := cq\<rparr>, B)"
proof -
  note i = inv_withD[OF inv]
  note d = dir_okD[OF i(7)]
  have wc: "wc = got_wc (rs_rq_size (sd_rs B)) it" "list_all2 (wc_ok (rs_rq_size (sd_rs A)) (rs_rq_size (sd_rs B))) CA cq"
    using i(5) cq by (simp_all add: side_ok_def)
  let ?A = "A\<lparr>sd_rs := fst (poll_recv wc (sd_rs A)), sd_cq := cq\<rparr>"
  have e: "fst (poll_recv wc (sd_rs A)) = (sd_rs A)\<lparr>rs_sseq_comp := word_of_nat (c + unat (rs_rq_size (sd_rs B)))\<rparr>"
    using poll_recv_credit wc(1) it by blast
  have nd: "\<not> is_data it" "credits_in (gots (Got it # CA) @ IB) = c # credits_in (gots CA @ IB)" using it by auto
  have st: "static (sd_rs ?A) = static (sd_rs A)" by (simp add: static_def e)
  have "side_ok ?A (sd_rs B) IA CA"
    using i(5) wc(2) static_same(5)[OF st] grants_written_frame[OF st] unfolding side_ok_def by (simp add: e)
  moreover have "dir_ok ?A B R IA CA IB CB"
  proof (rule dir_okI, goal_cases)
    case 2 show ?case using credit_ok_known[OF d(2)[unfolded nd(2)]] by (simp add: e del: of_nat_add)
  qed (use d(1,3-7) in \<open>simp_all add: e\<close>)
  moreover have "dir_ok B ?A R' IB CB IA CA"
    using dir_ok_same[OF i(8), of B ?A] nd(1) by (simp add: in_fields_def e) (simp add: dir_parts)
  ultimately show ?thesis by (rule inv_left[OF inv st])
qed

lemma poll_got_notice:
  assumes inv: "inv_with A B R R' IA (Got (Notice k) # CA) IB CB" and cq: "sd_cq A = wc # cq"
  shows "stream_inv (A\<lparr>sd_rs := fst (poll_recv wc (sd_rs A)), sd_cq := cq\<rparr>, B)"
proof -
  note i = inv_withD[OF inv]
  have wc: "wc = got_wc (rs_rq_size (sd_rs B)) (Notice k)" "item_small (Notice k)"
    "list_all2 (wc_ok (rs_rq_size (sd_rs A)) (rs_rq_size (sd_rs B))) CA cq"
    using i(5) cq by (simp_all add: side_ok_def)
  let ?A = "A\<lparr>sd_rs := fst (poll_recv wc (sd_rs A)), sd_cq := cq\<rparr>"
  obtain s where e: "fst (poll_recv wc (sd_rs A)) = (sd_rs A)\<lparr>rs_state := s\<rparr>"
    using poll_recv_notice[OF wc(2)] wc(1) by blast
  have st: "static (sd_rs ?A) = static (sd_rs A)" by (simp add: static_def e)
  have "side_ok ?A (sd_rs B) IA CA"
    using i(5) wc(3) static_same(5)[OF st] grants_written_frame[OF st] unfolding side_ok_def by (simp add: e)
  moreover have "dir_ok ?A B R IA CA IB CB"
    using dir_ok_same[OF i(7), of ?A B] by (simp add: out_fields_def e) (simp add: dir_parts)
  moreover have "dir_ok B ?A R' IB CB IA CA"
    using dir_ok_same[OF i(8), of B ?A] by (simp add: in_fields_def e) (simp add: dir_parts)
  ultimately show ?thesis by (rule inv_left[OF inv st])
qed

lemma poll_keeps:
  assumes inv: "inv_with A B R R' IA CA IB CB" and cq: "sd_cq A = wc # cq"
  shows "stream_inv (A\<lparr>sd_rs := (if rs_wr_is_recv (wc_id wc) then fst (poll_recv wc (sd_rs A)) else poll_send wc (sd_rs A)), sd_cq := cq\<rparr>, B)"
proof -
  obtain c C where c: "CA = c # C" "wc_ok (rs_rq_size (sd_rs A)) (rs_rq_size (sd_rs B)) c wc"
    using inv_withD(5)[OF inv] cq by (auto simp: side_ok_def list_all2_Cons2)
  show ?thesis
  proof (cases c)
    case (Sent it)
    then have "\<not> rs_wr_is_recv (wc_id wc)" using c(2) by (simp add: sent_wc_def)
    then show ?thesis
      using poll_sent_data[OF _ cq] poll_sent_ctrl[OF _ cq, of B R R' IA it] inv[unfolded c(1) Sent] by (cases it) auto
  next
    case (Got it)
    then have "rs_wr_is_recv (wc_id wc)" using c(2) by (simp add: got_wc_def)
    then show ?thesis
      using poll_got_data[OF _ cq] poll_got_credit[OF _ cq] poll_got_notice[OF _ cq] inv[unfolded c(1) Got] by (cases it) auto
  qed
qed

section \<open>Receiving keeps it\<close>

lemma grants_ok_room: "grants_ok h r s hs rs fr av tsgl t base key \<Longrightarrow> r \<le> s \<Longrightarrow> 0 < h \<Longrightarrow> s \<le> r + 2 * h"
  by (erule grants_okE) simp_all

text \<open>The first message of the ring is in the buffer, and reading \<open>x\<close> bytes of it gives the next bytes of the stream.\<close>

lemma read_facts:
  assumes inv: "inv_with A B R (l # R') IA CA IB CB" and x: "0 < unat x" "unat x \<le> l"
  shows "fst (rbuf_read (sd_rs A) (rs_rbuf_offset (sd_rs A)) x) = take (unat x) (drop (length (sd_out A)) (sd_in B))"
    "rbuf_ok (2 * half (sd_rs A)) (rs_rmem (sd_rs A)) (snd (rbuf_read (sd_rs A) (rs_rbuf_offset (sd_rs A)) x)) (sd_in B)
       (length (sd_out A) + unat x) (l - unat x + sum_list R' + data_sum (gots CA))"
    "length (take (unat x) (drop (length (sd_out A)) (sd_in B))) = unat x"
proof -
  note i = inv_withD[OF inv]
  note d = dir_okD[OF i(8)]
  have N: "2 * half (sd_rs A) = unat (rs_rbuf_size (sd_rs A))" "0 < half (sd_rs A)" using i(1) by (simp_all add: sized_def)
  have s: "length (sd_in B) = length (sd_out A) + (l + sum_list R') + (data_sum (gots CA) + data_sum IB)"
    using flow_sum[OF d(1)] by simp
  have room: "unat x \<le> 2 * half (sd_rs A)" using grants_ok_room[OF d(3,8) N(2)] s x(2) by simp
  have v: "unat x \<le> sum_list (l # R') + data_sum (gots CA)" using x(2) by simp
  have eq: "sum_list (l # R') + data_sum (gots CA) - unat x = l - unat x + sum_list R' + data_sum (gots CA)" using x(2) by simp
  show "fst (rbuf_read (sd_rs A) (rs_rbuf_offset (sd_rs A)) x) = take (unat x) (drop (length (sd_out A)) (sd_in B))"
    "rbuf_ok (2 * half (sd_rs A)) (rs_rmem (sd_rs A)) (snd (rbuf_read (sd_rs A) (rs_rbuf_offset (sd_rs A)) x)) (sd_in B)
       (length (sd_out A) + unat x) (l - unat x + sum_list R' + data_sum (gots CA))"
    using rbuf_read_ok[OF d(5) N(1) _ v x(1) room] N(2) unfolding eq by simp_all
  show "length (take (unat x) (drop (length (sd_out A)) (sd_in B))) = unat x" using s x(2) by simp
qed

lemma recv_part_keeps:
  assumes inv: "inv_with A B R (l # R') IA CA IB CB" and x: "0 < left" "left < l" and step: "recv_chunk left (sd_rs A) = (bs, rs)"
  shows "stream_inv (A\<lparr>sd_rs := rs, sd_out := sd_out A @ bs\<rparr>, B) \<and> bs \<noteq> []"
proof -
  note i = inv_withD[OF inv]
  note d = dir_okD[OF i(8)]
  have "l \<le> 65536" using d(6) by (simp add: ring_ok_def)
  then have u: "unat (word_of_nat left :: u32) = left" using x(2) by simp
  let ?p = "snd (rbuf_read (sd_rs A) (rs_rbuf_offset (sd_rs A)) (word_of_nat left))"
  have r: "fst (rbuf_read (sd_rs A) (rs_rbuf_offset (sd_rs A)) (word_of_nat left)) = take left (drop (length (sd_out A)) (sd_in B))"
    "rbuf_ok (2 * half (sd_rs A)) (rs_rmem (sd_rs A)) ?p (sd_in B) (length (sd_out A) + left) (l - left + sum_list R' + data_sum (gots CA))"
    "length (take left (drop (length (sd_out A)) (sd_in B))) = left"
    using read_facts[OF inv, of "word_of_nat left"] x unfolding u by simp_all
  have bs: "bs = take left (drop (length (sd_out A)) (sd_in B))" "length bs = left"
    and rs: "rs = (sd_rs A)\<lparr>rs_rmsg := (rs_rmsg (sd_rs A))(rs_rmsg_head (sd_rs A) := (rs_rmsg (sd_rs A) (rs_rmsg_head (sd_rs A)))
                 \<lparr>rm_data := rm_data (rs_rmsg (sd_rs A) (rs_rmsg_head (sd_rs A))) - word_of_nat left\<rparr>), rs_rbuf_offset := ?p,
                rs_rbuf_bytes_avail := rs_rbuf_bytes_avail (sd_rs A) + int left\<rparr>"
    using step r(3) unfolding recv_part[OF ring_ok_front[OF d(6)] x(2)] Let_def case_prod_unfold r(1) prod.inject by metis+
  let ?A = "A\<lparr>sd_rs := rs, sd_out := sd_out A @ bs\<rparr>"
  have st: "static (sd_rs ?A) = static (sd_rs A)" by (simp add: static_def rs)
  have "side_ok ?A (sd_rs B) IA CA"
    using i(5) static_same(5)[OF st] grants_written_frame[OF st] unfolding side_ok_def by (simp add: rs)
  moreover have "dir_ok ?A B R IA CA IB CB"
    by (rule dir_ok_same[OF i(7)]) (simp_all add: out_fields_def rs)
  moreover have "dir_ok B ?A ((l - left) # R') IB CB IA CA"
  proof (rule dir_okI, goal_cases)
    case 1 show ?case using flow_read[OF d(1) x(1), unfolded if_P[OF x(2)]] x(2) static_same(1)[OF st] bs(1) by simp
  next
    case 3 show ?case using grants_ok_read[OF d(3), of left] static_same(1)[OF st] bs(2) by (simp add: rs)
  next
    case 5 show ?case using r(2) static_same(1)[OF st] bs(2) by (simp add: rs)
  next
    case 6 show ?case using ring_ok_shrink[OF d(6) x(2)] by (simp add: rs)
  qed (use d(2,4,7) in \<open>simp_all add: rs\<close>)
  ultimately show ?thesis using inv_left[OF inv st] bs(2) x(1) by auto
qed

lemma recv_whole_keeps:
  assumes inv: "inv_with A B R (l # R') IA CA IB CB" and x: "l \<le> left" and step: "recv_chunk left (sd_rs A) = (bs, rs)"
  shows "stream_inv (A\<lparr>sd_rs := rs, sd_out := sd_out A @ bs\<rparr>, B) \<and> bs \<noteq> []"
proof -
  note i = inv_withD[OF inv]
  note d = dir_okD[OF i(8)]
  let ?m = "rm_data (rs_rmsg (sd_rs A) (rs_rmsg_head (sd_rs A)))" and ?p = "snd (rbuf_read (sd_rs A) (rs_rbuf_offset (sd_rs A)) (rm_data (rs_rmsg (sd_rs A) (rs_rmsg_head (sd_rs A)))))"
  have u: "unat ?m = l" by (rule ring_ok_front[OF d(6)])
  have l: "0 < l" using d(1) by (auto simp: flow_def)
  have r: "fst (rbuf_read (sd_rs A) (rs_rbuf_offset (sd_rs A)) ?m) = take l (drop (length (sd_out A)) (sd_in B))"
    "rbuf_ok (2 * half (sd_rs A)) (rs_rmem (sd_rs A)) ?p (sd_in B) (length (sd_out A) + l) (sum_list R' + data_sum (gots CA))"
    "length (take l (drop (length (sd_out A)) (sd_in B))) = l"
    using read_facts[OF inv, of ?m] l unfolding u by simp_all
  have "rs_rmsg_head (sd_rs A) \<le> unat (rs_rq_size (sd_rs A))" using d(6) by (simp add: ring_ok_def)
  note nx = ring_next_mod[OF this]
  have bs: "bs = take l (drop (length (sd_out A)) (sd_in B))" "length bs = l"
    and rs: "rs = (sd_rs A)\<lparr>rs_rseq_no := rs_rseq_no (sd_rs A) + 1,
                 rs_rmsg_head := (rs_rmsg_head (sd_rs A) + 1) mod (unat (rs_rq_size (sd_rs A)) + 1), rs_rbuf_offset := ?p,
                 rs_rbuf_bytes_avail := rs_rbuf_bytes_avail (sd_rs A) + int l\<rparr>"
    using step r(3) unfolding recv_whole[OF u x] Let_def case_prod_unfold r(1) prod.inject nx by metis+
  let ?A = "A\<lparr>sd_rs := rs, sd_out := sd_out A @ bs\<rparr>"
  have st: "static (sd_rs ?A) = static (sd_rs A)" by (simp add: static_def rs)
  have "side_ok ?A (sd_rs B) IA CA"
    using i(5) static_same(5)[OF st] grants_written_frame[OF st] unfolding side_ok_def by (simp add: rs)
  moreover have "dir_ok ?A B R IA CA IB CB"
    by (rule dir_ok_same[OF i(7)]) (simp_all add: out_fields_def rs)
  moreover have "dir_ok B ?A R' IB CB IA CA"
  proof (rule dir_okI, goal_cases)
    case 1 show ?case using flow_read[OF d(1) l order_refl] static_same(1)[OF st] bs(1) by simp
  next
    case 2 show ?case using credit_ok_consume[where flying = "length R' + data_count (gots CA @ IB)"] d(2) by (simp add: rs)
  next
    case 3 show ?case using grants_ok_read[OF d(3), of l] static_same(1)[OF st] bs(2) by (simp add: rs)
  next
    case 5 show ?case using r(2) static_same(1)[OF st] bs(2) by (simp add: rs)
  next
    case 6 show ?case using ring_ok_pop[OF d(6)] by (simp add: rs)
  qed (use d(4,7) in \<open>simp_all add: rs\<close>)
  ultimately show ?thesis using inv_left[OF inv st] bs(2) l by auto
qed

lemma recv_keeps:
  assumes inv: "inv_with A B R R' IA CA IB CB" and "rs_have_rdata (sd_rs A)" and "0 < left" "recv_chunk left (sd_rs A) = (bs, rs)"
  shows "stream_inv (A\<lparr>sd_rs := rs, sd_out := sd_out A @ bs\<rparr>, B) \<and> bs \<noteq> []"
proof -
  have "R' \<noteq> []" using ring_ok_empty[OF dir_okD(6)[OF inv_withD(8)[OF inv]]] assms(2) by (simp add: rs_have_rdata_def)
  then obtain l R2 where "R' = l # R2" by (cases R') auto
  then show ?thesis using inv recv_part_keeps recv_whole_keeps assms(3,4) not_le by metis
qed

section \<open>Giving credits keeps it\<close>

lemma half_u16: "drop_bit 1 (Q :: u16) = word_of_nat (unat Q div 2)"
proof -
  have u: "unat (drop_bit 1 Q) = unat Q div 2" unfolding unat_drop_bit_eq by (simp add: drop_bit_eq_div)
  show ?thesis unfolding u[symmetric] by simp
qed

lemma grants_ok_avail_le:
  assumes "grants_ok h r s hs rs fr av tsgl t base key" "r \<le> s" "0 < h"
  shows "av \<le> int (2 * h)"
proof -
  obtain g where "av = int (r + 2 * h) - int (g * h)" "s \<le> g * h" by (rule grants_okE[OF assms])
  then show ?thesis using assms(2) by linarith
qed

lemma half_free_avail:
  assumes "sized rs" "grants_ok (half rs) r s hs k fr (rs_rbuf_bytes_avail rs) tsgl t base key" "r \<le> s"
  shows "half_free rs \<longleftrightarrow> int (half rs) \<le> rs_rbuf_bytes_avail rs"
proof -
  have z: "unat (rs_rbuf_size rs) = 2 * half rs" "0 < half rs" "half rs < 2 ^ 30" using assms(1) by (simp_all add: sized_def)
  have "rs_rbuf_bytes_avail rs \<le> int (2 * half rs)" by (rule grants_ok_avail_le[OF assms(2,3) z(2)])
  also have "\<dots> < 2 ^ 32" using z(3) by simp
  finally show ?thesis using half_free_iff[OF z(1)] grants_ok_avail(1)[OF assms(2,3)] by blast
qed

lemma grant_item_msg:
  assumes "rs_rseq_no rs = word_of_nat c"
  shows "credit_msg rs = item_msg (rs_rq_size rs) (Grant i c m)" "credit_msg rs = item_msg (rs_rq_size rs) (Credit c)"
  using assms by (simp_all add: credit_msg_def)

lemma grants_written_new:
  assumes "grants_written rs items" "static rs' = static rs"
    "rs_smem rs' = put_bytes (rs_smem rs) (unat (rs_sbuf_size rs) + 16 * (m mod 4))
       (sge_bytes (rs_rbuf rs + word_of_nat (i mod 2 * half rs)) (rs_rmr_rkey rs) (word_of_nat (half rs)))"
    "\<forall>i c m'. Grant i c m' \<in> set items \<longrightarrow> m' mod 4 \<noteq> m mod 4"
  shows "grants_written rs' (items @ [Grant i c m])"
proof -
  have s: "half rs' = half rs" "rs_sbuf_size rs' = rs_sbuf_size rs" "rs_rbuf rs' = rs_rbuf rs" "rs_rmr_rkey rs' = rs_rmr_rkey rs"
    using static_same(1)[OF assms(2)] assms(2) by (simp_all add: static_def)
  have "get_bytes (rs_smem rs') (unat (rs_sbuf_size rs) + 16 * (m' mod 4)) 16 =
      get_bytes (rs_smem rs) (unat (rs_sbuf_size rs) + 16 * (m' mod 4)) 16" if "m' mod 4 \<noteq> m mod 4" for m'
    unfolding assms(3) using that by (intro get_put_bytes_apart) (simp, linarith)
  moreover have "get_bytes (rs_smem rs') (unat (rs_sbuf_size rs) + 16 * (m mod 4)) 16 =
      sge_bytes (rs_rbuf rs + word_of_nat (i mod 2 * half rs)) (rs_rmr_rkey rs) (word_of_nat (half rs))"
    unfolding assms(3) by (simp del: of_nat_mult)
  ultimately show ?thesis using assms(1,4) unfolding grants_written_def s by (auto simp del: of_nat_mult)
qed

lemma grant_keeps:
  assumes inv: "inv_with A B R R' IA CA IB CB" and give: "rs_give_credits (sd_rs A)" "half_free (sd_rs A)"
    and step: "rs_update_credits qdev (sd_rs A) (sd_sq A) = (rs, q)"
  shows "stream_inv (A\<lparr>sd_rs := rs, sd_sq := q\<rparr>, B)"
proof -
  note i = inv_withD[OF inv]
  note d = dir_okD[OF i(7)] and d' = dir_okD[OF i(8)]
  let ?h = "half (sd_rs A)" and ?M = "unat (rs_sbuf_size (sd_rs A))"
  have z: "rs_opts (sd_rs A) = 0" "unat (rs_rbuf_size (sd_rs A)) = 2 * ?h" "0 < ?h" "?h < 2 ^ 30" "0 < ?M" "?M < 2 ^ 31"
    "rsge_len (rs_remote_sgl (sd_rs A)) = 2" using i(1) by (simp_all add: sized_def)
  have "int ?h \<le> rs_rbuf_bytes_avail (sd_rs A)" using half_free_avail[OF i(1) d'(3,8)] give(2) by blast
  from grants_ok_post[OF d'(3) this] obtain j where j: "rs_remote_sge (sd_rs A) = j mod 2"
    "rs_rbuf_free_offset (sd_rs A) = int (j mod 2 * ?h)"
    "grants_ok ?h (length (sd_out A)) (length (sd_in B)) (halves IA @ [j]) ((j + 1) mod 2) (int ((j + 1) mod 2 * ?h))
       (rs_rbuf_bytes_avail (sd_rs A) - int ?h) (rs_tsgl (sd_rs B)) (rs_target_sge (sd_rs B)) (rs_rbuf (sd_rs A)) (rs_rmr_rkey (sd_rs A))" .
  have c: "ctrl_ok (rs_ctrl_seqno (sd_rs A)) (rs_ctrl_max_seqno (sd_rs A)) (sents CA @ IA)" using i(5) by (simp add: side_ok_def)
  have "rs_ctrl_seqno (sd_rs A) \<noteq> rs_ctrl_max_seqno (sd_rs A)" using give(1) z(1) by (simp add: rs_give_credits_def rs_ctrl_avail_def)
  from ctrl_ok_post[OF c this] obtain m where m: "rs_ctrl_seqno (sd_rs A) + 1 = word_of_nat m"
    "\<And>i c. ctrl_ok (rs_ctrl_seqno (sd_rs A) + 1) (rs_ctrl_max_seqno (sd_rs A)) ((sents CA @ IA) @ [Grant i c m])"
    "\<forall>i c m'. Grant i c m' \<in> set (sents CA @ IA) \<longrightarrow> m' mod 4 \<noteq> m mod 4" by (metis (no_types))
  from credit_ok_grant[OF d'(2)] obtain k where k: "rs_rseq_no (sd_rs A) = word_of_nat k"
    "credit_ok (unat (rs_rq_size (sd_rs A))) (rs_sseq_no (sd_rs B)) (rs_sseq_comp (sd_rs B)) (rs_rseq_no (sd_rs A))
       (rs_rseq_no (sd_rs A) + drop_bit 1 (rs_rq_size (sd_rs A))) (length R' + data_count (gots CA @ IB)) (credits_in (gots CB @ IA) @ [k])"
    using half_u16 by metis
  have e: "rs = (sd_rs A)\<lparr>rs_ctrl_seqno := rs_ctrl_seqno (sd_rs A) + 1, rs_rseq_comp := rs_rseq_no (sd_rs A) + drop_bit 1 (rs_rq_size (sd_rs A)),
        rs_smem := put_bytes (rs_smem (sd_rs A)) (?M + 16 * (m mod 4))
                     (sge_bytes (rs_rbuf (sd_rs A) + word_of_nat (j mod 2 * ?h)) (rs_rmr_rkey (sd_rs A)) (word_of_nat ?h)),
        rs_rbuf_bytes_avail := rs_rbuf_bytes_avail (sd_rs A) - int ?h, rs_rbuf_free_offset := int ((j + 1) mod 2 * ?h),
        rs_remote_sge := (j + 1) mod 2\<rparr>" "q = sd_sq A @ [grant_wr ?M j m (sd_rs A)]"
    using step unfolding grant_effect[OF z(1) give z(2,3) j(2,1) z(7) m(1) refl z(6)] prod.inject by blast+
  let ?A = "A\<lparr>sd_rs := rs, sd_sq := q\<rparr>" and ?I = "IA @ [Grant j k m]"
  have st: "static (sd_rs ?A) = static (sd_rs A)" by (simp add: static_def e)
  have "wr_ok (sd_rs A) (sd_rs B) (Grant j k m) (grant_wr ?M j m (sd_rs A))"
    using grant_item_msg(1)[OF k(1)] i(4) unfolding wr_ok_def by (simp add: grant_wr_def linked_def del: item_msg.simps)
  moreover have "grants_written rs ?I"
    using i(5) m(3) st by (intro grants_written_new) (auto simp: side_ok_def e)
  ultimately have "side_ok ?A (sd_rs B) ?I CA"
    using i(5) static_same(5)[OF st] m(2) unfolding side_ok_def by (simp add: e list_all2_appendI)
  moreover have "dir_ok ?A B R ?I CA IB CB"
  proof (rule dir_okI, goal_cases)
    case 4 show ?case using sbuf_ok_ctrl[OF d(4) _ z(5)] by (simp add: e)
  qed (use d(1-3,5-7) in \<open>simp_all add: e\<close>)
  moreover have "dir_ok B ?A R' IB CB ?I CA"
  proof (rule dir_okI, goal_cases)
    case 2 show ?case using k(2) by (simp add: e)
  next
    case 3 show ?case using j(3) static_same(1)[OF st] by (simp add: e)
  qed (use d'(1,4-7) static_same(1)[OF st] in \<open>simp_all add: e\<close>)
  ultimately show ?thesis by (rule inv_left[OF inv st])
qed

lemma credit_keeps:
  assumes inv: "inv_with A B R R' IA CA IB CB" and give: "rs_give_credits (sd_rs A)" "\<not> half_free (sd_rs A)"
    and step: "rs_update_credits qdev (sd_rs A) (sd_sq A) = (rs, q)"
  shows "stream_inv (A\<lparr>sd_rs := rs, sd_sq := q\<rparr>, B)"
proof -
  note i = inv_withD[OF inv]
  note d = dir_okD[OF i(7)] and d' = dir_okD[OF i(8)]
  have z: "rs_opts (sd_rs A) = 0" using i(1) by (simp add: sized_def)
  have c: "ctrl_ok (rs_ctrl_seqno (sd_rs A)) (rs_ctrl_max_seqno (sd_rs A)) (sents CA @ IA)" using i(5) by (simp add: side_ok_def)
  have "rs_ctrl_seqno (sd_rs A) \<noteq> rs_ctrl_max_seqno (sd_rs A)" using give(1) z by (simp add: rs_give_credits_def rs_ctrl_avail_def)
  then have m: "\<And>c. ctrl_ok (rs_ctrl_seqno (sd_rs A) + 1) (rs_ctrl_max_seqno (sd_rs A)) ((sents CA @ IA) @ [Credit c])"
    by (rule ctrl_ok_post[OF c])
  from credit_ok_grant[OF d'(2)] obtain k where k: "rs_rseq_no (sd_rs A) = word_of_nat k"
    "credit_ok (unat (rs_rq_size (sd_rs A))) (rs_sseq_no (sd_rs B)) (rs_sseq_comp (sd_rs B)) (rs_rseq_no (sd_rs A))
       (rs_rseq_no (sd_rs A) + drop_bit 1 (rs_rq_size (sd_rs A))) (length R' + data_count (gots CA @ IB)) (credits_in (gots CB @ IA) @ [k])"
    using half_u16 by metis
  have e: "rs = (sd_rs A)\<lparr>rs_ctrl_seqno := rs_ctrl_seqno (sd_rs A) + 1, rs_rseq_comp := rs_rseq_no (sd_rs A) + drop_bit 1 (rs_rq_size (sd_rs A))\<rparr>"
    "q = sd_sq A @ [plain_wr (credit_msg (sd_rs A))]"
    using step unfolding credit_effect[OF z give] prod.inject by blast+
  let ?A = "A\<lparr>sd_rs := rs, sd_sq := q\<rparr>" and ?I = "IA @ [Credit k]"
  have st: "static (sd_rs ?A) = static (sd_rs A)" by (simp add: static_def e)
  have "wr_ok (sd_rs A) (sd_rs B) (Credit k) (plain_wr (credit_msg (sd_rs A)))"
    using grant_item_msg(2)[OF k(1)] unfolding wr_ok_def by (simp add: plain_wr_def del: item_msg.simps)
  moreover have "grants_written rs ?I"
    using i(5) st by (intro grants_written_same[of "sd_rs A" IA rs ?I]) (simp_all add: side_ok_def e)
  ultimately have "side_ok ?A (sd_rs B) ?I CA"
    using i(5) static_same(5)[OF st] m unfolding side_ok_def by (simp add: e list_all2_appendI)
  moreover have "dir_ok ?A B R ?I CA IB CB"
    by (rule dir_okI) (use d(1-7) in \<open>simp_all add: e\<close>)
  moreover have "dir_ok B ?A R' IB CB ?I CA"
  proof (rule dir_okI, goal_cases)
    case 2 show ?case using k(2) by (simp add: e)
  qed (use d'(1,3-7) static_same(1)[OF st] in \<open>simp_all add: e\<close>)
  ultimately show ?thesis by (rule inv_left[OF inv st])
qed

lemma credits_keeps:
  assumes "inv_with A B R R' IA CA IB CB" "rs_update_credits qdev (sd_rs A) (sd_sq A) = (rs, q)"
  shows "stream_inv (A\<lparr>sd_rs := rs, sd_sq := q\<rparr>, B)"
proof (cases "rs_give_credits (sd_rs A)")
  case False
  then have "rs = sd_rs A" "q = sd_sq A" using assms(2) by (simp_all add: rs_update_credits_def)
  then have "A\<lparr>sd_rs := rs, sd_sq := q\<rparr> = A" by simp
  then show ?thesis using stream_invI[OF assms(1)] by simp
qed (use assms grant_keeps credit_keeps in metis)

section \<open>Shutting down keeps it\<close>

lemma shutdown_notice: "shutdown_ctrl how st = (st', Some ctrl) \<Longrightarrow> item_small (Notice ctrl)"
  by (auto simp: shutdown_ctrl_def Let_def split: shut.splits if_splits)

lemma shutdown_keeps:
  assumes inv: "inv_with A B R R' IA CA IB CB" and how: "shutdown_ctrl how (rs_state (sd_rs A)) = (s, Some ctrl)"
    and step: "post_ctrl qdev ctrl ((sd_rs A)\<lparr>rs_state := s\<rparr>) (sd_sq A) = (ret, rs, q)"
  shows "stream_inv (A\<lparr>sd_rs := rs, sd_sq := q\<rparr>, B)"
proof -
  note i = inv_withD[OF inv]
  note d = dir_okD[OF i(7)] and d' = dir_okD[OF i(8)]
  have z: "rs_opts ((sd_rs A)\<lparr>rs_state := s\<rparr>) = 0" using i(1) by (simp add: sized_def)
  have c: "ctrl_ok (rs_ctrl_seqno (sd_rs A)) (rs_ctrl_max_seqno (sd_rs A)) (sents CA @ IA)" using i(5) by (simp add: side_ok_def)
  let ?A = "A\<lparr>sd_rs := rs, sd_sq := q\<rparr>" and ?rs = "(sd_rs A)\<lparr>rs_state := s\<rparr>"
  show ?thesis
  proof (cases "has s rs_connected \<and> rs_ctrl_avail ?rs")
    case True
    then have e: "rs = ?rs\<lparr>rs_ctrl_seqno := rs_ctrl_seqno (sd_rs A) + 1\<rparr>" "q = sd_sq A @ [plain_wr (rs_msg_set 7 ctrl)]"
      using step unfolding ctrl_effect[OF z] by simp_all
    let ?I = "IA @ [Notice ctrl]"
    have "rs_ctrl_seqno (sd_rs A) \<noteq> rs_ctrl_max_seqno (sd_rs A)" using True by (simp add: rs_ctrl_avail_def)
    then have m: "\<And>c. ctrl_ok (rs_ctrl_seqno (sd_rs A) + 1) (rs_ctrl_max_seqno (sd_rs A)) ((sents CA @ IA) @ [Notice c])"
      by (rule ctrl_ok_post[OF c])
    have st: "static (sd_rs ?A) = static (sd_rs A)" by (simp add: static_def e)
    have "wr_ok (sd_rs A) (sd_rs B) (Notice ctrl) (plain_wr (rs_msg_set 7 ctrl))"
      using shutdown_notice[OF how] unfolding wr_ok_def by (simp add: plain_wr_def)
    moreover have "grants_written rs ?I"
      using i(5) st by (intro grants_written_same[of "sd_rs A" IA rs ?I]) (simp_all add: side_ok_def e)
    ultimately have "side_ok ?A (sd_rs B) ?I CA"
      using i(5) static_same(5)[OF st] m unfolding side_ok_def by (simp add: e list_all2_appendI)
    moreover have "dir_ok ?A B R ?I CA IB CB" by (rule dir_okI) (use d(1-7) in \<open>simp_all add: e\<close>)
    moreover have "dir_ok B ?A R' IB CB ?I CA" by (rule dir_okI) (use d'(1-7) static_same(1)[OF st] in \<open>simp_all add: e\<close>)
    ultimately show ?thesis by (rule inv_left[OF inv st])
  next
    case False
    then have e: "rs = ?rs" "q = sd_sq A" using step unfolding ctrl_effect[OF z] by auto
    have st: "static (sd_rs ?A) = static (sd_rs A)" by (simp add: static_def e)
    have "side_ok ?A (sd_rs B) IA CA"
      using i(5) static_same(5)[OF st] grants_written_frame[OF st] unfolding side_ok_def by (simp add: e)
    moreover have "dir_ok ?A B R IA CA IB CB" by (rule dir_ok_same[OF i(7)]) (simp_all add: out_fields_def e)
    moreover have "dir_ok B ?A R' IB CB IA CA" by (rule dir_ok_same[OF i(8)]) (simp_all add: in_fields_def e)
    ultimately show ?thesis by (rule inv_left[OF inv st])
  qed
qed

section \<open>The connection keeps it\<close>

lemma wire_sides:
  assumes inv: "inv_with A B R R' (it # I) CA IB CB" and q: "sd_sq A = wr # q" and rs: "rs = (sd_rs B)\<lparr>rs_rmem := mm, rs_tsgl := tt\<rparr>"
  shows "side_ok (A\<lparr>sd_sq := q, sd_cq := sd_cq A @ [send_wc wr]\<rparr>) rs I (CA @ [Sent it])"
    "side_ok (B\<lparr>sd_rs := rs, sd_cq := sd_cq B @ [recv_wc wr]\<rparr>) (sd_rs A) IB (CB @ [Got it])"
    "static rs = static (sd_rs B)"
proof -
  note i = inv_withD[OF inv]
  show st: "static rs = static (sd_rs B)" by (simp add: static_def rs)
  note s = static_same(5-7)[OF st]
  have w: "wr_id wr = rs_send_wr_id (item_msg (rs_rq_size (sd_rs A)) it)" "wr_imm wr = htonl (item_msg (rs_rq_size (sd_rs A)) it)"
    "item_small it" using i(5) q by (simp_all add: side_ok_def wr_ok_def)
  have wc: "wc_ok Q Q' (Got it) (recv_wc wr)" if "Q' = rs_rq_size (sd_rs A)" for Q Q'
    using w that by (simp add: recv_wc_def got_wc_def del: item_msg.simps)
  have wc': "wc_ok Q Q' (Sent it) (send_wc wr)" if "Q = rs_rq_size (sd_rs A)" for Q Q'
    using w that by (simp add: send_wc_def sent_wc_def del: item_msg.simps)
  have g: "grants_written (sd_rs A) I" using i(5) by (simp add: side_ok_def grants_written_def)
  show "side_ok (A\<lparr>sd_sq := q, sd_cq := sd_cq A @ [send_wc wr]\<rparr>) rs I (CA @ [Sent it])"
    using i(5) q g wc' s by (simp add: side_ok_def list_all2_appendI)
  show "side_ok (B\<lparr>sd_rs := rs, sd_cq := sd_cq B @ [recv_wc wr]\<rparr>) (sd_rs A) IB (CB @ [Got it])"
    using i(6) wc s grants_written_frame[OF st] by (simp add: side_ok_def list_all2_appendI) (simp add: rs)
qed

lemma wire_result:
  assumes inv: "inv_with A B R R' (it # I) CA IB CB" and q: "sd_sq A = wr # q" and rs: "rs = (sd_rs B)\<lparr>rs_rmem := mm, rs_tsgl := tt\<rparr>"
    and w: "rdma_write (wr_rkey wr) (wr_raddr wr) (gather (sd_rs A) (wr_sgl wr)) (sd_rs B) = Some rs"
    and rb: "rbuf_ok (2 * half (sd_rs B)) mm (rs_rbuf_offset (sd_rs B)) (sd_in A) (length (sd_out B)) (sum_list R + data_sum (gots CB) + data_len it)"
    and gr: "grants_ok (half (sd_rs A)) (length (sd_out A)) (length (sd_in B)) (halves I) (rs_remote_sge (sd_rs A))
       (rs_rbuf_free_offset (sd_rs A)) (rs_rbuf_bytes_avail (sd_rs A)) tt (rs_target_sge (sd_rs B)) (rs_rbuf (sd_rs A)) (rs_rmr_rkey (sd_rs A))"
  shows "\<exists>A' B'. wire A B = Some (A', B') \<and> stream_inv (A', B')"
proof -
  note i = inv_withD[OF inv]
  note d = dir_okD[OF i(7)] and d' = dir_okD[OF i(8)] and s = wire_sides[OF inv q rs]
  let ?A = "A\<lparr>sd_sq := q, sd_cq := sd_cq A @ [send_wc wr]\<rparr>" and ?B = "B\<lparr>sd_rs := rs, sd_cq := sd_cq B @ [recv_wc wr]\<rparr>"
  note h = static_same(1)[OF s(3)]
  have "dir_ok ?A ?B R I (CA @ [Sent it]) IB (CB @ [Got it])"
  proof (rule dir_okI, goal_cases)
    case 4 show ?case using sbuf_ok_wire[OF d(4)[unfolded list_parts(2)]] by (simp add: add.commute)
  next
    case 5 show ?case using rb h by (simp add: rs add.assoc)
  qed (use d(1-3,6,7) h in \<open>simp_all add: rs\<close>)
  moreover have "dir_ok ?B ?A R' IB (CB @ [Got it]) I (CA @ [Sent it])"
  proof (rule dir_okI, goal_cases)
    case 3 show ?case using gr by (simp add: rs)
  qed (use d'(1,2,4-7) in \<open>simp_all add: rs\<close>)
  ultimately have "inv_with ?A ?B R R' I (CA @ [Sent it]) IB (CB @ [Got it])"
    using i(1-4) s static_same[OF s(3)] by (simp add: inv_with_def)
  moreover have "wire A B = Some (?A, ?B)" using q w by (simp add: wire_def)
  ultimately show ?thesis by (metis stream_invI)
qed

lemma wire_plain:
  assumes inv: "inv_with A B R R' (it # I) CA IB CB" and q: "sd_sq A = wr # q" and it: "it = Credit c \<or> it = Notice n"
  shows "\<exists>A' B'. wire A B = Some (A', B') \<and> stream_inv (A', B')"
proof -
  note i = inv_withD[OF inv]
  note d = dir_okD[OF i(7)] and d' = dir_okD[OF i(8)]
  have "wr_sgl wr = []" using i(5) q it by (auto simp: side_ok_def wr_ok_def)
  then have "gather (sd_rs A) (wr_sgl wr) = []" by (simp add: gather_def)
  then show ?thesis
    using d(5) d'(3) it
    by (intro wire_result[OF inv q, where mm = "rs_rmem (sd_rs B)" and tt = "rs_tsgl (sd_rs B)"]) (auto simp: write_nothing)
qed

lemma ctrl_place:
  assumes "M < (2 :: nat) ^ 31"
  shows "M + 16 * (m mod 4) < 2 ^ 64"
proof -
  define r where "r = m mod 4"
  have "r < 4" by (simp add: r_def)
  then show ?thesis using assms by (simp flip: r_def)
qed

lemma wire_grant:
  assumes inv: "inv_with A B R R' (Grant j c m # I) CA IB CB" and q: "sd_sq A = wr # q"
  shows "\<exists>A' B'. wire A B = Some (A', B') \<and> stream_inv (A', B')"
proof -
  note i = inv_withD[OF inv]
  note d = dir_okD[OF i(7)] and d' = dir_okD[OF i(8)]
  let ?p = "unat (rs_sbuf_size (sd_rs A)) + 16 * (m mod 4)"
  have z: "unat (rs_sbuf_size (sd_rs A)) < 2 ^ 31" "0 < half (sd_rs A)" "rs_rmr_rkey (sd_rs B) \<noteq> rs_tsgl_key (sd_rs B)"
    using i(1,2) by (simp_all add: sized_def)
  obtain k where wr: "wr_sgl wr = [\<lparr>is_addr = rs_sbuf (sd_rs A) + word_of_nat ?p, is_len = 16, is_lkey = k\<rparr>]"
    "wr_raddr wr = rs_tsgl_addr (sd_rs B) + 16 * word_of_nat (j mod 2)" "wr_rkey wr = rs_tsgl_key (sd_rs B)"
    using i(5) q unfolding side_ok_def wr_ok_def by auto
  have "?p < 2 ^ 64" using z(1) by (rule ctrl_place)
  then have "unat (rs_sbuf (sd_rs A) + word_of_nat ?p - rs_sbuf (sd_rs A)) = ?p" by (simp del: of_nat_add of_nat_mult)
  then have "gather (sd_rs A) (wr_sgl wr) = get_bytes (rs_smem (sd_rs A)) ?p 16" by (simp add: gather_def wr(1) del: of_nat_add of_nat_mult)
  also have "\<dots> = sge_bytes (rs_rbuf (sd_rs A) + word_of_nat (j mod 2 * half (sd_rs A))) (rs_rmr_rkey (sd_rs A)) (word_of_nat (half (sd_rs A)))"
    using i(5) unfolding side_ok_def grants_written_def by (meson list.set_intros(1))
  finally have g: "gather (sd_rs A) (wr_sgl wr) =
      sge_bytes (rs_rbuf (sd_rs A) + word_of_nat (j mod 2 * half (sd_rs A))) (rs_rmr_rkey (sd_rs A)) (word_of_nat (half (sd_rs A)))" .
  have "grants_ok (half (sd_rs A)) (length (sd_out A)) (length (sd_in B)) (j # halves I) (rs_remote_sge (sd_rs A))
      (rs_rbuf_free_offset (sd_rs A)) (rs_rbuf_bytes_avail (sd_rs A)) (rs_tsgl (sd_rs B)) (rs_target_sge (sd_rs B)) (rs_rbuf (sd_rs A))
      (rs_rmr_rkey (sd_rs A))" using d'(3) by simp
  note gr = grants_ok_deliver[OF this d'(8) z(2)]
  show ?thesis
  proof (rule wire_result[OF inv q _ _ _ gr, where mm = "rs_rmem (sd_rs B)"])
    show "rdma_write (wr_rkey wr) (wr_raddr wr) (gather (sd_rs A) (wr_sgl wr)) (sd_rs B) = Some ((sd_rs B)\<lparr>rs_tsgl := (rs_tsgl (sd_rs B))
        (j mod 2 := \<lparr>rsge_addr = rs_rbuf (sd_rs A) + word_of_nat (j mod 2 * half (sd_rs A)), rsge_key = rs_rmr_rkey (sd_rs A),
                     rsge_len = word_of_nat (half (sd_rs A))\<rparr>)\<rparr>)"
      unfolding g wr(2,3) by (rule write_grant[OF z(3)])
  qed (use d(5) in simp_all)
qed

lemma wire_data:
  assumes inv: "inv_with A B R R' (Data p l # I) CA IB CB" and q: "sd_sq A = wr # q"
  shows "\<exists>A' B'. wire A B = Some (A', B') \<and> stream_inv (A', B')"
proof -
  note i = inv_withD[OF inv]
  note d = dir_okD[OF i(7)] and d' = dir_okD[OF i(8)]
  let ?h = "half (sd_rs B)" and ?S = "sd_in A" and ?v = "sum_list R + data_sum (gots CB)"
  have z: "0 < ?h" "unat (rs_rbuf_size (sd_rs B)) = 2 * ?h" using i(2) by (simp_all add: sized_def)
  have wr: "sgl_reads (rs_sbuf (sd_rs A)) (unat (rs_sbuf_size (sd_rs A))) p l (wr_sgl wr)"
    "wr_raddr wr = rs_rbuf (sd_rs B) + word_of_nat (p mod (2 * ?h))" "wr_rkey wr = rs_rmr_rkey (sd_rs B)"
    using i(5) q unfolding side_ok_def wr_ok_def by auto
  have p: "p = length (sd_out B) + ?v" "0 < l" "p mod ?h + l \<le> ?h"
    using d(1) by (auto simp: flow_def chain_append dest: chain_sum)
  have s: "length ?S = length (sd_out B) + ?v + (l + data_sum I)" using flow_sum[OF d(1)] by simp
  then have ps: "p = length ?S - (l + data_sum I)" "p + l \<le> length ?S" using p(1) by simp_all
  have "ring_bytes (rs_smem (sd_rs A)) (unat (rs_sbuf_size (sd_rs A))) p l = take l (drop p ?S)"
    using sbuf_ok_bytes[of _ _ _ _ _ _ _ l "data_sum I"] d(4) unfolding ps(1) by simp
  then have g: "gather (sd_rs A) (wr_sgl wr) = take l (drop p ?S)" using gather_reads[OF wr(1)] by simp
  have len: "length (take l (drop p ?S)) = l" using ps(2) by simp
  have fits: "p mod (2 * ?h) + l \<le> 2 * ?h"
  proof -
    have "p div ?h mod 2 * ?h \<le> 1 * ?h" by (intro mult_le_mono1) simp
    then show ?thesis unfolding half_place[OF z(1)] using p(3) by linarith
  qed
  let ?m = "put_bytes (rs_rmem (sd_rs B)) (p mod (2 * ?h)) (take l (drop p ?S))"
  have "length (sd_out B) + ?v + l \<le> length (sd_out B) + 2 * ?h" using grants_ok_room[OF d(3,8) z(1)] s by simp
  then have "rbuf_ok (2 * ?h) ?m (rs_rbuf_offset (sd_rs B)) ?S (length (sd_out B)) (?v + l)"
    using rbuf_ok_write[OF d(5), of l] fits ps(2) unfolding p(1) by simp
  moreover have "rdma_write (wr_rkey wr) (wr_raddr wr) (gather (sd_rs A) (wr_sgl wr)) (sd_rs B) = Some ((sd_rs B)\<lparr>rs_rmem := ?m\<rparr>)"
    unfolding g wr(2,3) using fits len p(2) by (intro write_data[OF z(2)]) auto
  ultimately show ?thesis using d'(3)
    by (intro wire_result[OF inv q, where mm = ?m and tt = "rs_tsgl (sd_rs B)"]) simp_all
qed

lemma wire_keeps:
  assumes "stream_inv (A, B)" "sd_sq A \<noteq> []"
  shows "\<exists>A' B'. wire A B = Some (A', B') \<and> stream_inv (A', B')"
proof -
  obtain R R' IA CA IB CB where inv: "inv_with A B R R' IA CA IB CB" using assms(1) by (auto simp: stream_inv_def)
  obtain wr q where q: "sd_sq A = wr # q" using assms(2) by (cases "sd_sq A") auto
  then obtain it I where "IA = it # I" using inv_withD(5)[OF inv] by (auto simp: side_ok_def list_all2_Cons2)
  then have i: "inv_with A B R R' (it # I) CA IB CB" using inv by simp
  show ?thesis
  proof (cases it)
    case (Data p l)
    then show ?thesis using wire_data[OF i[unfolded Data] q] by simp
  next
    case (Grant j c m)
    then show ?thesis using wire_grant[OF i[unfolded Grant] q] by simp
  qed (use wire_plain[OF i q] in blast)+
qed

section \<open>All steps keep it\<close>

lemma local_step_keeps:
  assumes "local_step A A'" "stream_inv (A, B)"
  shows "stream_inv (A', B)"
proof -
  obtain R R' IA CA IB CB where inv: "inv_with A B R R' IA CA IB CB" using assms(2) by (auto simp: stream_inv_def)
  show ?thesis using assms(1)
  proof cases
    case send
    then show ?thesis using send_keeps[OF inv] by blast
  next
    case poll
    then show ?thesis using poll_keeps[OF inv] by blast
  next
    case credits
    then show ?thesis using credits_keeps[OF inv] by blast
  next
    case recv
    then show ?thesis using recv_keeps[OF inv] by metis
  next
    case shutdown
    then show ?thesis using shutdown_keeps[OF inv] by blast
  qed
qed

lemma stream_step_keeps: "stream_step s s' \<Longrightarrow> stream_inv s \<Longrightarrow> stream_inv s'"
proof (induction rule: stream_step.induct)
  case (left_wire A B A' B')
  then have "sd_sq A \<noteq> []" by (auto simp: wire_def)
  then show ?case using wire_keeps[OF left_wire(2)] left_wire(1) by simp
next
  case (right_wire B A B' A')
  then have "sd_sq B \<noteq> []" by (auto simp: wire_def)
  then show ?case using wire_keeps[OF stream_inv_sym[OF right_wire(2)]] right_wire(1) stream_inv_sym by simp
qed (use local_step_keeps stream_inv_sym in blast)+

lemma stream_steps_keep: "stream_step\<^sup>*\<^sup>* s s' \<Longrightarrow> stream_inv s \<Longrightarrow> stream_inv s'"
  by (induction rule: rtranclp_induct) (blast intro: stream_step_keeps)+

end
