(* ===== verification/FF_StreamInit.thy ===== *)
theory FF_StreamInit
  imports FF_StreamSafe FF_RSockApi "HOL-Library.Sublist"
begin

text \<open>
  The start of a stream: \<^verbatim>\<open>rs_create_ep\<close> on both sides and the exchange of connection data by \<^verbatim>\<open>rs_do_connect\<close> and
  \<^verbatim>\<open>raccept\<close> give a connection that satisfies the invariant.
\<close>

section \<open>A new endpoint\<close>

definition endpoint_ok :: "rsocket \<Rightarrow> bool" where
  "endpoint_ok rs =
     (rs_opts rs = 0 \<and> rs_ctrl_seqno rs = 0 \<and> rs_ctrl_max_seqno rs = 4 \<and> rs_sseq_no rs = 0 \<and> rs_rseq_no rs = 0 \<and>
      rs_rseq_comp rs = drop_bit 1 (rs_rq_size rs) \<and> rs_target_sge rs = 0 \<and> (\<forall>i. rsge_len (rs_tsgl rs i) = 0) \<and>
      rs_rbuf_offset rs = 0 \<and> rs_rbuf_bytes_avail rs = int (half rs) \<and> rs_rbuf_free_offset rs = int (half rs) \<and>
      is_addr (rs_ssgl0 rs) = rs_sbuf rs \<and> is_addr (rs_ssgl1 rs) = rs_sbuf rs \<and>
      rs_sbuf_bytes_avail rs = int (unat (rs_sbuf_size rs)) \<and> rs_sqe_avail rs = int (unat (rs_sq_size rs)) - 4 \<and>
      rs_rmsg_head rs = 0 \<and> rs_rmsg_tail rs = 0)"

text \<open>Sizes of buffers that fit the signed counters; the receive buffer has two equal halves.\<close>

definition buffers_ok :: "rsocket \<Rightarrow> bool" where
  "buffers_ok rs = (even (unat (rs_rbuf_size rs)) \<and> 0 < unat (rs_rbuf_size rs) \<and> unat (rs_rbuf_size rs) < 2 ^ 31 \<and>
     0 < unat (rs_sbuf_size rs) \<and> unat (rs_sbuf_size rs) < 2 ^ 31)"

definition untouched :: "rsocket \<Rightarrow> bool" where
  "untouched rs =
     (rs_opts rs = 0 \<and> rs_ctrl_seqno rs = 0 \<and> rs_ctrl_max_seqno rs = 4 \<and> rs_sseq_no rs = 0 \<and> rs_rseq_no rs = 0 \<and>
      rs_target_sge rs = 0 \<and> rs_rbuf_offset rs = 0 \<and> rs_rmsg_head rs = 0 \<and> rs_rmsg_tail rs = 0)"

lemma rs_alloc_untouched:
  "untouched (rs_alloc defs None)" "rs_ctrl_max_seqno rs = 4 \<Longrightarrow> untouched (rs_alloc defs (Some rs))"
  by (simp_all add: untouched_def rs_alloc_def rs_blank_def RS_QP_CTRL_SIZE_def)

lemma sint_small:
  assumes "unat (w :: u32) < 2 ^ 31"
  shows "sint w = int (unat w)"
proof -
  have "int (unat w) < int (2 ^ 31)" using assms by (simp only: of_nat_less_iff)
  moreover have "- (2 ^ 31) \<le> uint w" using order_trans[of "- (2 ^ 31)" 0 "uint w"] by simp
  ultimately show ?thesis using signed_take_bit_int_eq_self[of 31 "uint w"] by (simp add: sint_uint)
qed

lemma half_rbuf: "unat (drop_bit 1 (rs_rbuf_size rs)) = half rs"
  unfolding half_def unat_drop_bit_eq by (simp add: drop_bit_eq_div)

lemma sqe_start: "sint (ucast (q :: u16) - 4 :: u32) = int (unat q) - 4"
proof -
  have e: "(ucast q - 4 :: u32) = word_of_int (int (unat q) - 4)" by simp
  have "int (unat q) < int (2 ^ 16)" using u16_bound[of q] by (simp only: of_nat_less_iff)
  then show ?thesis unfolding e signed_of_int using signed_take_bit_int_eq_self[of 31 "int (unat q) - 4"] by simp
qed

lemma rs_init_bufs_ok:
  assumes "rs_init_bufs D G rs w = Inr (0, rs', w')" "untouched rs" "buffers_ok rs"
  shows "endpoint_ok rs' \<and> rs_rbuf_size rs' = rs_rbuf_size rs \<and> rs_sbuf_size rs' = rs_sbuf_size rs \<and> rs_rq_size rs' = rs_rq_size rs \<and>
    rs_sq_size rs' = rs_sq_size rs"
proof -
  have s: "sint (rs_sbuf_size rs) = int (unat (rs_sbuf_size rs))" using assms(3) by (intro sint_small) (simp add: buffers_ok_def)
  have "half rs \<le> unat (rs_rbuf_size rs)" "unat (rs_rbuf_size rs) < 2 ^ 31" using assms(3) by (simp_all add: buffers_ok_def half_def)
  then have "half rs < 2 ^ 31" by (rule le_less_trans)
  then have h: "sint (drop_bit 1 (rs_rbuf_size rs)) = int (half rs)"
    using sint_small[of "drop_bit 1 (rs_rbuf_size rs)", unfolded half_rbuf] by blast
  have u: "rs_ctrl_max_seqno rs = 4" "rs_opts rs = 0" "rs_ctrl_seqno rs = 0" "rs_sseq_no rs = 0" "rs_rseq_no rs = 0" "rs_target_sge rs = 0"
    "rs_rbuf_offset rs = 0" "rs_rmsg_head rs = 0" "rs_rmsg_tail rs = 0" using assms(2) by (simp_all add: untouched_def)
  obtain ok w1 where c: "rg_calloc G (Suc (unat (rs_rq_size rs))) w = (ok, w1)" by (rule prod.exhaust)
  obtain smr w2 where sm: "rg_msgs G (rs_sbuf_size rs + word_of_nat RS_MAX_CTRL_MSG * RS_QP_CTRL_SIZE) w1 = (smr, w2)" by (rule prod.exhaust)
  obtain tmr w3 where tm: "rg_write G (16 * RS_SGL_SIZE + 24 * nat (rs_target_iomap_size rs)) w2 = (tmr, w3)" by (rule prod.exhaust)
  obtain rmr w4 where rm: "rg_write G (unat (rs_rbuf_size rs + ucast (rs_rq_size rs) * word_of_nat RS_MSG_SIZE)) w3 = (rmr, w4)" by (rule prod.exhaust)
  have ok: "ok" using assms(1) by (cases ok) (simp_all add: rs_init_bufs_def Let_def c ERR_def)
  obtain s1 where s1: "smr = Some s1" using assms(1) by (cases smr) (simp_all add: rs_init_bufs_def Let_def c ok sm)
  obtain t1 where t1: "tmr = Some t1" using assms(1) by (cases tmr) (simp_all add: rs_init_bufs_def Let_def c ok sm s1 tm)
  obtain r1 where r1: "rmr = Some r1" using assms(1) by (cases rmr) (simp_all add: rs_init_bufs_def Let_def c ok sm s1 tm t1 rm)
  note e = c ok sm s1 tm t1 rm r1
  have e': "rs' = rs\<lparr>rs_rmsg := (\<lambda>_. \<lparr>rm_op = 0, rm_data = 0\<rparr>), rs_sbuf := mr_base s1, rs_smr_lkey := mr_lkey s1, rs_tsgl_addr := mr_base t1,
      rs_tsgl_key := mr_rkey t1, rs_tsgl := (\<lambda>_. \<lparr>rsge_addr = 0, rsge_key = 0, rsge_len = 0\<rparr>),
      rs_tiomap := (\<lambda>_. \<lparr>iom_offset = 0, iom_sge = \<lparr>rsge_addr = 0, rsge_key = 0, rsge_len = 0\<rparr>\<rparr>),
      rs_rbuf := mr_base r1, rs_rmr_lkey := mr_lkey r1, rs_rmr_rkey := mr_rkey r1,
      rs_ssgl0 := (rs_ssgl0 rs)\<lparr>is_addr := mr_base s1, is_lkey := mr_lkey s1\<rparr>,
      rs_ssgl1 := (rs_ssgl1 rs)\<lparr>is_addr := mr_base s1, is_lkey := mr_lkey s1\<rparr>,
      rs_sbuf_bytes_avail := sint (rs_sbuf_size rs), rs_rbuf_free_offset := sint (drop_bit 1 (rs_rbuf_size rs)),
      rs_rbuf_bytes_avail := sint (drop_bit 1 (rs_rbuf_size rs)), rs_sqe_avail := sint (ucast (rs_sq_size rs) - rs_ctrl_max_seqno rs),
      rs_rseq_comp := drop_bit 1 (rs_rq_size rs)\<rparr>" using assms(1) by (simp add: rs_init_bufs_def Let_def e)
  have "half rs' = half rs" by (simp add: e' half_def)
  then show ?thesis using u unfolding endpoint_ok_def by (simp add: e'[unfolded u(1) h s sqe_start])
qed

lemma repost_plain: "rs_opts rs = 0 \<Longrightarrow> repost D n rs w = (ret, rs', w') \<Longrightarrow> rs' = rs"
  by (induction n arbitrary: w) (auto simp: rs_post_recv_def split: prod.splits if_splits)

lemma qp_size_bound: "unat (rs_rq_size (rs_set_qp_size mx rs)) \<le> 65534"
proof -
  have "unat (min mx RS_QP_MAX_SIZE) \<le> 65534" by (simp add: min_def RS_QP_MAX_SIZE_def word_le_nat_alt)
  then have "unat (ucast (min mx RS_QP_MAX_SIZE) :: u16) \<le> 65534" by (simp add: unsigned_ucast_eq take_bit_nat_eq_self)
  then show ?thesis by (auto simp: rs_set_qp_size_def Let_def RS_QP_MIN_SIZE_def word_less_nat_alt not_less)
qed

lemma rs_create_ep_ok:
  assumes "rs_create_ep D G C rs w = Inr (0, rs', w')" "untouched rs" "buffers_ok rs"
  shows "endpoint_ok rs' \<and> rs_rbuf_size rs' = rs_rbuf_size rs \<and> rs_sbuf_size rs' = rs_sbuf_size rs \<and>
    rs_rq_size rs' = rs_rq_size (rs_set_qp_size (rc_max_qp C) rs) \<and> rs_sq_size rs' = rs_sq_size (rs_set_qp_size (rc_max_qp C) rs)"
proof -
  define r1 where "r1 = rs_set_qp_size (rc_max_qp C) rs"
  define r2 where "r2 = (if rc_iwarp C then r1\<lparr>rs_opts := rs_opts r1 OR RS_OPT_MSG_SEND\<rparr> else r1)"
  obtain x w1 where x: "rs_create_cq D C r2 w = (x, w1)" by (rule prod.exhaust)
  obtain y w2 where y: "rc_create_qp C (rs_sq_size r2) (rs_rq_size r2) (rs_sq_inline r2) w1 = (y, w2)" by (rule prod.exhaust)
  have u1: "untouched r1" "buffers_ok r1" using assms(2,3) by (simp_all add: r1_def rs_set_qp_size_def Let_def untouched_def buffers_ok_def)
  note ep = assms(1)[unfolded rs_create_ep_def Let_def, folded r1_def, folded r2_def]
  have "x = 0" using ep x by (auto split: if_splits)
  moreover from this have "y = 0" using ep x y by (auto split: if_splits)
  moreover from calculation have "\<not> rc_iwarp C"
    using ep x y u1(1) by (auto simp: r2_def has_def untouched_def RS_OPT_MSG_SEND_def RS_MSG_SIZE_def ERR_def split: if_splits)
  ultimately have z: "x = 0" "y = 0" "\<not> rc_iwarp C" by blast+
  then have r2: "r2 = r1" by (simp add: r2_def)
  obtain r3 w3 where r3: "rs_init_bufs D G (r1\<lparr>rs_sq_inline := 0\<rparr>) w2 = Inr (0, r3, w3)" "repost D (unat (rs_rq_size r3)) r3 w3 = (0, rs', w')"
    using ep x y z u1(1) unfolding r2
    by (auto simp: untouched_def split: sum.splits prod.splits if_splits)
  have u2: "untouched (r1\<lparr>rs_sq_inline := 0\<rparr>)" "buffers_ok (r1\<lparr>rs_sq_inline := 0\<rparr>)" using u1 by (simp_all add: untouched_def buffers_ok_def)
  note o = rs_init_bufs_ok[OF r3(1) u2]
  have "rs' = r3" using repost_plain[OF _ r3(2)] o by (simp add: endpoint_ok_def)
  then show ?thesis using o by (simp add: r1_def rs_set_qp_size_def Let_def)
qed

section \<open>The exchange of connection data\<close>

lemma net_flag: "(cd_flags (rs_format_conn_data b) AND RS_CONN_FLAG_NET \<noteq> 0) = rs_host_is_net"
  "cd_flags (rs_format_conn_data b) AND RS_CONN_FLAG_IOMAP \<noteq> 0"
  by (auto simp: rs_format_conn_data_def RS_CONN_FLAG_NET_def RS_CONN_FLAG_IOMAP_def)

lemma save_format:
  "\<exists>m. rs_save_conn_data (rs_format_conn_data b) a =
     a\<lparr>rs_remote_sgl := \<lparr>rsge_addr = rs_tsgl_addr b, rsge_key = rs_tsgl_key b, rsge_len = 2\<rparr>, rs_remote_sge := 1, rs_remote_iomap := m,
       rs_tsgl := (rs_tsgl a)(0 := \<lparr>rsge_addr = rs_rbuf b, rsge_key = rs_rmr_rkey b, rsge_len = drop_bit 1 (rs_rbuf_size b)\<rparr>),
       rs_sseq_comp := rs_rq_size b\<rparr>"
proof -
  have f: "rsge_addr (cd_target_sgl (rs_format_conn_data b)) = htonll (rs_tsgl_addr b)" "rsge_key (cd_target_sgl (rs_format_conn_data b)) = htonl (rs_tsgl_key b)"
    "rsge_len (cd_target_sgl (rs_format_conn_data b)) = htonl 2" "rsge_addr (cd_data_buf (rs_format_conn_data b)) = htonll (rs_rbuf b)"
    "rsge_key (cd_data_buf (rs_format_conn_data b)) = htonl (rs_rmr_rkey b)"
    "rsge_len (cd_data_buf (rs_format_conn_data b)) = htonl (drop_bit 1 (rs_rbuf_size b))" "cd_credits (rs_format_conn_data b) = htons (rs_rq_size b)"
    by (simp_all add: rs_format_conn_data_def RS_SGL_SIZE_def)
  show ?thesis
    unfolding rs_save_conn_data_def Let_def f hton_twice net_flag(1) using net_flag(2)[of b]
    by (simp del: drop_bit_Suc) blast
qed

definition fresh :: "rsocket \<Rightarrow> side" where
  "fresh rs = \<lparr>sd_rs = rs, sd_sq = [], sd_cq = [], sd_in = [], sd_out = []\<rparr>"

definition joined :: "rsocket \<Rightarrow> rsocket \<Rightarrow> rsocket" where
  "joined b a = (rs_save_conn_data (rs_format_conn_data b) a)\<lparr>rs_state := rs_connect_rdwr\<rparr>"

lemma sized_start: "buffers_ok rs \<Longrightarrow> rs_opts rs = 0 \<Longrightarrow> rs_rmr_rkey rs \<noteq> rs_tsgl_key rs \<Longrightarrow> rsge_len (rs_remote_sgl rs) = 2 \<Longrightarrow> sized rs"
  by (auto simp: sized_def buffers_ok_def half_def)

lemma grants_start:
  assumes "rsge_len (tsgl 1) = 0" "0 < h"
    "tsgl 0 = \<lparr>rsge_addr = base, rsge_key = key, rsge_len = word_of_nat h\<rparr>"
  shows "grants_ok h 0 0 [] 1 (int h) (int h) tsgl 0 base key"
  unfolding grants_ok_def slots_def using assms by (intro exI[of _ 1]) simp

lemma dir_start:
  assumes "endpoint_ok a" "endpoint_ok b" "buffers_ok a" "buffers_ok b"
  shows "dir_ok (fresh (joined b a)) (fresh (joined a b)) [] [] [] [] []"
proof -
  obtain m where a: "joined b a =
     a\<lparr>rs_remote_sgl := \<lparr>rsge_addr = rs_tsgl_addr b, rsge_key = rs_tsgl_key b, rsge_len = 2\<rparr>, rs_remote_sge := 1, rs_remote_iomap := m,
       rs_tsgl := (rs_tsgl a)(0 := \<lparr>rsge_addr = rs_rbuf b, rsge_key = rs_rmr_rkey b, rsge_len = drop_bit 1 (rs_rbuf_size b)\<rparr>),
       rs_sseq_comp := rs_rq_size b, rs_state := rs_connect_rdwr\<rparr>" using save_format[of b a] by (auto simp: joined_def)
  obtain n where b: "joined a b =
     b\<lparr>rs_remote_sgl := \<lparr>rsge_addr = rs_tsgl_addr a, rsge_key = rs_tsgl_key a, rsge_len = 2\<rparr>, rs_remote_sge := 1, rs_remote_iomap := n,
       rs_tsgl := (rs_tsgl b)(0 := \<lparr>rsge_addr = rs_rbuf a, rsge_key = rs_rmr_rkey a, rsge_len = drop_bit 1 (rs_rbuf_size a)\<rparr>),
       rs_sseq_comp := rs_rq_size a, rs_state := rs_connect_rdwr\<rparr>" using save_format[of a b] by (auto simp: joined_def)
  have h: "half (joined a b) = half b" by (simp add: b half_def)
  have hb: "0 < half b" "drop_bit 1 (rs_rbuf_size b) = word_of_nat (half b)"
    using assms(4) half_word(1)[of "rs_rbuf_size b" "half b"] by (auto simp: buffers_ok_def half_def)
  note e = assms(1,2)[unfolded endpoint_ok_def]
  show ?thesis
  proof (rule dir_okI, goal_cases)
    case 2 show ?case using e unfolding credit_ok_def half_u16 by (intro exI[of _ 0]) (simp add: fresh_def a b)
  next
    case 3 show ?case using grants_start[of "rs_tsgl (joined b a)" "half b"] e hb h[unfolded b] by (simp add: fresh_def a b)
  qed (use e h in \<open>simp_all add: fresh_def a b flow_def sbuf_ok_def rbuf_ok_def ring_ok_def\<close>)
qed

lemma stream_starts:
  assumes "endpoint_ok a" "endpoint_ok b" "buffers_ok a" "buffers_ok b" "rs_rmr_rkey a \<noteq> rs_tsgl_key a" "rs_rmr_rkey b \<noteq> rs_tsgl_key b"
  shows "stream_inv (fresh (joined b a), fresh (joined a b))"
proof -
  have s: "sized (joined y x) \<and> linked y (joined y x) \<and> rs_tsgl_addr (joined y x) = rs_tsgl_addr x \<and> rs_tsgl_key (joined y x) = rs_tsgl_key x \<and>
      side_ok (fresh (joined y x)) r [] []"
    if x: "endpoint_ok x" "buffers_ok x" "rs_rmr_rkey x \<noteq> rs_tsgl_key x" for x y r
  proof -
    have "ctrl_ok 0 4 []" unfolding ctrl_ok_def by (intro exI[of _ 0]) simp
    then show ?thesis using save_format[of y x] x
      by (auto simp: joined_def fresh_def side_ok_def grants_written_def linked_def endpoint_ok_def buffers_ok_def half_def intro!: sized_start)
  qed
  have "linked (joined a b) (joined b a)" "linked (joined b a) (joined a b)" 
    using s[OF assms(1,3,5), of b] s[OF assms(2,4,6), of a] by (simp_all add: linked_def)
  then have "inv_with (fresh (joined b a)) (fresh (joined a b)) [] [] [] [] [] []"
    using s[OF assms(1,3,5), of b] s[OF assms(2,4,6), of a] dir_start[OF assms(1-4)] dir_start[OF assms(2,1,4,3)]
    unfolding inv_with_def by (simp add: fresh_def)
  then show ?thesis by (rule stream_invI)
qed

section \<open>Connecting and accepting\<close>

lemma format_joined: "rs_format_conn_data (joined b a) = rs_format_conn_data a"
proof -
  obtain m where "rs_save_conn_data (rs_format_conn_data b) a =
     a\<lparr>rs_remote_sgl := \<lparr>rsge_addr = rs_tsgl_addr b, rsge_key = rs_tsgl_key b, rsge_len = 2\<rparr>, rs_remote_sge := 1, rs_remote_iomap := m,
       rs_tsgl := (rs_tsgl a)(0 := \<lparr>rsge_addr = rs_rbuf b, rsge_key = rs_rmr_rkey b, rsge_len = drop_bit 1 (rs_rbuf_size b)\<rparr>),
       rs_sseq_comp := rs_rq_size b\<rparr>" using save_format by blast
  then show ?thesis by (simp add: joined_def rs_format_conn_data_def)
qed

lemma connect_result:
  assumes "do_connect D G C rs w = Inr (0, a, w1)" "\<And>u. rc_event C u = rs_format_conn_data b" "untouched rs" "buffers_ok rs"
  obtains a0 where "a = joined b a0" "endpoint_ok a0" "rs_rbuf_size a0 = rs_rbuf_size rs" "rs_sbuf_size a0 = rs_sbuf_size rs"
    "rs_rq_size a0 = rs_rq_size (rs_set_qp_size (rc_max_qp C) rs)" "rs_sq_size a0 = rs_sq_size (rs_set_qp_size (rc_max_qp C) rs)"
proof -
  obtain e w2 where e: "rs_create_ep D G C rs w = Inr (0, e, w2)"
    using assms(1) unfolding do_connect_def by (auto split: sum.splits prod.splits if_splits)
  obtain r w3 where r: "rc_connect C (rs_format_conn_data (e\<lparr>rs_retries := 0\<rparr>)) (has (rs_opts e) RS_OPT_MSG_SEND) w2 = (r, w3)" by (rule prod.exhaust)
  have "r = 0" using assms(1) by (auto simp: do_connect_def e r Let_def split: if_splits)
  then have "a = joined b (e\<lparr>rs_retries := 0\<rparr>)"
    using assms(1) unfolding do_connect_def do_connected_def e joined_def by (auto simp: assms(2) ERR_def r Let_def split: if_splits)
  moreover note rs_create_ep_ok[OF e assms(3,4)]
  ultimately show thesis by (intro that[of "e\<lparr>rs_retries := 0\<rparr>"]) (simp_all add: endpoint_ok_def half_def)
qed

lemma accept_result:
  assumes "accept_new D G C defs lis w = Inr (0, b, w1)" "rs_state b = rs_connect_rdwr" "\<And>u. rc_event C u = rs_format_conn_data a"
    "rs_ctrl_max_seqno lis = 4" "buffers_ok lis"
  obtains b0 where "b = joined a b0" "endpoint_ok b0" "rs_rbuf_size b0 = rs_rbuf_size lis" "rs_sbuf_size b0 = rs_sbuf_size lis"
    "rs_rq_size b0 = rs_rq_size (rs_set_qp_size (rc_max_qp C) lis)" "rs_sq_size b0 = rs_sq_size (rs_set_qp_size (rc_max_qp C) lis)"
proof -
  let ?n = "rs_alloc defs (Some lis)" and ?w = "if rs_nonblock lis then snd (dv_fcntl_cm D True w) else w"
  have n: "untouched ?n" "buffers_ok ?n" using rs_alloc_untouched(2)[OF assms(4)] assms(5) by (simp_all add: rs_alloc_def buffers_ok_def)
  obtain e w2 where e: "rs_create_ep D G C ?n ?w = Inr (0, e, w2)"
    using assms(1) unfolding accept_new_def Let_def by (auto simp: ERR_def split: sum.splits prod.splits if_splits)
  obtain r w3 where r: "rc_accept C (rs_format_conn_data (rs_save_conn_data (rs_format_conn_data a) e)) w2 = (r, w3)" by (rule prod.exhaust)
  have "rs_accepting \<noteq> rs_connect_rdwr" by (simp add: rs_accepting_def rs_opening_def rs_connect_rdwr_def rs_connected_def rs_readable_def rs_writable_def)
  then have "b = joined a e"
    using assms(1,2) unfolding accept_new_def Let_def assms(3) e joined_def by (auto simp: ERR_def r split: if_splits)
  then show thesis using rs_create_ep_ok[OF e n] by (intro that[of e]) (simp_all add: rs_alloc_def rs_set_qp_size_def Let_def)
qed

text \<open>
  A connection of a socket with the defaults \<open>defs\<close> to a listening socket \<open>lis\<close>: each side gets the connection data of the other, as
  the connection manager hands over the private data of a request and of its answer; two regions of one side have different keys.
\<close>

definition handshake ::
  "'w rdev \<Rightarrow> 'w rreg \<Rightarrow> 'w rcm \<Rightarrow> rs_defaults \<Rightarrow> 'w \<Rightarrow> 'v rdev \<Rightarrow> 'v rreg \<Rightarrow> 'v rcm \<Rightarrow> rs_defaults \<Rightarrow> rsocket \<Rightarrow> 'v \<Rightarrow>
    rsocket \<Rightarrow> rsocket \<Rightarrow> bool" where
  "handshake D G C defs w D' G' C' defs' lis v a b =
     ((\<exists>w'. do_connect D G C (rs_alloc defs None) w = Inr (0, a, w')) \<and> (\<exists>v'. accept_new D' G' C' defs' lis v = Inr (0, b, v')) \<and>
      rs_state b = rs_connect_rdwr \<and> (\<forall>u. rc_event C u = rs_format_conn_data b) \<and> (\<forall>u. rc_event C' u = rs_format_conn_data a) \<and>
      rs_ctrl_max_seqno lis = RS_QP_CTRL_SIZE \<and> rs_rmr_rkey a \<noteq> rs_tsgl_key a \<and> rs_rmr_rkey b \<noteq> rs_tsgl_key b)"

lemma handshake_parts:
  assumes "handshake D G C defs w D' G' C' defs' lis v a b" "buffers_ok (rs_alloc defs None)" "buffers_ok lis"
  obtains a0 b0 where "a = joined b0 a0" "b = joined a0 b0" "endpoint_ok a0" "endpoint_ok b0" "buffers_ok a0" "buffers_ok b0"
    "rs_sbuf_size a0 = def_wmem defs" "rs_sbuf_size b0 = rs_sbuf_size lis"
    "rs_rq_size a0 = rs_rq_size (rs_set_qp_size (rc_max_qp C) (rs_alloc defs None))"
    "rs_sq_size a0 = rs_sq_size (rs_set_qp_size (rc_max_qp C) (rs_alloc defs None))"
    "rs_rq_size b0 = rs_rq_size (rs_set_qp_size (rc_max_qp C') lis)" "rs_sq_size b0 = rs_sq_size (rs_set_qp_size (rc_max_qp C') lis)"
proof -
  have c: "\<And>u. rc_event C u = rs_format_conn_data b" "\<And>u. rc_event C' u = rs_format_conn_data a" "rs_state b = rs_connect_rdwr"
    "rs_ctrl_max_seqno lis = 4" using assms(1) by (simp_all add: handshake_def RS_QP_CTRL_SIZE_def)
  obtain w' v' where r: "do_connect D G C (rs_alloc defs None) w = Inr (0, a, w')" "accept_new D' G' C' defs' lis v = Inr (0, b, v')"
    using assms(1) by (auto simp: handshake_def)
  obtain a0 where a0: "a = joined b a0" "endpoint_ok a0" "rs_rbuf_size a0 = rs_rbuf_size (rs_alloc defs None)"
    "rs_sbuf_size a0 = rs_sbuf_size (rs_alloc defs None)" "rs_rq_size a0 = rs_rq_size (rs_set_qp_size (rc_max_qp C) (rs_alloc defs None))"
    "rs_sq_size a0 = rs_sq_size (rs_set_qp_size (rc_max_qp C) (rs_alloc defs None))"
    using connect_result[OF r(1) c(1) rs_alloc_untouched(1) assms(2)] .
  obtain b0 where b0: "b = joined a b0" "endpoint_ok b0" "rs_rbuf_size b0 = rs_rbuf_size lis" "rs_sbuf_size b0 = rs_sbuf_size lis"
    "rs_rq_size b0 = rs_rq_size (rs_set_qp_size (rc_max_qp C') lis)" "rs_sq_size b0 = rs_sq_size (rs_set_qp_size (rc_max_qp C') lis)"
    using accept_result[OF r(2) c(3,2,4) assms(3)] .
  have "rs_format_conn_data b = rs_format_conn_data b0" "rs_format_conn_data a = rs_format_conn_data a0"
    using format_joined a0(1) b0(1) by metis+
  then have e: "a = joined b0 a0" "b = joined a0 b0" using a0(1) b0(1) unfolding joined_def by metis+
  have k: "buffers_ok a0" "buffers_ok b0" using assms(2,3) a0(3,4) b0(3,4) by (simp_all add: buffers_ok_def)
  have s: "rs_sbuf_size a0 = def_wmem defs" using a0(4) by (simp add: rs_alloc_def)
  show thesis by (rule that[OF e a0(2) b0(2) k s b0(4) a0(5,6) b0(5,6)])
qed

lemma handshake_starts:
  assumes "handshake D G C defs w D' G' C' defs' lis v a b" "buffers_ok (rs_alloc defs None)" "buffers_ok lis"
  shows "stream_inv (fresh a, fresh b)"
proof -
  obtain a0 b0 where e: "a = joined b0 a0" "b = joined a0 b0" "endpoint_ok a0" "endpoint_ok b0" "buffers_ok a0" "buffers_ok b0"
    using handshake_parts[OF assms] .
  have "rs_rmr_rkey (joined y x) = rs_rmr_rkey x \<and> rs_tsgl_key (joined y x) = rs_tsgl_key x" for x y
    using save_format[of y x] by (auto simp: joined_def)
  then show ?thesis using stream_starts[OF e(3-6)] assms(1) e(1,2) by (simp add: handshake_def)
qed

section \<open>A connection\<close>

definition plain_dev :: "unit rdev" where
  "plain_dev =
     \<lparr>dv_post_send = (\<lambda>_ w. (0, w)), dv_post_recv = (\<lambda>_ _ w. (0, w)),
      dv_poll_cq = (\<lambda>w. (0, \<lparr>wc_id = 0, wc_success = False, wc_imm = None\<rparr>, w)), dv_get_cq_event = (\<lambda>w. (0, w)),
      dv_req_notify = (\<lambda>w. w), dv_ack_events = (\<lambda>_ w. w), dv_set_errno = (\<lambda>_ w. w), dv_errno = (\<lambda>_. 0), dv_usec = (\<lambda>w. (0, w)),
      dv_has_cq = (\<lambda>_. True), dv_fcntl_cq = (\<lambda>_ w. (0, w)), dv_fcntl_cm = (\<lambda>_ w. (0, w)), dv_shutdown = (\<lambda>w. w),
      dv_notify_svc = (\<lambda>w. w)\<rparr>"

definition plain_reg :: "u64 \<Rightarrow> unit rreg" where
  "plain_reg base =
     \<lparr>rg_calloc = (\<lambda>_ w. (True, w)), rg_msgs = (\<lambda>_ w. (Some \<lparr>mr_base = base, mr_lkey = 1, mr_rkey = 1\<rparr>, w)),
      rg_write = (\<lambda>n w. (Some \<lparr>mr_base = base + 0x100000 + word_of_nat n, mr_lkey = word_of_nat n, mr_rkey = word_of_nat n\<rparr>, w))\<rparr>"

definition plain_cm :: "rs_conn_data \<Rightarrow> unit rcm" where
  "plain_cm cd =
     \<lparr>rc_iwarp = False, rc_max_qp = 0x8000, rc_create_channel = (\<lambda>w. (True, w)), rc_create_cq = (\<lambda>_ w. (True, w)), rc_destroy_cq = (\<lambda>w. w),
      rc_destroy_channel = (\<lambda>w. w), rc_create_qp = (\<lambda>_ _ _ w. (0, w)), rc_bind_addr = (\<lambda>w. (0, w)), rc_listen = (\<lambda>_ w. (0, w)),
      rc_resolve_addr = (\<lambda>_ w. (0, w)), rc_resolve_route = (\<lambda>_ w. (0, w)), rc_set_path = (\<lambda>_ w. (0, w)), rc_complete = (\<lambda>w. (0, w)),
      rc_connect = (\<lambda>_ _ w. (0, w)), rc_accept = (\<lambda>_ w. (0, w)), rc_event = (\<lambda>_. cd)\<rparr>"

definition plain_defs :: rs_defaults where
  "plain_defs = \<lparr>def_iomap_size = 0, def_inline = 64, def_sqsize = 384, def_rqsize = 384, def_mem = 131072, def_wmem = 131072\<rparr>"

definition plain_lis :: rsocket where
  "plain_lis = (rs_alloc plain_defs None)\<lparr>rs_state := rs_listening\<rparr>"

definition plain_ep :: "u64 \<Rightarrow> rsocket" where
  "plain_ep base =
     (case rs_init_bufs plain_dev (plain_reg base) ((rs_set_qp_size 0x8000 (rs_alloc plain_defs None))\<lparr>rs_sq_inline := 0\<rparr>) () of
        Inr (_, rs, _) \<Rightarrow> rs | Inl _ \<Rightarrow> rs_blank)"

lemma plain_repost: "rs_opts rs = 0 \<Longrightarrow> repost plain_dev n rs w = (0, rs, w)"
  by (induction n) (simp_all add: rs_post_recv_def plain_dev_def)

lemma plain_init:
  "rs_init_bufs plain_dev (plain_reg base) ((rs_set_qp_size 0x8000 (rs_alloc plain_defs None))\<lparr>rs_sq_inline := 0\<rparr>) () = Inr (0, plain_ep base, ())"
  by (simp add: plain_ep_def rs_init_bufs_def plain_reg_def Let_def)

lemma plain_same:
  "(rs_set_qp_size mx (rs_alloc plain_defs (Some plain_lis)))\<lparr>rs_sq_inline := 0\<rparr> = (rs_set_qp_size mx (rs_alloc plain_defs None))\<lparr>rs_sq_inline := 0\<rparr>"
  by (simp add: rs_alloc_def plain_lis_def plain_defs_def rs_set_qp_size_def Let_def)

lemma plain_ok: "untouched (rs_alloc plain_defs None)" "buffers_ok (rs_alloc plain_defs None)" "buffers_ok plain_lis"
  by (rule rs_alloc_untouched) (simp_all add: buffers_ok_def plain_lis_def rs_alloc_def plain_defs_def)

lemma plain_sizes:
  "rs_rq_size (rs_set_qp_size 0x8000 (rs_alloc plain_defs None)) = 384" "rs_sq_size (rs_set_qp_size 0x8000 (rs_alloc plain_defs None)) = 384"
  by (simp_all add: rs_set_qp_size_def rs_alloc_def plain_defs_def RS_QP_MAX_SIZE_def RS_QP_MIN_SIZE_def Let_def min_def)

lemma plain_ep_ok: "endpoint_ok (plain_ep base)" "rs_sbuf_size (plain_ep base) = 131072" "rs_rbuf_size (plain_ep base) = 131072"
  "rs_rq_size (plain_ep base) = 384" "rs_sq_size (plain_ep base) = 384"
proof -
  let ?rs = "(rs_set_qp_size 0x8000 (rs_alloc plain_defs None))\<lparr>rs_sq_inline := 0\<rparr>"
  have u: "untouched ?rs" "buffers_ok ?rs" using plain_ok(1,2) by (simp_all add: rs_set_qp_size_def Let_def untouched_def buffers_ok_def)
  show "endpoint_ok (plain_ep base)" "rs_sbuf_size (plain_ep base) = 131072" "rs_rbuf_size (plain_ep base) = 131072"
    "rs_rq_size (plain_ep base) = 384" "rs_sq_size (plain_ep base) = 384"
    using rs_init_bufs_ok[OF plain_init u] plain_sizes by (simp_all add: rs_set_qp_size_def rs_alloc_def plain_defs_def Let_def)
qed

lemma plain_keys: "rs_rmr_rkey (plain_ep base) \<noteq> rs_tsgl_key (plain_ep base)" "rs_retries (plain_ep base) = 0"
  using plain_sizes
  by (simp_all add: plain_ep_def rs_init_bufs_def plain_reg_def Let_def rs_set_qp_size_def rs_alloc_def plain_defs_def rs_blank_def RS_SGL_SIZE_def
      RS_MSG_SIZE_def)

lemma plain_create:
  assumes "rs = rs_alloc plain_defs None \<or> rs = rs_alloc plain_defs (Some plain_lis)"
  shows "rs_create_ep plain_dev (plain_reg base) (plain_cm cd) rs () = Inr (0, plain_ep base, ())"
proof -
  have i: "rs_init_bufs plain_dev (plain_reg base) ((rs_set_qp_size 0x8000 rs)\<lparr>rs_sq_inline := 0\<rparr>) () = Inr (0, plain_ep base, ())"
    using assms plain_init plain_same by metis
  have "rs_opts (plain_ep base) = 0" using plain_ep_ok(1) by (simp add: endpoint_ok_def)
  moreover have "rs_opts (rs_set_qp_size 0x8000 rs) = 0" "\<not> rs_nonblock (rs_set_qp_size 0x8000 rs)"
    using assms by (auto simp: rs_alloc_def rs_blank_def rs_set_qp_size_def Let_def)
  ultimately show ?thesis
    by (simp add: rs_create_ep_def rs_create_cq_def plain_cm_def i plain_repost Let_def)
qed

lemma plain_handshake:
  fixes a b defines "a \<equiv> joined (plain_ep 0x2000000) (plain_ep 0x1000000)" and "b \<equiv> joined (plain_ep 0x1000000) (plain_ep 0x2000000)"
  shows "handshake plain_dev (plain_reg 0x1000000) (plain_cm (rs_format_conn_data b)) plain_defs ()
    plain_dev (plain_reg 0x2000000) (plain_cm (rs_format_conn_data a)) plain_defs plain_lis () a b"
proof -
  have f: "rs_format_conn_data a = rs_format_conn_data (plain_ep 0x1000000)" "rs_format_conn_data b = rs_format_conn_data (plain_ep 0x2000000)"
    by (simp_all add: a_def b_def format_joined)
  have v: "cd_version (rs_format_conn_data x) = 1" for x by (simp add: rs_format_conn_data_def)
  have r: "(plain_ep base)\<lparr>rs_retries := 0\<rparr> = plain_ep base" for base using plain_keys(2)[of base] by (intro rsocket.equality) simp_all
  have "do_connect plain_dev (plain_reg 0x1000000) (plain_cm (rs_format_conn_data b)) (rs_alloc plain_defs None) () = Inr (0, a, ())"
    by (simp add: do_connect_def plain_create Let_def) (simp add: plain_cm_def do_connected_def r v f(2) a_def joined_def)
  moreover have "accept_new plain_dev (plain_reg 0x2000000) (plain_cm (rs_format_conn_data a)) plain_defs plain_lis () = Inr (0, b, ())"
    by (simp add: accept_new_def plain_create Let_def) (simp add: plain_cm_def v f(1) b_def joined_def)
  moreover have "rs_rmr_rkey (joined x y) = rs_rmr_rkey y \<and> rs_tsgl_key (joined x y) = rs_tsgl_key y \<and> rs_state (joined x y) = rs_connect_rdwr" for x y
    using save_format[of x y] by (auto simp: joined_def)
  ultimately show ?thesis unfolding handshake_def
    using plain_keys(1) by (simp add: plain_cm_def plain_lis_def rs_alloc_def a_def b_def RS_QP_CTRL_SIZE_def)
qed

text \<open>A socket may send as soon as it is connected; here it sends one byte.\<close>

lemma start_can_send:
  assumes "endpoint_ok a" "buffers_ok b" "2048 \<le> unat (rs_sbuf_size a)" "4 < unat (rs_sq_size a)" "rs_rq_size b \<noteq> 0"
  shows "rs_can_send (joined b a)"
proof -
  have "0 < half b" using assms(2) by (auto simp: buffers_ok_def half_def)
  then have "drop_bit 1 (rs_rbuf_size b) \<noteq> 0" using half_rbuf[of b] by (metis unsigned_0 less_irrefl)
  moreover have "int 2048 \<le> int (unat (rs_sbuf_size a))" "int 4 < int (unat (rs_sq_size a))" using assms(3,4) by (simp_all only: of_nat_le_iff of_nat_less_iff)
  ultimately show ?thesis using save_format[of b a] assms(1,5)
    by (auto simp: joined_def rs_can_send_def endpoint_ok_def RS_SNDLOWAT_def)
qed

lemma plain_sends:
  fixes a b defines "a \<equiv> joined (plain_ep 0x2000000) (plain_ep 0x1000000)" and "b \<equiv> joined (plain_ep 0x1000000) (plain_ep 0x2000000)"
  shows "\<exists>A. stream_step\<^sup>*\<^sup>* (fresh a, fresh b) (A, fresh b) \<and> sd_in A = [7]"
proof -
  have can: "rs_can_send a" unfolding a_def using plain_ep_ok by (intro start_can_send) (simp_all add: buffers_ok_def)
  obtain R R' IA CA IB CB where inv: "inv_with (fresh a) (fresh b) R R' IA CA IB CB"
    using handshake_starts[OF plain_handshake plain_ok(2,3)] unfolding a_def b_def by (auto simp: stream_inv_def)
  obtain ret n rs q where s: "send_chunk qdev [7] (xfer_size (length [7 :: u8]) RS_OLAP_START_SIZE (sd_rs (fresh a))) (sd_rs (fresh a)) (sd_sq (fresh a)) = (ret, n, rs, q)"
    by (rule prod_cases4)
  have o: "0 < RS_OLAP_START_SIZE" "RS_OLAP_START_SIZE \<le> RS_MAX_TRANSFER" by (simp_all add: RS_OLAP_START_SIZE_def RS_MAX_TRANSFER_def)
  have c: "rs_can_send (sd_rs (fresh a))" using can by (simp add: fresh_def)
  have "0 < n" using s by (rule_tac send_facts[OF inv c _ o, of "[7]"]) auto
  then have "sd_in ((fresh a)\<lparr>sd_rs := rs, sd_sq := q, sd_in := sd_in (fresh a) @ take n [7]\<rparr>) = [7]" by (cases n) (simp_all add: fresh_def)
  moreover have "stream_step (fresh a, fresh b) ((fresh a)\<lparr>sd_rs := rs, sd_sq := q, sd_in := sd_in (fresh a) @ take n [7]\<rparr>, fresh b)"
    by (rule left_local[OF local_step.send[OF c _ o s]]) simp
  ultimately show ?thesis by blast
qed

section \<open>Delivery in order\<close>

lemma inv_prefix:
  assumes "stream_inv (A, B)"
  shows "prefix (sd_out B) (sd_in A)"
    "sd_sq A = [] \<Longrightarrow> sd_cq B = [] \<Longrightarrow> \<not> rs_have_rdata (sd_rs B) \<Longrightarrow> sd_out B = sd_in A"
proof -
  obtain R R' IA CA IB CB where inv: "inv_with A B R R' IA CA IB CB" using assms by (auto simp: stream_inv_def)
  note d = dir_okD[OF inv_withD(7)[OF inv]]
  show "prefix (sd_out B) (sd_in A)" using d(1) by (metis flow_def take_is_prefix)
  assume a: "sd_sq A = []" "sd_cq B = []" "\<not> rs_have_rdata (sd_rs B)"
  have "IA = []" "CB = []" using inv_withD(5,6)[OF inv] a(1,2) by (simp_all add: side_ok_def)
  moreover have "R = []" using ring_ok_empty[OF d(6)] a(3) by (simp add: rs_have_rdata_def)
  ultimately show "sd_out B = sd_in A" using d(1) by (auto simp: flow_def)
qed

text \<open>
  C2: Two stream sockets are connected by \<^verbatim>\<open>rs_do_connect\<close> and \<^verbatim>\<open>raccept\<close> over a transport that executes the posted writes of each
  side in order. Then, in every interleaving of chunks sent, completions polled, credits given, messages read and shutdowns on both
  sides with the execution of posted writes: what a side has read is a prefix of what its peer has sent, a posted write never lands
  outside the receive buffer or the list of targets of the peer, and when nothing is queued or unread all of it has arrived.
\<close>

theorem stream_delivers_in_order:
  assumes "handshake D G C defs w D' G' C' defs' lis v a b" "buffers_ok (rs_alloc defs None)" "buffers_ok lis"
    "stream_step\<^sup>*\<^sup>* (fresh a, fresh b) (A, B)"
  shows "prefix (sd_out B) (sd_in A) \<and> prefix (sd_out A) (sd_in B) \<and>
    (sd_sq A = [] \<or> wire A B \<noteq> None) \<and> (sd_sq B = [] \<or> wire B A \<noteq> None) \<and>
    (sd_sq A = [] \<and> sd_cq B = [] \<and> \<not> rs_have_rdata (sd_rs B) \<longrightarrow> sd_out B = sd_in A) \<and>
    (sd_sq B = [] \<and> sd_cq A = [] \<and> \<not> rs_have_rdata (sd_rs A) \<longrightarrow> sd_out A = sd_in B)"
proof -
  have i: "stream_inv (A, B)" using stream_steps_keep[OF assms(4) handshake_starts[OF assms(1-3)]] .
  note i' = stream_inv_sym[OF i]
  show ?thesis using inv_prefix[OF i] inv_prefix[OF i'] wire_keeps[OF i] wire_keeps[OF i'] by blast
qed

theorem stream_delivers_in_order_witness:
  "\<exists>a b A B. handshake plain_dev (plain_reg 0x1000000) (plain_cm (rs_format_conn_data b)) plain_defs ()
     plain_dev (plain_reg 0x2000000) (plain_cm (rs_format_conn_data a)) plain_defs plain_lis () a b \<and>
     buffers_ok (rs_alloc plain_defs None) \<and> buffers_ok plain_lis \<and> stream_step\<^sup>*\<^sup>* (fresh a, fresh b) (A, B) \<and> sd_in A = [7] \<and>
     prefix (sd_out B) (sd_in A) \<and> (sd_sq A = [] \<or> wire A B \<noteq> None)"
proof -
  obtain A where A: "stream_step\<^sup>*\<^sup>* (fresh (joined (plain_ep 0x2000000) (plain_ep 0x1000000)), fresh (joined (plain_ep 0x1000000) (plain_ep 0x2000000)))
      (A, fresh (joined (plain_ep 0x1000000) (plain_ep 0x2000000)))" "sd_in A = [7]" using plain_sends by blast
  show ?thesis using stream_delivers_in_order[OF plain_handshake plain_ok(2,3) A(1)] plain_handshake plain_ok(2,3) A by blast
qed

end
