(* ===== verification/FF_StreamLive.thy ===== *)
theory FF_StreamLive
  imports FF_StreamInit
begin

text \<open>
  A stream does not get stuck: from every reachable state the two sides, without sending anything new, come to a state in which
  all that was sent has been read and a connected side may send again. The steps on the way reduce a weight of the state.
\<close>

section \<open>What steps leave alone\<close>

lemma copy_static: "static (sbuf_copy a bs rs) = static rs" "static (rs\<lparr>rs_ssgl0 := s\<rparr>) = static rs" "static (rs\<lparr>rs_ssgl1 := s\<rparr>) = static rs"
  by (simp_all add: sbuf_copy_def static_def)

lemma write_static: "static (fst (snd (rs_write_data D rs sgl x inline w))) = static rs"
  by (simp add: rs_write_data_def Let_def case_prod_unfold static_def)

lemma send_chunk_static: "static (fst (snd (snd (send_chunk D buf x rs w)))) = static rs"
  by (simp add: send_chunk_def Let_def case_prod_unfold copy_static write_static)

lemma poll_static: "static (fst (poll_recv wc rs)) = static rs" "static (poll_send wc rs) = static rs"
  by (simp_all add: poll_recv_def poll_send_def Let_def static_def)

lemma credits_static: "static (fst (rs_update_credits D rs w)) = static rs"
  by (simp add: rs_update_credits_def rs_send_credits_def sbuf_copy_def Let_def case_prod_unfold static_def)

lemma recv_static: "static (snd (recv_chunk left rs)) = static rs"
  by (simp add: recv_chunk_def Let_def case_prod_unfold static_def)

lemma ctrl_static: "static (fst (snd (post_ctrl D ctrl rs w))) = static rs"
  by (simp add: post_ctrl_def Let_def case_prod_unfold static_def)

lemma rdma_write_frame: "rdma_write k a bs rs = Some rs' \<Longrightarrow> \<exists>mm tt. rs' = rs\<lparr>rs_rmem := mm, rs_tsgl := tt\<rparr>"
proof -
  have same: "rs = rs\<lparr>rs_rmem := rs_rmem rs, rs_tsgl := rs_tsgl rs\<rparr>" "rs\<lparr>rs_rmem := m\<rparr> = rs\<lparr>rs_rmem := m, rs_tsgl := rs_tsgl rs\<rparr>"
    "rs\<lparr>rs_tsgl := t\<rparr> = rs\<lparr>rs_rmem := rs_rmem rs, rs_tsgl := t\<rparr>" for m t by (rule rsocket.equality; simp)+
  assume "rdma_write k a bs rs = Some rs'"
  then show ?thesis unfolding rdma_write_def Let_def by (metis same option.inject option.distinct(1))
qed

lemma local_step_static: "local_step X X' \<Longrightarrow> static (sd_rs X') = static (sd_rs X)"
proof (induction rule: local_step.induct)
  case (send X buf olen ret n rs q)
  then show ?case using send_chunk_static[of qdev buf "xfer_size (length buf) olen (sd_rs X)" "sd_rs X" "sd_sq X"] by simp
next
  case (poll X wc cq)
  then show ?case using poll_static by simp
next
  case (credits X rs q)
  then show ?case using credits_static[of qdev "sd_rs X" "sd_sq X"] by simp
next
  case (recv X left bs rs)
  then show ?case using recv_static[of left "sd_rs X"] by simp
next
  case (shutdown how X st ctrl ret rs q)
  then show ?case using ctrl_static[of qdev ctrl "(sd_rs X)\<lparr>rs_state := st\<rparr>" "sd_sq X"] by (simp add: static_def)
qed

lemma wire_static: "wire X Y = Some (X', Y') \<Longrightarrow> sd_rs X' = sd_rs X \<and> static (sd_rs Y') = static (sd_rs Y)"
  by (auto simp: wire_def static_def dest!: rdma_write_frame split: list.splits)

lemma stream_step_static:
  "stream_step (A, B) (A', B') \<Longrightarrow> static (sd_rs A') = static (sd_rs A) \<and> static (sd_rs B') = static (sd_rs B)"
  by (cases rule: stream_step.cases, assumption) (auto dest: local_step_static wire_static)

lemma stream_steps_static:
  assumes "stream_step\<^sup>*\<^sup>* s s'"
  shows "static (sd_rs (fst s')) = static (sd_rs (fst s)) \<and> static (sd_rs (snd s')) = static (sd_rs (snd s))"
  using assms
proof (induction rule: rtranclp_induct)
  case (step y z)
  then show ?case using stream_step_static[of "fst y" "snd y" "fst z" "snd z"] by simp
qed simp

section \<open>The weight of a state\<close>

text \<open>Whether the number of messages read alone calls for a credit.\<close>

definition credit_due :: "rsocket \<Rightarrow> bool" where
  "credit_due rs = (0 \<le> sint (rs_rseq_no rs - rs_rseq_comp rs))"

definition local_weight :: "side \<Rightarrow> nat" where
  "local_weight X =
     4 * nat (rs_rbuf_bytes_avail (sd_rs X)) + (if credit_due (sd_rs X) then 4 else 0) + 3 * length (sd_sq X) + length (sd_cq X)"

definition weight :: "side \<times> side \<Rightarrow> nat" where
  "weight = (\<lambda>(A, B). 10 * (length (sd_in A) - length (sd_out B)) + 10 * (length (sd_in B) - length (sd_out A)) + local_weight A + local_weight B)"

definition settled :: "side \<Rightarrow> bool" where
  "settled X = (sd_sq X = [] \<and> sd_cq X = [] \<and> \<not> rs_have_rdata (sd_rs X) \<and> \<not> rs_give_credits (sd_rs X))"

text \<open>A step that brings the connection nearer to rest, and sends nothing new.\<close>

definition progress :: "side \<times> side \<Rightarrow> side \<times> side \<Rightarrow> bool" where
  "progress s s' = (stream_step s s' \<and> weight s' < weight s \<and> sd_in (fst s') = sd_in (fst s) \<and> sd_in (snd s') = sd_in (snd s))"

lemma swap_step: "stream_step (A, B) (A', B') \<Longrightarrow> stream_step (B, A) (B', A')"
  by (cases rule: stream_step.cases, assumption) (auto intro: stream_step.intros)

lemma swap_progress: "progress (A, B) (A', B') \<Longrightarrow> progress (B, A) (B', A')"
  by (auto simp: progress_def weight_def intro: swap_step)

lemma wire_progress:
  assumes "stream_inv (A, B)" "sd_sq A \<noteq> []"
  shows "\<exists>s. progress (A, B) s"
proof -
  obtain A' B' where w: "wire A B = Some (A', B')" using wire_keeps[OF assms] by blast
  obtain wr q where q: "sd_sq A = wr # q" using assms(2) by (cases "sd_sq A") auto
  obtain rs mm tt where "A' = A\<lparr>sd_sq := q, sd_cq := sd_cq A @ [send_wc wr]\<rparr>" "B' = B\<lparr>sd_rs := rs, sd_cq := sd_cq B @ [recv_wc wr]\<rparr>"
    "rs = (sd_rs B)\<lparr>rs_rmem := mm, rs_tsgl := tt\<rparr>" using w q by (auto simp: wire_def dest!: rdma_write_frame)
  then have "progress (A, B) (A', B')"
    using left_wire[OF w] q by (simp add: progress_def weight_def local_weight_def credit_due_def)
  then show ?thesis by blast
qed

lemma poll_fields:
  "rs_rbuf_bytes_avail (fst (poll_recv wc rs)) = rs_rbuf_bytes_avail rs" "rs_rseq_no (fst (poll_recv wc rs)) = rs_rseq_no rs"
  "rs_rseq_comp (fst (poll_recv wc rs)) = rs_rseq_comp rs" "rs_rbuf_bytes_avail (poll_send wc rs) = rs_rbuf_bytes_avail rs"
  "rs_rseq_no (poll_send wc rs) = rs_rseq_no rs" "rs_rseq_comp (poll_send wc rs) = rs_rseq_comp rs"
  by (simp_all add: poll_recv_def poll_send_def Let_def)

lemma poll_progress:
  assumes "sd_cq A \<noteq> []"
  shows "\<exists>s. progress (A, B) s"
proof -
  obtain wc cq where q: "sd_cq A = wc # cq" using assms by (cases "sd_cq A") auto
  have "progress (A, B) (A\<lparr>sd_rs := (if rs_wr_is_recv (wc_id wc) then fst (poll_recv wc (sd_rs A)) else poll_send wc (sd_rs A)), sd_cq := cq\<rparr>, B)"
    using left_local[OF local_step.poll[OF q]] q by (simp add: progress_def weight_def local_weight_def credit_due_def poll_fields)
  then show ?thesis by blast
qed

lemma recv_fields:
  assumes "recv_chunk left rs = (bs, rs')"
  shows "rs_rbuf_bytes_avail rs' = rs_rbuf_bytes_avail rs + int (length bs)"
  using assms by (auto simp: recv_chunk_def Let_def case_prod_unfold)

lemma recv_progress:
  assumes "stream_inv (A, B)" "rs_have_rdata (sd_rs A)"
  shows "\<exists>s. progress (A, B) s"
proof -
  obtain R R' IA CA IB CB where inv: "inv_with A B R R' IA CA IB CB" using assms(1) by (auto simp: stream_inv_def)
  obtain bs rs where r: "recv_chunk 1 (sd_rs A) = (bs, rs)" by (rule prod.exhaust)
  let ?A = "A\<lparr>sd_rs := rs, sd_out := sd_out A @ bs\<rparr>"
  have k: "stream_inv (?A, B)" "bs \<noteq> []" using recv_keeps[OF inv assms(2) _ r] by simp_all
  then have le: "length (sd_out A) + length bs \<le> length (sd_in B)"
    using prefix_length_le[OF inv_prefix(1)[OF stream_inv_sym[OF k(1)]]] by simp
  have av: "0 \<le> rs_rbuf_bytes_avail (sd_rs A)"
    using grants_ok_avail(1)[OF dir_okD(3,8)[OF inv_withD(8)[OF inv]]] .
  have "weight (?A, B) < weight (A, B)"
    using le k(2) av by (cases bs) (auto simp: weight_def local_weight_def recv_fields[OF r] nat_add_distrib)
  then have "progress (A, B) (?A, B)"
    using left_local[OF local_step.recv[OF assms(2) _ r]] by (simp add: progress_def)
  then show ?thesis by blast
qed

lemma due_after:
  assumes "2 \<le> unat (Q :: u16)"
  shows "sint (n - (n + drop_bit 1 Q)) < 0"
proof -
  define k where "k = int (unat Q div 2)"
  have k: "1 \<le> k" "k \<le> 2 ^ 15" using assms u16_bound[of Q] by (simp_all add: k_def)
  have e: "n - (n + drop_bit 1 Q) = word_of_int (- k)" unfolding half_u16 k_def by simp
  have "sint (n - (n + drop_bit 1 Q)) = - k"
    unfolding e signed_of_int using signed_take_bit_int_eq_self[of 15 "- k"] k by simp
  then show ?thesis using k(1) by linarith
qed

lemma credits_progress:
  assumes "stream_inv (A, B)" "rs_give_credits (sd_rs A)" "2 \<le> unat (rs_rq_size (sd_rs A))"
  shows "\<exists>s. progress (A, B) s"
proof -
  obtain R R' IA CA IB CB where inv: "inv_with A B R R' IA CA IB CB" using assms(1) by (auto simp: stream_inv_def)
  note i = inv_withD[OF inv]
  note d' = dir_okD[OF i(8)]
  have z: "rs_opts (sd_rs A) = 0" "0 < half (sd_rs A)" using i(1) by (simp_all add: sized_def)
  obtain rs q where r: "rs_update_credits qdev (sd_rs A) (sd_sq A) = (rs, q)" by (rule prod.exhaust)
  have "local_weight (A\<lparr>sd_rs := rs, sd_sq := q\<rparr>) < local_weight A"
  proof (cases "half_free (sd_rs A)")
    case True
    have e: "rs_rbuf_bytes_avail rs = rs_rbuf_bytes_avail (sd_rs A) - int (half (sd_rs A))" "rs_rseq_no rs = rs_rseq_no (sd_rs A)"
      "rs_rseq_comp rs = rs_rseq_no (sd_rs A) + drop_bit 1 (rs_rq_size (sd_rs A))" "length q = length (sd_sq A) + 1"
      using r unfolding credits_raw[OF z(1) assms(2) True refl refl refl refl refl] half_rbuf by auto
    have "int (half (sd_rs A)) \<le> rs_rbuf_bytes_avail (sd_rs A)" using half_free_avail[OF i(1) d'(3,8)] True by blast
    then have "nat (rs_rbuf_bytes_avail rs) + 1 \<le> nat (rs_rbuf_bytes_avail (sd_rs A))" unfolding e(1) using z(2) by linarith
    moreover have "\<not> credit_due rs" unfolding credit_due_def e(2,3) using due_after[OF assms(3)] by (simp only: not_le)
    ultimately show ?thesis using e(4) by (simp add: local_weight_def)
  next
    case False
    have e: "rs_rbuf_bytes_avail rs = rs_rbuf_bytes_avail (sd_rs A)" "rs_rseq_no rs = rs_rseq_no (sd_rs A)"
      "rs_rseq_comp rs = rs_rseq_no (sd_rs A) + drop_bit 1 (rs_rq_size (sd_rs A))" "length q = length (sd_sq A) + 1"
      using r unfolding credit_effect[OF z(1) assms(2) False] by auto
    have "credit_due (sd_rs A)" using assms(2) False by (simp add: rs_give_credits_def credit_due_def)
    moreover have "\<not> credit_due rs" unfolding credit_due_def e(2,3) using due_after[OF assms(3)] by (simp only: not_le)
    ultimately show ?thesis using e(1,4) by (simp add: local_weight_def)
  qed
  then have "progress (A, B) (A\<lparr>sd_rs := rs, sd_sq := q\<rparr>, B)"
    using left_local[OF local_step.credits[OF r]] by (simp add: progress_def weight_def)
  then show ?thesis by blast
qed

lemma unsettled_progress:
  assumes "stream_inv (A, B)" "\<not> settled A" "2 \<le> unat (rs_rq_size (sd_rs A))"
  shows "\<exists>s. progress (A, B) s"
  using assms wire_progress poll_progress recv_progress credits_progress unfolding settled_def by blast

lemma comes_to_rest:
  assumes "stream_inv (A, B)" "2 \<le> unat (rs_rq_size (sd_rs A))" "2 \<le> unat (rs_rq_size (sd_rs B))"
  shows "\<exists>A' B'. stream_step\<^sup>*\<^sup>* (A, B) (A', B') \<and> settled A' \<and> settled B' \<and> sd_in A' = sd_in A \<and> sd_in B' = sd_in B"
  using assms
proof (induction "weight (A, B)" arbitrary: A B rule: less_induct)
  case less
  show ?case
  proof (cases "settled A \<and> settled B")
    case False
    then obtain A' B' where p: "progress (A, B) (A', B')"
      using unsettled_progress[OF less(2) _ less(3)] unsettled_progress[OF stream_inv_sym[OF less(2)] _ less(4)] swap_progress by (metis surj_pair)
    then have s: "stream_step (A, B) (A', B')" "weight (A', B') < weight (A, B)" "sd_in A' = sd_in A" "sd_in B' = sd_in B"
      by (simp_all add: progress_def)
    have "static (sd_rs A') = static (sd_rs A)" "static (sd_rs B') = static (sd_rs B)" using stream_step_static[OF s(1)] by blast+
    then have "2 \<le> unat (rs_rq_size (sd_rs A'))" "2 \<le> unat (rs_rq_size (sd_rs B'))" using less(3,4) static_same(7) by metis+
    from less(1)[OF s(2) stream_step_keeps[OF s(1) less(2)] this] obtain A2 B2 where
      "stream_step\<^sup>*\<^sup>* (A', B') (A2, B2)" "settled A2" "settled B2" "sd_in A2 = sd_in A'" "sd_in B2 = sd_in B'" by blast
    then show ?thesis using s converse_rtranclp_into_rtranclp[of stream_step "(A, B)"] by metis
  qed blast
qed

section \<open>At rest a connected side may send\<close>

lemma credit_left:
  assumes "credit_ok (unat (Q :: u16)) sn sc rn rc 0 []" "sint (rn - rc) < 0" "unat Q \<le> 65534"
  shows "sn \<noteq> sc"
proof
  assume eq: "sn = sc"
  obtain n k where w: "sn = word_of_nat n" "rn = word_of_nat n" "sc = word_of_nat (k + unat Q)" "rc = word_of_nat (k + unat Q div 2)"
    "n \<le> k + unat Q" "k \<le> n" using assms(1) by (auto simp: credit_ok_def)
  have "(word_of_nat (k + unat Q - n) :: u16) = 0" using w(1,3,5) eq by (simp add: word_of_nat_diff)
  moreover have "k + unat Q - n < 2 ^ LENGTH(16)" using w(6) assms(3) by simp
  ultimately have "n = k + unat Q" using word_of_nat_0[of "k + unat Q - n", where ?'a = 16] w(5) by simp
  moreover define m where "m = unat Q - unat Q div 2"
  ultimately have e: "rn - rc = word_of_nat m" using w(2,4) by (simp add: word_of_nat_diff m_def)
  have "m < 32768" using assms(3) unfolding m_def by linarith
  then have "sint (rn - rc) = int m" using signed_take_bit_int_eq_self[of 15 "int m"] by (simp add: e signed_of_nat)
  then show False using assms(2) by linarith
qed

lemma settled_can_send:
  assumes "stream_inv (A, B)" "settled A" "settled B" "has (rs_state (sd_rs B)) rs_connected" "2048 \<le> unat (rs_sbuf_size (sd_rs A))"
    "4 < unat (rs_sq_size (sd_rs A))" "unat (rs_rq_size (sd_rs B)) \<le> 65534"
  shows "rs_can_send (sd_rs A)"
proof -
  obtain R R' IA CA IB CB where inv: "inv_with A B R R' IA CA IB CB" using assms(1) by (auto simp: stream_inv_def)
  note i = inv_withD[OF inv]
  note d = dir_okD[OF i(7)]
  have l: "IA = []" "IB = []" "CA = []" "CB = []" using i(5,6) assms(2,3) by (simp_all add: side_ok_def settled_def)
  have R: "R = []" using ring_ok_empty[OF d(6)] assms(3) by (simp add: rs_have_rdata_def settled_def)
  have z: "rs_opts (sd_rs A) = 0" "rs_opts (sd_rs B) = 0" "0 < half (sd_rs B)" "half (sd_rs B) < 2 ^ 31" using i(1,2) by (simp_all add: sized_def)
  have "ctrl_ok (rs_ctrl_seqno (sd_rs B)) (rs_ctrl_max_seqno (sd_rs B)) []" using i(6) l by (simp add: side_ok_def)
  then have "rs_ctrl_avail (sd_rs B)" by (auto simp: ctrl_ok_def rs_ctrl_avail_def)
  then have n: "\<not> half_free (sd_rs B)" "sint (rs_rseq_no (sd_rs B) - rs_rseq_comp (sd_rs B)) < 0"
    using assms(3,4) z(2) by (auto simp: settled_def rs_give_credits_def)
  have "rs_sseq_no (sd_rs A) \<noteq> rs_sseq_comp (sd_rs A)" using d(2) R l by (intro credit_left[OF _ n(2) assms(7)]) simp
  moreover have "length (sd_in A) = length (sd_out B)" using flow_sum[OF d(1)] R l by simp
  then have "rsge_len (rs_tsgl (sd_rs A) (rs_target_sge (sd_rs A))) \<noteq> 0"
    using grants_ok_avail(2)[OF d(3,8)] z(3,4) l half_free_avail[OF i(2) d(3,8)] n(1) by simp
  moreover have "2048 \<le> rs_sbuf_bytes_avail (sd_rs A)" 
  proof -
    have "rs_sbuf_bytes_avail (sd_rs A) = int (unat (rs_sbuf_size (sd_rs A)))" using d(4) l by (simp add: sbuf_ok_def)
    then show ?thesis using assms(5) by linarith
  qed
  moreover have "rs_sqe_avail (sd_rs A) \<noteq> 0"
  proof -
    have "rs_sqe_avail (sd_rs A) = int (unat (rs_sq_size (sd_rs A))) - 4" using d(7) l by simp
    then show ?thesis using assms(6) by linarith
  qed
  ultimately show ?thesis using z(1) by (simp add: rs_can_send_def RS_SNDLOWAT_def)
qed

lemma qp_size_low:
  assumes "16 \<le> unat mx"
  shows "16 \<le> unat (rs_rq_size (rs_set_qp_size mx rs))" "16 \<le> unat (rs_sq_size (rs_set_qp_size mx rs))"
proof -
  have "unat (min mx RS_QP_MAX_SIZE) \<le> 65534" "16 \<le> unat (min mx RS_QP_MAX_SIZE)"
    using assms by (simp_all add: min_def RS_QP_MAX_SIZE_def word_le_nat_alt)
  then have "16 \<le> unat (ucast (min mx RS_QP_MAX_SIZE) :: u16)" by (simp add: unsigned_ucast_eq take_bit_nat_eq_self)
  then show "16 \<le> unat (rs_rq_size (rs_set_qp_size mx rs))" "16 \<le> unat (rs_sq_size (rs_set_qp_size mx rs))"
    by (auto simp: rs_set_qp_size_def Let_def RS_QP_MIN_SIZE_def word_less_nat_alt not_less)
qed

lemma handshake_sizes:
  assumes "handshake D G C defs w D' G' C' defs' lis v a b" "buffers_ok (rs_alloc defs None)" "buffers_ok lis"
    "16 \<le> unat (rc_max_qp C)" "16 \<le> unat (rc_max_qp C')" "2048 \<le> unat (def_wmem defs)" "2048 \<le> unat (rs_sbuf_size lis)"
  shows "\<forall>rs \<in> {a, b}. 16 \<le> unat (rs_rq_size rs) \<and> 16 \<le> unat (rs_sq_size rs) \<and> unat (rs_rq_size rs) \<le> 65534 \<and> 2048 \<le> unat (rs_sbuf_size rs)"
proof -
  obtain a0 b0 where e: "a = joined b0 a0" "b = joined a0 b0"
    "rs_sbuf_size a0 = def_wmem defs" "rs_sbuf_size b0 = rs_sbuf_size lis"
    "rs_rq_size a0 = rs_rq_size (rs_set_qp_size (rc_max_qp C) (rs_alloc defs None))"
    "rs_sq_size a0 = rs_sq_size (rs_set_qp_size (rc_max_qp C) (rs_alloc defs None))"
    "rs_rq_size b0 = rs_rq_size (rs_set_qp_size (rc_max_qp C') lis)" "rs_sq_size b0 = rs_sq_size (rs_set_qp_size (rc_max_qp C') lis)"
    using handshake_parts[OF assms(1-3)] .
  have "rs_rq_size (joined y x) = rs_rq_size x \<and> rs_sq_size (joined y x) = rs_sq_size x \<and> rs_sbuf_size (joined y x) = rs_sbuf_size x" for x y
    using save_format[of y x] by (auto simp: joined_def)
  then show ?thesis using assms(4-7) qp_size_low qp_size_bound e by simp
qed

text \<open>
  C3: Two stream sockets are connected, with send buffers of at least the low-water mark and queue pairs that hold at least the
  minimal number of requests. Then from every state they reach, without sending anything new, they can come to one where all bytes
  that were sent have been read, and where each side may send again if its peer is still connected: flow control by message
  credits, by halves of the receive buffer and by control messages never leaves both sides waiting for each other.
\<close>

theorem stream_comes_to_rest:
  assumes "handshake D G C defs w D' G' C' defs' lis v a b" "buffers_ok (rs_alloc defs None)" "buffers_ok lis"
    "16 \<le> unat (rc_max_qp C)" "16 \<le> unat (rc_max_qp C')" "2048 \<le> unat (def_wmem defs)" "2048 \<le> unat (rs_sbuf_size lis)"
    "stream_step\<^sup>*\<^sup>* (fresh a, fresh b) (A, B)"
  shows "\<exists>A' B'. stream_step\<^sup>*\<^sup>* (A, B) (A', B') \<and> sd_in A' = sd_in A \<and> sd_in B' = sd_in B \<and>
    sd_out B' = sd_in A \<and> sd_out A' = sd_in B \<and>
    (has (rs_state (sd_rs B')) rs_connected \<longrightarrow> rs_can_send (sd_rs A')) \<and>
    (has (rs_state (sd_rs A')) rs_connected \<longrightarrow> rs_can_send (sd_rs B'))"
proof -
  note z = handshake_sizes[OF assms(1-7)]
  have inv: "stream_inv (A, B)" by (rule stream_steps_keep[OF assms(8) handshake_starts[OF assms(1-3)]])
  have "static (sd_rs A) = static a" "static (sd_rs B) = static b" using stream_steps_static[OF assms(8)] by (simp_all add: fresh_def)
  then have q: "2 \<le> unat (rs_rq_size (sd_rs A))" "2 \<le> unat (rs_rq_size (sd_rs B))" using z by (simp_all add: static_def)
  obtain A' B' where r: "stream_step\<^sup>*\<^sup>* (A, B) (A', B')" "settled A'" "settled B'" "sd_in A' = sd_in A" "sd_in B' = sd_in B"
    using comes_to_rest[OF inv q] by blast
  have i: "stream_inv (A', B')" by (rule stream_steps_keep[OF r(1) inv])
  note i' = stream_inv_sym[OF i]
  have "static (sd_rs A') = static a" "static (sd_rs B') = static b"
    using stream_steps_static[OF rtranclp_trans[OF assms(8) r(1)]] by (simp_all add: fresh_def)
  then have "has (rs_state (sd_rs B')) rs_connected \<longrightarrow> rs_can_send (sd_rs A')" "has (rs_state (sd_rs A')) rs_connected \<longrightarrow> rs_can_send (sd_rs B')"
    using settled_can_send[OF i r(2,3)] settled_can_send[OF i' r(3,2)] z by (simp_all add: static_def)
  moreover have "sd_out B' = sd_in A" "sd_out A' = sd_in B"
    using inv_prefix(2)[OF i] inv_prefix(2)[OF i'] r(2-5) by (simp_all add: settled_def)
  ultimately show ?thesis using r(1,4,5) by blast
qed

theorem stream_comes_to_rest_witness:
  "\<exists>a b A B A' B'. handshake plain_dev (plain_reg 0x1000000) (plain_cm (rs_format_conn_data b)) plain_defs ()
     plain_dev (plain_reg 0x2000000) (plain_cm (rs_format_conn_data a)) plain_defs plain_lis () a b \<and>
     stream_step\<^sup>*\<^sup>* (fresh a, fresh b) (A, B) \<and> sd_in A = [7] \<and> stream_step\<^sup>*\<^sup>* (A, B) (A', B') \<and> sd_out B' = [7]"
proof -
  obtain A where A: "stream_step\<^sup>*\<^sup>* (fresh (joined (plain_ep 0x2000000) (plain_ep 0x1000000)), fresh (joined (plain_ep 0x1000000) (plain_ep 0x2000000)))
      (A, fresh (joined (plain_ep 0x1000000) (plain_ep 0x2000000)))" "sd_in A = [7]" using plain_sends by blast
  have z: "16 \<le> unat (rc_max_qp (plain_cm cd))" "2048 \<le> unat (def_wmem plain_defs)" "2048 \<le> unat (rs_sbuf_size plain_lis)" for cd
    by (simp_all add: plain_cm_def plain_defs_def plain_lis_def rs_alloc_def)
  show ?thesis using stream_comes_to_rest[OF plain_handshake plain_ok(2,3) z(1,1,2,3) A(1)] plain_handshake A by metis
qed

end
