(* ===== verification/FF_StreamRead.thy ===== *)
theory FF_StreamRead
  imports FF_StreamLive
begin

text \<open>
  The loops of \<^verbatim>\<open>rrecv\<close> and \<^verbatim>\<open>rs_peek\<close> over the messages that have arrived, and what becomes of a receive buffer with an odd
  number of bytes.
\<close>

section \<open>Peeking and reading\<close>

lemma rbuf_read_length: "length (fst (rbuf_read rs p x)) = unat x"
proof -
  have "unat e + unat (x - e) = unat x" if "e < x" for e :: u32
    using unat_sub[OF less_imp_le[OF that]] that by (simp add: word_less_nat_alt)
  then show ?thesis by (simp add: rbuf_read_def Let_def)
qed

lemma no_turns_left: "recv_turns fuel 0 rs = ([], rs)" "peek_turns fuel 0 h p rs = []"
  by (cases fuel; simp)+

lemma peek_recv_turns:
  assumes "rs_rmsg s = rs_rmsg rs" "rs_rmsg_tail s = rs_rmsg_tail rs" "rs_rmem s = rs_rmem rs" "rs_rbuf_size s = rs_rbuf_size rs"
    "rs_rq_size s = rs_rq_size rs"
  shows "peek_turns fuel left (rs_rmsg_head s) (rs_rbuf_offset s) rs = fst (recv_turns fuel left s)"
  using assms
proof (induction fuel arbitrary: left s)
  case (Suc fuel)
  let ?m = "rs_rmsg rs (rs_rmsg_head s)"
  note read = rbuf_read_cong[OF Suc.prems(3,4)]
  show ?case
  proof (cases "left = 0 \<or> rs_rmsg_head s = rs_rmsg_tail s")
    case False
    have some: "rs_have_rdata s" using False by (simp add: rs_have_rdata_def)
    show ?thesis
    proof (cases "left < unat (rm_data ?m)")
      case True
      then have m: "unat (rm_data (rs_rmsg s (rs_rmsg_head s))) = unat (rm_data ?m)" by (simp add: Suc.prems(1))
      have "unat (word_of_nat left :: u32) = left" using True unsigned_less[of "rm_data ?m", where ?'a = nat] by simp
      then have len: "length (fst (rbuf_read rs (rs_rbuf_offset s) (word_of_nat left))) = left" by (simp add: rbuf_read_length)
      show ?thesis using False True some len Suc.prems(1,2)
        by (simp add: recv_part[OF m True] read no_turns_left Let_def case_prod_unfold)
    next
      case whole: False
      then have m: "unat (rm_data (rs_rmsg s (rs_rmsg_head s))) \<le> left" by (simp add: Suc.prems(1))
      have nx: "ring_next s = ring_next rs" using Suc.prems(5) by (intro ext) (simp add: ring_next_def)
      obtain bs p where r: "rbuf_read rs (rs_rbuf_offset s) (rm_data ?m) = (bs, p)" by (rule prod.exhaust)
      let ?s = "s\<lparr>rs_rseq_no := rs_rseq_no s + 1, rs_rmsg_head := ring_next rs (rs_rmsg_head s), rs_rbuf_offset := p,
                  rs_rbuf_bytes_avail := rs_rbuf_bytes_avail s + int (length bs)\<rparr>"
      have c: "recv_chunk left s = (bs, ?s)" using recv_whole[OF refl m] r Suc.prems(1) by (simp add: read nx)
      have "peek_turns fuel (left - length bs) (rs_rmsg_head ?s) (rs_rbuf_offset ?s) rs = fst (recv_turns fuel (left - length bs) ?s)"
        using Suc.prems by (intro Suc.IH) simp_all
      then show ?thesis using False whole some c r Suc.prems(2) by (simp add: Let_def case_prod_unfold)
    qed
  qed (use Suc.prems in \<open>auto simp: rs_have_rdata_def\<close>)
qed simp

text \<open>
  C26: Peeking at up to \<open>len\<close> bytes of a stream, with the flag \<^verbatim>\<open>MSG_PEEK\<close>, gives exactly the bytes that a read of up to \<open>len\<close> bytes
  would take, across the boundaries of messages and the end of the receive buffer, for every socket.
\<close>

theorem peek_shows_next_read: "rs_peek len rs = fst (recv_all len rs)"
  unfolding rs_peek_def recv_all_def by (rule peek_recv_turns) simp_all

section \<open>A read is a sequence of steps\<close>

definition ring_count :: "rsocket \<Rightarrow> nat" where
  "ring_count rs = (rs_rmsg_tail rs + (unat (rs_rq_size rs) + 1 - rs_rmsg_head rs)) mod (unat (rs_rq_size rs) + 1)"

lemma ring_ok_count:
  assumes "ring_ok (unat (rs_rq_size rs)) m (rs_rmsg_head rs) (rs_rmsg_tail rs) R"
  shows "length R = ring_count rs"
proof -
  let ?N = "unat (rs_rq_size rs) + 1" and ?f = "rs_rmsg_head rs"
  have a: "?f \<le> ?N" "length R < ?N" "rs_rmsg_tail rs = (?f + length R) mod ?N" using assms by (simp_all add: ring_ok_def)
  have "ring_count rs = (?f + length R + (?N - ?f)) mod ?N" unfolding ring_count_def a(3) by (rule mod_add_left_eq)
  also have "\<dots> = (length R + ?N) mod ?N" using a(1) by (simp add: add.commute)
  also have "\<dots> = length R" using mod_less[OF a(2)] by (simp only: mod_add_self2)
  finally show ?thesis by simp
qed

text \<open>A chunk takes all that is asked for, or the whole first message.\<close>

lemma recv_chunk_cases:
  assumes inv: "inv_with A B R R' IA CA IB CB" and some: "rs_have_rdata (sd_rs A)" and r: "recv_chunk left (sd_rs A) = (bs, rs)"
  shows "length bs = left \<or> (length bs \<le> left \<and> Suc (ring_count rs) = ring_count (sd_rs A))"
proof -
  note d = dir_okD[OF inv_withD(8)[OF inv]]
  obtain l R2 where R: "R' = l # R2" using ring_ok_empty[OF d(6)] some by (cases R') (simp_all add: rs_have_rdata_def)
  have l: "unat (rm_data (rs_rmsg (sd_rs A) (rs_rmsg_head (sd_rs A)))) = l" "l \<le> 65536"
    using ring_ok_front d(6) unfolding R by (blast, simp add: ring_ok_def)
  show ?thesis
  proof (cases "left < l")
    case True
    then have "unat (word_of_nat left :: u32) = left" using l(2) by simp
    then show ?thesis using r unfolding recv_part[OF l(1) True] by (auto simp: Let_def case_prod_unfold rbuf_read_length)
  next
    case False
    then have le: "l \<le> left" by simp
    have e: "length bs = l" "rs_rmsg_head rs = ring_next (sd_rs A) (rs_rmsg_head (sd_rs A))" "rs_rmsg_tail rs = rs_rmsg_tail (sd_rs A)"
      "rs_rq_size rs = rs_rq_size (sd_rs A)" using r l(1) unfolding recv_whole[OF l(1) le]
      by (auto simp: Let_def case_prod_unfold rbuf_read_length)
    have "rs_rmsg_head (sd_rs A) \<le> unat (rs_rq_size (sd_rs A))" using d(6) by (simp add: ring_ok_def)
    then have "ring_ok (unat (rs_rq_size rs)) (rs_rmsg (sd_rs A)) (rs_rmsg_head rs) (rs_rmsg_tail rs) R2"
      using ring_ok_pop[of "unat (rs_rq_size (sd_rs A))" "rs_rmsg (sd_rs A)"] d(6) unfolding R e by (simp add: ring_next_mod)
    from ring_ok_count[OF this] ring_ok_count[OF d(6)] show ?thesis using le e(1) by (simp add: R)
  qed
qed

lemma recv_turns_steps:
  assumes "stream_inv (A, B)" "recv_turns fuel left (sd_rs A) = (bs, rs)" "ring_count (sd_rs A) < fuel"
  shows "local_step\<^sup>*\<^sup>* A (A\<lparr>sd_rs := rs, sd_out := sd_out A @ bs\<rparr>) \<and> length bs \<le> left \<and> (length bs = left \<or> \<not> rs_have_rdata rs)"
  using assms
proof (induction fuel arbitrary: A left bs rs)
  case (Suc fuel)
  show ?case
  proof (cases "left = 0 \<or> \<not> rs_have_rdata (sd_rs A)")
    case True
    then have e: "bs = []" "rs = sd_rs A" using Suc.prems(2) by (simp_all split: if_splits)
    have "A\<lparr>sd_rs := rs, sd_out := sd_out A @ bs\<rparr> = A" by (simp add: e)
    then show ?thesis using True e by auto
  next
    case False
    obtain b1 r1 where c: "recv_chunk left (sd_rs A) = (b1, r1)" by (rule prod.exhaust)
    obtain b2 r2 where t: "recv_turns fuel (left - length b1) r1 = (b2, r2)" by (rule prod.exhaust)
    have e: "bs = b1 @ b2" "rs = r2" using Suc.prems(2) False c t by (simp_all add: case_prod_unfold)
    let ?A = "A\<lparr>sd_rs := r1, sd_out := sd_out A @ b1\<rparr>"
    obtain R R' IA CA IB CB where inv: "inv_with A B R R' IA CA IB CB" using Suc.prems(1) by (auto simp: stream_inv_def)
    have some: "rs_have_rdata (sd_rs A)" "0 < left" using False by simp_all
    have s: "local_step A ?A" by (rule local_step.recv[OF some c])
    have i: "stream_inv (?A, B)" using recv_keeps[OF inv some c] by blast
    show ?thesis using recv_chunk_cases[OF inv some(1) c]
    proof
      assume all: "length b1 = left"
      then have "b2 = []" "r2 = r1" using t no_turns_left(1) by simp_all
      then show ?thesis using s all e by (simp add: r_into_rtranclp)
    next
      assume part: "length b1 \<le> left \<and> Suc (ring_count r1) = ring_count (sd_rs A)"
      then have "ring_count (sd_rs ?A) < fuel" using Suc.prems(3) by simp
      with Suc.IH[OF i, of "left - length b1" b2 r2] t
      have "local_step\<^sup>*\<^sup>* ?A (?A\<lparr>sd_rs := r2, sd_out := sd_out ?A @ b2\<rparr>)" "length b2 \<le> left - length b1"
        "length b2 = left - length b1 \<or> \<not> rs_have_rdata r2" by simp_all
      then show ?thesis using converse_rtranclp_into_rtranclp[of local_step, OF s] part e by auto
    qed
  qed
qed simp

lemma local_steps_lift: "local_step\<^sup>*\<^sup>* A A' \<Longrightarrow> stream_step\<^sup>*\<^sup>* (A, B) (A', B)"
  by (induction rule: rtranclp_induct) (auto intro: rtranclp.rtrancl_into_rtrancl left_local)

text \<open>
  C10: On a connected stream, in every state the two sides can reach, one pass of \<^verbatim>\<open>rrecv\<close> over the messages that have arrived is a
  sequence of steps of the connection. It returns at most as many bytes as were asked for, they are the next bytes of the stream, and
  it stops only when it has all of them or no message is left: the number of turns that the ring of messages allows is always enough.
\<close>

theorem read_takes_all_there_is:
  assumes "handshake D G C defs w D' G' C' defs' lis v a b" "buffers_ok (rs_alloc defs None)" "buffers_ok lis"
    "stream_step\<^sup>*\<^sup>* (fresh a, fresh b) (A, B)" "recv_all left (sd_rs A) = (bs, rs)"
  shows "stream_step\<^sup>*\<^sup>* (A, B) (A\<lparr>sd_rs := rs, sd_out := sd_out A @ bs\<rparr>, B) \<and> prefix (sd_out A @ bs) (sd_in B) \<and>
    length bs \<le> left \<and> (length bs = left \<or> \<not> rs_have_rdata rs)"
proof -
  have i: "stream_inv (A, B)" by (rule stream_steps_keep[OF assms(4) handshake_starts[OF assms(1-3)]])
  have "ring_count (sd_rs A) < unat (rs_rq_size (sd_rs A)) + 2" by (simp add: ring_count_def less_SucI)
  note t = recv_turns_steps[OF i assms(5)[unfolded recv_all_def] this]
  then have s: "stream_step\<^sup>*\<^sup>* (A, B) (A\<lparr>sd_rs := rs, sd_out := sd_out A @ bs\<rparr>, B)" by (intro local_steps_lift) blast
  show ?thesis using inv_prefix(1)[OF stream_inv_sym[OF stream_steps_keep[OF s i]]] s t by simp
qed

theorem read_takes_all_there_is_witness:
  "\<exists>a b bs rs. handshake plain_dev (plain_reg 0x1000000) (plain_cm (rs_format_conn_data b)) plain_defs ()
     plain_dev (plain_reg 0x2000000) (plain_cm (rs_format_conn_data a)) plain_defs plain_lis () a b \<and>
     buffers_ok (rs_alloc plain_defs None) \<and> buffers_ok plain_lis \<and> recv_all 5 (sd_rs (fresh a)) = (bs, rs) \<and>
     prefix (sd_out (fresh a) @ bs) (sd_in (fresh b)) \<and> \<not> rs_have_rdata rs"
proof -
  let ?a = "joined (plain_ep 0x2000000) (plain_ep 0x1000000)" and ?b = "joined (plain_ep 0x1000000) (plain_ep 0x2000000)"
  obtain bs rs where r: "recv_all 5 (sd_rs (fresh ?a)) = (bs, rs)" by (rule prod.exhaust)
  have p: "prefix (sd_out (fresh ?a) @ bs) (sd_in (fresh ?b))" "length bs = 5 \<or> \<not> rs_have_rdata rs"
    using read_takes_all_there_is[OF plain_handshake plain_ok(2,3) rtranclp.rtrancl_refl r] by blast+
  then have "bs = []" by (simp add: fresh_def)
  then show ?thesis using p plain_handshake plain_ok(2,3) r by fastforce
qed

section \<open>An odd receive buffer\<close>

lemma odd_half:
  assumes "unat (B :: u32) = 2 * h + 1"
  shows "unat (drop_bit 1 B) = h" "drop_bit 1 B = word_of_nat h" "2 * h + 1 < 2 ^ 32"
proof -
  show u: "unat (drop_bit 1 B) = h" unfolding unat_drop_bit_eq assms by (simp add: drop_bit_eq_div)
  show "drop_bit 1 B = word_of_nat h" unfolding u[symmetric] by simp
  show "2 * h + 1 < 2 ^ 32" using assms unsigned_less[of B, where ?'a = nat] by simp
qed

text \<open>A grant of a socket that has just a half free, with the next half at position \<open>k\<close>.\<close>

lemma odd_grant:
  assumes "rs_opts rs = 0" "has (rs_state rs) rs_connected" "rs_ctrl_avail rs" "unat (rs_rbuf_size rs) = 2 * h + 1"
    "rs_rbuf_bytes_avail rs = int h" "rs_rbuf_free_offset rs = int k" "rs_update_credits qdev rs q = (t, q')"
  shows "\<exists>wr. q' = q @ [wr] \<and> gather t (wr_sgl wr) = sge_bytes (rs_rbuf rs + word_of_nat k) (rs_rmr_rkey rs) (word_of_nat h)"
    "rs_rbuf_bytes_avail t = 0" "k = h \<Longrightarrow> rs_rbuf_free_offset t = int (2 * h)" "rs_ctrl_seqno t = rs_ctrl_seqno rs + 1"
    "rs_ctrl_max_seqno t = rs_ctrl_max_seqno rs" "rs_opts t = 0" "rs_state t = rs_state rs" "rs_rbuf_size t = rs_rbuf_size rs"
    "rs_rbuf t = rs_rbuf rs" "rs_rmr_rkey t = rs_rmr_rkey rs"
proof -
  note h = odd_half[OF assms(4)]
  have free: "half_free rs" using h by (simp add: half_free_def assms(5) del: drop_bit_Suc)
  have give: "rs_give_credits rs" using free assms(1-3) by (simp add: rs_give_credits_def)
  note e = assms(7)[unfolded credits_raw[OF assms(1) give free refl refl refl refl refl], unfolded h(1) prod.inject]
  have sge: "word_of_int (rs_rbuf_free_offset rs) = (word_of_nat k :: u64)" unfolding assms(6) by simp
  show "\<exists>wr. q' = q @ [wr] \<and> gather t (wr_sgl wr) = sge_bytes (rs_rbuf rs + word_of_nat k) (rs_rmr_rkey rs) (word_of_nat h)"
    using e unfolding h(2) sge by (auto simp: gather_def)
  show "rs_rbuf_bytes_avail t = 0" using e assms(5) by auto
  show "rs_ctrl_seqno t = rs_ctrl_seqno rs + 1" "rs_ctrl_max_seqno t = rs_ctrl_max_seqno rs" "rs_opts t = 0" "rs_state t = rs_state rs"
    "rs_rbuf_size t = rs_rbuf_size rs" "rs_rbuf t = rs_rbuf rs" "rs_rmr_rkey t = rs_rmr_rkey rs" using e assms(1) by auto
  have "unat (word_of_int (int (2 * h)) :: u32) = 2 * h" unfolding of_int_of_nat_eq using h(3) by (intro unat_of_small) simp
  then have "\<not> rs_rbuf_size rs \<le> word_of_int (int (2 * h))" using assms(4) by (simp only: word_le_nat_alt)
  moreover have "int h + int h = int (2 * h)" by simp
  ultimately show "rs_rbuf_free_offset t = int (2 * h)" if "k = h" using e that unfolding assms(6) by auto
qed

text \<open>
  C36: The receive buffer is granted to the peer in halves. Where its size is odd, \<open>2 * h + 1\<close>, the position of the next half is not
  reset after the second one: a freshly connected socket grants its second half, and when \<open>h\<close> bytes have been read it grants the
  \<open>h\<close> bytes at position \<open>2 * h\<close>, which end behind the buffer.
\<close>

theorem odd_buffer_is_granted_past_its_end:
  assumes "endpoint_ok a" "unat (rs_rbuf_size a) = 2 * h + 1" "2 \<le> h"
    "rs_update_credits qdev (joined b a) [] = (s, q)" "s' = s\<lparr>rs_rbuf_bytes_avail := rs_rbuf_bytes_avail s + int h\<rparr>"
    "rs_update_credits qdev s' q = (t, q')"
  shows "\<exists>wr. q' = q @ [wr] \<and>
    gather t (wr_sgl wr) = sge_bytes (rs_rbuf a + word_of_nat (2 * h)) (rs_rmr_rkey a) (word_of_nat h) \<and> unat (rs_rbuf_size a) < 2 * h + h"
proof -
  note h = odd_half[OF assms(2)]
  have ha: "half a = h" using assms(2) by (simp add: half_def)
  obtain m where a: "joined b a =
     a\<lparr>rs_remote_sgl := \<lparr>rsge_addr = rs_tsgl_addr b, rsge_key = rs_tsgl_key b, rsge_len = 2\<rparr>, rs_remote_sge := 1, rs_remote_iomap := m,
       rs_tsgl := (rs_tsgl a)(0 := \<lparr>rsge_addr = rs_rbuf b, rsge_key = rs_rmr_rkey b, rsge_len = drop_bit 1 (rs_rbuf_size b)\<rparr>),
       rs_sseq_comp := rs_rq_size b, rs_state := rs_connect_rdwr\<rparr>" using save_format[of b a] by (auto simp: joined_def)
  have c: "has rs_connect_rdwr rs_connected" by (simp add: has_def rs_connect_rdwr_def rs_connected_def rs_readable_def rs_writable_def)
  have f: "rs_opts (joined b a) = 0" "has (rs_state (joined b a)) rs_connected" "rs_ctrl_avail (joined b a)"
    "unat (rs_rbuf_size (joined b a)) = 2 * h + 1" "rs_rbuf_bytes_avail (joined b a) = int h" "rs_rbuf_free_offset (joined b a) = int h"
    using assms(1,2) c ha by (simp_all add: a endpoint_ok_def rs_ctrl_avail_def)
  note g = odd_grant[OF f assms(4)]
  have "rs_ctrl_seqno a = 0" "rs_ctrl_max_seqno a = 4" using assms(1) by (simp_all add: endpoint_ok_def)
  then have f': "rs_opts s' = 0" "has (rs_state s') rs_connected" "rs_ctrl_avail s'" "unat (rs_rbuf_size s') = 2 * h + 1"
    "rs_rbuf_bytes_avail s' = int h" "rs_rbuf_free_offset s' = int (2 * h)"
    using g(2-8) f(2,4) by (simp_all add: assms(5) rs_ctrl_avail_def) (simp_all add: a)
  have "rs_rbuf s' = rs_rbuf a" "rs_rmr_rkey s' = rs_rmr_rkey a" using g(9,10) by (simp_all add: assms(5) a)
  then show ?thesis using odd_grant(1)[OF f' assms(6)] assms(2,3) by simp
qed

theorem odd_buffer_is_granted_past_its_end_witness:
  "\<exists>a b s q s' t q' wr. endpoint_ok a \<and> unat (rs_rbuf_size a) = 131073 \<and> rs_update_credits qdev (joined b a) [] = (s, q) \<and>
     s' = s\<lparr>rs_rbuf_bytes_avail := rs_rbuf_bytes_avail s + 65536\<rparr> \<and> rs_update_credits qdev s' q = (t, q') \<and> q' = q @ [wr] \<and>
     gather t (wr_sgl wr) = sge_bytes (rs_rbuf a + 131072) (rs_rmr_rkey a) 65536"
proof -
  let ?a = "(plain_ep 0x1000000)\<lparr>rs_rbuf_size := 131073\<rparr>" and ?b = "plain_ep 0x2000000"
  have "half (plain_ep 0x1000000) = 65536" using plain_ep_ok(3)[of "0x1000000"] by (simp add: half_def)
  then have a: "endpoint_ok ?a" using plain_ep_ok(1)[of "0x1000000"] by (simp add: endpoint_ok_def half_def)
  obtain s q where s: "rs_update_credits qdev (joined ?b ?a) [] = (s, q)" by (rule prod.exhaust)
  obtain t q' where t: "rs_update_credits qdev (s\<lparr>rs_rbuf_bytes_avail := rs_rbuf_bytes_avail s + int 65536\<rparr>) q = (t, q')" by (rule prod.exhaust)
  have z: "unat (rs_rbuf_size ?a) = 2 * 65536 + 1" by simp
  show ?thesis using odd_buffer_is_granted_past_its_end[OF a z _ s refl t] a s t z by fastforce
qed

end
