(* ===== verification/Spec2Isabelle.thy ===== *)
theory Spec2Isabelle
  imports FF_MemPool FF_Dispatch FF_Tables FF_EndToEnd FF_ClientCmd FF_RSockApi FF_StreamRead
begin

text \<open>
  FreeFlow gives the containers of a cluster virtual RDMA. A container links a client library in place of the verbs and
  connection-manager libraries; a router process on the host owns the device and acts for all containers. This is a model of the
  router, of the client libraries and of the stream sockets on top of them, with the theorems that make them correct. All paths
  below are under \<^verbatim>\<open>src/freeflow/\<close>.

  \<^bold>\<open>The parts and how they interact.\<close> A client connects to the router over a Unix socket and sends, for each call, a header and a body;
  the router answers with a body of a size both sides must agree on. Data calls (posting and polling) go through shared memory: each
  queue has a control piece, whose state word passes the piece from client to router and back, and one thread of the router scans
  all pieces. The router replays connection-manager commands on the device after replacing virtual addresses, which it learns from
  etcd, and limits the rate of each queue pair by a token bucket. A stream socket writes its data by RDMA straight into a buffer
  of its peer, with credits going the other way.

  \<^bold>\<open>Theories and sources.\<close> State is a record, an operation a function from state to state; a call to code outside the sources (the
  operating system, the kernel, the verbs library, the JSON reader) is a field of a record of functions over an abstract world, which
  every operation takes as an argument; undefined behaviour is the value \<^verbatim>\<open>ub\<close> of a result.

  \<^item> \<^verbatim>\<open>FF_Prelude\<close>: machine integers, byte buffers, outcomes. \<^verbatim>\<open>FF_Layout\<close>, \<^verbatim>\<open>FF_Verbs_ABI\<close>, \<^verbatim>\<open>FF_Types\<close>: C struct layout, and the
    structs and call numbers of \<^verbatim>\<open>ffrouter/types.h\<close>, \<^verbatim>\<open>kern-abi.h\<close>, \<^verbatim>\<open>verbs.h\<close>, \<^verbatim>\<open>rdma_cma_abi.h\<close>, \<^verbatim>\<open>freeflow-types.h\<close>.
  \<^item> \<^verbatim>\<open>FF_MemPool\<close>: \<^verbatim>\<open>libmempool\<close>, the slot allocator, the keyed pool and the queue.
  \<^item> \<^verbatim>\<open>FF_TokenBucket\<close>: \<^verbatim>\<open>ffrouter/tokenbucket.h\<close>. \<^verbatim>\<open>FF_Inet\<close>, \<^verbatim>\<open>FF_Vip\<close>: addresses as text, the etcd watches and \<^verbatim>\<open>map_vip\<close>.
  \<^item> \<^verbatim>\<open>FF_Env\<close>, \<^verbatim>\<open>FF_Router\<close>, \<^verbatim>\<open>FF_Handler\<close>: the environment, \<^verbatim>\<open>class FreeFlowRouter\<close> with \<^verbatim>\<open>shared_memory.cpp\<close>, the frame of a handler.
  \<^item> \<^verbatim>\<open>FF_Resources\<close>, \<^verbatim>\<open>FF_Memory\<close>, \<^verbatim>\<open>FF_Post\<close>, \<^verbatim>\<open>FF_CM\<close>: the cases of \<^verbatim>\<open>HandleRequest\<close> in \<^verbatim>\<open>ffrouter/ffrouter.cpp\<close>, one definition
    \<open>on_X\<close> for each case \<open>X\<close>; \<^verbatim>\<open>FF_VerbsCmd\<close>: \<^verbatim>\<open>verbs_cmd.cpp\<close>; \<^verbatim>\<open>FF_Ucma\<close>: the functions \<^verbatim>\<open>..._resp\<close> of the router's copy of \<^verbatim>\<open>cma.c\<close>;
    \<^verbatim>\<open>FF_Dispatch\<close>: the loop of \<^verbatim>\<open>HandleRequest\<close>; \<^verbatim>\<open>FF_FastPath\<close>: \<^verbatim>\<open>CtrlChannelLoop\<close>.
  \<^item> \<^verbatim>\<open>FF_Client\<close>, \<^verbatim>\<open>FF_ClientCM\<close>: \<^verbatim>\<open>freeflow.c\<close> of the client's verbs and connection-manager libraries; \<^verbatim>\<open>FF_ClientPost\<close>: the data path of
    \<^verbatim>\<open>libibverbs-1.2.1mlnx1/src/cmd.c\<close>.
  \<^item> \<^verbatim>\<open>FF_Indexer\<close>: \<^verbatim>\<open>indexer.c\<close>. \<^verbatim>\<open>FF_RSocket\<close>, \<^verbatim>\<open>FF_RSockApi\<close>: the stream sockets of \<^verbatim>\<open>rsocket.c\<close>, first the pieces (buffers, connection
    data, work requests, completions, credits, the loops of sending and receiving), then the calls an application makes.
  \<^item> \<^verbatim>\<open>FF_Demo\<close>: a concrete environment for the router, on which the hypotheses of the properties are seen to hold.

  \<^bold>\<open>What is shown.\<close>

  \<^item> \<^verbatim>\<open>FF_Rewrite\<close>, \<^verbatim>\<open>FF_EndToEnd\<close>: the work requests of an application reach the verbs library of the router unchanged, with every address
    that of the same bytes in the router, over the socket and over shared memory. The locale \<open>work_requests\<close> holds for sends and
    receives; both are interpreted.
  \<^item> \<^verbatim>\<open>FF_Channel\<close>: every request in a control piece is served exactly once and each scan answers what it must (the locales \<open>piece_server\<close>
    and \<open>answering_server\<close>, interpreted for the three kinds of queues); the scan of completion queues ends.
  \<^item> \<^verbatim>\<open>FF_Framing\<close>: sizes of requests and answers agree for every call, with the one exception found; headers reach their handlers.
  \<^item> \<^verbatim>\<open>FF_Tables\<close>: the tables of the router are well-formed in every reachable state, live queues are served, posting meets no null pointer.
  \<^item> \<^verbatim>\<open>FF_WrQueue\<close>, \<^verbatim>\<open>FF_Indexer\<close>, \<^verbatim>\<open>FF_MemPool\<close>: the ring of posted receives refines a bounded queue, the indexer a finite map, the
    pool a map with disjoint records (the locales \<open>bounded_fifo\<close>, \<open>index_table\<close>, \<open>slot_allocator\<close>).
  \<^item> \<^verbatim>\<open>FF_TokenBucket\<close>, \<^verbatim>\<open>FF_Post\<close>: the rate limiter conforms, admits what fits a burst, and never admits more than one.
  \<^item> \<^verbatim>\<open>FF_Ring\<close>, \<^verbatim>\<open>FF_Stream\<close>, \<^verbatim>\<open>FF_StreamParts\<close>, \<^verbatim>\<open>FF_StreamSteps\<close>, \<^verbatim>\<open>FF_StreamSafe\<close>, \<^verbatim>\<open>FF_StreamInit\<close>, \<^verbatim>\<open>FF_StreamLive\<close>, \<^verbatim>\<open>FF_StreamRead\<close>: two stream
    sockets over all interleavings. \<open>local_step\<close> is what a side does (send a chunk, poll a completion, give credits, read from a
    message, shut down), \<open>wire\<close> the execution of the first posted write by a reliable connection. The invariant \<open>stream_inv\<close> has a part
    for each mechanism: the order of bytes, the message credits modulo \<open>2 ^ 16\<close>, the halves of the receive buffer, the send ring, the
    receive ring, the ring of messages, the control buffers. Every step keeps it; the handshake of \<^verbatim>\<open>rs_do_connect\<close> and \<^verbatim>\<open>raccept\<close>
    establishes it; from it follow delivery in order, that no write misses its buffer, and that flow control never deadlocks.

  Some theorems show where the code does not do what it means to (an answer of the wrong size, a wait without end, an index off by one,
  a ring that empties itself, a grant past the end of a buffer); their theorem or description is in the list of findings.

  \<^bold>\<open>Bounds and fuel.\<close> Loops that may not end take fuel, and running out of it is a result of its own (\<open>Spins\<close>, \<open>None\<close>), never a
  silent stop. \<open>read_loop\<close>, \<open>wait_tokens\<close> and the request loops get a bound in the theorems on them; the scan of completion queues has a
  bound from the number of its queues; the inner loop of \<^verbatim>\<open>rrecv\<close> runs at most as often as the ring of messages has places, which is
  proved to suffice. Integers have the width of the source and wrap. The stream theorems ask that a receive buffer has an even size below
  \<open>2 ^ 31\<close>, and for progress that a send buffer holds the low-water mark of 2048 bytes and the device at least 16 requests.

  \<^bold>\<open>Not modelled.\<close>

  \<^item> Process set-up, thread creation and logging (\<^verbatim>\<open>main.cpp\<close>, \<^verbatim>\<open>start\<close>, \<^verbatim>\<open>log.h\<close>) and the one-to-one device wrapper \<^verbatim>\<open>rdma_api.cpp\<close>: input and
    output only.
  \<^item> Locks are not state: a request, a scan of one piece and a step of a socket are atomic, and concurrency is the order of these steps.
  \<^item> HTTP, JSON and base64 behind the etcd watches: library code, a parameter.
  \<^item> The bookkeeping of identifiers and events in the client's \<^verbatim>\<open>cma.c\<close>, and the calls of \<^verbatim>\<open>cmd.c\<close> that only fill a struct and hand it to
    the modelled request function; their sizes are part of \<open>request_sizes\<close> and \<open>cm_request_sizes\<close>.
  \<^item> Datagram sockets, options, polling of sets and the service threads of \<^verbatim>\<open>rsocket.c\<close>, and the preload library: dispatch and system
    calls around the modelled operations. The transport of the stream model delivers receives without limit: the retries of a
    reliable connection when the receiver has no receive posted are the device's.
  \<^item> The device driver (\<^verbatim>\<open>libmlx4\<close>), the examples and tests of the vendored libraries, and the Go program that reports addresses.
\<close>

text \<open>
  C16: the function code a client library writes into a request header is read back by the router
  as the same call, for every call the client's enumeration has.
\<close>

theorem wire_codes_agree:
  assumes "call_code client_calls f = Some n"
  shows "call_code router_calls f = Some n \<and> call_of_code router_calls n = Some f"
  using assms index_from_append[of 0 client_calls f n] call_of_code_prefix
  by (simp add: client_calls_prefix call_code_def)

theorem wire_codes_agree_witness:
  "call_of_code router_calls 5 = Some IBV_ALLOC_PD"
  using wire_codes_agree[of IBV_ALLOC_PD 5] by (simp add: call_code_def client_calls_def)

end
